(* ===== verification/Prelude.thy ===== *)
theory Prelude
  imports Main "HOL-Library.Sublist"
begin

text \<open>
  Shared vocabulary of the development: Go strings (byte lists) with the functions of
  the Go standard library the operator uses on them (\<open>strings.Split\<close>, \<open>strings.Join\<close>,
  \<open>strings.Contains\<close>, \<open>strings.TrimSpace\<close>, \<open>strings.ToLower\<close>, the verbs \<open>%d\<close> and
  \<open>%q\<close> of \<open>fmt\<close>), Go errors with wrapping, instants and durations in nanoseconds, and
  the result of a reconcile. The generic lemmas about them that several components use
  are here as well.
\<close>

section \<open>Theorem collections\<close>

named_theorems kube_simps "what the Kubernetes client promises, as rewrite rules"
named_theorems status_simps "projections of stored status values"

section \<open>Instants and durations\<close>

text \<open>
  An instant is the number of nanoseconds since Go's zero time (so \<open>IsZero\<close> is a test
  for 0), a duration is a number of nanoseconds. \<open>Time.Sub\<close> saturates at the bounds of
  the 64-bit duration; \<open>Time.Since t\<close> is \<open>Now().Sub(t)\<close>.
\<close>

type_synonym time = int
type_synonym duration = int

definition Millisecond :: duration where "Millisecond = 1000000"
definition Second :: duration where "Second = 1000000000"
definition Minute :: duration where "Minute = 60000000000"

lemmas duration_units = Millisecond_def Second_def Minute_def

definition minDuration :: duration where "minDuration = - 9223372036854775808"
definition maxDuration :: duration where "maxDuration = 9223372036854775807"

definition time_sub :: "time \<Rightarrow> time \<Rightarrow> duration" where
  "time_sub t u = max minDuration (min maxDuration (t - u))"

lemma time_sub_gt_iff:
  "minDuration \<le> d \<Longrightarrow> d < maxDuration \<Longrightarrow> d < time_sub t u \<longleftrightarrow> d < t - u"
  by (auto simp: time_sub_def)

lemma time_sub_le_iff:
  "minDuration \<le> d \<Longrightarrow> d < maxDuration \<Longrightarrow> time_sub t u \<le> d \<longleftrightarrow> t - u \<le> d"
  by (auto simp: time_sub_def)

lemma time_sub_pos_iff [simp]: "0 < time_sub t u \<longleftrightarrow> u < t"
  by (auto simp: time_sub_def minDuration_def maxDuration_def)

lemma time_sub_nonpos_iff [simp]: "time_sub t u \<le> 0 \<longleftrightarrow> t \<le> u"
  by (auto simp: time_sub_def minDuration_def maxDuration_def)

text \<open>
  An instant that went through the JSON form of \<open>metav1.Time\<close> (RFC 3339) has lost
  everything below the second.
\<close>

definition trunc_sec :: "time \<Rightarrow> time" where
  "trunc_sec t = t - t mod Second"

lemma trunc_sec_le: "trunc_sec t \<le> t"
  by (simp add: trunc_sec_def Second_def)

lemma trunc_sec_gt: "t - Second < trunc_sec t"
  by (simp add: trunc_sec_def Second_def)

lemma trunc_sec_idem [simp]: "trunc_sec (trunc_sec t) = trunc_sec t"
  by (simp add: trunc_sec_def Second_def minus_mod_eq_mult_div)

section \<open>Strings\<close>

lemma of_char_bound: "of_char c < (256::nat)"
proof -
  have "of_char c = of_char (char_of (of_char c :: nat)) " by simp
  also have "\<dots> = (of_char c :: nat) mod 256" by (simp only: of_char_of)
  finally show ?thesis by simp
qed

text \<open>\<open>fmt\<close>'s \<open>%d\<close>.\<close>

fun digits :: "nat \<Rightarrow> string" where
  "digits n = (if n < 10 then [char_of (48 + n)]
               else digits (n div 10) @ [char_of (48 + n mod 10)])"

declare digits.simps [simp del]

definition decimal :: "int \<Rightarrow> string" where
  "decimal i = (if i < 0 then ''-'' @ digits (nat (- i)) else digits (nat i))"

text \<open>
  \<open>fmt\<close>'s \<open>%q\<close> on ASCII text; bytes from 128 on (parts of printable runes) are kept.
\<close>

definition hex_digit :: "nat \<Rightarrow> char" where
  "hex_digit n = (if n < 10 then char_of (48 + n) else char_of (87 + n))"

definition quote_char :: "char \<Rightarrow> string" where
  "quote_char c =
     (let n = of_char c :: nat in
      if n = 34 then [char_of (92 :: nat), c]
      else if n = 92 then [c, c]
      else if n = 7 then char_of (92 :: nat) # ''a''
      else if n = 8 then char_of (92 :: nat) # ''b''
      else if n = 9 then char_of (92 :: nat) # ''t''
      else if n = 10 then char_of (92 :: nat) # ''n''
      else if n = 11 then char_of (92 :: nat) # ''v''
      else if n = 12 then char_of (92 :: nat) # ''f''
      else if n = 13 then char_of (92 :: nat) # ''r''
      else if n < 32 \<or> n = 127 then [char_of (92 :: nat), CHR ''x'', hex_digit (n div 16), hex_digit (n mod 16)]
      else [c])"

definition quoted :: "string \<Rightarrow> string" where
  "quoted s = [char_of (34 :: nat)] @ concat (map quote_char s) @ [char_of (34 :: nat)]"

text \<open>\<open>strings.Contains\<close>, \<open>strings.Join\<close> and \<open>strings.Split\<close> at a one-byte separator.\<close>

definition contains :: "string \<Rightarrow> string \<Rightarrow> bool" where
  "contains s p = sublist p s"

fun join :: "string \<Rightarrow> string list \<Rightarrow> string" where
  "join sep [] = []"
| "join sep [x] = x"
| "join sep (x # y # xs) = x @ sep @ join sep (y # xs)"

fun split_at :: "char \<Rightarrow> string \<Rightarrow> string list" where
  "split_at sep [] = [[]]"
| "split_at sep (c # s) =
     (if c = sep then [] # split_at sep s
      else case split_at sep s of [] \<Rightarrow> [[c]] | l # ls \<Rightarrow> (c # l) # ls)"

abbreviation newline :: char where "newline \<equiv> CHR 0x0A"

abbreviation split_lines :: "string \<Rightarrow> string list" where
  "split_lines \<equiv> split_at newline"

lemma split_at_ne [simp]: "split_at sep s \<noteq> []"
  by (induction s) (auto split: list.splits)

lemma join_split_at: "join [sep] (split_at sep s) = s"
proof (induction s)
  case Nil
  show ?case by simp
next
  case (Cons c s)
  obtain l ls where l: "split_at sep s = l # ls"
    by (cases "split_at sep s") auto
  with Cons show ?case by (cases ls) auto
qed

lemma split_at_no_sep: "l \<in> set (split_at sep s) \<Longrightarrow> sep \<notin> set l"
proof (induction s arbitrary: l)
  case Nil
  then show ?case by simp
next
  case (Cons c s)
  obtain m ms where m: "split_at sep s = m # ms"
    by (cases "split_at sep s") auto
  show ?case
  proof (cases "c = sep")
    case True
    with Cons show ?thesis by auto
  next
    case False
    with Cons m show ?thesis by fastforce
  qed
qed

lemma split_at_append_sep:
  "split_at sep (s @ sep # t) = split_at sep s @ split_at sep t"
proof (induction s)
  case Nil
  show ?case by simp
next
  case (Cons c s)
  obtain l ls where "split_at sep s = l # ls"
    by (cases "split_at sep s") auto
  with Cons show ?case by simp
qed

lemma split_at_fresh: "sep \<notin> set s \<Longrightarrow> split_at sep s = [s]"
  by (induction s) auto

text \<open>
  \<open>strings.TrimSpace\<close>: the UTF-8 encodings of the runes that \<open>unicode.IsSpace\<close> accepts,
  stripped from both ends.
\<close>

definition go_spaces :: "string list" where
  "go_spaces =
     map (map char_of)
       [[9::nat], [10], [11], [12], [13], [32], [194, 133], [194, 160], [225, 154, 128],
        [226, 128, 128], [226, 128, 129], [226, 128, 130], [226, 128, 131],
        [226, 128, 132], [226, 128, 133], [226, 128, 134], [226, 128, 135],
        [226, 128, 136], [226, 128, 137], [226, 128, 138], [226, 128, 168],
        [226, 128, 169], [226, 128, 175], [226, 129, 159], [227, 128, 128]]"

fun strip_prefix :: "string list \<Rightarrow> string \<Rightarrow> string option" where
  "strip_prefix [] s = None"
| "strip_prefix (p # ps) s =
     (if p \<noteq> [] \<and> prefix p s then Some (drop (length p) s) else strip_prefix ps s)"

lemma strip_prefix_shorter: "strip_prefix ps s = Some t \<Longrightarrow> length t < length s"
  by (induction ps s rule: strip_prefix.induct)
    (auto split: if_splits simp: prefix_def)

function trim_left :: "string list \<Rightarrow> string \<Rightarrow> string" where
  "trim_left ps s = (case strip_prefix ps s of None \<Rightarrow> s | Some t \<Rightarrow> trim_left ps t)"
  by pat_completeness auto
termination
  by (relation "measure (\<lambda>(ps, s). length s)") (auto dest: strip_prefix_shorter)

declare trim_left.simps [simp del]

definition TrimSpace :: "string \<Rightarrow> string" where
  "TrimSpace s = rev (trim_left (map rev go_spaces) (rev (trim_left go_spaces s)))"

text \<open>Text whose ends are visible ASCII characters is left as it is.\<close>

definition visible :: "char \<Rightarrow> bool" where
  "visible c \<longleftrightarrow> 33 \<le> (of_char c :: nat) \<and> of_char c < (127 :: nat)"

lemma strip_prefix_None: "\<forall>p \<in> set ps. \<not> prefix p s \<Longrightarrow> strip_prefix ps s = None"
  by (induction ps) auto

lemma go_spaces_ends:
  "p \<in> set go_spaces \<Longrightarrow> p \<noteq> [] \<and> \<not> visible (hd p) \<and> \<not> visible (last p)"
  by (auto simp: go_spaces_def visible_def)

lemma trim_left_visible:
  assumes "s \<noteq> []" "visible (hd s)" "\<forall>p \<in> set ps. p \<noteq> [] \<and> \<not> visible (hd p)"
  shows "trim_left ps s = s"
proof -
  have "\<forall>p \<in> set ps. \<not> prefix p s" using assms by (auto simp: prefix_def)
  then show ?thesis by (subst trim_left.simps) (simp add: strip_prefix_None)
qed

lemma TrimSpace_visible: "s \<noteq> [] \<Longrightarrow> visible (hd s) \<Longrightarrow> visible (last s) \<Longrightarrow> TrimSpace s = s"
proof -
  assume s: "s \<noteq> []" "visible (hd s)" "visible (last s)"
  have "trim_left go_spaces s = s"
    using s(1,2) by (rule trim_left_visible) (simp add: go_spaces_ends)
  moreover have "trim_left (map rev go_spaces) (rev s) = rev s"
    using s(1,3) by (intro trim_left_visible) (simp_all add: hd_rev go_spaces_ends)
  ultimately show ?thesis by (simp add: TrimSpace_def)
qed

text \<open>\<open>strings.TrimRight\<close> with a one-byte cutset.\<close>

definition TrimRight :: "string \<Rightarrow> char \<Rightarrow> string" where
  "TrimRight s c = rev (dropWhile (\<lambda>x. x = c) (rev s))"

text \<open>
  \<open>strings.ToLower\<close> as far as ASCII text is concerned: ASCII letters, and the only two
  other runes whose lower-case form is ASCII (U+0130 and U+212A). Other bytes belong to
  runes whose lower-case form is not ASCII; they are kept, which makes no difference to
  a search for an ASCII word.
\<close>

definition lower_byte :: "char \<Rightarrow> char" where
  "lower_byte c = (let n = of_char c :: nat in if 65 \<le> n \<and> n \<le> 90 then char_of (n + 32) else c)"

fun ToLower :: "string \<Rightarrow> string" where
  "ToLower [] = []"
| "ToLower (a # s) =
     (case s of
        b # t \<Rightarrow>
          if a = CHR 0xC4 \<and> b = CHR 0xB0 then CHR ''i'' # ToLower t
          else (case t of
                  c # u \<Rightarrow> if a = CHR 0xE2 \<and> b = CHR 0x84 \<and> c = CHR 0xAA then CHR ''k'' # ToLower u
                           else lower_byte a # ToLower s
                | [] \<Rightarrow> lower_byte a # ToLower s)
      | [] \<Rightarrow> [lower_byte a])"

declare ToLower.simps(2) [simp del]

lemma ToLower_Cons_ascii: "of_char a < (128::nat) \<Longrightarrow> ToLower (a # s) = lower_byte a # ToLower s"
  by (subst ToLower.simps(2)) (auto split: list.splits)

lemma ToLower_append_ascii:
  "\<forall>c \<in> set s. of_char c < (128::nat) \<Longrightarrow> ToLower (s @ t) = ToLower s @ ToLower t"
  by (induction s) (auto simp: ToLower_Cons_ascii)

section \<open>Errors\<close>

text \<open>
  An error of the Kubernetes API (with the text the server gave) and a Go error value: an
  API error, a sentinel, a plain message, or an error wrapped by \<open>fmt.Errorf("...: %w")\<close>
  with its context in front. \<open>errors.Is\<close> looks through the wrapping.
\<close>

datatype api_error = NotFound string | OtherApiError string

datatype gerror =
    ApiError api_error
  | ErrExecResultLost
  | ErrVMNotFound
  | ErrMsg string
  | Wrapped string gerror

fun api_error_text :: "api_error \<Rightarrow> string" where
  "api_error_text (NotFound s) = s"
| "api_error_text (OtherApiError s) = s"

fun error_text :: "gerror \<Rightarrow> string" where
  "error_text (ApiError e) = api_error_text e"
| "error_text ErrExecResultLost = ''exec result lost (handle unknown to provider)''"
| "error_text ErrVMNotFound = ''VMID not found in cluster''"
| "error_text (ErrMsg s) = s"
| "error_text (Wrapped ctx e) = ctx @ '': '' @ error_text e"

fun errors_Is :: "gerror \<Rightarrow> gerror \<Rightarrow> bool" where
  "errors_Is (Wrapped ctx e) target = (Wrapped ctx e = target \<or> errors_Is e target)"
| "errors_Is e target = (e = target)"

fun IsNotFound :: "api_error \<Rightarrow> bool" where
  "IsNotFound (NotFound _) = True"
| "IsNotFound (OtherApiError _) = False"

text \<open>\<open>client.IgnoreNotFound\<close>: the error a reconcile reports for a failed \<open>Get\<close>.\<close>

definition IgnoreNotFound :: "api_error \<Rightarrow> gerror option" where
  "IgnoreNotFound e = (if IsNotFound e then None else Some (ApiError e))"

text \<open>A loop that stops at the first error, and a lookup that fails at the first error.\<close>

fun mapE :: "('a \<Rightarrow> 'e + 'b) \<Rightarrow> 'a list \<Rightarrow> 'e + 'b list" where
  "mapE f [] = Inr []"
| "mapE f (x # xs) =
     (case f x of
        Inl e \<Rightarrow> Inl e
      | Inr y \<Rightarrow> (case mapE f xs of Inl e \<Rightarrow> Inl e | Inr ys \<Rightarrow> Inr (y # ys)))"

lemma mapE_Inr: "mapE f xs = Inr ys \<Longrightarrow> list_all2 (\<lambda>x y. f x = Inr y) xs ys"
  by (induction xs arbitrary: ys) (auto split: sum.splits)

lemma mapE_Inl: "mapE f xs = Inl e \<Longrightarrow> \<exists>x \<in> set xs. f x = Inl e"
  by (induction xs) (auto split: sum.splits)

section \<open>Results of a reconcile\<close>

record ctrl_Result =
  RequeueAfter :: duration

definition noRequeue :: ctrl_Result where
  "noRequeue = \<lparr>RequeueAfter = 0\<rparr>"

definition requeueIn :: "duration \<Rightarrow> ctrl_Result" where
  "requeueIn d = \<lparr>RequeueAfter = d\<rparr>"

lemma RequeueAfter_simps [simp]:
  "RequeueAfter noRequeue = 0" "RequeueAfter (requeueIn d) = d"
  by (simp_all add: noRequeue_def requeueIn_def)

text \<open>What a handler returns: the requeue, the error if any, and the world it leaves.\<close>

type_synonym 'w outcome = "ctrl_Result \<times> gerror option \<times> 'w"

abbreviation result_of :: "'w outcome \<Rightarrow> ctrl_Result" where "result_of o1 \<equiv> fst o1"
abbreviation error_of :: "'w outcome \<Rightarrow> gerror option" where "error_of o1 \<equiv> fst (snd o1)"
abbreviation world_of :: "'w outcome \<Rightarrow> 'w" where "world_of o1 \<equiv> snd (snd o1)"

end
