(* ===== verification/ApiTypes.thy ===== *)
theory ApiTypes
  imports Prelude
begin

text \<open>
  The API types of the group \<open>vrouter.kojuro.date/v1\<close> (\<open>api/v1\<close>): specs and statuses of the
  custom resources as records, their enumerations as datatypes, the constants, and the
  helper functions \<open>ResolveNamespace\<close>, \<open>BoolValue\<close> and \<open>EffectiveMode\<close>. A Go pointer
  field is an option; \<open>apiextensionsv1.JSON\<close> is the raw bytes. Of \<open>ObjectMeta\<close> the
  fields the operator reads or writes are kept.
\<close>

section \<open>Metadata, references and conditions\<close>

text \<open>A namespaced name \<open>(namespace, name)\<close>.\<close>

type_synonym nname = "string \<times> string"

record ObjectMeta =
  metaNamespace :: string
  metaName :: string
  metaLabels :: "string \<Rightarrow> string option"
  metaGeneration :: int
  metaFinalizers :: "string list"
  metaOwners :: "nname list"
  metaDeletionTimestamp :: "time option"

definition DeletionTimestamp_IsZero :: "ObjectMeta \<Rightarrow> bool" where
  "DeletionTimestamp_IsZero m =
     (case metaDeletionTimestamp m of None \<Rightarrow> True | Some t \<Rightarrow> t = 0)"

definition blankMeta :: "string \<Rightarrow> string \<Rightarrow> ObjectMeta" where
  "blankMeta ns nm =
     \<lparr>metaNamespace = ns, metaName = nm, metaLabels = Map.empty, metaGeneration = 0,
      metaFinalizers = [], metaOwners = [], metaDeletionTimestamp = None\<rparr>"

record NameRef =
  refNamespace :: string
  refName :: string

datatype ConditionStatus = ConditionTrue | ConditionFalse | ConditionUnknown

record Condition =
  condType :: string
  condStatus :: ConditionStatus
  condReason :: string
  condMessage :: string
  condObservedGeneration :: int
  condLastTransitionTime :: time

definition FinalizerName :: string where "FinalizerName = ''vrouter.kojuro.date/finalizer''"
definition LabelBinding :: string where "LabelBinding = ''vrouter.kojuro.date/binding''"
definition LabelTarget :: string where "LabelTarget = ''vrouter.kojuro.date/target''"
definition ConditionApplied :: string where "ConditionApplied = ''Applied''"
definition ConditionReady :: string where "ConditionReady = ''Ready''"

lemma Label_distinct [simp]: "LabelBinding \<noteq> LabelTarget" "LabelTarget \<noteq> LabelBinding"
  by (simp_all add: LabelBinding_def LabelTarget_def)

definition BoolValue :: "bool option \<Rightarrow> bool \<Rightarrow> bool" where
  "BoolValue p def1 = (case p of None \<Rightarrow> def1 | Some b \<Rightarrow> b)"

definition ResolveNamespace :: "NameRef \<Rightarrow> string \<Rightarrow> string" where
  "ResolveNamespace ref defaultNS =
     (if refNamespace ref \<noteq> [] then refNamespace ref else defaultNS)"

lemma ResolveNamespace_same:
  "ResolveNamespace ref ns = ns \<longleftrightarrow> refNamespace ref = [] \<or> refNamespace ref = ns"
  by (auto simp: ResolveNamespace_def)

section \<open>Providers and targets\<close>

datatype ProviderType =
  ProviderUnset | ProviderKubeVirt | ProviderProxmox | ProviderVRouterDaemon | ProviderOther string

record SecretKeyRef =
  secretKeyName :: string
  secretKeyKey :: string

record SecretReference =
  secretRefName :: string

record KubeconfigRef =
  kubeconfigSecretRef :: SecretKeyRef

record KubeVirtConfig =
  kvName :: string
  kvNamespace :: string
  kvKubeconfig :: "KubeconfigRef option"

record ProxmoxConfig =
  pxVMID :: int
  pxClusterRef :: NameRef

record DaemonConfig =
  daemonAddress :: string
  daemonAgentID :: string
  daemonTimeoutSeconds :: int

record ProviderConfig =
  provType :: ProviderType
  provKubeVirt :: "KubeVirtConfig option"
  provProxmox :: "ProxmoxConfig option"
  provDaemon :: "DaemonConfig option"

record VRouterTargetSpec =
  tgtProvider :: ProviderConfig
  tgtParams :: string

record VRouterTargetStatus =
  ProxmoxNode :: string
  LastRebootTime :: "time option"
  VMRunning :: bool

record VRouterTarget =
  tgtMeta :: ObjectMeta
  tgtSpec :: VRouterTargetSpec
  tgtStatus :: VRouterTargetStatus

abbreviation tgt_key :: "VRouterTarget \<Rightarrow> nname" where
  "tgt_key t \<equiv> (metaNamespace (tgtMeta t), metaName (tgtMeta t))"

record ProxmoxClusterSpec =
  pxcEndpoints :: "string list"
  pxcCredentialsRef :: SecretReference
  pxcInsecureSkipTLSVerify :: bool
  pxcSyncInterval :: duration
  pxcCheckGuestUptime :: "bool option"

record ProxmoxClusterStatus =
  LastSyncTime :: "time option"
  pxcConditions :: "Condition list"

record ProxmoxCluster =
  pxcMeta :: ObjectMeta
  pxcSpec :: ProxmoxClusterSpec
  pxcStatus :: ProxmoxClusterStatus

section \<open>Generated configurations\<close>

datatype Phase = PhaseUnset | PhasePending | PhaseApplying | PhaseApplied | PhaseFailed

record VRouterConfigSpec =
  cfgTargetRef :: NameRef
  cfgSave :: "bool option"
  cfgConfig :: string
  cfgCommands :: string

record VRouterConfigStatus =
  cfgPhase :: Phase
  ExecPID :: int
  ExecStartedTime :: "time option"
  LastAppliedTime :: "time option"
  LastRebootHandledTime :: "time option"
  cfgMessage :: string
  ObservedGeneration :: int
  cfgConditions :: "Condition list"

text \<open>The zero values a Go composite literal leaves.\<close>

definition emptyConfigStatus :: VRouterConfigStatus where
  "emptyConfigStatus =
     \<lparr>cfgPhase = PhaseUnset, ExecPID = 0, ExecStartedTime = None, LastAppliedTime = None,
      LastRebootHandledTime = None, cfgMessage = [], ObservedGeneration = 0, cfgConditions = []\<rparr>"

record VRouterConfig =
  cfgMeta :: ObjectMeta
  cfgSpec :: VRouterConfigSpec
  cfgStatus :: VRouterConfigStatus

abbreviation cfg_key :: "VRouterConfig \<Rightarrow> nname" where
  "cfg_key c \<equiv> (metaNamespace (cfgMeta c), metaName (cfgMeta c))"

abbreviation cfg_generation :: "VRouterConfig \<Rightarrow> int" where
  "cfg_generation c \<equiv> metaGeneration (cfgMeta c)"

section \<open>Templates, params and bindings\<close>

record VRouterTemplate =
  tmplMeta :: ObjectMeta
  tmplConfig :: string
  tmplCommands :: string

record VRouterParams =
  prmMeta :: ObjectMeta
  prmParams :: string

datatype RolloutMode =
    RolloutModeUnset
  | RolloutModeDisabled
  | RolloutModeWaitForApplied
  | RolloutModeFixedInterval
  | RolloutModeOther string

record RolloutSpec =
  rolloutMode :: RolloutMode
  PollInterval :: duration
  WaitAfterApplied :: duration
  WaitInterval :: duration

definition EffectiveMode :: "RolloutSpec option \<Rightarrow> RolloutMode" where
  "EffectiveMode r =
     (case r of
        None \<Rightarrow> RolloutModeDisabled
      | Some s \<Rightarrow> if rolloutMode s = RolloutModeUnset then RolloutModeDisabled else rolloutMode s)"

record RolloutStatus =
  LastUpdatedTarget :: string
  LastUpdateTime :: time

record VRouterBindingSpec =
  bndTemplateRef :: "NameRef option"
  bndTemplateRefs :: "NameRef list"
  bndParamsRefs :: "NameRef list"
  bndTargetRefs :: "NameRef list"
  bndSave :: "bool option"
  bndParams :: string
  bndRollout :: "RolloutSpec option"

record VRouterBindingStatus =
  bndConditions :: "Condition list"
  statusRollout :: "RolloutStatus option"

record VRouterBinding =
  bndMeta :: ObjectMeta
  bndSpec :: VRouterBindingSpec
  bndStatus :: VRouterBindingStatus

abbreviation bnd_key :: "VRouterBinding \<Rightarrow> nname" where
  "bnd_key b \<equiv> (metaNamespace (bndMeta b), metaName (bndMeta b))"

lemma EffectiveMode_FixedInterval:
  "EffectiveMode r = RolloutModeFixedInterval \<longleftrightarrow>
     (\<exists>s. r = Some s \<and> rolloutMode s = RolloutModeFixedInterval)"
  by (auto simp: EffectiveMode_def split: option.splits)

lemma EffectiveMode_WaitForApplied:
  "EffectiveMode r = RolloutModeWaitForApplied \<longleftrightarrow>
     (\<exists>s. r = Some s \<and> rolloutMode s = RolloutModeWaitForApplied)"
  by (auto simp: EffectiveMode_def split: option.splits)

end
