(* ===== verification/Kube.thy ===== *)
theory Kube
  imports ApiTypes
begin

text \<open>
  The interface to Kubernetes. The controllers run against controller-runtime's client and
  the helpers of apimachinery, which are not part of the repository: they are the fields of
  the record \<open>kube\<close>, an argument of every definition that uses them, over an abstract
  world \<open>'w\<close> (the API server, the guests, the clock). Reads may fail and do not change the
  world; writes may fail and return the next world.

  What the client code relies on is stated as locales: \<open>conditions_api\<close> (the documented
  behaviour of \<open>meta.SetStatusCondition\<close> and \<open>meta.FindStatusCondition\<close>),
  \<open>finalizers_api\<close>, \<open>config_api\<close> (storage of VRouterConfigs) and \<open>binding_api\<close> (storage of
  VRouterBindings). A failed write may or may not have taken effect: the laws leave both
  open. A status patch stores the status with every \<open>metav1.Time\<close> cut to whole seconds,
  because that is what its JSON form keeps. The theory MemKube interprets every locale
  by an API server held in memory.
\<close>

record 'w kube =
  now :: "'w \<Rightarrow> time"
  SetStatusCondition :: "time \<Rightarrow> Condition list \<Rightarrow> Condition \<Rightarrow> Condition list"
  FindStatusCondition :: "Condition list \<Rightarrow> string \<Rightarrow> Condition option"
  ContainsFinalizer :: "string list \<Rightarrow> string \<Rightarrow> bool"
  AddFinalizer :: "string list \<Rightarrow> string \<Rightarrow> string list"
  RemoveFinalizer :: "string list \<Rightarrow> string \<Rightarrow> string list"
  SetControllerReference :: "VRouterBinding \<Rightarrow> VRouterConfig \<Rightarrow> gerror + VRouterConfig"
  getConfig :: "nname \<Rightarrow> 'w \<Rightarrow> api_error + VRouterConfig"
  listConfigs :: "string option \<Rightarrow> (string \<times> string) list \<Rightarrow> 'w \<Rightarrow> api_error + VRouterConfig list"
  updateConfig :: "VRouterConfig \<Rightarrow> 'w \<Rightarrow> api_error option \<times> 'w"
  patchConfigStatus :: "VRouterConfig \<Rightarrow> VRouterConfig \<Rightarrow> 'w \<Rightarrow> (api_error + VRouterConfig) \<times> 'w"
  deleteConfig :: "VRouterConfig \<Rightarrow> 'w \<Rightarrow> api_error option \<times> 'w"
  CreateOrUpdateConfig ::
    "VRouterConfig \<Rightarrow> (VRouterConfig \<Rightarrow> gerror + VRouterConfig) \<Rightarrow> 'w \<Rightarrow> gerror option \<times> 'w"
  getBinding :: "nname \<Rightarrow> 'w \<Rightarrow> api_error + VRouterBinding"
  listBindings :: "string option \<Rightarrow> 'w \<Rightarrow> api_error + VRouterBinding list"
  updateBinding :: "VRouterBinding \<Rightarrow> 'w \<Rightarrow> api_error option \<times> 'w"
  patchBindingStatus :: "VRouterBinding \<Rightarrow> VRouterBinding \<Rightarrow> 'w \<Rightarrow> (api_error + VRouterBinding) \<times> 'w"
  getTarget :: "nname \<Rightarrow> 'w \<Rightarrow> api_error + VRouterTarget"
  listTargets :: "string option \<Rightarrow> 'w \<Rightarrow> api_error + VRouterTarget list"
  patchTargetStatus :: "VRouterTarget \<Rightarrow> VRouterTarget \<Rightarrow> 'w \<Rightarrow> (api_error + VRouterTarget) \<times> 'w"
  getTemplate :: "nname \<Rightarrow> 'w \<Rightarrow> api_error + VRouterTemplate"
  getParams :: "nname \<Rightarrow> 'w \<Rightarrow> api_error + VRouterParams"
  getCluster :: "nname \<Rightarrow> 'w \<Rightarrow> api_error + ProxmoxCluster"
  updateCluster :: "ProxmoxCluster \<Rightarrow> 'w \<Rightarrow> api_error option \<times> 'w"
  patchClusterStatus :: "ProxmoxCluster \<Rightarrow> ProxmoxCluster \<Rightarrow> 'w \<Rightarrow> (api_error + ProxmoxCluster) \<times> 'w"
  getSecret :: "nname \<Rightarrow> 'w \<Rightarrow> api_error + (string \<Rightarrow> string option)"

section \<open>What is stored\<close>

definition truncCondition :: "Condition \<Rightarrow> Condition" where
  "truncCondition c = c\<lparr>condLastTransitionTime := trunc_sec (condLastTransitionTime c)\<rparr>"

definition storedConfigStatus :: "VRouterConfigStatus \<Rightarrow> VRouterConfigStatus" where
  "storedConfigStatus s =
     s\<lparr>ExecStartedTime := map_option trunc_sec (ExecStartedTime s),
       LastAppliedTime := map_option trunc_sec (LastAppliedTime s),
       LastRebootHandledTime := map_option trunc_sec (LastRebootHandledTime s),
       cfgConditions := map truncCondition (cfgConditions s)\<rparr>"

definition storedBindingStatus :: "VRouterBindingStatus \<Rightarrow> VRouterBindingStatus" where
  "storedBindingStatus s =
     s\<lparr>bndConditions := map truncCondition (bndConditions s),
       statusRollout := map_option (\<lambda>r. r\<lparr>LastUpdateTime := trunc_sec (LastUpdateTime r)\<rparr>)
                          (statusRollout s)\<rparr>"

text \<open>The CRD default of \<open>spec.save\<close> is applied by the API server on every write.\<close>

definition defaultedConfigSpec :: "VRouterConfigSpec \<Rightarrow> VRouterConfigSpec" where
  "defaultedConfigSpec s = s\<lparr>cfgSave := Some (BoolValue (cfgSave s) True)\<rparr>"

lemma truncCondition_simps [simp, status_simps]:
  "condType (truncCondition c) = condType c"
  "condStatus (truncCondition c) = condStatus c"
  "condReason (truncCondition c) = condReason c"
  "condMessage (truncCondition c) = condMessage c"
  "condObservedGeneration (truncCondition c) = condObservedGeneration c"
  "condLastTransitionTime (truncCondition c) = trunc_sec (condLastTransitionTime c)"
  by (simp_all add: truncCondition_def)

lemma truncCondition_idem [simp]: "truncCondition (truncCondition c) = truncCondition c"
  by (simp add: truncCondition_def)

lemma storedConfigStatus_simps [simp, status_simps]:
  "cfgPhase (storedConfigStatus s) = cfgPhase s"
  "ExecPID (storedConfigStatus s) = ExecPID s"
  "ExecStartedTime (storedConfigStatus s) = map_option trunc_sec (ExecStartedTime s)"
  "LastAppliedTime (storedConfigStatus s) = map_option trunc_sec (LastAppliedTime s)"
  "LastRebootHandledTime (storedConfigStatus s) = map_option trunc_sec (LastRebootHandledTime s)"
  "cfgMessage (storedConfigStatus s) = cfgMessage s"
  "ObservedGeneration (storedConfigStatus s) = ObservedGeneration s"
  "cfgConditions (storedConfigStatus s) = map truncCondition (cfgConditions s)"
  by (simp_all add: storedConfigStatus_def)

lemma storedConfigStatus_idem [simp]:
  "storedConfigStatus (storedConfigStatus st) = storedConfigStatus st"
  by (cases st) (simp add: storedConfigStatus_def option.map_comp comp_def)

lemma storedBindingStatus_simps [simp, status_simps]:
  "bndConditions (storedBindingStatus s) = map truncCondition (bndConditions s)"
  "statusRollout (storedBindingStatus s) =
     map_option (\<lambda>r. r\<lparr>LastUpdateTime := trunc_sec (LastUpdateTime r)\<rparr>) (statusRollout s)"
  by (simp_all add: storedBindingStatus_def)

lemma defaultedConfigSpec_explicit:
  "cfgSave s \<noteq> None \<Longrightarrow> defaultedConfigSpec s = s"
  by (cases s) (auto simp: defaultedConfigSpec_def BoolValue_def)

lemma storedBindingStatus_idem [simp]:
  "storedBindingStatus (storedBindingStatus st) = storedBindingStatus st"
  by (cases st) (simp add: storedBindingStatus_def option.map_comp comp_def)

section \<open>Conditions and finalizers\<close>

text \<open>
  \<open>SetStatusCondition\<close> replaces the condition of the given type, keeping its transition
  time when the status does not change, and leaves the conditions of other types alone.
\<close>

locale conditions_api =
  fixes k :: "'w kube"
  assumes find_eq: "FindStatusCondition k cs ty = List.find (\<lambda>c. condType c = ty) cs"
    and find_set_same:
      "List.find (\<lambda>d. condType d = condType c) (SetStatusCondition k t cs c) =
         Some (case List.find (\<lambda>d. condType d = condType c) cs of
                 None \<Rightarrow> c\<lparr>condLastTransitionTime :=
                   (if condLastTransitionTime c = 0 then t else condLastTransitionTime c)\<rparr>
               | Some d \<Rightarrow> c\<lparr>condLastTransitionTime :=
                   (if condStatus d = condStatus c then condLastTransitionTime d
                    else if condLastTransitionTime c = 0 then t
                    else condLastTransitionTime c)\<rparr>)"
    and find_set_other:
      "ty \<noteq> condType c \<Longrightarrow>
         List.find (\<lambda>d. condType d = ty) (SetStatusCondition k t cs c) =
         List.find (\<lambda>d. condType d = ty) cs"

lemma find_truncCondition [simp]:
  "List.find (\<lambda>c. condType c = ty) (map truncCondition cs) =
     map_option truncCondition (List.find (\<lambda>c. condType c = ty) cs)"
  by (induction cs) auto

lemma find_condType: "List.find (\<lambda>c. condType c = ty) cs = Some c \<Longrightarrow> condType c = ty"
  by (auto simp: find_Some_iff)

locale finalizers_api =
  fixes k :: "'w kube"
  assumes contains_iff: "ContainsFinalizer k fs f \<longleftrightarrow> f \<in> set fs"
    and add_set: "set (AddFinalizer k fs f) = insert f (set fs)"
    and remove_set: "set (RemoveFinalizer k fs f) = set fs - {f}"

text \<open>Setting the controller reference writes the owner references and nothing else.\<close>

locale owners_api =
  fixes k :: "'w kube"
  assumes owner_set: "SetControllerReference k b c = Inr c' \<Longrightarrow>
      cfgSpec c' = cfgSpec c \<and> cfgStatus c' = cfgStatus c \<and> cfg_key c' = cfg_key c \<and>
      metaLabels (cfgMeta c') = metaLabels (cfgMeta c)"

section \<open>Storage of VRouterConfigs\<close>

text \<open>
  \<open>cfgs w\<close> is the collection of VRouterConfigs the API server holds in the world \<open>w\<close>.
\<close>

definition patched :: "VRouterConfig \<Rightarrow> VRouterConfig \<Rightarrow> VRouterConfig" where
  "patched old new = old\<lparr>cfgStatus := storedConfigStatus (cfgStatus new)\<rparr>"

lemma patched_simps [simp]:
  "cfgMeta (patched old new) = cfgMeta old"
  "cfgSpec (patched old new) = cfgSpec old"
  "cfgStatus (patched old new) = storedConfigStatus (cfgStatus new)"
  by (simp_all add: patched_def)

text \<open>
  The object a successful create or update leaves: the mutated metadata and spec, with the
  status of the object that was there, and the generation counted up when the spec changed.
  A created object starts at generation 1 with a fresh status: the status is a subresource,
  so a create does not carry one.
\<close>

definition freshConfigStatus :: "VRouterConfigStatus \<Rightarrow> bool" where
  "freshConfigStatus s \<longleftrightarrow>
     (cfgPhase s = PhaseUnset \<or> cfgPhase s = PhasePending) \<and> ExecPID s = 0 \<and>
     ExecStartedTime s = None \<and> LastAppliedTime s = None \<and> LastRebootHandledTime s = None \<and>
     cfgMessage s = [] \<and> ObservedGeneration s = 0 \<and> cfgConditions s = []"

definition written :: "VRouterConfig option \<Rightarrow> VRouterConfig \<Rightarrow> VRouterConfig \<Rightarrow> bool" where
  "written old m c \<longleftrightarrow>
     cfg_key c = cfg_key m \<and>
     metaLabels (cfgMeta c) = metaLabels (cfgMeta m) \<and>
     cfgSpec c = defaultedConfigSpec (cfgSpec m) \<and>
     (case old of
        None \<Rightarrow> freshConfigStatus (cfgStatus c) \<and> cfg_generation c = 1
      | Some o1 \<Rightarrow> cfgStatus c = cfgStatus o1 \<and>
          cfg_generation c =
            (if cfgSpec c = cfgSpec o1 then cfg_generation o1 else cfg_generation o1 + 1))"

locale config_api =
  fixes k :: "'w kube" and cfgs :: "'w \<Rightarrow> nname \<Rightarrow> VRouterConfig option"
  assumes get_found: "getConfig k n w = Inr c \<Longrightarrow> cfgs w n = Some c \<and> cfg_key c = n"
    and stored_form: "cfgs w n = Some c \<Longrightarrow> storedConfigStatus (cfgStatus c) = cfgStatus c"
    and stored_spec: "cfgs w n = Some c \<Longrightarrow> defaultedConfigSpec (cfgSpec c) = cfgSpec c"
    and stored_key: "cfgs w n = Some c \<Longrightarrow> cfg_key c = n"
    and get_missing: "getConfig k n w = Inl e \<Longrightarrow> IsNotFound e \<Longrightarrow> cfgs w n = None"
    and patch_ok:
      "cfgs w (cfg_key old) = Some old \<Longrightarrow> patchConfigStatus k old new w = (Inr c, w') \<Longrightarrow>
         c = patched old new \<and> cfgs w' = (cfgs w)(cfg_key old \<mapsto> patched old new)"
    and patch_fail:
      "cfgs w (cfg_key old) = Some old \<Longrightarrow> patchConfigStatus k old new w = (Inl e, w') \<Longrightarrow>
         cfgs w' = cfgs w \<or> cfgs w' = (cfgs w)(cfg_key old \<mapsto> patched old new)"
    and update_frame:
      "updateConfig k c w = (r, w') \<Longrightarrow> n \<noteq> cfg_key c \<Longrightarrow> cfgs w' n = cfgs w n"
    and update_status:
      "updateConfig k c w = (r, w') \<Longrightarrow> cfgs w' (cfg_key c) = Some c' \<Longrightarrow>
         \<exists>c0. cfgs w (cfg_key c) = Some c0 \<and> cfgStatus c' = cfgStatus c0"
    and list_sound:
      "listConfigs k (Some ns) ls w = Inr cs \<Longrightarrow>
         set cs = {c. \<exists>nm. cfgs w (ns, nm) = Some c \<and> cfg_key c = (ns, nm) \<and>
                      (\<forall>(l, v) \<in> set ls. metaLabels (cfgMeta c) l = Some v)}"
    and delete_frame:
      "deleteConfig k c w = (r, w') \<Longrightarrow> n \<noteq> cfg_key c \<Longrightarrow> cfgs w' n = cfgs w n"
    and delete_ok:
      "deleteConfig k c w = (None, w') \<Longrightarrow> cfgs w' (cfg_key c) = Some c' \<Longrightarrow>
         \<not> DeletionTimestamp_IsZero (cfgMeta c')"
    and write_ok:
      "CreateOrUpdateConfig k c f w = (None, w') \<Longrightarrow>
         \<exists>m c'. f (case cfgs w (cfg_key c) of None \<Rightarrow> c | Some c0 \<Rightarrow> c0) = Inr m \<and>
                written (cfgs w (cfg_key c)) m c' \<and>
                cfgs w' = (cfgs w)(cfg_key c \<mapsto> c')"
    and write_fail:
      "CreateOrUpdateConfig k c f w = (Some ge, w') \<Longrightarrow>
         cfgs w' = cfgs w \<or>
         (\<exists>m c'. f (case cfgs w (cfg_key c) of None \<Rightarrow> c | Some c0 \<Rightarrow> c0) = Inr m \<and>
                 written (cfgs w (cfg_key c)) m c' \<and>
                 cfgs w' = (cfgs w)(cfg_key c \<mapsto> c'))"
begin

text \<open>A status patch changes one object, and only its status, whatever it returns.\<close>

lemma patch_cases:
  assumes "cfgs w (cfg_key old) = Some old" "patchConfigStatus k old new w = (r, w')"
  shows "cfgs w' = cfgs w \<or> cfgs w' = (cfgs w)(cfg_key old \<mapsto> patched old new)"
  using assms patch_ok patch_fail by (cases r) blast+

lemma patch_stored:
  assumes "cfgs w (cfg_key old) = Some old" "patchConfigStatus k old new w = (r, w')"
  shows "cfgs w' (cfg_key old) = Some old \<or> cfgs w' (cfg_key old) = Some (patched old new)"
  using patch_cases [OF assms] assms(1) by auto

lemma write_cases:
  assumes "CreateOrUpdateConfig k c f w = (r, w')"
  shows "cfgs w' = cfgs w \<or>
    (\<exists>m c'. f (case cfgs w (cfg_key c) of None \<Rightarrow> c | Some c0 \<Rightarrow> c0) = Inr m \<and>
            written (cfgs w (cfg_key c)) m c' \<and> cfgs w' = (cfgs w)(cfg_key c \<mapsto> c'))"
  using assms write_ok write_fail by (cases r) blast+

lemma write_frame:
  assumes "CreateOrUpdateConfig k c f w = (r, w')" "n \<noteq> cfg_key c"
  shows "cfgs w' n = cfgs w n"
  using write_cases [OF assms(1)] assms(2) by auto

end

section \<open>Storage of VRouterBindings\<close>

definition patchedBinding :: "VRouterBinding \<Rightarrow> VRouterBinding \<Rightarrow> VRouterBinding" where
  "patchedBinding old new = old\<lparr>bndStatus := storedBindingStatus (bndStatus new)\<rparr>"

lemma patchedBinding_simps [simp]:
  "bndMeta (patchedBinding old new) = bndMeta old"
  "bndSpec (patchedBinding old new) = bndSpec old"
  "bndStatus (patchedBinding old new) = storedBindingStatus (bndStatus new)"
  by (simp_all add: patchedBinding_def)

locale binding_api =
  fixes k :: "'w kube" and bnds :: "'w \<Rightarrow> nname \<Rightarrow> VRouterBinding option"
  assumes getb_found: "getBinding k n w = Inr b \<Longrightarrow> bnds w n = Some b \<and> bnd_key b = n"
    and storedb_key: "bnds w n = Some b \<Longrightarrow> bnd_key b = n"
    and storedb_form: "bnds w n = Some b \<Longrightarrow> storedBindingStatus (bndStatus b) = bndStatus b"
    and listb_sound: "listBindings k None w = Inr bs \<Longrightarrow> set bs = {b. \<exists>n. bnds w n = Some b}"
    and listb_ns: "listBindings k (Some ns) w = Inr bs \<Longrightarrow> set bs = {b. \<exists>nm. bnds w (ns, nm) = Some b}"
    and patchb_ok:
      "bnds w (bnd_key old) = Some old \<Longrightarrow> patchBindingStatus k old new w = (Inr b, w') \<Longrightarrow>
         b = patchedBinding old new \<and> bnds w' = (bnds w)(bnd_key old \<mapsto> patchedBinding old new)"
    and patchb_fail:
      "bnds w (bnd_key old) = Some old \<Longrightarrow> patchBindingStatus k old new w = (Inl e, w') \<Longrightarrow>
         bnds w' = bnds w \<or> bnds w' = (bnds w)(bnd_key old \<mapsto> patchedBinding old new)"
    and updateb_frame:
      "updateBinding k b w = (r, w') \<Longrightarrow> n \<noteq> bnd_key b \<Longrightarrow> bnds w' n = bnds w n"
begin

lemma patchb_cases:
  assumes "bnds w (bnd_key old) = Some old" "patchBindingStatus k old new w = (r, w')"
  shows "bnds w' = bnds w \<or> bnds w' = (bnds w)(bnd_key old \<mapsto> patchedBinding old new)"
  using assms patchb_ok patchb_fail by (cases r) blast+

end

section \<open>Storage of VRouterTargets\<close>

definition storedTargetStatus :: "VRouterTargetStatus \<Rightarrow> VRouterTargetStatus" where
  "storedTargetStatus s = s\<lparr>LastRebootTime := map_option trunc_sec (LastRebootTime s)\<rparr>"

lemma storedTargetStatus_simps [simp, status_simps]:
  "ProxmoxNode (storedTargetStatus s) = ProxmoxNode s"
  "LastRebootTime (storedTargetStatus s) = map_option trunc_sec (LastRebootTime s)"
  "VMRunning (storedTargetStatus s) = VMRunning s"
  "storedTargetStatus (storedTargetStatus s) = storedTargetStatus s"
  by (cases s; simp add: storedTargetStatus_def option.map_comp comp_def)+

definition patchedTarget :: "VRouterTarget \<Rightarrow> VRouterTarget \<Rightarrow> VRouterTarget" where
  "patchedTarget old new = old\<lparr>tgtStatus := storedTargetStatus (tgtStatus new)\<rparr>"

lemma patchedTarget_simps [simp]:
  "tgtMeta (patchedTarget old new) = tgtMeta old"
  "tgtSpec (patchedTarget old new) = tgtSpec old"
  "tgtStatus (patchedTarget old new) = storedTargetStatus (tgtStatus new)"
  by (simp_all add: patchedTarget_def)

locale target_api =
  fixes k :: "'w kube" and tgts :: "'w \<Rightarrow> nname \<Rightarrow> VRouterTarget option"
  assumes gett_found: "getTarget k n w = Inr t \<Longrightarrow> tgts w n = Some t"
    and storedt_key: "tgts w n = Some t \<Longrightarrow> tgt_key t = n"
    and storedt_form: "tgts w n = Some t \<Longrightarrow> storedTargetStatus (tgtStatus t) = tgtStatus t"
    and listt_sound: "listTargets k (Some ns) w = Inr ts \<Longrightarrow>
      set ts = {t. \<exists>nm. tgts w (ns, nm) = Some t} \<and> distinct ts"
    and listt_all: "listTargets k None w = Inr ts \<Longrightarrow> set ts = {t. \<exists>n. tgts w n = Some t}"
    and patcht_ok:
      "tgts w (tgt_key old) = Some old \<Longrightarrow> patchTargetStatus k old new w = (Inr t, w') \<Longrightarrow>
         t = patchedTarget old new \<and> tgts w' = (tgts w)(tgt_key old \<mapsto> patchedTarget old new)"
    and patcht_fail:
      "tgts w (tgt_key old) = Some old \<Longrightarrow> patchTargetStatus k old new w = (Inl e, w') \<Longrightarrow>
         tgts w' = tgts w \<or> tgts w' = (tgts w)(tgt_key old \<mapsto> patchedTarget old new)"
    and patch_cluster_tgts: "patchClusterStatus k c1 c2 w = (r, w') \<Longrightarrow> tgts w' = tgts w"
begin

text \<open>A loop over listed targets whose body patches at most the target it is at.\<close>

lemma fold_targets:
  assumes "distinct ts" "\<forall>t \<in> set ts. tgts w (tgt_key t) = Some t \<and> Q t" "up w"
    and step: "\<And>t w. t \<in> set ts \<Longrightarrow> Q t \<Longrightarrow> up w \<Longrightarrow> tgts w (tgt_key t) = Some t \<Longrightarrow>
       up (f t w) \<and> (\<exists>t'. tgts (f t w) = (tgts w)(tgt_key t \<mapsto> t') \<and> R t t')"
  shows "up (fold f ts w) \<and>
    (\<forall>t \<in> set ts. \<exists>t'. tgts (fold f ts w) (tgt_key t) = Some t' \<and> R t t') \<and>
    (\<forall>n. (\<forall>t \<in> set ts. tgt_key t \<noteq> n) \<longrightarrow> tgts (fold f ts w) n = tgts w n)"
  using assms
proof (induction ts arbitrary: w)
  case (Cons t ts)
  from Cons.prems obtain t' where t': "tgts (f t w) = (tgts w)(tgt_key t \<mapsto> t')" "R t t'" "up (f t w)"
    by (metis list.set_intros(1))
  have other: "tgt_key s \<noteq> tgt_key t" if "s \<in> set ts" for s
    using that Cons.prems(1,2) by (metis distinct.simps(2) list.set_intros(1,2) option.inject)
  have st: "\<forall>s \<in> set ts. tgts (f t w) (tgt_key s) = Some s \<and> Q s"
    using Cons.prems(2) other by (metis fun_upd_other list.set_intros(2) t'(1))
  have IH: "up (fold f ts (f t w)) \<and>
    (\<forall>s \<in> set ts. \<exists>s'. tgts (fold f ts (f t w)) (tgt_key s) = Some s' \<and> R s s') \<and>
    (\<forall>n. (\<forall>s \<in> set ts. tgt_key s \<noteq> n) \<longrightarrow> tgts (fold f ts (f t w)) n = tgts (f t w) n)"
  proof (rule Cons.IH)
    show "distinct ts" using Cons.prems(1) by simp
    show "\<forall>s \<in> set ts. tgts (f t w) (tgt_key s) = Some s \<and> Q s" by (rule st)
    show "up (f t w)" by (rule t'(3))
    show "up (f s v) \<and> (\<exists>s'. tgts (f s v) = (tgts v)(tgt_key s \<mapsto> s') \<and> R s s')"
      if "s \<in> set ts" "Q s" "up v" "tgts v (tgt_key s) = Some s" for s v
      by (rule Cons.prems(4)) (use that in auto)
  qed
  then have "tgts (fold f ts (f t w)) (tgt_key t) = Some t'"
    using other t'(1) by (metis fun_upd_same)
  with IH t' show ?case by auto
qed simp

lemma patcht_cases:
  assumes "tgts w (tgt_key old) = Some old" "patchTargetStatus k old new w = (r, w')"
  shows "tgts w' = tgts w \<or> tgts w' = (tgts w)(tgt_key old \<mapsto> patchedTarget old new)"
  using assms patcht_ok patcht_fail by (cases r) blast+

end

section \<open>Stores apart\<close>

text \<open>The two kinds of objects are stored apart.\<close>

locale stores_api = config_api k cfgs + binding_api k bnds
  for k :: "'w kube" and cfgs :: "'w \<Rightarrow> nname \<Rightarrow> VRouterConfig option"
    and bnds :: "'w \<Rightarrow> nname \<Rightarrow> VRouterBinding option" +
  assumes patchb_cfgs: "patchBindingStatus k b1 b2 w = (r, w') \<Longrightarrow> cfgs w' = cfgs w"
    and updateb_cfgs: "updateBinding k b1 w = (u, w') \<Longrightarrow> cfgs w' = cfgs w"
    and write_bnds: "CreateOrUpdateConfig k c f w = (g, w') \<Longrightarrow> bnds w' = bnds w"
    and delete_bnds: "deleteConfig k c w = (u, w') \<Longrightarrow> bnds w' = bnds w"

end
