(* ===== verification/Provider.thy ===== *)
theory Provider
  imports Kube
begin

text \<open>
  The provider interface (\<open>internal/provider/types/types.go\<close>), the guest flavors
  (\<open>internal/provider/flavor\<close>) and the factory (\<open>internal/provider/provider.go\<close>). A provider
  is a record of its four operations over the world; the constructors of the three backends
  are an argument of the factory.
\<close>

section \<open>The interface\<close>

record ExecStatus =
  Exited :: bool
  ExitCode :: int
  Stdout :: string
  Stderr :: string

record 'w provider =
  IsVMRunning :: "'w \<Rightarrow> (gerror + bool) \<times> 'w"
  CheckReady :: "'w \<Rightarrow> gerror option \<times> 'w"
  ExecScript :: "string \<Rightarrow> string \<Rightarrow> bool \<Rightarrow> 'w \<Rightarrow> (gerror + int) \<times> 'w"
  GetExecStatus :: "int \<Rightarrow> 'w \<Rightarrow> (gerror + ExecStatus) \<times> 'w"

text \<open>
  Operations of a provider talk to the guest; they do not write API objects. \<open>obs\<close> is the
  part of the world that must stay as it is.
\<close>

definition provider_frames :: "('w \<Rightarrow> 'o) \<Rightarrow> 'w provider \<Rightarrow> bool" where
  "provider_frames obs p \<longleftrightarrow>
     (\<forall>w. obs (snd (IsVMRunning p w)) = obs w) \<and>
     (\<forall>w. obs (snd (CheckReady p w)) = obs w) \<and>
     (\<forall>w c cmds sv. obs (snd (ExecScript p c cmds sv w)) = obs w) \<and>
     (\<forall>w h. obs (snd (GetExecStatus p h w)) = obs w)"

lemma provider_framesD:
  assumes "provider_frames obs p"
  shows "IsVMRunning p w = (r1, w') \<Longrightarrow> obs w' = obs w"
    and "CheckReady p w = (r2, w') \<Longrightarrow> obs w' = obs w"
    and "ExecScript p c cmds sv w = (r3, w') \<Longrightarrow> obs w' = obs w"
    and "GetExecStatus p h w = (r4, w') \<Longrightarrow> obs w' = obs w"
  using assms unfolding provider_frames_def by (metis snd_conv)+

section \<open>Flavors\<close>

datatype flavor = vyos | dozenos

fun RouterServiceUnit :: "flavor \<Rightarrow> string" where
  "RouterServiceUnit vyos = ''vyos-router.service''"
| "RouterServiceUnit dozenos = ''dozenos-router.service''"

definition byID :: "string \<Rightarrow> flavor option" where
  "byID = [''vyos'' \<mapsto> vyos, ''dozenos'' \<mapsto> dozenos]"

definition ByID :: "string \<Rightarrow> gerror + flavor" where
  "ByID ident =
     (case byID ident of
        None \<Rightarrow> Inl (ErrMsg (''unknown guest OS flavor ID '' @ quoted ident))
      | Some f \<Rightarrow> Inr f)"

section \<open>The factory\<close>

record 'w backends =
  newProxmox :: "ProxmoxConfig \<Rightarrow> ProxmoxCluster \<Rightarrow> string \<Rightarrow> 'w \<Rightarrow> gerror + 'w provider"
  newDaemon :: "DaemonConfig \<Rightarrow> 'w \<Rightarrow> gerror + 'w provider"
  newKubevirt :: "string \<Rightarrow> string \<Rightarrow> 'w \<Rightarrow> gerror + 'w provider"

definition GetProxmoxCluster ::
  "'w kube \<Rightarrow> ProxmoxConfig \<Rightarrow> string \<Rightarrow> 'w \<Rightarrow> gerror + ProxmoxCluster" where
  "GetProxmoxCluster k cfg fallbackNamespace w =
     (let ref = pxClusterRef cfg;
          ns = (if refNamespace ref = [] then fallbackNamespace else refNamespace ref)
      in case getCluster k (ns, refName ref) w of
           Inl e \<Rightarrow> Inl (Wrapped (''get ProxmoxCluster '' @ ns @ ''/'' @ refName ref) (ApiError e))
         | Inr c \<Rightarrow> Inr c)"

definition NewProvider ::
  "'w kube \<Rightarrow> 'w backends \<Rightarrow> VRouterTarget \<Rightarrow> 'w \<Rightarrow> gerror + 'w provider" where
  "NewProvider k bk target w =
     (let cfg = tgtProvider (tgtSpec target) in
      case provType cfg of
        ProviderProxmox \<Rightarrow>
          (case provProxmox cfg of
             None \<Rightarrow> Inl (ErrMsg ''provider.proxmox must be set when type is proxmox'')
           | Some px \<Rightarrow>
               (case GetProxmoxCluster k px (metaNamespace (tgtMeta target)) w of
                  Inl e \<Rightarrow> Inl e
                | Inr cluster \<Rightarrow> newProxmox bk px cluster (ProxmoxNode (tgtStatus target)) w))
      | ProviderVRouterDaemon \<Rightarrow>
          (case provDaemon cfg of
             None \<Rightarrow> Inl (ErrMsg ''provider.daemon must be set when type is vrouter-daemon'')
           | Some d \<Rightarrow> newDaemon bk d w)
      | _ \<Rightarrow>
          (case provKubeVirt cfg of
             None \<Rightarrow> Inl (ErrMsg ''provider.kubevirt must be set when type is kubevirt'')
           | Some kv \<Rightarrow>
               let ns = (if kvNamespace kv = [] then metaNamespace (tgtMeta target)
                         else kvNamespace kv)
               in newKubevirt bk (kvName kv) ns w))"

text \<open>Every provider the factory returns comes from one of the constructors.\<close>

definition backends_frame :: "('w \<Rightarrow> 'o) \<Rightarrow> 'w backends \<Rightarrow> bool" where
  "backends_frame obs bk \<longleftrightarrow>
     (\<forall>px cl node w p. newProxmox bk px cl node w = Inr p \<longrightarrow> provider_frames obs p) \<and>
     (\<forall>d w p. newDaemon bk d w = Inr p \<longrightarrow> provider_frames obs p) \<and>
     (\<forall>nm ns w p. newKubevirt bk nm ns w = Inr p \<longrightarrow> provider_frames obs p)"

lemma NewProvider_frames:
  assumes "backends_frame obs bk" "NewProvider k bk target w = Inr p"
  shows "provider_frames obs p"
  using assms unfolding backends_frame_def NewProvider_def
  by (auto simp: Let_def split: ProviderType.splits option.splits sum.splits)

end
