(* ===== verification/Qga.thy ===== *)
theory Qga
  imports Prelude
begin

text \<open>
  The package \<open>internal/provider/qga\<close>: the failure markers of the apply output
  (\<open>failure_marker.go\<close>) and the vbash apply script (\<open>script.go\<close>). The random bytes come
  from \<open>crypto/rand\<close>: \<open>rnd attempt sz\<close> is what the read of that attempt returned. The
  template of the script is fixed, so its text with the trimming of \<open>{{-\<close> done is
  written out as lines.
\<close>

section \<open>Failure markers\<close>

definition applyFailureMarkers :: "string list" where
  "applyFailureMarkers = [''Set failed'', ''Commit failed'', ''Delete failed'']"

definition ApplyOutputIndicatesFailure :: "string \<Rightarrow> string \<times> bool" where
  "ApplyOutputIndicatesFailure output =
     (let lower = ToLower output in
      case List.find (\<lambda>m. contains lower (ToLower m)) applyFailureMarkers of
        Some m \<Rightarrow> (m, True)
      | None \<Rightarrow> ([], False))"

lemma ApplyOutputIndicatesFailure_iff:
  "snd (ApplyOutputIndicatesFailure out) \<longleftrightarrow>
     (\<exists>m \<in> set applyFailureMarkers. contains (ToLower out) (ToLower m))"
  by (auto simp: ApplyOutputIndicatesFailure_def Let_def find_None_iff find_Some_iff
      split: option.splits)

lemma contains_appendI:
  "contains s p \<Longrightarrow> contains (r @ s @ t) p"
  by (auto simp: contains_def sublist_def) (metis append.assoc)

section \<open>The heredoc delimiter\<close>

definition heredocDelimiterPrefix :: string where
  "heredocDelimiterPrefix = ''VROUTER_CONFIG_EOF_''"

definition heredocDelimiterAttempts :: nat where
  "heredocDelimiterAttempts = 8"

definition hexEncode :: "string \<Rightarrow> string" where
  "hexEncode bs =
     concat (map (\<lambda>b. let n = of_char b :: nat in [hex_digit (n div 16), hex_digit (n mod 16)]) bs)"

fun delimiterLoop ::
  "(nat \<Rightarrow> nat \<Rightarrow> gerror + string) \<Rightarrow> string list \<Rightarrow> nat \<Rightarrow> nat \<Rightarrow> nat \<Rightarrow> gerror + string" where
  "delimiterLoop rnd lns attempt sz 0 =
     Inl (ErrMsg (''unable to generate collision-free heredoc delimiter after '' @
       digits heredocDelimiterAttempts @ '' attempts''))"
| "delimiterLoop rnd lns attempt sz (Suc left) =
     (case rnd attempt sz of
        Inl e \<Rightarrow> Inl (Wrapped ''generating heredoc delimiter'' e)
      | Inr buf \<Rightarrow>
          (let candidate = heredocDelimiterPrefix @ hexEncode buf in
           if candidate \<notin> set lns then Inr candidate
           else delimiterLoop rnd lns (Suc attempt) (sz * 2) left))"

definition heredocDelimiter :: "(nat \<Rightarrow> nat \<Rightarrow> gerror + string) \<Rightarrow> string \<Rightarrow> gerror + string" where
  "heredocDelimiter rnd config =
     delimiterLoop rnd (split_lines config) 0 16 heredocDelimiterAttempts"

lemma delimiterLoop_fresh:
  "delimiterLoop rnd lns attempt sz left = Inr d \<Longrightarrow>
     d \<notin> set lns \<and> (\<exists>bs. d = heredocDelimiterPrefix @ hexEncode bs)"
proof (induction left arbitrary: attempt sz)
  case 0
  then show ?case by simp
next
  case (Suc left)
  from Suc.prems obtain buf where buf: "rnd attempt sz = Inr buf"
    by (cases "rnd attempt sz") simp_all
  show ?case
  proof (cases "heredocDelimiterPrefix @ hexEncode buf \<in> set lns")
    case True
    with Suc.prems buf show ?thesis by (intro Suc.IH) simp
  next
    case False
    with Suc.prems buf show ?thesis by (simp add: Let_def) blast
  qed
qed

lemma hex_digit_not_newline: "n < 16 \<Longrightarrow> hex_digit n \<noteq> newline"
proof -
  assume "n < 16"
  then have "of_char (hex_digit n) \<noteq> (10::nat)"
    by (auto simp: hex_digit_def)
  then show ?thesis by auto
qed

lemma hex_pair_no_newline:
  "hex_digit (of_char (b :: char) div 16) \<noteq> newline"
  "hex_digit (of_char (b :: char) mod 16) \<noteq> newline"
  using of_char_bound [of b] by (auto intro!: hex_digit_not_newline simp: less_mult_imp_div_less)

lemma hexEncode_no_newline: "newline \<notin> set (hexEncode bs)"
  using hex_pair_no_newline [THEN not_sym] by (induction bs) (simp_all add: hexEncode_def Let_def)

lemma delimiter_no_newline:
  "heredocDelimiter rnd config = Inr d \<Longrightarrow> newline \<notin> set d"
  using hexEncode_no_newline
  by (auto simp: heredocDelimiter_def heredocDelimiterPrefix_def dest!: delimiterLoop_fresh)

lemma delimiter_not_a_line:
  "heredocDelimiter rnd config = Inr d \<Longrightarrow> d \<notin> set (split_lines config)"
  by (auto simp: heredocDelimiter_def dest!: delimiterLoop_fresh)

text \<open>
  A long line is needed for each failed attempt: a configuration whose lines are all
  shorter than the first candidate gets its delimiter at the first attempt.
\<close>

lemma length_hexEncode: "length (hexEncode bs) = 2 * length bs"
  by (induction bs) (auto simp: hexEncode_def Let_def)

lemma delimiter_first_attempt:
  assumes "rnd 0 16 = Inr buf" "length buf = 16"
    and "\<forall>l \<in> set (split_lines config). length l < 51"
  shows "heredocDelimiter rnd config = Inr (heredocDelimiterPrefix @ hexEncode buf)"
proof -
  have "length (heredocDelimiterPrefix @ hexEncode buf) = 51"
    using assms(2) by (simp add: heredocDelimiterPrefix_def length_hexEncode)
  with assms(3) have "heredocDelimiterPrefix @ hexEncode buf \<notin> set (split_lines config)"
    by fastforce
  with assms(1) show ?thesis
    by (simp add: heredocDelimiter_def heredocDelimiterAttempts_def eval_nat_numeral Let_def)
qed

section \<open>The apply script\<close>

record scriptData =
  sdConfig :: string
  sdCommands :: string
  sdSave :: bool
  sdDelimiter :: string

definition script_header :: "string list" where
  \<open>script_header =
     [''#!/bin/vbash'',
      ''if [ "$(id -g -n)" != 'vyattacfg' ] ; then'',
      ''    exec sg vyattacfg -c "/bin/vbash $(readlink -f $0) $@"'',
      ''fi'',
      ''source /opt/vyatta/etc/functions/script-template'',
      ''configure'',
      [],
      ''# --- config section ---'']\<close>

definition heredoc_open :: "string \<Rightarrow> string" where
  "heredoc_open d = ''load /dev/stdin <<'' @ [CHR 0x27] @ d @ [CHR 0x27]"

definition config_section :: "scriptData \<Rightarrow> string list" where
  "config_section sd =
     (if sdConfig sd \<noteq> [] then [heredoc_open (sdDelimiter sd), sdConfig sd, sdDelimiter sd]
      else [''load /opt/vyatta/etc/config.boot.default''])"

definition trailer_section :: "string \<Rightarrow> bool \<Rightarrow> string list" where
  "trailer_section commands save =
     [[], ''# --- commands section (optional) ---''] @
     (if commands \<noteq> [] then [commands] else []) @
     [[], ''commit''] @ (if save then [''save''] else []) @ [[]]"

definition applyScriptTmpl :: "scriptData \<Rightarrow> string" where
  "applyScriptTmpl sd =
     join [newline]
       (script_header @ config_section sd @ trailer_section (sdCommands sd) (sdSave sd))"

definition RenderScript ::
  "(nat \<Rightarrow> nat \<Rightarrow> gerror + string) \<Rightarrow> string \<Rightarrow> string \<Rightarrow> bool \<Rightarrow> gerror + string" where
  "RenderScript rnd config commands save =
     (case heredocDelimiter rnd config of
        Inl e \<Rightarrow> Inl e
      | Inr delimiter \<Rightarrow>
          Inr (applyScriptTmpl \<lparr>sdConfig = config, sdCommands = commands, sdSave = save,
                                sdDelimiter = delimiter\<rparr>))"

section \<open>How a shell reads the here-document\<close>

text \<open>
  With a quoted delimiter \<open>d\<close> the shell takes the lines up to the first one that is
  exactly \<open>d\<close> as the body and goes on with the lines after it.
\<close>

definition read_heredoc :: "string \<Rightarrow> string list \<Rightarrow> string list \<times> string list" where
  "read_heredoc d ls = (takeWhile (\<lambda>l. l \<noteq> d) ls, drop 1 (dropWhile (\<lambda>l. l \<noteq> d) ls))"

lemma read_heredoc_fresh:
  "d \<notin> set body \<Longrightarrow> read_heredoc d (body @ d # rest) = (body, rest)"
  by (induction body) (auto simp: read_heredoc_def)

lemma split_lines_join:
  "xs \<noteq> [] \<Longrightarrow> split_at sep (join [sep] xs) = concat (map (split_at sep) xs)"
proof (induction xs rule: induct_list012)
  case (3 x y zs)
  then show ?case by (simp add: split_at_append_sep)
qed auto

definition trailer_lines :: "string \<Rightarrow> bool \<Rightarrow> string list" where
  "trailer_lines commands save = concat (map split_lines (trailer_section commands save))"

lemma split_lines_literal: "newline \<notin> set s \<Longrightarrow> concat (map split_lines [s]) = [s]"
  by (simp add: split_at_fresh)

lemma script_header_lines: "concat (map split_lines script_header) = script_header"
  by (simp add: script_header_def)

lemma script_lines:
  assumes "heredocDelimiter rnd config = Inr d" "config \<noteq> []"
  shows "split_lines (applyScriptTmpl
           \<lparr>sdConfig = config, sdCommands = commands, sdSave = save, sdDelimiter = d\<rparr>) =
         script_header @ heredoc_open d # split_lines config @ d # trailer_lines commands save"
proof -
  have nl: "newline \<notin> set d" using assms(1) by (rule delimiter_no_newline)
  then have "split_lines (heredoc_open d) = [heredoc_open d]" "split_lines d = [d]"
    by (simp_all add: split_at_fresh heredoc_open_def)
  then show ?thesis
    using assms(2)
    by (simp add: applyScriptTmpl_def split_lines_join script_header_lines config_section_def
        trailer_lines_def)
qed

section \<open>Properties\<close>

text \<open>
  C27. Confinement of the configuration: in a script rendered for a non-empty configuration,
  the shell, reading the here-document that the line after the header opens, gets exactly
  the configuration, whatever it contains, and goes on with the commands, the commit and the
  save. No line of the configuration can end the here-document or run as a command.
\<close>

theorem heredoc_returns_config:
  assumes "RenderScript rnd config commands save = Inr script" "config \<noteq> []"
  shows "\<exists>d rest. split_lines script = script_header @ heredoc_open d # rest \<and>
           newline \<notin> set d \<and>
           join [newline] (fst (read_heredoc d rest)) = config \<and>
           snd (read_heredoc d rest) = trailer_lines commands save"
proof -
  from assms(1) obtain d where d: "heredocDelimiter rnd config = Inr d"
    "script = applyScriptTmpl
       \<lparr>sdConfig = config, sdCommands = commands, sdSave = save, sdDelimiter = d\<rparr>"
    by (auto simp: RenderScript_def split: sum.splits)
  show ?thesis
    using script_lines [OF d(1) assms(2)] d(2) delimiter_no_newline [OF d(1)]
      read_heredoc_fresh [OF delimiter_not_a_line [OF d(1)]] join_split_at [of newline config]
    by (intro exI [of _ d] exI [of _ "split_lines config @ d # trailer_lines commands save"]) simp
qed

text \<open>
  No failure goes unnoticed: an output in which one of the failure messages of the guest
  occurs, in any mix of upper and lower case and with any text around it, is recognised.
\<close>

theorem failure_marker_found:
  assumes "m \<in> set applyFailureMarkers" "ToLower shown = ToLower m"
    and "\<forall>c \<in> set (before @ shown). of_char c < (128::nat)"
  shows "snd (ApplyOutputIndicatesFailure (before @ shown @ after))"
proof -
  have "ToLower (before @ shown @ after) = ToLower before @ ToLower shown @ ToLower after"
    using assms(3) by (simp add: ToLower_append_ascii)
  then have "contains (ToLower (before @ shown @ after)) (ToLower m)"
    using assms(2) by (auto simp: contains_def sublist_def)
  with assms(1) show ?thesis by (auto simp: ApplyOutputIndicatesFailure_iff)
qed

section \<open>Witnesses\<close>

definition zeroBytes :: "nat \<Rightarrow> nat \<Rightarrow> gerror + string" where
  "zeroBytes attempt sz = Inr (replicate sz (CHR 0x00))"

theorem heredoc_returns_config_witness:
  "\<exists>script. RenderScript zeroBytes ''system {}'' [] True = Inr script \<and>
     (\<exists>d rest. split_lines script = script_header @ heredoc_open d # rest \<and>
        join [newline] (fst (read_heredoc d rest)) = ''system {}'')"
proof -
  have "heredocDelimiter zeroBytes ''system {}'' =
      Inr (heredocDelimiterPrefix @ hexEncode (replicate 16 (CHR 0x00)))"
    by (rule delimiter_first_attempt) (simp_all add: zeroBytes_def)
  then obtain script where script: "RenderScript zeroBytes ''system {}'' [] True = Inr script"
    by (simp add: RenderScript_def)
  from heredoc_returns_config [OF this] show ?thesis using script by auto
qed

theorem failure_marker_found_witness:
  "snd (ApplyOutputIndicatesFailure (''[edit] '' @ ''COMMIT failed'' @ ''!''))"
proof (rule failure_marker_found [where m = "''Commit failed''"])
  show "ToLower ''COMMIT failed'' = ToLower ''Commit failed''" by code_simp
qed (simp_all add: applyFailureMarkers_def)

end
