(* ===== verification/ConfigController.thy ===== *)
theory ConfigController
  imports Provider Qga
begin

text \<open>
  The reconciler of VRouterConfig (\<open>internal/controller/vrouterconfig_controller.go\<close>), one
  definition per function of the source, in its order from the leaves up. Each handler takes
  the Kubernetes interface, the in-memory object and the world, and returns the requeue, the
  error and the next world. \<open>meta.SetStatusCondition\<close> reads the clock itself, so it gets the
  time of the world it runs in.
\<close>

definition requeueAfter :: duration where "requeueAfter = 3 * Second"
definition notReadyRequeue :: duration where "notReadyRequeue = 10 * Second"
definition execApplyTimeout :: duration where "execApplyTimeout = 5 * Minute"
definition execApplyTimeoutText :: string where "execApplyTimeoutText = ''5m0s''"

section \<open>Status writes\<close>

text \<open>\<open>r.Status().Patch\<close> as the last call of a handler.\<close>

definition finishPatch ::
  "'w kube \<Rightarrow> VRouterConfig \<Rightarrow> VRouterConfigStatus \<Rightarrow> ctrl_Result \<Rightarrow> 'w \<Rightarrow> 'w outcome" where
  "finishPatch k cfg st res w =
     (case patchConfigStatus k cfg (cfg\<lparr>cfgStatus := st\<rparr>) w of
        (Inl e, w') \<Rightarrow> (noRequeue, Some (ApiError e), w')
      | (Inr _, w') \<Rightarrow> (res, None, w'))"

definition setApplied ::
  "'w kube \<Rightarrow> ConditionStatus \<Rightarrow> string \<Rightarrow> string \<Rightarrow> 'w \<Rightarrow>
     VRouterConfigStatus \<Rightarrow> VRouterConfigStatus" where
  "setApplied k s reason msg w st =
     st\<lparr>cfgConditions := SetStatusCondition k (now k w) (cfgConditions st)
       \<lparr>condType = ConditionApplied, condStatus = s, condReason = reason, condMessage = msg,
        condObservedGeneration = ObservedGeneration st, condLastTransitionTime = 0\<rparr>\<rparr>"

definition failApplyTimeout :: "'w kube \<Rightarrow> VRouterConfig \<Rightarrow> string \<Rightarrow> 'w \<Rightarrow> 'w outcome" where
  "failApplyTimeout k cfg msg w =
     finishPatch k cfg
       (setApplied k ConditionFalse ''ApplyTimeout'' msg w
         ((cfgStatus cfg)\<lparr>ExecPID := 0, ExecStartedTime := None, cfgPhase := PhaseFailed,
           cfgMessage := msg\<rparr>))
       noRequeue w"

definition handleRouterNotReady :: "'w kube \<Rightarrow> VRouterConfig \<Rightarrow> gerror \<Rightarrow> 'w \<Rightarrow> 'w outcome" where
  "handleRouterNotReady k cfg checkReadyErr w =
     (if cfgPhase (cfgStatus cfg) = PhaseApplied then
        finishPatch k cfg
          (setApplied k ConditionFalse ''RouterNotReady''
             (''router not ready, previous apply is no longer trusted: '' @ error_text checkReadyErr) w
             ((cfgStatus cfg)\<lparr>cfgPhase := PhasePending\<rparr>))
          (requeueIn notReadyRequeue) w
      else (requeueIn notReadyRequeue, None, w))"

definition handleCheckReadyFailure :: "'w kube \<Rightarrow> VRouterConfig \<Rightarrow> gerror \<Rightarrow> 'w \<Rightarrow> 'w outcome" where
  "handleCheckReadyFailure k cfg checkReadyErr w =
     (case ExecStartedTime (cfgStatus cfg) of
        Some t0 \<Rightarrow>
          if 0 < ExecPID (cfgStatus cfg) \<and> execApplyTimeout < time_sub (now k w) t0
          then failApplyTimeout k cfg
                 (''apply timed out after '' @ execApplyTimeoutText @ '' (router unreachable: '' @
                  error_text checkReadyErr @ '')'') w
          else handleRouterNotReady k cfg checkReadyErr w
      | None \<Rightarrow> handleRouterNotReady k cfg checkReadyErr w)"

section \<open>Polling a running script\<close>

text \<open>Whether a finished script counts as a success: its exit code and its output.\<close>

definition applySucceeded :: "ExecStatus \<Rightarrow> bool" where
  "applySucceeded s \<longleftrightarrow>
     ExitCode s = 0 \<and> \<not> snd (ApplyOutputIndicatesFailure (Stdout s @ newline # Stderr s))"

definition failureMessage :: "ExecStatus \<Rightarrow> string" where
  "failureMessage s =
     (let (marker, markerFailed) = ApplyOutputIndicatesFailure (Stdout s @ newline # Stderr s) in
      if markerFailed \<and> ExitCode s = 0
      then ''apply reported failure ('' @ marker @ '') despite exitCode=0; stderr='' @ TrimSpace (Stderr s)
      else ''exitCode='' @ decimal (ExitCode s) @ '' stderr='' @ TrimSpace (Stderr s))"

definition finishExec :: "'w kube \<Rightarrow> VRouterConfig \<Rightarrow> ExecStatus \<Rightarrow> 'w \<Rightarrow> 'w outcome" where
  "finishExec k cfg s w =
     (let st = (cfgStatus cfg)\<lparr>ExecPID := 0, ExecStartedTime := None\<rparr> in
      finishPatch k cfg
        (if applySucceeded s
         then setApplied k ConditionTrue ''ConfigApplied'' ''Configuration applied successfully.'' w
                (st\<lparr>cfgPhase := PhaseApplied, LastAppliedTime := Some (now k w), cfgMessage := []\<rparr>)
         else setApplied k ConditionFalse ''ConfigFailed'' (failureMessage s) w
                (st\<lparr>cfgMessage := failureMessage s, cfgPhase := PhaseFailed\<rparr>))
        noRequeue w)"

text \<open>The exec has produced no result yet: it failed to poll, or it is still running.\<close>

definition unfinishedExec ::
  "'w kube \<Rightarrow> VRouterConfig \<Rightarrow> gerror option \<Rightarrow> 'w \<Rightarrow> 'w outcome" where
  "unfinishedExec k cfg err w =
     (let waiting =
        (case err of
           Some e \<Rightarrow> (noRequeue, Some (Wrapped ''get exec status'' e), w)
         | None \<Rightarrow> finishPatch k cfg ((cfgStatus cfg)\<lparr>cfgPhase := PhaseApplying\<rparr>)
                     (requeueIn requeueAfter) w)
      in case ExecStartedTime (cfgStatus cfg) of
           Some t0 \<Rightarrow>
             if execApplyTimeout < time_sub (now k w) t0
             then failApplyTimeout k cfg
                    (case err of
                       None \<Rightarrow> ''apply timed out after '' @ execApplyTimeoutText
                     | Some e \<Rightarrow> ''apply timed out after '' @ execApplyTimeoutText @
                         '' (last error polling exec status: '' @ error_text e @ '')'') w
             else waiting
         | None \<Rightarrow> waiting)"

definition pollExecStatus ::
  "'w kube \<Rightarrow> VRouterConfig \<Rightarrow> 'w provider \<Rightarrow> 'w \<Rightarrow> 'w outcome" where
  "pollExecStatus k cfg prov w =
     (case GetExecStatus prov (ExecPID (cfgStatus cfg)) w of
        (Inl e, w1) \<Rightarrow>
          if errors_Is e ErrExecResultLost
          then finishPatch k cfg
                 ((cfgStatus cfg)\<lparr>ExecPID := 0, ExecStartedTime := None, cfgPhase := PhasePending,
                   cfgMessage := ''previous apply result was lost; re-applying''\<rparr>)
                 (requeueIn requeueAfter) w1
          else unfinishedExec k cfg (Some e) w1
      | (Inr s, w1) \<Rightarrow>
          if \<not> Exited s then unfinishedExec k cfg None w1
          else finishExec k cfg s w1)"

section \<open>Dispatching\<close>

definition applyConfig ::
  "'w kube \<Rightarrow> VRouterConfig \<Rightarrow> 'w provider \<Rightarrow> time option \<Rightarrow> 'w \<Rightarrow> 'w outcome" where
  "applyConfig k cfg prov targetRebootTime w =
     (case ExecScript prov (cfgConfig (cfgSpec cfg)) (cfgCommands (cfgSpec cfg))
             (BoolValue (cfgSave (cfgSpec cfg)) True) w of
        (Inl e, w1) \<Rightarrow> (noRequeue, Some (Wrapped ''exec script'' e), w1)
      | (Inr pid, w1) \<Rightarrow>
          (let msg = ''applying generation '' @ decimal (cfg_generation cfg);
               st = (cfgStatus cfg)\<lparr>ExecPID := pid, ExecStartedTime := Some (now k w1),
                      ObservedGeneration := cfg_generation cfg, cfgPhase := PhaseApplying,
                      cfgMessage := msg, LastRebootHandledTime := targetRebootTime\<rparr>
           in finishPatch k cfg (setApplied k ConditionFalse ''Applying'' msg w1 st)
                (requeueIn requeueAfter) w1))"

definition shouldForceReapplyForReboot :: "time option \<Rightarrow> time option \<Rightarrow> bool" where
  "shouldForceReapplyForReboot lastRebootHandledTime targetLastRebootTime =
     (case targetLastRebootTime of
        None \<Rightarrow> False
      | Some t \<Rightarrow> (case lastRebootHandledTime of None \<Rightarrow> True | Some h \<Rightarrow> h < t))"

definition effectiveObservedGen :: "VRouterConfigStatus \<Rightarrow> time option \<Rightarrow> int" where
  "effectiveObservedGen st reboot =
     (if shouldForceReapplyForReboot (LastRebootHandledTime st) reboot then 0
      else ObservedGeneration st)"

definition dispatchOrPoll ::
  "'w kube \<Rightarrow> VRouterConfig \<Rightarrow> 'w provider \<Rightarrow> VRouterTarget \<Rightarrow> 'w \<Rightarrow> 'w outcome" where
  "dispatchOrPoll k cfg prov target w =
     (if 0 < ExecPID (cfgStatus cfg) then pollExecStatus k cfg prov w
      else if cfg_generation cfg = effectiveObservedGen (cfgStatus cfg) (LastRebootTime (tgtStatus target)) \<and>
              (cfgPhase (cfgStatus cfg) = PhaseApplied \<or> cfgPhase (cfgStatus cfg) = PhaseFailed)
      then (noRequeue, None, w)
      else applyConfig k cfg prov (LastRebootTime (tgtStatus target)) w)"

definition stampExecStartedTimeIfMissing ::
  "'w kube \<Rightarrow> VRouterConfig \<Rightarrow> 'w \<Rightarrow> (api_error + VRouterConfig) \<times> 'w" where
  "stampExecStartedTimeIfMissing k cfg w =
     (if ExecPID (cfgStatus cfg) = 0 \<or> ExecStartedTime (cfgStatus cfg) \<noteq> None then (Inr cfg, w)
      else patchConfigStatus k cfg
             (cfg\<lparr>cfgStatus := (cfgStatus cfg)\<lparr>ExecStartedTime := Some (now k w)\<rparr>\<rparr>) w)"

definition checkReadyAndDispatch ::
  "'w kube \<Rightarrow> VRouterConfig \<Rightarrow> 'w provider \<Rightarrow> VRouterTarget \<Rightarrow> 'w \<Rightarrow> 'w outcome" where
  "checkReadyAndDispatch k cfg prov target w =
     (case stampExecStartedTimeIfMissing k cfg w of
        (Inl e, w1) \<Rightarrow> (noRequeue, Some (ApiError e), w1)
      | (Inr cfg1, w1) \<Rightarrow>
          (case CheckReady prov w1 of
             (Some e, w2) \<Rightarrow> handleCheckReadyFailure k cfg1 e w2
           | (None, w2) \<Rightarrow> dispatchOrPoll k cfg1 prov target w2))"

section \<open>The handlers\<close>

definition Config_onChange :: "'w kube \<Rightarrow> 'w backends \<Rightarrow> VRouterConfig \<Rightarrow> 'w \<Rightarrow> 'w outcome" where
  "Config_onChange k bk cfg w =
     (let ref = cfgTargetRef (cfgSpec cfg) in
      case getTarget k (ResolveNamespace ref (metaNamespace (cfgMeta cfg)), refName ref) w of
        Inl e \<Rightarrow> (noRequeue, Some (Wrapped (''get target '' @ quoted (refName ref)) (ApiError e)), w)
      | Inr target \<Rightarrow>
          (case NewProvider k bk target w of
             Inl e \<Rightarrow> (noRequeue, Some (Wrapped ''build provider'' e), w)
           | Inr prov \<Rightarrow>
               (case IsVMRunning prov w of
                  (Inl e, w1) \<Rightarrow> (noRequeue, Some (Wrapped ''check VM running'' e), w1)
                | (Inr running, w1) \<Rightarrow>
                    if \<not> running then (noRequeue, None, w1)
                    else checkReadyAndDispatch k cfg prov target w1)))"

definition Config_onDelete :: "'w kube \<Rightarrow> VRouterConfig \<Rightarrow> 'w \<Rightarrow> 'w outcome" where
  "Config_onDelete k cfg w =
     (let m = cfgMeta cfg;
          cfg1 = cfg\<lparr>cfgMeta := m\<lparr>metaFinalizers := RemoveFinalizer k (metaFinalizers m) FinalizerName\<rparr>\<rparr>
      in case updateConfig k cfg1 w of (err, w') \<Rightarrow> (noRequeue, map_option ApiError err, w'))"

definition Config_Reconcile :: "'w kube \<Rightarrow> 'w backends \<Rightarrow> nname \<Rightarrow> 'w \<Rightarrow> 'w outcome" where
  "Config_Reconcile k bk req w =
     (case getConfig k req w of
        Inl e \<Rightarrow> (noRequeue, IgnoreNotFound e, w)
      | Inr cfg \<Rightarrow>
          (let m = cfgMeta cfg in
           if \<not> DeletionTimestamp_IsZero m then Config_onDelete k cfg w
           else if \<not> ContainsFinalizer k (metaFinalizers m) FinalizerName then
             (case updateConfig k
                     (cfg\<lparr>cfgMeta := m\<lparr>metaFinalizers := AddFinalizer k (metaFinalizers m) FinalizerName\<rparr>\<rparr>) w of
                (Some e, w') \<Rightarrow> (noRequeue, Some (ApiError e), w')
              | (None, w') \<Rightarrow> (requeueIn Millisecond, None, w'))
           else Config_onChange k bk cfg w))"

section \<open>Event mapping\<close>

definition vmiToVRouterConfigs :: "'w kube \<Rightarrow> string \<Rightarrow> string \<Rightarrow> 'w \<Rightarrow> nname list" where
  "vmiToVRouterConfigs k vmiNS vmiName w =
     (case listConfigs k None [] w of
        Inl _ \<Rightarrow> []
      | Inr cs \<Rightarrow>
          map cfg_key (filter (\<lambda>cfg.
            let ref = cfgTargetRef (cfgSpec cfg) in
            case getTarget k (ResolveNamespace ref (metaNamespace (cfgMeta cfg)), refName ref) w of
              Inl _ \<Rightarrow> False
            | Inr target \<Rightarrow>
                (case provKubeVirt (tgtProvider (tgtSpec target)) of
                   None \<Rightarrow> False
                 | Some kv \<Rightarrow>
                     let ns = (if kvNamespace kv = [] then metaNamespace (tgtMeta target)
                               else kvNamespace kv)
                     in kvName kv = vmiName \<and> ns = vmiNS)) cs))"

definition configsForTarget :: "'w kube \<Rightarrow> string \<Rightarrow> string \<Rightarrow> 'w \<Rightarrow> nname list" where
  "configsForTarget k tgtNS tgtName w =
     (case listConfigs k (Some tgtNS) [] w of
        Inl _ \<Rightarrow> []
      | Inr cs \<Rightarrow> map cfg_key (filter (\<lambda>cfg. refName (cfgTargetRef (cfgSpec cfg)) = tgtName) cs))"

end
