(* ===== verification/ApplyMachine.thy ===== *)
theory ApplyMachine
  imports ConfigController
begin

text \<open>
  The abstract specification of the apply state machine of one VRouterConfig: what the
  reconciler promises about phase, exec handle, start time, observed generation, handled
  reboot and the \<open>Applied\<close> condition, free of messages, patches and API errors. A step is an
  event together with the data that decides it. The theory ConfigProps shows that the
  reconciler refines it.
\<close>

section \<open>States and events\<close>

record apply_state =
  aPhase :: Phase
  aPID :: int
  aStarted :: "time option"
  aGeneration :: int
  aReboot :: "time option"
  aApplied :: "(ConditionStatus \<times> int) option"

datatype apply_event =
    Backfilled time
  | RouterLost
  | TimedOut time
  | ResultLost int
  | StillRunning
  | Finished int ExecStatus
  | Dispatched (ev_pid: int) (ev_generation: int) (ev_time: time) (ev_reboot: "time option")

definition conclusive :: "Phase \<Rightarrow> bool" where
  "conclusive p \<longleftrightarrow> p = PhaseApplied \<or> p = PhaseFailed"

text \<open>A dispatch is due unless this generation is conclusively done and no reboot is new.\<close>

definition dispatch_due :: "apply_state \<Rightarrow> int \<Rightarrow> time option \<Rightarrow> bool" where
  "dispatch_due s gen reboot \<longleftrightarrow>
     \<not> (gen = (if shouldForceReapplyForReboot (aReboot s) reboot then 0 else aGeneration s) \<and>
        conclusive (aPhase s))"

inductive apply_step :: "apply_state \<Rightarrow> apply_event \<Rightarrow> apply_state \<Rightarrow> bool" where
  backfill: "aPID s \<noteq> 0 \<Longrightarrow> aStarted s = None \<Longrightarrow>
    apply_step s (Backfilled t) (s\<lparr>aStarted := Some (trunc_sec t)\<rparr>)"
| router_lost: "aPhase s = PhaseApplied \<Longrightarrow>
    apply_step s RouterLost
      (s\<lparr>aPhase := PhasePending, aApplied := Some (ConditionFalse, aGeneration s)\<rparr>)"
| timed_out: "0 < aPID s \<Longrightarrow> aStarted s = Some t0 \<Longrightarrow> execApplyTimeout < time_sub t t0 \<Longrightarrow>
    apply_step s (TimedOut t)
      (s\<lparr>aPID := 0, aStarted := None, aPhase := PhaseFailed,
        aApplied := Some (ConditionFalse, aGeneration s)\<rparr>)"
| result_lost: "0 < aPID s \<Longrightarrow> aPID s = pid \<Longrightarrow>
    apply_step s (ResultLost pid) (s\<lparr>aPID := 0, aStarted := None, aPhase := PhasePending\<rparr>)"
| still_running: "0 < aPID s \<Longrightarrow>
    apply_step s StillRunning (s\<lparr>aPhase := PhaseApplying\<rparr>)"
| finished: "0 < aPID s \<Longrightarrow> aPID s = pid \<Longrightarrow> Exited x \<Longrightarrow>
    apply_step s (Finished pid x)
      (s\<lparr>aPID := 0, aStarted := None,
        aPhase := (if applySucceeded x then PhaseApplied else PhaseFailed),
        aApplied := Some (if applySucceeded x then ConditionTrue else ConditionFalse, aGeneration s)\<rparr>)"
| dispatched: "aPID s \<le> 0 \<Longrightarrow> dispatch_due s gen reboot \<Longrightarrow>
    apply_step s (Dispatched pid gen t reboot)
      (s\<lparr>aPID := pid, aStarted := Some (trunc_sec t), aGeneration := gen, aPhase := PhaseApplying,
        aReboot := map_option trunc_sec reboot, aApplied := Some (ConditionFalse, gen)\<rparr>)"

inductive_cases apply_step_FinishedE: "apply_step s (Finished pid x) s'"
inductive_cases apply_step_DispatchedE: "apply_step s (Dispatched pid gen t reboot) s'"
inductive_simps apply_step_simps:
  "apply_step s (Backfilled t) s'" "apply_step s RouterLost s'" "apply_step s (TimedOut t) s'"
  "apply_step s (ResultLost pid) s'" "apply_step s StillRunning s'" "apply_step s (Finished pid x) s'"
  "apply_step s (Dispatched pid gen t reboot) s'"

inductive apply_run :: "apply_state \<Rightarrow> apply_event list \<Rightarrow> apply_state \<Rightarrow> bool" where
  run_nil: "apply_run s [] s"
| run_cons: "apply_step s e s1 \<Longrightarrow> apply_run s1 es s2 \<Longrightarrow> apply_run s (e # es) s2"

inductive_simps apply_run_simps: "apply_run s [] s'" "apply_run s (e # es) s'"

lemma apply_run_append:
  "apply_run s (es @ fs) s' \<longleftrightarrow> (\<exists>s1. apply_run s es s1 \<and> apply_run s1 fs s')"
  by (induction es arbitrary: s) (auto simp: apply_run_simps)

lemma apply_run_single: "apply_run s [e] s' \<longleftrightarrow> apply_step s e s'"
  by (simp add: apply_run_simps)

text \<open>A VRouterConfig nobody has reconciled yet.\<close>

definition fresh_apply :: "apply_state \<Rightarrow> bool" where
  "fresh_apply s \<longleftrightarrow>
     aPhase s \<in> {PhaseUnset, PhasePending} \<and> aPID s = 0 \<and> aStarted s = None \<and> aApplied s = None"

section \<open>The status invariant\<close>

text \<open>
  While a script runs the phase is Applying and the condition False; the condition is True
  exactly in phase Applied, for the generation that was dispatched; and the start time is
  cleared with the handle. The last part needs handles that are not 0, as a PID is.
\<close>

definition apply_inv :: "apply_state \<Rightarrow> bool" where
  "apply_inv s \<longleftrightarrow>
     (0 < aPID s \<longrightarrow> aPhase s = PhaseApplying) \<and>
     (aPhase s = PhaseApplying \<longrightarrow> aApplied s = Some (ConditionFalse, aGeneration s)) \<and>
     (aPhase s = PhaseApplied \<longleftrightarrow> (\<exists>g. aApplied s = Some (ConditionTrue, g))) \<and>
     (\<forall>g. aApplied s = Some (ConditionTrue, g) \<longrightarrow> g = aGeneration s) \<and>
     0 \<le> aPID s \<and> (aPID s = 0 \<longrightarrow> aStarted s = None)"

definition real_handle :: "apply_event \<Rightarrow> bool" where
  "real_handle e \<longleftrightarrow> (case e of Dispatched pid _ _ _ \<Rightarrow> 0 < pid | _ \<Rightarrow> True)"

lemma fresh_apply_inv: "fresh_apply s \<Longrightarrow> apply_inv s"
  by (auto simp: fresh_apply_def apply_inv_def)

lemma apply_step_inv: "apply_step s e s' \<Longrightarrow> apply_inv s \<Longrightarrow> real_handle e \<Longrightarrow> apply_inv s'"
  by (induction rule: apply_step.induct) (auto simp: apply_inv_def real_handle_def)

lemma apply_run_inv:
  "apply_run s es s' \<Longrightarrow> apply_inv s \<Longrightarrow> \<forall>e \<in> set es. real_handle e \<Longrightarrow> apply_inv s'"
  by (induction rule: apply_run.induct) (auto dest: apply_step_inv)

section \<open>What a True condition means\<close>

text \<open>
  \<open>last_dispatch es\<close> is what followed the most recent dispatch of a run. If the run ends
  with a True condition, that dispatch was for the generation the condition names, and the
  script it started is the one that finished successfully.
\<close>

fun is_dispatch :: "apply_event \<Rightarrow> bool" where
  "is_dispatch (Dispatched _ _ _ _) = True"
| "is_dispatch _ = False"

definition success_recorded :: "apply_event list \<Rightarrow> int \<Rightarrow> bool" where
  "success_recorded es g \<longleftrightarrow>
     (\<exists>pre pid t rb mid x post. es = pre @ Dispatched pid g t rb # mid @ Finished pid x # post \<and>
        applySucceeded x \<and> (\<forall>e \<in> set (mid @ post). \<not> is_dispatch e))"

definition dispatch_recorded :: "apply_event list \<Rightarrow> int \<Rightarrow> int \<Rightarrow> bool" where
  "dispatch_recorded es pid g \<longleftrightarrow>
     (\<exists>pre t rb mid. es = pre @ Dispatched pid g t rb # mid \<and> (\<forall>e \<in> set mid. \<not> is_dispatch e))"

lemma success_recordedI:
  "es = pre @ Dispatched pid g t rb # mid @ Finished pid x # post \<Longrightarrow> applySucceeded x \<Longrightarrow>
     \<forall>e \<in> set (mid @ post). \<not> is_dispatch e \<Longrightarrow> success_recorded es g"
  unfolding success_recorded_def by blast

lemma dispatch_recordedI:
  "es = pre @ Dispatched pid g t rb # mid \<Longrightarrow> \<forall>e \<in> set mid. \<not> is_dispatch e \<Longrightarrow>
     dispatch_recorded es pid g"
  unfolding dispatch_recorded_def by blast

lemma success_recorded_snoc:
  assumes "success_recorded es g" "\<not> is_dispatch e"
  shows "success_recorded (es @ [e]) g"
proof -
  from assms(1) obtain pre pid t rb mid x post where
    "es = pre @ Dispatched pid g t rb # mid @ Finished pid x # post" "applySucceeded x"
    "\<forall>e \<in> set (mid @ post). \<not> is_dispatch e"
    unfolding success_recorded_def by blast
  with assms(2) show ?thesis
    by (intro success_recordedI [of _ pre pid g t rb mid x "post @ [e]"]) auto
qed

lemma dispatch_recorded_snoc:
  assumes "dispatch_recorded es pid g" "\<not> is_dispatch e"
  shows "dispatch_recorded (es @ [e]) pid g"
proof -
  from assms(1) obtain pre t rb mid where
    "es = pre @ Dispatched pid g t rb # mid" "\<forall>e \<in> set mid. \<not> is_dispatch e"
    unfolding dispatch_recorded_def by blast
  with assms(2) show ?thesis
    by (intro dispatch_recordedI [of _ pre pid g t rb "mid @ [e]"]) auto
qed

lemma dispatch_recorded_new: "dispatch_recorded (es @ [Dispatched pid g t rb]) pid g"
  by (rule dispatch_recordedI [of _ es pid g t rb "[]"]) auto

lemma success_after_dispatch:
  assumes "dispatch_recorded es pid g" "applySucceeded x"
  shows "success_recorded (es @ [Finished pid x]) g"
proof -
  from assms(1) obtain pre t rb mid where
    "es = pre @ Dispatched pid g t rb # mid" "\<forall>e \<in> set mid. \<not> is_dispatch e"
    unfolding dispatch_recorded_def by blast
  with assms(2) show ?thesis
    by (intro success_recordedI [of _ pre pid g t rb mid x "[]"]) auto
qed

text \<open>The history invariant, over runs extended at the end.\<close>

definition history_inv :: "apply_event list \<Rightarrow> apply_state \<Rightarrow> bool" where
  "history_inv es s \<longleftrightarrow>
     (0 < aPID s \<longrightarrow> dispatch_recorded es (aPID s) (aGeneration s)) \<and>
     (\<forall>g. aApplied s = Some (ConditionTrue, g) \<longrightarrow> success_recorded es g)"

lemma apply_step_history:
  assumes "apply_step s e s'" "apply_inv s" "history_inv es s"
  shows "history_inv (es @ [e]) s'"
  using assms
  by (induction rule: apply_step.induct)
    (auto simp: history_inv_def apply_inv_def
      intro: dispatch_recorded_snoc success_recorded_snoc dispatch_recorded_new success_after_dispatch
      split: if_splits)

lemma apply_run_history:
  assumes "apply_run s fs s'" "apply_inv s" "history_inv es s" "\<forall>e \<in> set fs. real_handle e"
  shows "history_inv (es @ fs) s'"
  using assms
proof (induction arbitrary: es rule: apply_run.induct)
  case (run_nil s)
  then show ?case by simp
next
  case (run_cons s e s1 fs s2)
  then have "apply_inv s1" "history_inv (es @ [e]) s1"
    using apply_step_inv apply_step_history by auto
  with run_cons show ?case by fastforce
qed

lemma fresh_run_history:
  assumes "fresh_apply s" "apply_run s es s'" "\<forall>e \<in> set es. real_handle e"
    and "aApplied s' = Some (ConditionTrue, g)"
  shows "success_recorded es g"
proof -
  have "history_inv [] s" using assms(1) by (simp add: fresh_apply_def history_inv_def)
  with assms(1-3) have "history_inv es s'"
    using apply_run_history [of s es s' "[]"] fresh_apply_inv by simp
  with assms(4) show ?thesis by (simp add: history_inv_def)
qed

section \<open>One reboot, one re-apply\<close>

text \<open>
  As long as neither the generation nor the reboot time of the target changes, and no result
  is lost and the router stays reachable, a run holds at most one dispatch: neither a failed
  apply nor the reboot itself makes the controller dispatch again.
\<close>

definition steady :: "int \<Rightarrow> time option \<Rightarrow> apply_event \<Rightarrow> bool" where
  "steady gen reboot e \<longleftrightarrow>
     (case e of
        Dispatched pid g t rb \<Rightarrow> 0 < pid \<and> g = gen \<and> rb = reboot
      | ResultLost _ \<Rightarrow> False
      | RouterLost \<Rightarrow> False
      | _ \<Rightarrow> True)"

definition settled :: "int \<Rightarrow> time option \<Rightarrow> apply_state \<Rightarrow> bool" where
  "settled gen reboot s \<longleftrightarrow>
     aGeneration s = gen \<and> aReboot s = reboot \<and> (0 < aPID s \<or> conclusive (aPhase s))"

lemma not_forced_again: "\<not> shouldForceReapplyForReboot r r"
  by (simp add: shouldForceReapplyForReboot_def split: option.splits)

lemma settled_not_due: "settled gen reboot s \<Longrightarrow> aPID s \<le> 0 \<Longrightarrow> \<not> dispatch_due s gen reboot"
  by (auto simp: settled_def dispatch_due_def not_forced_again)

lemma settled_step:
  assumes "apply_step s e s'" "settled gen reboot s" "steady gen reboot e"
  shows "settled gen reboot s' \<and> \<not> is_dispatch e"
  using assms settled_not_due [of gen reboot s]
  by (induction rule: apply_step.induct)
    (auto simp: settled_def steady_def conclusive_def split: if_splits)

lemma settled_run:
  assumes "apply_run s es s'" "settled gen reboot s" "\<forall>e \<in> set es. steady gen reboot e"
  shows "\<forall>e \<in> set es. \<not> is_dispatch e"
  using assms by (induction rule: apply_run.induct) (auto dest: settled_step)

lemma dispatch_settles:
  assumes "apply_step s e s'" "steady gen reboot e" "is_dispatch e"
    and "map_option trunc_sec reboot = reboot"
  shows "settled gen reboot s'"
  using assms by (cases rule: apply_step.cases) (auto simp: settled_def steady_def)

lemma steady_run_one_dispatch:
  assumes "apply_run s es s'" "\<forall>e \<in> set es. steady gen reboot e"
    and "map_option trunc_sec reboot = reboot"
  shows "length (filter is_dispatch es) \<le> 1"
  using assms
proof (induction rule: apply_run.induct)
  case (run_nil s)
  then show ?case by simp
next
  case (run_cons s e s1 es s2)
  show ?case
  proof (cases "is_dispatch e")
    case True
    with run_cons have "settled gen reboot s1" by (auto dest: dispatch_settles)
    with run_cons have "filter is_dispatch es = []"
      using settled_run by (auto simp: filter_empty_conv)
    then show ?thesis by simp
  next
    case False
    with run_cons show ?thesis by simp
  qed
qed

end
