(* ===== verification/ConfigProps.thy ===== *)
theory ConfigProps
  imports ApplyMachine
begin

text \<open>
  Correctness of the VRouterConfig reconciler. The locale \<open>config_runtime\<close> collects what it
  relies on; inside it every handler is shown to leave the stored objects alone or to make
  one step of the abstract machine of ApplyMachine on the object it reconciles, with the
  provider's answer as evidence for the step. The properties of the component follow.
\<close>

section \<open>Abstraction\<close>

definition appliedCondition :: "VRouterConfigStatus \<Rightarrow> Condition option" where
  "appliedCondition st = List.find (\<lambda>c. condType c = ConditionApplied) (cfgConditions st)"

definition abs_status :: "VRouterConfigStatus \<Rightarrow> apply_state" where
  "abs_status st =
     \<lparr>aPhase = cfgPhase st, aPID = ExecPID st, aStarted = ExecStartedTime st,
      aGeneration = ObservedGeneration st, aReboot = LastRebootHandledTime st,
      aApplied = map_option (\<lambda>c. (condStatus c, condObservedGeneration c)) (appliedCondition st)\<rparr>"

lemma abs_status_simps [simp]:
  "aPhase (abs_status st) = cfgPhase st" "aPID (abs_status st) = ExecPID st"
  "aStarted (abs_status st) = ExecStartedTime st"
  "aGeneration (abs_status st) = ObservedGeneration st"
  "aReboot (abs_status st) = LastRebootHandledTime st"
  by (simp_all add: abs_status_def)

lemma abs_status_updates [simp]:
  "abs_status (st\<lparr>cfgPhase := p\<rparr>) = (abs_status st)\<lparr>aPhase := p\<rparr>"
  "abs_status (st\<lparr>ExecPID := pid\<rparr>) = (abs_status st)\<lparr>aPID := pid\<rparr>"
  "abs_status (st\<lparr>ExecStartedTime := t\<rparr>) = (abs_status st)\<lparr>aStarted := t\<rparr>"
  "abs_status (st\<lparr>LastAppliedTime := t\<rparr>) = abs_status st"
  "abs_status (st\<lparr>LastRebootHandledTime := t\<rparr>) = (abs_status st)\<lparr>aReboot := t\<rparr>"
  "abs_status (st\<lparr>cfgMessage := m\<rparr>) = abs_status st"
  "abs_status (st\<lparr>ObservedGeneration := g\<rparr>) = (abs_status st)\<lparr>aGeneration := g\<rparr>"
  by (simp_all add: abs_status_def appliedCondition_def)

lemma abs_status_stored:
  "abs_status (storedConfigStatus st) =
     (abs_status st)\<lparr>aStarted := map_option trunc_sec (ExecStartedTime st),
                     aReboot := map_option trunc_sec (LastRebootHandledTime st)\<rparr>"
  by (simp add: abs_status_def appliedCondition_def map_option_case split: option.splits)

lemma stored_formD:
  assumes "storedConfigStatus st = st"
  shows "map_option trunc_sec (ExecStartedTime st) = ExecStartedTime st"
    and "map_option trunc_sec (LastRebootHandledTime st) = LastRebootHandledTime st"
  using assms by (metis storedConfigStatus_simps(3), metis storedConfigStatus_simps(5))

section \<open>Evidence\<close>

text \<open>What the provider answered when a step was taken.\<close>

definition evidence :: "'w provider \<Rightarrow> VRouterConfig \<Rightarrow> apply_event \<Rightarrow> bool" where
  "evidence prov cfg ev \<longleftrightarrow>
     (case ev of
        Finished pid x \<Rightarrow> (\<exists>w1 w2. GetExecStatus prov pid w1 = (Inr x, w2))
      | ResultLost pid \<Rightarrow> (\<exists>e w1 w2. GetExecStatus prov pid w1 = (Inl e, w2) \<and>
                               errors_Is e ErrExecResultLost)
      | Dispatched pid g t rb \<Rightarrow>
          g = cfg_generation cfg \<and>
          (\<exists>w1 w2. ExecScript prov (cfgConfig (cfgSpec cfg)) (cfgCommands (cfgSpec cfg))
                     (BoolValue (cfgSave (cfgSpec cfg)) True) w1 = (Inr pid, w2))
      | RouterLost \<Rightarrow> (\<exists>e w1 w2. CheckReady prov w1 = (Some e, w2))
      | _ \<Rightarrow> True)"

definition one_step ::
  "('w \<Rightarrow> nname \<Rightarrow> VRouterConfig option) \<Rightarrow> 'w provider \<Rightarrow> VRouterConfig \<Rightarrow> 'w \<Rightarrow> 'w \<Rightarrow> bool" where
  "one_step cfgs prov cfg w w' \<longleftrightarrow>
     (\<exists>c' ev. cfgs w' = (cfgs w)(cfg_key cfg \<mapsto> c') \<and> cfgMeta c' = cfgMeta cfg \<and>
        cfgSpec c' = cfgSpec cfg \<and> storedConfigStatus (cfgStatus c') = cfgStatus c' \<and>
        apply_step (abs_status (cfgStatus cfg)) ev (abs_status (cfgStatus c')) \<and>
        evidence prov cfg ev)"

definition step_or_same ::
  "('w \<Rightarrow> nname \<Rightarrow> VRouterConfig option) \<Rightarrow> 'w provider \<Rightarrow> VRouterConfig \<Rightarrow> 'w \<Rightarrow> 'w \<Rightarrow> bool" where
  "step_or_same cfgs prov cfg w w' \<longleftrightarrow> cfgs w' = cfgs w \<or> one_step cfgs prov cfg w w'"

lemma step_or_same_refl [simp]: "step_or_same cfgs prov cfg w w"
  by (simp add: step_or_same_def)

text \<open>
  The run of the abstract machine that a reconcile made on one object, with what the
  provider answered.
\<close>

definition progress ::
  "'w provider \<Rightarrow> nat \<Rightarrow> VRouterConfig \<Rightarrow> VRouterConfig \<Rightarrow> bool" where
  "progress prov n c c' \<longleftrightarrow>
     cfgMeta c' = cfgMeta c \<and> cfgSpec c' = cfgSpec c \<and>
     (\<exists>es. length es \<le> n \<and> apply_run (abs_status (cfgStatus c)) es (abs_status (cfgStatus c')) \<and>
           (\<forall>e \<in> set es. evidence prov c e))"

lemma step_or_same_progress:
  assumes "step_or_same cfgs prov cfg w w'" "cfgs w (cfg_key cfg) = Some cfg"
  shows "\<forall>n. n \<noteq> cfg_key cfg \<longrightarrow> cfgs w' n = cfgs w n"
    and "\<exists>c'. cfgs w' (cfg_key cfg) = Some c' \<and> progress prov 1 cfg c'"
proof -
  show "\<forall>n. n \<noteq> cfg_key cfg \<longrightarrow> cfgs w' n = cfgs w n"
    using assms(1) by (auto simp: step_or_same_def one_step_def)
  have refl: "progress prov 1 cfg cfg"
    unfolding progress_def by (intro conjI exI [of _ "[]"]) (auto intro: apply_run.intros)
  from assms(1) consider "cfgs w' = cfgs w" | "one_step cfgs prov cfg w w'"
    by (auto simp: step_or_same_def)
  then show "\<exists>c'. cfgs w' (cfg_key cfg) = Some c' \<and> progress prov 1 cfg c'"
  proof cases
    case 1
    with assms(2) refl show ?thesis by auto
  next
    case 2
    then obtain c' ev where c': "cfgs w' = (cfgs w)(cfg_key cfg \<mapsto> c')" "cfgMeta c' = cfgMeta cfg"
      "cfgSpec c' = cfgSpec cfg" "evidence prov cfg ev"
      "apply_step (abs_status (cfgStatus cfg)) ev (abs_status (cfgStatus c'))"
      by (auto simp: one_step_def)
    then have "progress prov 1 cfg c'"
      unfolding progress_def by (intro conjI exI [of _ "[ev]"]) (auto simp: apply_run_single)
    with c'(1) show ?thesis by auto
  qed
qed

lemma progress_mono: "progress prov m a b \<Longrightarrow> m \<le> n \<Longrightarrow> progress prov n a b"
  unfolding progress_def by (meson order_trans)

lemma progress_trans:
  assumes "progress prov m a b" "progress prov n b c"
  shows "progress prov (m + n) a c"
proof -
  from assms(1) have ev: "evidence prov b e = evidence prov a e" for e
    by (auto simp: progress_def evidence_def split: apply_event.splits)
  from assms(1) obtain es where es: "length es \<le> m" "\<forall>e \<in> set es. evidence prov a e"
    "apply_run (abs_status (cfgStatus a)) es (abs_status (cfgStatus b))"
    by (auto simp: progress_def)
  from assms(2) obtain fs where fs: "length fs \<le> n" "\<forall>e \<in> set fs. evidence prov b e"
    "apply_run (abs_status (cfgStatus b)) fs (abs_status (cfgStatus c))"
    by (auto simp: progress_def)
  from es fs have "apply_run (abs_status (cfgStatus a)) (es @ fs) (abs_status (cfgStatus c))"
    by (auto simp: apply_run_append)
  with assms es fs ev show ?thesis
    unfolding progress_def by (intro conjI exI [of _ "es @ fs"]) auto
qed

locale config_runtime = conditions_api k + config_api k cfgs
  for k :: "'w kube" and cfgs :: "'w \<Rightarrow> nname \<Rightarrow> VRouterConfig option" +
  fixes bk :: "'w backends"
  assumes backends: "backends_frame cfgs bk"
begin

lemma abs_setApplied:
  "abs_status (setApplied k s reason msg w st) =
     (abs_status st)\<lparr>aApplied := Some (s, ObservedGeneration st)\<rparr>"
  using find_set_same [of "\<lparr>condType = ConditionApplied, condStatus = s, condReason = reason,
    condMessage = msg, condObservedGeneration = ObservedGeneration st, condLastTransitionTime = 0\<rparr>"
    "now k w" "cfgConditions st"]
  by (auto simp: abs_status_def appliedCondition_def setApplied_def split: option.splits)

lemma setApplied_fields [simp]:
  "cfgPhase (setApplied k s reason msg w st) = cfgPhase st"
  "ExecPID (setApplied k s reason msg w st) = ExecPID st"
  "ExecStartedTime (setApplied k s reason msg w st) = ExecStartedTime st"
  "LastRebootHandledTime (setApplied k s reason msg w st) = LastRebootHandledTime st"
  "ObservedGeneration (setApplied k s reason msg w st) = ObservedGeneration st"
  "cfgMessage (setApplied k s reason msg w st) = cfgMessage st"
  by (simp_all add: setApplied_def)

text \<open>A final patch leaves the store alone or makes the step its status describes.\<close>

lemma finishPatch_step:
  assumes "cfgs w (cfg_key cfg) = Some cfg" "finishPatch k cfg st res w = (r, e, w')"
    and "apply_step (abs_status (cfgStatus cfg)) ev (abs_status (storedConfigStatus st))"
    and "evidence prov cfg ev"
  shows "step_or_same cfgs prov cfg w w'"
proof -
  obtain pr where "patchConfigStatus k cfg (cfg\<lparr>cfgStatus := st\<rparr>) w = (pr, w')"
    using assms(2) by (auto simp: finishPatch_def split: prod.splits sum.splits)
  then have "cfgs w' = cfgs w \<or>
      cfgs w' = (cfgs w)(cfg_key cfg \<mapsto> patched cfg (cfg\<lparr>cfgStatus := st\<rparr>))"
    by (rule patch_cases [OF assms(1)])
  with assms(3,4) show ?thesis
    unfolding step_or_same_def one_step_def by fastforce
qed

lemma finishPatch_result:
  assumes "cfgs w (cfg_key cfg) = Some cfg" "finishPatch k cfg st res w = (r, None, w')"
  shows "cfgs w' = (cfgs w)(cfg_key cfg \<mapsto> patched cfg (cfg\<lparr>cfgStatus := st\<rparr>))" "r = res"
  using assms patch_ok [OF assms(1)]
  by (auto simp: finishPatch_def split: prod.splits sum.splits)

text \<open>The steps of the single handlers.\<close>

lemma stored_cfg:
  assumes "cfgs w n = Some cfg"
  shows "map_option trunc_sec (ExecStartedTime (cfgStatus cfg)) = ExecStartedTime (cfgStatus cfg)"
    and "map_option trunc_sec (LastRebootHandledTime (cfgStatus cfg)) =
         LastRebootHandledTime (cfgStatus cfg)"
  using stored_form [OF assms] by (auto dest: stored_formD)

lemmas abs_unfold = abs_status_stored abs_setApplied

lemma failApplyTimeout_step:
  assumes "cfgs w (cfg_key cfg) = Some cfg" "failApplyTimeout k cfg msg w = (r, e, w')"
    and "0 < ExecPID (cfgStatus cfg)" "ExecStartedTime (cfgStatus cfg) = Some t0"
    and "execApplyTimeout < time_sub t t0"
  shows "step_or_same cfgs prov cfg w w'"
proof (rule finishPatch_step [OF assms(1) assms(2) [unfolded failApplyTimeout_def],
      where ev = "TimedOut t"])
  show "evidence prov cfg (TimedOut t)" by (simp add: evidence_def)
qed (use assms stored_cfg [OF assms(1)] in
    \<open>auto simp: abs_unfold apply_step_simps intro: apply_state.equality\<close>)

lemma handleRouterNotReady_step:
  assumes "cfgs w (cfg_key cfg) = Some cfg" "handleRouterNotReady k cfg err w = (r, e, w')"
    and "CheckReady prov w1 = (Some err, w2)"
  shows "step_or_same cfgs prov cfg w w'"
proof (cases "cfgPhase (cfgStatus cfg) = PhaseApplied")
  case True
  with assms(2) have eq: "finishPatch k cfg
    (setApplied k ConditionFalse ''RouterNotReady''
      (''router not ready, previous apply is no longer trusted: '' @ error_text err) w
      ((cfgStatus cfg)\<lparr>cfgPhase := PhasePending\<rparr>))
    (requeueIn notReadyRequeue) w = (r, e, w')"
    by (simp add: handleRouterNotReady_def)
  show ?thesis
  proof (rule finishPatch_step [OF assms(1) eq, where ev = RouterLost])
    show "evidence prov cfg RouterLost" using assms(3) by (auto simp: evidence_def)
  qed (use True stored_cfg [OF assms(1)] in
      \<open>auto simp: abs_unfold apply_step_simps intro: apply_state.equality\<close>)
next
  case False
  with assms(2) show ?thesis by (simp add: handleRouterNotReady_def step_or_same_def)
qed

lemma handleCheckReadyFailure_step:
  assumes "cfgs w (cfg_key cfg) = Some cfg" "handleCheckReadyFailure k cfg err w = (r, e, w')"
    and "CheckReady prov w1 = (Some err, w2)"
  shows "step_or_same cfgs prov cfg w w'"
  using assms(2) unfolding handleCheckReadyFailure_def
  by (auto split: option.splits if_splits
      intro: failApplyTimeout_step [OF assms(1)] handleRouterNotReady_step [OF assms(1) _ assms(3)])

lemma finishExec_step:
  assumes "cfgs w (cfg_key cfg) = Some cfg" "finishExec k cfg x w = (r, e, w')"
    and "0 < ExecPID (cfgStatus cfg)" "Exited x"
    and "GetExecStatus prov (ExecPID (cfgStatus cfg)) w1 = (Inr x, w2)"
  shows "step_or_same cfgs prov cfg w w'"
proof (rule finishPatch_step [OF assms(1) assms(2) [unfolded finishExec_def Let_def],
      where ev = "Finished (ExecPID (cfgStatus cfg)) x"])
  show "evidence prov cfg (Finished (ExecPID (cfgStatus cfg)) x)" using assms(5) by (auto simp: evidence_def)
qed (use assms stored_cfg [OF assms(1)] in
    \<open>auto simp: abs_unfold apply_step_simps intro: apply_state.equality\<close>)

lemma unfinishedExec_step:
  assumes "cfgs w (cfg_key cfg) = Some cfg" "unfinishedExec k cfg err w = (r, e, w')"
    and "0 < ExecPID (cfgStatus cfg)"
  shows "step_or_same cfgs prov cfg w w'"
proof -
  let ?st = "(cfgStatus cfg)\<lparr>cfgPhase := PhaseApplying\<rparr>"
  have running: "step_or_same cfgs prov cfg w w'"
    if "finishPatch k cfg ?st (requeueIn requeueAfter) w = (r, e, w')"
  proof (rule finishPatch_step [OF assms(1) that, where ev = StillRunning])
    show "evidence prov cfg StillRunning" by (simp add: evidence_def)
  qed (use assms stored_cfg [OF assms(1)] in
      \<open>auto simp: abs_unfold apply_step_simps intro: apply_state.equality\<close>)
  show ?thesis
    using assms(2) running unfolding unfinishedExec_def Let_def
    by (auto split: option.splits if_splits simp: step_or_same_def [of _ _ _ w w]
        intro: failApplyTimeout_step [OF assms(1) _ assms(3)])
qed

lemma pollExecStatus_step:
  assumes "cfgs w (cfg_key cfg) = Some cfg" "pollExecStatus k cfg prov w = (r, e, w')"
    and "0 < ExecPID (cfgStatus cfg)" "provider_frames cfgs prov"
  shows "step_or_same cfgs prov cfg w w'"
proof -
  let ?lost = "(cfgStatus cfg)\<lparr>ExecPID := 0, ExecStartedTime := None, cfgPhase := PhasePending,
    cfgMessage := ''previous apply result was lost; re-applying''\<rparr>"
  obtain pr w1 where pr: "GetExecStatus prov (ExecPID (cfgStatus cfg)) w = (pr, w1)"
    by fastforce
  with assms(4) have w1: "cfgs w1 = cfgs w" by (rule provider_framesD)
  with assms(1) have c1: "cfgs w1 (cfg_key cfg) = Some cfg" by simp
  have "step_or_same cfgs prov cfg w1 w'"
  proof (cases pr)
    case (Inl err)
    show ?thesis
    proof (cases "errors_Is err ErrExecResultLost")
      case True
      with assms(2) pr Inl have eq: "finishPatch k cfg ?lost (requeueIn requeueAfter) w1 = (r, e, w')"
        by (simp add: pollExecStatus_def)
      show ?thesis
      proof (rule finishPatch_step [OF c1 eq, where ev = "ResultLost (ExecPID (cfgStatus cfg))"])
        show "evidence prov cfg (ResultLost (ExecPID (cfgStatus cfg)))" using True pr Inl by (auto simp: evidence_def)
      qed (use assms stored_cfg [OF assms(1)] in
          \<open>auto simp: abs_unfold apply_step_simps intro: apply_state.equality\<close>)
    next
      case False
      with assms(2) pr Inl show ?thesis
        by (simp add: pollExecStatus_def unfinishedExec_step [OF c1 _ assms(3)])
    qed
  next
    case (Inr x)
    with assms(2,3) pr show ?thesis
      by (auto simp: pollExecStatus_def split: if_splits
          intro: unfinishedExec_step [OF c1 _ assms(3)] finishExec_step [OF c1 _ assms(3)])
  qed
  with w1 show ?thesis by (simp add: step_or_same_def one_step_def)
qed

lemma applyConfig_step:
  assumes "cfgs w (cfg_key cfg) = Some cfg" "applyConfig k cfg prov reboot w = (r, e, w')"
    and "ExecPID (cfgStatus cfg) \<le> 0" "provider_frames cfgs prov"
    and "dispatch_due (abs_status (cfgStatus cfg)) (cfg_generation cfg) reboot"
  shows "step_or_same cfgs prov cfg w w'"
proof -
  obtain pr w1 where pr: "ExecScript prov (cfgConfig (cfgSpec cfg)) (cfgCommands (cfgSpec cfg))
      (BoolValue (cfgSave (cfgSpec cfg)) True) w = (pr, w1)"
    by fastforce
  with assms(4) have w1: "cfgs w1 = cfgs w" by (rule provider_framesD)
  with assms(1) have c1: "cfgs w1 (cfg_key cfg) = Some cfg" by simp
  have "step_or_same cfgs prov cfg w1 w'"
  proof (cases pr)
    case (Inl err)
    with assms(2) pr show ?thesis by (simp add: applyConfig_def step_or_same_def)
  next
    case (Inr pid)
    show ?thesis
    proof (rule finishPatch_step [OF c1,
          where ev = "Dispatched pid (cfg_generation cfg) (now k w1) reboot"])
      show "evidence prov cfg (Dispatched pid (cfg_generation cfg) (now k w1) reboot)"
        using pr Inr by (auto simp: evidence_def)
    next
      show "finishPatch k cfg
          (setApplied k ConditionFalse ''Applying''
            (''applying generation '' @ decimal (cfg_generation cfg)) w1
            ((cfgStatus cfg)\<lparr>ExecPID := pid, ExecStartedTime := Some (now k w1),
              ObservedGeneration := cfg_generation cfg, cfgPhase := PhaseApplying,
              cfgMessage := ''applying generation '' @ decimal (cfg_generation cfg),
              LastRebootHandledTime := reboot\<rparr>))
          (requeueIn requeueAfter) w1 = (r, e, w')"
        using assms(2) pr Inr by (simp add: applyConfig_def Let_def)
    qed (use assms in \<open>auto simp: abs_unfold apply_step_simps intro: apply_state.equality\<close>)
  qed
  with w1 show ?thesis by (simp add: step_or_same_def one_step_def)
qed

lemma dispatchOrPoll_step:
  assumes "cfgs w (cfg_key cfg) = Some cfg" "dispatchOrPoll k cfg prov target w = (r, e, w')"
    and "provider_frames cfgs prov"
  shows "step_or_same cfgs prov cfg w w'"
proof (cases "0 < ExecPID (cfgStatus cfg)")
  case True
  with assms show ?thesis by (auto simp: dispatchOrPoll_def intro: pollExecStatus_step)
next
  case False
  have due: "dispatch_due (abs_status (cfgStatus cfg)) (cfg_generation cfg)
      (LastRebootTime (tgtStatus target))"
    if "\<not> (cfg_generation cfg = effectiveObservedGen (cfgStatus cfg) (LastRebootTime (tgtStatus target)) \<and>
         (cfgPhase (cfgStatus cfg) = PhaseApplied \<or> cfgPhase (cfgStatus cfg) = PhaseFailed))"
    using that by (auto simp: dispatch_due_def effectiveObservedGen_def conclusive_def)
  from False assms due show ?thesis
    unfolding dispatchOrPoll_def
    by (auto split: if_splits intro: applyConfig_step)
qed

lemma stamp_step:
  assumes "cfgs w (cfg_key cfg) = Some cfg" "stampExecStartedTimeIfMissing k cfg w = (pr, w')"
  shows "step_or_same cfgs prov cfg w w'"
    and "pr = Inr cfg1 \<Longrightarrow> cfgs w' (cfg_key cfg) = Some cfg1 \<and> cfg_key cfg1 = cfg_key cfg \<and>
           ExecPID (cfgStatus cfg1) = ExecPID (cfgStatus cfg)"
proof -
  let ?new = "cfg\<lparr>cfgStatus := (cfgStatus cfg)\<lparr>ExecStartedTime := Some (now k w)\<rparr>\<rparr>"
  let ?c = "ExecPID (cfgStatus cfg) = 0 \<or> ExecStartedTime (cfgStatus cfg) \<noteq> None"
  have step: "one_step cfgs prov cfg w w'" if "\<not> ?c" "cfgs w' = (cfgs w)(cfg_key cfg \<mapsto> patched cfg ?new)"
  proof -
    have "apply_step (abs_status (cfgStatus cfg)) (Backfilled (now k w))
      (abs_status (cfgStatus (patched cfg ?new)))"
      using that(1) stored_cfg [OF assms(1)]
      by (auto simp: abs_unfold apply_step_simps intro: apply_state.equality)
    with that(2) show ?thesis
      unfolding one_step_def
      by (intro exI [of _ "patched cfg ?new"] exI [of _ "Backfilled (now k w)"] conjI)
        (simp_all add: evidence_def)
  qed
  show "step_or_same cfgs prov cfg w w'"
  proof (cases ?c)
    case True
    with assms(2) show ?thesis by (simp add: stampExecStartedTimeIfMissing_def)
  next
    case False
    with assms(2) have "patchConfigStatus k cfg ?new w = (pr, w')"
      by (simp add: stampExecStartedTimeIfMissing_def)
    from patch_cases [OF assms(1) this] step [OF False] show ?thesis
      by (auto simp: step_or_same_def)
  qed
  show "cfgs w' (cfg_key cfg) = Some cfg1 \<and> cfg_key cfg1 = cfg_key cfg \<and>
      ExecPID (cfgStatus cfg1) = ExecPID (cfgStatus cfg)" if "pr = Inr cfg1"
    using assms(2) that assms(1) patch_ok [OF assms(1), of ?new cfg1 w']
    by (auto simp: stampExecStartedTimeIfMissing_def split: if_splits)
qed

lemma checkReadyAndDispatch_progress:
  assumes "cfgs w (cfg_key cfg) = Some cfg" "checkReadyAndDispatch k cfg prov target w = (r, e, w')"
    and "provider_frames cfgs prov"
  shows "\<forall>n. n \<noteq> cfg_key cfg \<longrightarrow> cfgs w' n = cfgs w n"
    and "\<exists>c'. cfgs w' (cfg_key cfg) = Some c' \<and> progress prov 2 cfg c'"
proof -
  obtain pr w1 where pr: "stampExecStartedTimeIfMissing k cfg w = (pr, w1)" by fastforce
  note s1 = stamp_step(1) [OF assms(1) pr, of prov]
  note first = step_or_same_progress [OF s1 assms(1)]
  have "(\<forall>n. n \<noteq> cfg_key cfg \<longrightarrow> cfgs w' n = cfgs w n) \<and>
        (\<exists>c'. cfgs w' (cfg_key cfg) = Some c' \<and> progress prov 2 cfg c')"
  proof (cases pr)
    case (Inl err)
    with assms(2) pr have "w' = w1" by (simp add: checkReadyAndDispatch_def)
    with first progress_mono show ?thesis by (metis one_le_numeral)
  next
    case (Inr cfg1)
    from stamp_step(2) [OF assms(1) pr Inr] have cfg1: "cfgs w1 (cfg_key cfg1) = Some cfg1"
      "cfg_key cfg1 = cfg_key cfg" "ExecPID (cfgStatus cfg1) = ExecPID (cfgStatus cfg)" by auto
    obtain rd w2 where rd: "CheckReady prov w1 = (rd, w2)" by fastforce
    with assms(3) have w2: "cfgs w2 = cfgs w1" by (rule provider_framesD)
    with cfg1 have c2: "cfgs w2 (cfg_key cfg1) = Some cfg1" by simp
    have "step_or_same cfgs prov cfg1 w2 w'"
      using assms(2) pr Inr rd
      by (cases rd) (auto simp: checkReadyAndDispatch_def
          intro: handleCheckReadyFailure_step [OF c2] dispatchOrPoll_step [OF c2 _ assms(3)])
    note second = step_or_same_progress [OF this c2]
    from first(2) cfg1 have "progress prov 1 cfg cfg1" by auto
    with second(2) cfg1 have "\<exists>c'. cfgs w' (cfg_key cfg) = Some c' \<and> progress prov (1 + 1) cfg c'"
      using progress_trans by metis
    with first(1) second(1) cfg1 w2 show ?thesis by (auto simp: numeral_2_eq_2)
  qed
  then show "\<forall>n. n \<noteq> cfg_key cfg \<longrightarrow> cfgs w' n = cfgs w n"
    and "\<exists>c'. cfgs w' (cfg_key cfg) = Some c' \<and> progress prov 2 cfg c'" by auto
qed

lemma onChange_progress:
  assumes "cfgs w (cfg_key cfg) = Some cfg" "Config_onChange k bk cfg w = (r, e, w')"
  shows "\<forall>n. n \<noteq> cfg_key cfg \<longrightarrow> cfgs w' n = cfgs w n"
    and "\<exists>c'. cfgs w' (cfg_key cfg) = Some c' \<and>
          (cfgStatus c' = cfgStatus cfg \<or>
           (\<exists>target prov. NewProvider k bk target w = Inr prov \<and> progress prov 2 cfg c'))"
proof -
  have "(\<forall>n. n \<noteq> cfg_key cfg \<longrightarrow> cfgs w' n = cfgs w n) \<and>
        (\<exists>c'. cfgs w' (cfg_key cfg) = Some c' \<and>
          (cfgStatus c' = cfgStatus cfg \<or>
           (\<exists>target prov. NewProvider k bk target w = Inr prov \<and> progress prov 2 cfg c')))"
  proof (cases "\<exists>target prov w1. NewProvider k bk target w = Inr prov \<and>
        IsVMRunning prov w = (Inr True, w1) \<and> checkReadyAndDispatch k cfg prov target w1 = (r, e, w')")
    case True
    then obtain target prov w1 where p: "NewProvider k bk target w = Inr prov"
      "IsVMRunning prov w = (Inr True, w1)" "checkReadyAndDispatch k cfg prov target w1 = (r, e, w')"
      by blast
    have fr: "provider_frames cfgs prov" using backends p(1) by (rule NewProvider_frames)
    have w1: "cfgs w1 = cfgs w" by (rule provider_framesD(1) [OF fr p(2)])
    with assms(1) have "cfgs w1 (cfg_key cfg) = Some cfg" by simp
    note prog = checkReadyAndDispatch_progress [OF this p(3) fr]
    with w1 p(1) show ?thesis by auto
  next
    case False
    have frame: "cfgs w1 = cfgs w" if "NewProvider k bk t w = Inr q" "IsVMRunning q w = (x, w1)" for t q x w1
      using provider_framesD(1) [OF NewProvider_frames [OF backends that(1)] that(2)] .
    from False have "cfgs w' = cfgs w"
      using assms(2) frame unfolding Config_onChange_def Let_def
      by (auto split: sum.splits prod.splits if_splits)
    with assms(1) show ?thesis by auto
  qed
  then show "\<forall>n. n \<noteq> cfg_key cfg \<longrightarrow> cfgs w' n = cfgs w n"
    and "\<exists>c'. cfgs w' (cfg_key cfg) = Some c' \<and>
          (cfgStatus c' = cfgStatus cfg \<or>
           (\<exists>target prov. NewProvider k bk target w = Inr prov \<and> progress prov 2 cfg c'))"
    by auto
qed

lemma Reconcile_cases:
  assumes "Config_Reconcile k bk n w = (r, e, w')"
  obtains (unchanged) "w' = w"
  | (updated) cfg ur where "cfg_key cfg = n" "updateConfig k cfg w = (ur, w')"
  | (changed) cfg where "cfgs w n = Some cfg" "cfg_key cfg = n" "Config_onChange k bk cfg w = (r, e, w')"
proof -
  have "w' = w \<or> (\<exists>cfg ur. cfg_key cfg = n \<and> updateConfig k cfg w = (ur, w')) \<or>
    (\<exists>cfg. cfgs w n = Some cfg \<and> cfg_key cfg = n \<and> Config_onChange k bk cfg w = (r, e, w'))"
  proof (cases "getConfig k n w")
    case (Inl err)
    with assms show ?thesis by (simp add: Config_Reconcile_def)
  next
    case (Inr cfg)
    with get_found have g: "cfgs w n = Some cfg" "cfg_key cfg = n" by blast+
    have fin: "\<exists>c u. cfg_key c = n \<and> updateConfig k c w = (u, w')"
      if "updateConfig k (cfg\<lparr>cfgMeta := (cfgMeta cfg)\<lparr>metaFinalizers := fs\<rparr>\<rparr>) w = (ur, w')" for fs ur
      using that g(2) by (intro exI [of _ "cfg\<lparr>cfgMeta := (cfgMeta cfg)\<lparr>metaFinalizers := fs\<rparr>\<rparr>"]) auto
    consider "\<not> DeletionTimestamp_IsZero (cfgMeta cfg)"
      | "DeletionTimestamp_IsZero (cfgMeta cfg)" "\<not> ContainsFinalizer k (metaFinalizers (cfgMeta cfg)) FinalizerName"
      | "DeletionTimestamp_IsZero (cfgMeta cfg)" "ContainsFinalizer k (metaFinalizers (cfgMeta cfg)) FinalizerName"
      by blast
    then show ?thesis
    proof cases
      case 1
      with assms Inr have "\<exists>fs ur. updateConfig k (cfg\<lparr>cfgMeta := (cfgMeta cfg)\<lparr>metaFinalizers := fs\<rparr>\<rparr>) w = (ur, w')"
        unfolding Config_Reconcile_def Config_onDelete_def Let_def by (auto split: prod.splits)
      with fin show ?thesis by blast
    next
      case 2
      with assms Inr have "\<exists>fs ur. updateConfig k (cfg\<lparr>cfgMeta := (cfgMeta cfg)\<lparr>metaFinalizers := fs\<rparr>\<rparr>) w = (ur, w')"
        unfolding Config_Reconcile_def Let_def by (auto split: prod.splits option.splits)
      with fin show ?thesis by blast
    next
      case 3
      with assms Inr g show ?thesis by (auto simp: Config_Reconcile_def)
    qed
  qed
  with that show thesis by blast
qed

lemma Reconcile_isolated:
  assumes "Config_Reconcile k bk n w = (r, e, w')" "m \<noteq> n"
  shows "cfgs w' m = cfgs w m"
  using assms(1)
proof (cases rule: Reconcile_cases)
  case (updated cfg ur)
  with assms(2) show ?thesis using update_frame by blast
next
  case (changed cfg)
  with assms(2) onChange_progress(1) show ?thesis by metis
qed simp

lemma Reconcile_progress:
  assumes "Config_Reconcile k bk n w = (r, e, w')" "cfgs w' n = Some c'"
  shows "\<exists>c. cfgs w n = Some c \<and>
     (cfgStatus c' = cfgStatus c \<or>
      (\<exists>target prov. NewProvider k bk target w = Inr prov \<and> progress prov 2 c c'))"
  using assms(1)
proof (cases rule: Reconcile_cases)
  case (updated cfg ur)
  with assms(2) update_status show ?thesis by blast
next
  case (changed cfg)
  with onChange_progress(2) assms(2) show ?thesis by fastforce
qed (use assms(2) in simp)

end

end
