(* ===== verification/DaemonBackend.thy ===== *)
theory DaemonBackend
  imports Provider "HOL-Library.Word"
begin

text \<open>
  The vrouter-daemon backend (\<open>internal/provider/daemon/provider.go\<close>). Its package-level
  state is the record \<open>daemon_state\<close>: the counter of fake PIDs and the registry of pending
  execs. The goroutine that \<open>ExecScript\<close> starts is the separate step \<open>runApply\<close>, which may
  happen any time after the dispatch; a restart of the operator empties the state. The gRPC
  client is the record \<open>control\<close>, an argument of the operations. The counter is a natural
  number: 64 bits are not exhausted.
\<close>

section \<open>State\<close>

type_synonym conn = int

record configPayload =
  plConfig :: string
  plCommands :: string

record ApplyConfigRequest =
  arConn :: conn
  arAgentID :: string
  arPayload :: configPayload
  arTimeoutSeconds :: int
  arDeadlineSeconds :: int

record ApplyConfigResponse =
  rsExitCode :: int
  rsStdout :: string
  rsStderr :: string
  rsErrorMessage :: string

text \<open>An entry is open until its goroutine closes \<open>done\<close>.\<close>

datatype execEntry = Pending ApplyConfigRequest | Done "gerror + ExecStatus"

record daemon_state =
  pidSeq :: nat
  execMap :: "int \<Rightarrow> execEntry option"

definition freshProcess :: daemon_state where
  "freshProcess = \<lparr>pidSeq = 0, execMap = Map.empty\<rparr>"

text \<open>The connection pool: a dialled connection is kept under its address.\<close>

definition getConn ::
  "(string \<Rightarrow> gerror + conn) \<Rightarrow> string \<Rightarrow> (string \<Rightarrow> conn option) \<Rightarrow> (gerror + conn) \<times> (string \<Rightarrow> conn option)" where
  "getConn dial addr connMap =
     (case connMap addr of
        Some c \<Rightarrow> (Inr c, connMap)
      | None \<Rightarrow> (case dial addr of Inl e \<Rightarrow> (Inl e, connMap) | Inr c \<Rightarrow> (Inr c, connMap(addr \<mapsto> c))))"

record daemonProvider =
  dpConn :: conn
  dpAgentID :: string
  dpTimeoutSeconds :: int

definition newDaemonProvider ::
  "(string \<Rightarrow> gerror + conn) \<Rightarrow> DaemonConfig \<Rightarrow> (string \<Rightarrow> conn option) \<Rightarrow>
     (gerror + daemonProvider) \<times> (string \<Rightarrow> conn option)" where
  "newDaemonProvider dial cfg connMap =
     (case getConn dial (daemonAddress cfg) connMap of
        (Inl e, m) \<Rightarrow> (Inl (Wrapped (''dial '' @ daemonAddress cfg) e), m)
      | (Inr c, m) \<Rightarrow>
          (Inr \<lparr>dpConn = c, dpAgentID = daemonAgentID cfg,
                dpTimeoutSeconds = (if daemonTimeoutSeconds cfg = 0 then 60 else daemonTimeoutSeconds cfg)\<rparr>, m))"

text \<open>A pool that only holds dialled connections is not observable.\<close>

lemma getConn_transparent:
  assumes "\<And>a c. connMap a = Some c \<Longrightarrow> dial a = Inr c"
  shows "fst (getConn dial addr connMap) = dial addr"
    and "snd (getConn dial addr connMap) a = Some c \<Longrightarrow> dial a = Inr c"
  using assms by (auto simp: getConn_def split: option.splits sum.splits if_splits)

section \<open>Operations on the registry\<close>

text \<open>The deadline of the background call: the addition is done in 32 bits.\<close>

definition applyDeadline :: "int \<Rightarrow> int" where
  "applyDeadline timeoutSec = sint (word_of_int timeoutSec + 10 :: 32 word)"

definition dispatchExec :: "daemonProvider \<Rightarrow> string \<Rightarrow> string \<Rightarrow> daemon_state \<Rightarrow> int \<times> daemon_state" where
  "dispatchExec dp config commands s =
     (let handle = int (Suc (pidSeq s));
          req = \<lparr>arConn = dpConn dp, arAgentID = dpAgentID dp,
                 arPayload = \<lparr>plConfig = config, plCommands = commands\<rparr>,
                 arTimeoutSeconds = dpTimeoutSeconds dp,
                 arDeadlineSeconds = applyDeadline (dpTimeoutSeconds dp)\<rparr>
      in (handle, s\<lparr>pidSeq := Suc (pidSeq s), execMap := (execMap s)(handle \<mapsto> Pending req)\<rparr>))"

definition applyResult :: "gerror + ApplyConfigResponse \<Rightarrow> gerror + ExecStatus" where
  "applyResult r =
     (case r of
        Inl e \<Rightarrow> Inl (Wrapped ''ApplyConfig'' e)
      | Inr resp \<Rightarrow>
          Inr \<lparr>Exited = True, ExitCode = rsExitCode resp, Stdout = rsStdout resp,
               Stderr = (if rsErrorMessage resp \<noteq> []
                         then rsErrorMessage resp @ (if rsStderr resp \<noteq> [] then newline # rsStderr resp else [])
                         else rsStderr resp)\<rparr>)"

text \<open>
  The end of a goroutine: it owns the entry it was started with. When that entry is no longer
  in the map, what it writes is never read.
\<close>

definition completeExec :: "int \<Rightarrow> gerror + ApplyConfigResponse \<Rightarrow> daemon_state \<Rightarrow> daemon_state" where
  "completeExec handle r s =
     (case execMap s handle of
        Some (Pending req) \<Rightarrow> s\<lparr>execMap := (execMap s)(handle \<mapsto> Done (applyResult r))\<rparr>
      | _ \<Rightarrow> s)"

definition stillRunning :: ExecStatus where
  "stillRunning = \<lparr>Exited = False, ExitCode = 0, Stdout = [], Stderr = []\<rparr>"

definition pollExec :: "int \<Rightarrow> daemon_state \<Rightarrow> (gerror + ExecStatus) \<times> daemon_state" where
  "pollExec pid s =
     (case execMap s pid of
        None \<Rightarrow>
          (Inl (Wrapped (''no pending exec for pid '' @ decimal pid @ '' (operator may have restarted)'')
             ErrExecResultLost), s)
      | Some (Done r) \<Rightarrow> (r, s\<lparr>execMap := (execMap s)(pid := None)\<rparr>)
      | Some (Pending req) \<Rightarrow> (Inr stillRunning, s))"

section \<open>The provider\<close>

text \<open>
  The gRPC stubs, the dialler, and where in the world the state of the process is kept.
\<close>

record 'w control =
  IsConnected :: "conn \<Rightarrow> string \<Rightarrow> 'w \<Rightarrow> (gerror + bool) \<times> 'w"
  ApplyConfigCall :: "ApplyConfigRequest \<Rightarrow> 'w \<Rightarrow> (gerror + ApplyConfigResponse) \<times> 'w"
  dialAddr :: "string \<Rightarrow> gerror + conn"
  registry :: "'w \<Rightarrow> daemon_state"
  setRegistry :: "daemon_state \<Rightarrow> 'w \<Rightarrow> 'w"

definition daemon_IsVMRunning :: "'w control \<Rightarrow> daemonProvider \<Rightarrow> 'w \<Rightarrow> (gerror + bool) \<times> 'w" where
  "daemon_IsVMRunning ctl dp w =
     (case IsConnected ctl (dpConn dp) (dpAgentID dp) w of
        (Inl e, w') \<Rightarrow> (Inl (Wrapped ''IsConnected'' e), w')
      | (Inr b, w') \<Rightarrow> (Inr b, w'))"

definition daemon_CheckReady :: "'w \<Rightarrow> gerror option \<times> 'w" where
  "daemon_CheckReady w = (None, w)"

definition daemon_ExecScript ::
  "'w control \<Rightarrow> daemonProvider \<Rightarrow> string \<Rightarrow> string \<Rightarrow> bool \<Rightarrow> 'w \<Rightarrow> (gerror + int) \<times> 'w" where
  "daemon_ExecScript ctl dp config commands save w =
     (case dispatchExec dp config commands (registry ctl w) of
        (handle, s) \<Rightarrow> (Inr handle, setRegistry ctl s w))"

definition daemon_GetExecStatus :: "'w control \<Rightarrow> int \<Rightarrow> 'w \<Rightarrow> (gerror + ExecStatus) \<times> 'w" where
  "daemon_GetExecStatus ctl pid w =
     (case pollExec pid (registry ctl w) of (r, s) \<Rightarrow> (r, setRegistry ctl s w))"

text \<open>The goroutine of a handle: the call, then the result into the entry.\<close>

definition runApply :: "'w control \<Rightarrow> int \<Rightarrow> 'w \<Rightarrow> 'w" where
  "runApply ctl handle w =
     (case execMap (registry ctl w) handle of
        Some (Pending req) \<Rightarrow>
          (case ApplyConfigCall ctl req w of
             (r, w') \<Rightarrow> setRegistry ctl (completeExec handle r (registry ctl w')) w')
      | _ \<Rightarrow> w)"

definition daemonBackend :: "'w control \<Rightarrow> daemonProvider \<Rightarrow> 'w provider" where
  "daemonBackend ctl dp =
     \<lparr>IsVMRunning = daemon_IsVMRunning ctl dp, CheckReady = daemon_CheckReady,
      ExecScript = daemon_ExecScript ctl dp, GetExecStatus = daemon_GetExecStatus ctl\<rparr>"

definition daemonNew :: "'w control \<Rightarrow> DaemonConfig \<Rightarrow> 'w \<Rightarrow> gerror + 'w provider" where
  "daemonNew ctl cfg w =
     (case fst (newDaemonProvider (dialAddr ctl) cfg Map.empty) of
        Inl e \<Rightarrow> Inl e | Inr dp \<Rightarrow> Inr (daemonBackend ctl dp))"

text \<open>With whatever pool: the provider is the one a fresh dial gives.\<close>

lemma daemonNew_pool:
  assumes "\<And>a c. connMap a = Some c \<Longrightarrow> dialAddr ctl a = Inr c"
  shows "daemonNew ctl cfg w =
    (case fst (newDaemonProvider (dialAddr ctl) cfg connMap) of
       Inl e \<Rightarrow> Inl e | Inr dp \<Rightarrow> Inr (daemonBackend ctl dp))"
  using getConn_transparent(1) [of connMap "dialAddr ctl" "daemonAddress cfg", OF assms]
  by (auto simp: daemonNew_def newDaemonProvider_def getConn_def split: prod.splits sum.splits option.splits)

section \<open>The registry as a state machine\<close>

text \<open>
  What happens to the registry of one process: a dispatch hands out a handle, a goroutine
  ends, and a poll finds its exec running, gets its result, or finds nothing.
\<close>

datatype reg_event =
    Dispatch int
  | Complete int "gerror + ApplyConfigResponse"
  | Running int "gerror + ExecStatus"
  | Delivered int "gerror + ExecStatus"
  | Lost int "gerror + ExecStatus"

inductive reg_step :: "daemon_state \<Rightarrow> reg_event \<Rightarrow> daemon_state \<Rightarrow> bool" where
  dispatch: "dispatchExec dp config commands s = (h, s') \<Longrightarrow> reg_step s (Dispatch h) s'"
| complete: "execMap s h = Some (Pending req) \<Longrightarrow> reg_step s (Complete h r) (completeExec h r s)"
| running: "execMap s h = Some (Pending req) \<Longrightarrow> pollExec h s = (a, s') \<Longrightarrow> reg_step s (Running h a) s'"
| delivered: "execMap s h = Some (Done x) \<Longrightarrow> pollExec h s = (a, s') \<Longrightarrow> reg_step s (Delivered h a) s'"
| lost: "execMap s h = None \<Longrightarrow> pollExec h s = (a, s') \<Longrightarrow> reg_step s (Lost h a) s'"

text \<open>The history of a process, latest event first.\<close>

inductive reg_run :: "reg_event list \<Rightarrow> daemon_state \<Rightarrow> bool" where
  start: "reg_run [] freshProcess"
| step: "reg_run es s \<Longrightarrow> reg_step s e s' \<Longrightarrow> reg_run (e # es) s'"

fun deliveries :: "int \<Rightarrow> reg_event list \<Rightarrow> (gerror + ExecStatus) list" where
  "deliveries h [] = []"
| "deliveries h (Delivered g a # es) = (if g = h then a # deliveries h es else deliveries h es)"
| "deliveries h (_ # es) = deliveries h es"

fun results :: "int \<Rightarrow> reg_event list \<Rightarrow> (gerror + ExecStatus) list" where
  "results h [] = []"
| "results h (Complete g r # es) = (if g = h then applyResult r # results h es else results h es)"
| "results h (_ # es) = results h es"

fun dispatches :: "reg_event list \<Rightarrow> int list" where
  "dispatches [] = []"
| "dispatches (Dispatch h # es) = h # dispatches es"
| "dispatches (_ # es) = dispatches es"

text \<open>What the registry remembers of the history of a handle.\<close>

definition remembers :: "reg_event list \<Rightarrow> int \<Rightarrow> execEntry option \<Rightarrow> bool" where
  "remembers es h x \<longleftrightarrow>
     (case x of
        Some (Pending req) \<Rightarrow> h \<in> set (dispatches es) \<and> results h es = [] \<and> deliveries h es = []
      | Some (Done r) \<Rightarrow> h \<in> set (dispatches es) \<and> results h es = [r] \<and> deliveries h es = []
      | None \<Rightarrow> deliveries h es = results h es \<and>
          (if h \<in> set (dispatches es) then length (results h es) = 1 else results h es = []))"

fun handle_of :: "reg_event \<Rightarrow> int" where
  "handle_of (Dispatch h) = h"
| "handle_of (Complete h r) = h"
| "handle_of (Running h a) = h"
| "handle_of (Delivered h a) = h"
| "handle_of (Lost h a) = h"

lemma remembers_other: "handle_of e \<noteq> h \<Longrightarrow> remembers (e # es) h x = remembers es h x"
  by (cases e) (auto simp: remembers_def split: option.splits execEntry.splits)

lemma remembers_fresh:
  assumes "remembers es h x" "h \<notin> set (dispatches es)"
  shows "x = None" "results h es = []" "deliveries h es = []"
  using assms by (auto simp: remembers_def split: option.splits execEntry.splits)

definition reg_inv :: "reg_event list \<Rightarrow> daemon_state \<Rightarrow> bool" where
  "reg_inv es s \<longleftrightarrow>
     distinct (dispatches es) \<and> (\<forall>h. h \<in> set (dispatches es) \<longleftrightarrow> 0 < h \<and> h \<le> int (pidSeq s)) \<and>
     (\<forall>h. remembers es h (execMap s h))"

lemma reg_inv_keep:
  assumes "reg_inv es s" "pidSeq s' = pidSeq s" "dispatches (e # es) = dispatches es"
    and "\<And>h. h \<noteq> handle_of e \<Longrightarrow> execMap s' h = execMap s h"
    and "remembers (e # es) (handle_of e) (execMap s' (handle_of e))"
  shows "reg_inv (e # es) s'"
  unfolding reg_inv_def assms(2,3) using assms(1,4,5) remembers_other [of e] unfolding reg_inv_def by metis

lemma reg_inv_step:
  assumes "reg_inv es s" "reg_step s e s'"
  shows "reg_inv (e # es) s'"
proof -
  note inv = assms(1) [unfolded reg_inv_def, THEN conjunct2, THEN conjunct2, rule_format]
  from assms(2) show ?thesis
  proof (cases rule: reg_step.cases)
    case (dispatch dp config commands h)
    then obtain req where s': "h = int (Suc (pidSeq s))" "pidSeq s' = Suc (pidSeq s)"
      "execMap s' = (execMap s)(h \<mapsto> Pending req)"
      by (auto simp: dispatchExec_def Let_def)
    then have new: "h \<notin> set (dispatches es)" using assms(1) by (simp add: reg_inv_def)
    have "remembers (e # es) g (execMap s' g)" for g
    proof (cases "g = h")
      case True
      with remembers_fresh(2,3) [OF inv new] dispatch s'(3) show ?thesis by (simp add: remembers_def)
    next
      case False
      with remembers_other [of e g es] inv [of g] dispatch s'(3) show ?thesis by simp
    qed
    with assms(1) new s' dispatch show ?thesis by (auto simp: reg_inv_def)
  next
    case (complete h req r)
    with inv [of h] show ?thesis
      by (intro reg_inv_keep [OF assms(1)]) (simp_all add: remembers_def completeExec_def)
  next
    case (running h req a)
    with inv [of h] show ?thesis
      by (intro reg_inv_keep [OF assms(1)]) (simp_all add: remembers_def pollExec_def)
  next
    case (delivered h x a)
    with inv [of h] show ?thesis
      by (intro reg_inv_keep [OF assms(1)]) (auto simp: remembers_def pollExec_def)
  next
    case (lost h a)
    with inv [of h] show ?thesis
      by (intro reg_inv_keep [OF assms(1)]) (simp_all add: remembers_def pollExec_def)
  qed
qed

lemma reg_inv_run: "reg_run es s \<Longrightarrow> reg_inv es s"
proof (induction rule: reg_run.induct)
  case start
  then show ?case by (simp add: reg_inv_def freshProcess_def remembers_def)
qed (rule reg_inv_step)

text \<open>The answer that comes with each kind of poll.\<close>

lemma reg_run_answers:
  assumes "reg_run es s"
  shows "Running h a \<in> set es \<Longrightarrow> a = Inr stillRunning"
    and "Lost h a \<in> set es \<Longrightarrow> \<exists>e. a = Inl e \<and> errors_Is e ErrExecResultLost"
  using assms by (induction rule: reg_run.induct)
    (auto elim!: reg_step.cases simp: pollExec_def)

section \<open>What the control service promises\<close>

text \<open>
  The calls leave alone what \<open>obs\<close> observes, and so does the memory of the process, which
  keeps what is written to it.
\<close>

locale control_channel =
  fixes ctl :: "'w control" and obs :: "'w \<Rightarrow> 'o"
  assumes connected_frame: "IsConnected ctl c a w = (r, w') \<Longrightarrow> obs w' = obs w"
    and apply_frame: "ApplyConfigCall ctl req w = (r2, w') \<Longrightarrow> obs w' = obs w"
    and apply_registry: "ApplyConfigCall ctl req w = (r2, w') \<Longrightarrow> registry ctl w' = registry ctl w"
    and memory_frame: "obs (setRegistry ctl s w) = obs w"
    and memory_kept: "registry ctl (setRegistry ctl s w) = s"
begin

lemma daemon_frames: "daemonNew ctl cfg w = Inr p \<Longrightarrow> provider_frames obs p"
  using connected_frame
  by (auto simp: daemonNew_def daemonBackend_def provider_frames_def daemon_IsVMRunning_def
      daemon_CheckReady_def daemon_ExecScript_def daemon_GetExecStatus_def memory_frame
      split: sum.splits prod.splits)

lemma daemon_handle: "daemon_ExecScript ctl dp c cmds sv w = (Inr pid, w') \<Longrightarrow> 0 < pid"
  by (auto simp: daemon_ExecScript_def dispatchExec_def Let_def)

lemma runApply_frame: "obs (runApply ctl h w) = obs w"
  by (auto simp: runApply_def memory_frame dest: apply_frame split: option.splits execEntry.splits prod.splits)

text \<open>A dispatched exec whose goroutine has ended: the next poll gets the mapped response.\<close>

lemma daemon_exec_cycle:
  assumes "daemon_ExecScript ctl dp config commands sv w = (Inr h, w1)"
    and "registry ctl v = registry ctl w1"
  shows "\<exists>resp. fst (ApplyConfigCall ctl
           \<lparr>arConn = dpConn dp, arAgentID = dpAgentID dp,
            arPayload = \<lparr>plConfig = config, plCommands = commands\<rparr>,
            arTimeoutSeconds = dpTimeoutSeconds dp,
            arDeadlineSeconds = applyDeadline (dpTimeoutSeconds dp)\<rparr> v) = resp \<and>
         fst (daemon_GetExecStatus ctl h (runApply ctl h v)) = applyResult resp"
  using assms apply_registry
  by (auto simp: daemon_ExecScript_def dispatchExec_def Let_def memory_kept runApply_def completeExec_def
      daemon_GetExecStatus_def pollExec_def split: prod.splits)

end

end
