(* ===== verification/MemKube.thy ===== *)
theory MemKube
  imports DaemonBackend
begin

text \<open>
  An API server held in memory, with a guest that records the scripts it is given: the
  counterpart of the fake client and the fake provider of the repository's tests. It
  interprets every locale of the theory Kube, so the laws those state hold of a concrete
  implementation, and it is the world of the witnesses. A read puts an object into its
  stored form. \<open>mwDown\<close> makes every write fail. \<open>mwRegistry\<close> is the state of the daemon backend and
  \<open>mwSent\<close> what the other backends sent to their guests.
\<close>

record mem_world =
  mwNow :: time
  mwDown :: bool
  mwConfigs :: "(nname \<times> VRouterConfig) list"
  mwBindings :: "(nname \<times> VRouterBinding) list"
  mwTargets :: "(nname \<times> VRouterTarget) list"
  mwTemplates :: "(nname \<times> VRouterTemplate) list"
  mwParams :: "(nname \<times> VRouterParams) list"
  mwClusters :: "(nname \<times> ProxmoxCluster) list"
  mwSecrets :: "(nname \<times> (string \<Rightarrow> string option)) list"
  mwRunning :: bool
  mwReady :: bool
  mwScripts :: "(string \<times> string \<times> bool) list"
  mwResults :: "(int \<times> ExecStatus) list"
  mwRegistry :: daemon_state
  mwSent :: "string list list"

definition mem_empty :: mem_world where
  "mem_empty =
     \<lparr>mwNow = 1000 * Second, mwDown = False, mwConfigs = [], mwBindings = [], mwTargets = [],
      mwTemplates = [], mwParams = [], mwClusters = [], mwSecrets = [], mwRunning = True,
      mwReady = True, mwScripts = [], mwResults = [], mwRegistry = freshProcess, mwSent = []\<rparr>"

section \<open>Conditions and owners\<close>

fun memSetCondition :: "time \<Rightarrow> Condition list \<Rightarrow> Condition \<Rightarrow> Condition list" where
  "memSetCondition t [] c =
     [c\<lparr>condLastTransitionTime := (if condLastTransitionTime c = 0 then t else condLastTransitionTime c)\<rparr>]"
| "memSetCondition t (d # ds) c =
     (if condType d = condType c then
        c\<lparr>condLastTransitionTime :=
            (if condStatus d = condStatus c then condLastTransitionTime d
             else if condLastTransitionTime c = 0 then t else condLastTransitionTime c)\<rparr> # ds
      else d # memSetCondition t ds c)"

lemma memSetCondition_same:
  "List.find (\<lambda>d. condType d = condType c) (memSetCondition t cs c) =
     Some (case List.find (\<lambda>d. condType d = condType c) cs of
             None \<Rightarrow> c\<lparr>condLastTransitionTime :=
               (if condLastTransitionTime c = 0 then t else condLastTransitionTime c)\<rparr>
           | Some d \<Rightarrow> c\<lparr>condLastTransitionTime :=
               (if condStatus d = condStatus c then condLastTransitionTime d
                else if condLastTransitionTime c = 0 then t
                else condLastTransitionTime c)\<rparr>)"
  by (induction t cs c rule: memSetCondition.induct) auto

lemma memSetCondition_other:
  "ty \<noteq> condType c \<Longrightarrow>
     List.find (\<lambda>d. condType d = ty) (memSetCondition t cs c) = List.find (\<lambda>d. condType d = ty) cs"
  by (induction t cs c rule: memSetCondition.induct) auto

definition memSetOwner :: "VRouterBinding \<Rightarrow> VRouterConfig \<Rightarrow> gerror + VRouterConfig" where
  "memSetOwner b c =
     (case metaOwners (cfgMeta c) of
        [] \<Rightarrow> Inr (c\<lparr>cfgMeta := (cfgMeta c)\<lparr>metaOwners := [bnd_key b]\<rparr>\<rparr>)
      | x # xs \<Rightarrow> if x = bnd_key b then Inr c
                 else Inl (ErrMsg ''Object is already owned by another controller''))"

section \<open>Objects\<close>

definition memForm :: "nname \<Rightarrow> VRouterConfig \<Rightarrow> VRouterConfig" where
  "memForm n c =
     c\<lparr>cfgMeta := (cfgMeta c)\<lparr>metaNamespace := fst n, metaName := snd n\<rparr>,
       cfgSpec := defaultedConfigSpec (cfgSpec c), cfgStatus := storedConfigStatus (cfgStatus c)\<rparr>"

definition memConfig :: "mem_world \<Rightarrow> nname \<Rightarrow> VRouterConfig option" where
  "memConfig w n = map_option (memForm n) (map_of (mwConfigs w) n)"

definition memBindingForm :: "nname \<Rightarrow> VRouterBinding \<Rightarrow> VRouterBinding" where
  "memBindingForm n b =
     b\<lparr>bndMeta := (bndMeta b)\<lparr>metaNamespace := fst n, metaName := snd n\<rparr>,
       bndStatus := storedBindingStatus (bndStatus b)\<rparr>"

definition memBinding :: "mem_world \<Rightarrow> nname \<Rightarrow> VRouterBinding option" where
  "memBinding w n =
     map_option (memBindingForm n) (map_of (mwBindings w) n)"

definition notFound :: api_error where "notFound = NotFound ''not found''"
definition serverDown :: api_error where "serverDown = OtherApiError ''connection refused''"

definition found :: "'a option \<Rightarrow> api_error + 'a" where
  "found x = (case x of None \<Rightarrow> Inl notFound | Some v \<Rightarrow> Inr v)"

definition putConfig :: "nname \<Rightarrow> VRouterConfig \<Rightarrow> mem_world \<Rightarrow> mem_world" where
  "putConfig n c w = w\<lparr>mwConfigs := (n, c) # filter (\<lambda>(m, _). m \<noteq> n) (mwConfigs w)\<rparr>"

definition dropConfig :: "nname \<Rightarrow> mem_world \<Rightarrow> mem_world" where
  "dropConfig n w = w\<lparr>mwConfigs := filter (\<lambda>(m, _). m \<noteq> n) (mwConfigs w)\<rparr>"

definition putBinding :: "nname \<Rightarrow> VRouterBinding \<Rightarrow> mem_world \<Rightarrow> mem_world" where
  "putBinding n b w = w\<lparr>mwBindings := (n, b) # filter (\<lambda>(m, _). m \<noteq> n) (mwBindings w)\<rparr>"

definition dropBinding :: "nname \<Rightarrow> mem_world \<Rightarrow> mem_world" where
  "dropBinding n w = w\<lparr>mwBindings := filter (\<lambda>(m, _). m \<noteq> n) (mwBindings w)\<rparr>"

lemma map_of_filter_neq:
  "map_of (filter (\<lambda>(m, _). m \<noteq> n) xs) k1 = (if k1 = n then None else map_of xs k1)"
  by (induction xs) auto

lemma memForm_simps [simp]:
  "cfg_key (memForm n c) = n" "storedConfigStatus (cfgStatus (memForm n c)) = cfgStatus (memForm n c)"
  "defaultedConfigSpec (cfgSpec (memForm n c)) = cfgSpec (memForm n c)"
  by (cases "cfgStatus c"; cases n;
      auto simp: memForm_def storedConfigStatus_def defaultedConfigSpec_def BoolValue_def
        option.map_comp comp_def split: option.splits)+

lemma memForm_id:
  "cfg_key c = n \<Longrightarrow> storedConfigStatus (cfgStatus c) = cfgStatus c \<Longrightarrow>
     defaultedConfigSpec (cfgSpec c) = cfgSpec c \<Longrightarrow> memForm n c = c"
  by (cases c) (auto simp: memForm_def)

lemma memConfig_form:
  assumes "memConfig w n = Some c"
  shows "cfg_key c = n" "storedConfigStatus (cfgStatus c) = cfgStatus c"
    "defaultedConfigSpec (cfgSpec c) = cfgSpec c"
  using assms by (auto simp: memConfig_def)

lemma memConfig_put: "memConfig (putConfig n c w) = (memConfig w)(n \<mapsto> memForm n c)"
  by (auto simp: memConfig_def putConfig_def map_of_filter_neq)

lemma memConfig_drop: "memConfig (dropConfig n w) = (memConfig w)(n := None)"
  by (auto simp: memConfig_def dropConfig_def map_of_filter_neq)

lemma memBinding_put:
  "memBinding (putBinding n b w) = (memBinding w)(n \<mapsto> memBindingForm n b)"
  by (rule ext) (simp add: memBinding_def putBinding_def map_of_filter_neq)

lemma memBinding_drop: "memBinding (dropBinding n w) = (memBinding w)(n := None)"
  by (auto simp: memBinding_def dropBinding_def map_of_filter_neq)

lemma mem_frames [simp]:
  "memBinding (putConfig n c w) = memBinding w" "memBinding (dropConfig n w) = memBinding w"
  "memConfig (putBinding n b w) = memConfig w" "memConfig (dropBinding n w) = memConfig w"
  by (auto simp: memBinding_def memConfig_def putConfig_def dropConfig_def putBinding_def dropBinding_def)

section \<open>Operations on VRouterConfigs\<close>

definition memGetConfig :: "nname \<Rightarrow> mem_world \<Rightarrow> api_error + VRouterConfig" where
  "memGetConfig n w = found (memConfig w n)"

definition memListConfigs ::
  "string option \<Rightarrow> (string \<times> string) list \<Rightarrow> mem_world \<Rightarrow> api_error + VRouterConfig list" where
  "memListConfigs ns ls w =
     Inr (filter (\<lambda>c. \<forall>(l, v) \<in> set ls. metaLabels (cfgMeta c) l = Some v)
       (concat (map (\<lambda>n. case memConfig w n of None \<Rightarrow> [] | Some c \<Rightarrow> [c])
         (filter (\<lambda>n. case ns of None \<Rightarrow> True | Some x \<Rightarrow> fst n = x)
           (remdups (map fst (mwConfigs w)))))))"

text \<open>
  An update replaces metadata and spec, keeps the status, counts the generation up when the
  spec changed, and completes a deletion once the last finalizer is gone.
\<close>

definition storeConfig :: "VRouterConfig \<Rightarrow> VRouterConfig \<Rightarrow> VRouterConfig" where
  "storeConfig c0 c =
     (let sp = defaultedConfigSpec (cfgSpec c) in
      c\<lparr>cfgSpec := sp, cfgStatus := cfgStatus c0,
        cfgMeta := (cfgMeta c)\<lparr>metaGeneration :=
          (if sp = cfgSpec c0 then cfg_generation c0 else cfg_generation c0 + 1)\<rparr>\<rparr>)"

definition memUpdateConfig :: "VRouterConfig \<Rightarrow> mem_world \<Rightarrow> api_error option \<times> mem_world" where
  "memUpdateConfig c w =
     (if mwDown w then (Some serverDown, w)
      else case memConfig w (cfg_key c) of
             None \<Rightarrow> (Some notFound, w)
           | Some c0 \<Rightarrow>
               if \<not> DeletionTimestamp_IsZero (cfgMeta c) \<and> metaFinalizers (cfgMeta c) = []
               then (None, dropConfig (cfg_key c) w)
               else (None, putConfig (cfg_key c) (storeConfig c0 c) w))"

definition memPatchConfig ::
  "VRouterConfig \<Rightarrow> VRouterConfig \<Rightarrow> mem_world \<Rightarrow> (api_error + VRouterConfig) \<times> mem_world" where
  "memPatchConfig old new w =
     (if mwDown w then (Inl serverDown, w)
      else case memConfig w (cfg_key old) of
             None \<Rightarrow> (Inl notFound, w)
           | Some c0 \<Rightarrow> (Inr (patched c0 new), putConfig (cfg_key old) (patched c0 new) w))"

definition memDeleteConfig :: "VRouterConfig \<Rightarrow> mem_world \<Rightarrow> api_error option \<times> mem_world" where
  "memDeleteConfig c w =
     (if mwDown w then (Some serverDown, w)
      else case memConfig w (cfg_key c) of
             None \<Rightarrow> (Some notFound, w)
           | Some c0 \<Rightarrow>
               if metaFinalizers (cfgMeta c0) = [] then (None, dropConfig (cfg_key c) w)
               else (None, putConfig (cfg_key c)
                 (c0\<lparr>cfgMeta := (cfgMeta c0)\<lparr>metaDeletionTimestamp := Some (max Second (trunc_sec (mwNow w)))\<rparr>\<rparr>) w))"

definition createdConfig :: "VRouterConfig \<Rightarrow> VRouterConfig" where
  "createdConfig m =
     m\<lparr>cfgSpec := defaultedConfigSpec (cfgSpec m), cfgStatus := emptyConfigStatus,
       cfgMeta := (cfgMeta m)\<lparr>metaGeneration := 1\<rparr>\<rparr>"

definition memCreateOrUpdate ::
  "VRouterConfig \<Rightarrow> (VRouterConfig \<Rightarrow> gerror + VRouterConfig) \<Rightarrow> mem_world \<Rightarrow> gerror option \<times> mem_world" where
  "memCreateOrUpdate c f w =
     (let old = memConfig w (cfg_key c) in
      case f (case old of None \<Rightarrow> c | Some c0 \<Rightarrow> c0) of
        Inl e \<Rightarrow> (Some e, w)
      | Inr m \<Rightarrow>
          if cfg_key m \<noteq> cfg_key c
          then (Some (ErrMsg ''MutateFn cannot mutate object name and/or object namespace''), w)
          else if mwDown w then (Some (ApiError serverDown), w)
          else (None, putConfig (cfg_key c)
                        (case old of None \<Rightarrow> createdConfig m | Some c0 \<Rightarrow> storeConfig c0 m) w))"

section \<open>Operations on VRouterBindings\<close>

definition memUpdateBinding :: "VRouterBinding \<Rightarrow> mem_world \<Rightarrow> api_error option \<times> mem_world" where
  "memUpdateBinding b w =
     (if mwDown w then (Some serverDown, w)
      else case memBinding w (bnd_key b) of
             None \<Rightarrow> (Some notFound, w)
           | Some b0 \<Rightarrow>
               if \<not> DeletionTimestamp_IsZero (bndMeta b) \<and> metaFinalizers (bndMeta b) = []
               then (None, dropBinding (bnd_key b) w)
               else (None, putBinding (bnd_key b)
                 (b\<lparr>bndStatus := bndStatus b0,
                    bndMeta := (bndMeta b)\<lparr>metaGeneration :=
                      (if bndSpec b = bndSpec b0 then metaGeneration (bndMeta b0)
                       else metaGeneration (bndMeta b0) + 1)\<rparr>\<rparr>) w))"

definition memPatchBinding ::
  "VRouterBinding \<Rightarrow> VRouterBinding \<Rightarrow> mem_world \<Rightarrow> (api_error + VRouterBinding) \<times> mem_world" where
  "memPatchBinding old new w =
     (if mwDown w then (Inl serverDown, w)
      else case memBinding w (bnd_key old) of
             None \<Rightarrow> (Inl notFound, w)
           | Some b0 \<Rightarrow> (Inr (patchedBinding b0 new), putBinding (bnd_key old) (patchedBinding b0 new) w))"

section \<open>The interface\<close>

definition memTargetForm :: "nname \<Rightarrow> VRouterTarget \<Rightarrow> VRouterTarget" where
  "memTargetForm n t =
     t\<lparr>tgtMeta := (tgtMeta t)\<lparr>metaNamespace := fst n, metaName := snd n\<rparr>,
       tgtStatus := storedTargetStatus (tgtStatus t)\<rparr>"

definition memTarget :: "mem_world \<Rightarrow> nname \<Rightarrow> VRouterTarget option" where
  "memTarget w n = map_option (memTargetForm n) (map_of (mwTargets w) n)"

definition putTarget :: "nname \<Rightarrow> VRouterTarget \<Rightarrow> mem_world \<Rightarrow> mem_world" where
  "putTarget n t w = w\<lparr>mwTargets := (n, t) # filter (\<lambda>(m, _). m \<noteq> n) (mwTargets w)\<rparr>"

definition memListTargets :: "string option \<Rightarrow> mem_world \<Rightarrow> api_error + VRouterTarget list" where
  "memListTargets ns w =
     Inr (concat (map (\<lambda>n. case memTarget w n of None \<Rightarrow> [] | Some t \<Rightarrow> [t])
       (filter (\<lambda>n. case ns of None \<Rightarrow> True | Some x \<Rightarrow> fst n = x)
         (remdups (map fst (mwTargets w))))))"

definition memPatchTarget ::
  "VRouterTarget \<Rightarrow> VRouterTarget \<Rightarrow> mem_world \<Rightarrow> (api_error + VRouterTarget) \<times> mem_world" where
  "memPatchTarget old new w =
     (if mwDown w then (Inl serverDown, w)
      else case memTarget w (tgt_key old) of
             None \<Rightarrow> (Inl notFound, w)
           | Some t0 \<Rightarrow> (Inr (patchedTarget t0 new), putTarget (tgt_key old) (patchedTarget t0 new) w))"

definition memPutCluster ::
  "ProxmoxCluster \<Rightarrow> mem_world \<Rightarrow> (api_error + ProxmoxCluster) \<times> mem_world" where
  "memPutCluster c w =
     (let n = (metaNamespace (pxcMeta c), metaName (pxcMeta c)) in
      if mwDown w then (Inl serverDown, w)
      else (Inr c, w\<lparr>mwClusters := (n, c) # filter (\<lambda>(m, _). m \<noteq> n) (mwClusters w)\<rparr>))"

definition memListBindings :: "string option \<Rightarrow> mem_world \<Rightarrow> api_error + VRouterBinding list" where
  "memListBindings ns w =
     Inr (concat (map (\<lambda>n. case memBinding w n of None \<Rightarrow> [] | Some b \<Rightarrow> [b])
       (filter (\<lambda>n. case ns of None \<Rightarrow> True | Some x \<Rightarrow> fst n = x)
         (remdups (map fst (mwBindings w))))))"

definition memKube :: "mem_world kube" where
  "memKube =
     \<lparr>now = mwNow,
      SetStatusCondition = memSetCondition,
      FindStatusCondition = (\<lambda>cs ty. List.find (\<lambda>c. condType c = ty) cs),
      ContainsFinalizer = (\<lambda>fs f. f \<in> set fs),
      AddFinalizer = (\<lambda>fs f. if f \<in> set fs then fs else fs @ [f]),
      RemoveFinalizer = (\<lambda>fs f. filter (\<lambda>g. g \<noteq> f) fs),
      SetControllerReference = memSetOwner,
      getConfig = memGetConfig,
      listConfigs = memListConfigs,
      updateConfig = memUpdateConfig,
      patchConfigStatus = memPatchConfig,
      deleteConfig = memDeleteConfig,
      CreateOrUpdateConfig = memCreateOrUpdate,
      getBinding = (\<lambda>n w. found (memBinding w n)),
      listBindings = memListBindings,
      updateBinding = memUpdateBinding,
      patchBindingStatus = memPatchBinding,
      getTarget = (\<lambda>n w. found (memTarget w n)),
      listTargets = memListTargets,
      patchTargetStatus = memPatchTarget,
      getTemplate = (\<lambda>n w. found (map_of (mwTemplates w) n)),
      getParams = (\<lambda>n w. found (map_of (mwParams w) n)),
      getCluster = (\<lambda>n w. found (map_of (mwClusters w) n)),
      updateCluster = (\<lambda>c w. case memPutCluster c w of (Inl e, w') \<Rightarrow> (Some e, w') | (Inr _, w') \<Rightarrow> (None, w')),
      patchClusterStatus = (\<lambda>old new w. memPutCluster new w),
      getSecret = (\<lambda>n w. found (map_of (mwSecrets w) n))\<rparr>"

lemma memKube_simps [simp]:
  "now memKube = mwNow" "SetStatusCondition memKube = memSetCondition"
  "FindStatusCondition memKube = (\<lambda>cs ty. List.find (\<lambda>c. condType c = ty) cs)"
  "ContainsFinalizer memKube = (\<lambda>fs f. f \<in> set fs)"
  "AddFinalizer memKube = (\<lambda>fs f. if f \<in> set fs then fs else fs @ [f])"
  "RemoveFinalizer memKube = (\<lambda>fs f. filter (\<lambda>g. g \<noteq> f) fs)"
  "SetControllerReference memKube = memSetOwner"
  "getConfig memKube = memGetConfig" "listConfigs memKube = memListConfigs"
  "updateConfig memKube = memUpdateConfig" "patchConfigStatus memKube = memPatchConfig"
  "deleteConfig memKube = memDeleteConfig" "CreateOrUpdateConfig memKube = memCreateOrUpdate"
  "getBinding memKube = (\<lambda>n w. found (memBinding w n))"
  "listBindings memKube = memListBindings"
  "updateBinding memKube = memUpdateBinding" "patchBindingStatus memKube = memPatchBinding"
  "getTarget memKube = (\<lambda>n w. found (memTarget w n))"
  "listTargets memKube = memListTargets"
  "patchTargetStatus memKube = memPatchTarget"
  "getTemplate memKube = (\<lambda>n w. found (map_of (mwTemplates w) n))"
  "getParams memKube = (\<lambda>n w. found (map_of (mwParams w) n))"
  "getCluster memKube = (\<lambda>n w. found (map_of (mwClusters w) n))"
  "patchClusterStatus memKube = (\<lambda>old new w. memPutCluster new w)"
  "getSecret memKube = (\<lambda>n w. found (map_of (mwSecrets w) n))"
  by (simp_all add: memKube_def)

section \<open>Interpretations\<close>

interpretation mem_conditions: conditions_api memKube
  by unfold_locales (simp_all add: memSetCondition_same memSetCondition_other)

interpretation mem_finalizers: finalizers_api memKube
  by unfold_locales auto

interpretation mem_owners: owners_api memKube
  by unfold_locales (auto simp: memSetOwner_def split: list.splits if_splits)

lemma patched_form:
  "memConfig w (cfg_key old) = Some old \<Longrightarrow> memForm (cfg_key old) (patched old new) = patched old new"
  by (rule memForm_id) (auto dest: memConfig_form)

lemma memPatchConfig_form:
  assumes "memConfig w (cfg_key old) = Some old" "memPatchConfig old new w = (r, w')"
  shows "(r = Inl serverDown \<and> w' = w) \<or>
    (r = Inr (patched old new) \<and> memConfig w' = (memConfig w)(cfg_key old \<mapsto> patched old new))"
  using assms patched_form [OF assms(1), of new]
  by (auto simp: memPatchConfig_def memConfig_put split: if_splits)

lemma memUpdateConfig_cases:
  assumes "memUpdateConfig c w = (r, w')"
  shows "w' = w \<or> memConfig w' = (memConfig w)(cfg_key c := None) \<or>
    (\<exists>c0. memConfig w (cfg_key c) = Some c0 \<and>
          memConfig w' = (memConfig w)(cfg_key c \<mapsto> memForm (cfg_key c) (storeConfig c0 c)))"
  using assms
  by (auto simp: memUpdateConfig_def memConfig_put memConfig_drop split: if_splits option.splits)

lemma cfgStatus_memForm: "cfgStatus (memForm n c) = storedConfigStatus (cfgStatus c)"
  by (simp add: memForm_def)

lemma memUpdateConfig_status:
  assumes "memUpdateConfig c w = (r, w')" "memConfig w' (cfg_key c) = Some c'"
  shows "\<exists>c0. memConfig w (cfg_key c) = Some c0 \<and> cfgStatus c' = cfgStatus c0"
  using memUpdateConfig_cases [OF assms(1)]
proof (elim disjE exE conjE)
  fix c0
  assume c0: "memConfig w (cfg_key c) = Some c0"
    "memConfig w' = (memConfig w)(cfg_key c \<mapsto> memForm (cfg_key c) (storeConfig c0 c))"
  with assms(2) have "cfgStatus c' = storedConfigStatus (cfgStatus c0)"
    by (auto simp: cfgStatus_memForm storeConfig_def Let_def)
  with c0(1) memConfig_form(2) show ?thesis by metis
qed (use assms(2) in auto)

lemma set_concat_lookup:
  "set (concat (map (\<lambda>n. case f n of None \<Rightarrow> [] | Some c \<Rightarrow> [c]) ns)) =
     {c. \<exists>n \<in> set ns. f n = Some c}"
  by (induction ns) (auto split: option.splits)

lemma memListConfigs_set:
  assumes "memListConfigs (Some ns) ls w = Inr cs"
  shows "set cs = {c. \<exists>nm. memConfig w (ns, nm) = Some c \<and> cfg_key c = (ns, nm) \<and>
                      (\<forall>(l, v) \<in> set ls. metaLabels (cfgMeta c) l = Some v)}"
proof -
  have dom: "n \<in> set (map fst (mwConfigs w))" if "memConfig w n = Some c" for n c
    using that by (auto simp: memConfig_def dest!: map_of_SomeD intro: rev_image_eqI)
  define P where "P (c :: VRouterConfig) \<longleftrightarrow> (\<forall>(l, v) \<in> set ls. metaLabels (cfgMeta c) l = Some v)" for c
  have cs: "cs = filter P (concat (map (\<lambda>n. case memConfig w n of None \<Rightarrow> [] | Some c \<Rightarrow> [c])
      (filter (\<lambda>n. fst n = ns) (remdups (map fst (mwConfigs w))))))"
    using assms unfolding memListConfigs_def P_def [symmetric] by simp
  have "set cs = {c. (\<exists>n \<in> set (map fst (mwConfigs w)). fst n = ns \<and> memConfig w n = Some c) \<and> P c}"
    unfolding cs set_filter set_concat_lookup set_remdups by blast
  also have "\<dots> = {c. \<exists>nm. memConfig w (ns, nm) = Some c \<and> cfg_key c = (ns, nm) \<and> P c}"
  proof (intro Collect_cong iffI; elim conjE exE bexE)
    fix c n
    assume "fst n = ns" "memConfig w n = Some c" "P c"
    moreover from this have "n = (ns, snd n)" by auto
    ultimately show "\<exists>nm. memConfig w (ns, nm) = Some c \<and> cfg_key c = (ns, nm) \<and> P c"
      using memConfig_form(1) by metis
  next
    fix c nm
    assume "memConfig w (ns, nm) = Some c" "P c"
    with dom show "(\<exists>n \<in> set (map fst (mwConfigs w)). fst n = ns \<and> memConfig w n = Some c) \<and> P c"
      by (metis fst_conv)
  qed
  finally show ?thesis by (simp only: P_def)
qed

lemma memDeleteConfig_cases:
  assumes "memDeleteConfig c w = (r, w')"
  shows "(r \<noteq> None \<and> w' = w) \<or> memConfig w' = (memConfig w)(cfg_key c := None) \<or>
    (\<exists>c1. memConfig w' = (memConfig w)(cfg_key c \<mapsto> c1) \<and> \<not> DeletionTimestamp_IsZero (cfgMeta c1))"
proof (cases "mwDown w \<or> memConfig w (cfg_key c) = None")
  case True
  with assms show ?thesis by (auto simp: memDeleteConfig_def split: if_splits)
next
  case False
  then obtain c0 where c0: "memConfig w (cfg_key c) = Some c0" "\<not> mwDown w" by auto
  let ?c1 = "c0\<lparr>cfgMeta := (cfgMeta c0)\<lparr>metaDeletionTimestamp := Some (max Second (trunc_sec (mwNow w)))\<rparr>\<rparr>"
  have "\<not> DeletionTimestamp_IsZero (cfgMeta (memForm (cfg_key c) ?c1))"
    by (simp add: memForm_def DeletionTimestamp_IsZero_def Second_def)
  moreover have "w' = dropConfig (cfg_key c) w \<or> w' = putConfig (cfg_key c) ?c1 w"
    using assms c0 by (auto simp: memDeleteConfig_def split: if_splits)
  ultimately show ?thesis using memConfig_put memConfig_drop by metis
qed

lemma created_written:
  assumes "cfg_key m = cfg_key c"
  shows "written None m (memForm (cfg_key c) (createdConfig m))"
  using assms by (auto simp: written_def memForm_def createdConfig_def emptyConfigStatus_def
      storedConfigStatus_def freshConfigStatus_def defaultedConfigSpec_def BoolValue_def split: option.splits)

lemma stored_written:
  assumes "memConfig w n = Some c0" "cfg_key m = n"
  shows "written (Some c0) m (memForm n (storeConfig c0 m))"
  using assms memConfig_form [OF assms(1)]
  by (auto simp: written_def memForm_def storeConfig_def Let_def defaultedConfigSpec_def BoolValue_def
      split: option.splits)

lemma memCreateOrUpdate_cases:
  assumes "memCreateOrUpdate c f w = (r, w')"
  shows "(r \<noteq> None \<and> w' = w) \<or>
    (\<exists>m c'. f (case memConfig w (cfg_key c) of None \<Rightarrow> c | Some c0 \<Rightarrow> c0) = Inr m \<and>
            written (memConfig w (cfg_key c)) m c' \<and> memConfig w' = (memConfig w)(cfg_key c \<mapsto> c'))"
proof (cases "memConfig w (cfg_key c)")
  case None
  have "(r \<noteq> None \<and> w' = w) \<or> (\<exists>m. f c = Inr m \<and> cfg_key m = cfg_key c \<and>
      w' = putConfig (cfg_key c) (createdConfig m) w)"
    using assms None by (auto simp: memCreateOrUpdate_def Let_def split: sum.splits if_splits)
  with None created_written [of _ c] memConfig_put show ?thesis by fastforce
next
  case (Some c0)
  have "(r \<noteq> None \<and> w' = w) \<or> (\<exists>m. f c0 = Inr m \<and> cfg_key m = cfg_key c \<and>
      w' = putConfig (cfg_key c) (storeConfig c0 m) w)"
    using assms Some by (auto simp: memCreateOrUpdate_def Let_def split: sum.splits if_splits)
  with Some stored_written [OF Some] memConfig_put show ?thesis by fastforce
qed

interpretation mem_configs: config_api memKube memConfig
proof
  fix n w e
  show "getConfig memKube n w = Inl e \<Longrightarrow> IsNotFound e \<Longrightarrow> memConfig w n = None"
    by (auto simp: memGetConfig_def found_def split: option.splits)
next
  fix c :: VRouterConfig and r w w' n
  show "updateConfig memKube c w = (r, w') \<Longrightarrow> n \<noteq> cfg_key c \<Longrightarrow> memConfig w' n = memConfig w n"
    using memUpdateConfig_cases [of c w r w'] by auto
  show "deleteConfig memKube c w = (r, w') \<Longrightarrow> n \<noteq> cfg_key c \<Longrightarrow> memConfig w' n = memConfig w n"
    using memDeleteConfig_cases [of c w r w'] by auto
next
  fix old new :: VRouterConfig and c w w' e
  show "memConfig w (cfg_key old) = Some old \<Longrightarrow> patchConfigStatus memKube old new w = (Inr c, w') \<Longrightarrow>
      c = patched old new \<and> memConfig w' = (memConfig w)(cfg_key old \<mapsto> patched old new)"
    using memPatchConfig_form [of w old new "Inr c" w'] by auto
  show "memConfig w (cfg_key old) = Some old \<Longrightarrow> patchConfigStatus memKube old new w = (Inl e, w') \<Longrightarrow>
      memConfig w' = memConfig w \<or> memConfig w' = (memConfig w)(cfg_key old \<mapsto> patched old new)"
    using memPatchConfig_form [of w old new "Inl e" w'] by auto
next
  fix c c' :: VRouterConfig and w w'
  show "deleteConfig memKube c w = (None, w') \<Longrightarrow> memConfig w' (cfg_key c) = Some c' \<Longrightarrow>
      \<not> DeletionTimestamp_IsZero (cfgMeta c')"
    using memDeleteConfig_cases [of c w None w'] by auto
next
  fix c f w ge w'
  show "CreateOrUpdateConfig memKube c f w = (None, w') \<Longrightarrow>
         \<exists>m c'. f (case memConfig w (cfg_key c) of None \<Rightarrow> c | Some c0 \<Rightarrow> c0) = Inr m \<and>
                written (memConfig w (cfg_key c)) m c' \<and>
                memConfig w' = (memConfig w)(cfg_key c \<mapsto> c')"
    using memCreateOrUpdate_cases [of c f w None w'] by simp
  show "CreateOrUpdateConfig memKube c f w = (Some ge, w') \<Longrightarrow>
         memConfig w' = memConfig w \<or>
         (\<exists>m c'. f (case memConfig w (cfg_key c) of None \<Rightarrow> c | Some c0 \<Rightarrow> c0) = Inr m \<and>
                 written (memConfig w (cfg_key c)) m c' \<and>
                 memConfig w' = (memConfig w)(cfg_key c \<mapsto> c'))"
    using memCreateOrUpdate_cases [of c f w "Some ge" w'] by auto
qed (auto simp: memGetConfig_def found_def memConfig_form memUpdateConfig_status memListConfigs_set
    split: option.splits)

lemma memBinding_key: "memBinding w n = Some b \<Longrightarrow> bnd_key b = n"
  by (cases n) (auto simp: memBinding_def memBindingForm_def)

lemma patchedBinding_put:
  "memBinding (putBinding (bnd_key old) (patchedBinding old new) w) =
     (memBinding w)(bnd_key old \<mapsto> patchedBinding old new)"
  by (simp add: memBinding_put patchedBinding_def memBindingForm_def)

lemma memPatchBinding_cases:
  assumes "memBinding w (bnd_key old) = Some old" "memPatchBinding old new w = (r, w')"
  shows "(r = Inl serverDown \<and> w' = w) \<or>
    (r = Inr (patchedBinding old new) \<and>
     memBinding w' = (memBinding w)(bnd_key old \<mapsto> patchedBinding old new))"
  using assms by (auto simp: memPatchBinding_def patchedBinding_put split: if_splits)

lemma memUpdateBinding_frame:
  assumes "memUpdateBinding b w = (r, w')"
  shows "memConfig w' = memConfig w" "n \<noteq> bnd_key b \<Longrightarrow> memBinding w' n = memBinding w n"
  using assms
  by (auto simp: memUpdateBinding_def memBinding_put memBinding_drop split: if_splits option.splits)

lemma memPatchBinding_cfgs: "memPatchBinding b1 b2 w = (r, w') \<Longrightarrow> memConfig w' = memConfig w"
  by (auto simp: memPatchBinding_def split: if_splits option.splits)

lemma memCreateOrUpdate_bnds: "memCreateOrUpdate c f w = (r, w') \<Longrightarrow> memBinding w' = memBinding w"
  by (auto simp: memCreateOrUpdate_def Let_def split: if_splits option.splits sum.splits)

lemma memDeleteConfig_bnds: "memDeleteConfig c w = (r, w') \<Longrightarrow> memBinding w' = memBinding w"
  by (auto simp: memDeleteConfig_def split: if_splits option.splits)

interpretation mem_bindings: binding_api memKube memBinding
proof
  fix n w b
  show "getBinding memKube n w = Inr b \<Longrightarrow> memBinding w n = Some b \<and> bnd_key b = n"
    by (auto simp: found_def memBinding_key split: option.splits)
  show "memBinding w n = Some b \<Longrightarrow> bnd_key b = n"
    by (rule memBinding_key)
  show "memBinding w n = Some b \<Longrightarrow> storedBindingStatus (bndStatus b) = bndStatus b"
    by (auto simp: memBinding_def memBindingForm_def)
next
  fix old new :: VRouterBinding and b w w' e
  show "memBinding w (bnd_key old) = Some old \<Longrightarrow> patchBindingStatus memKube old new w = (Inr b, w') \<Longrightarrow>
      b = patchedBinding old new \<and> memBinding w' = (memBinding w)(bnd_key old \<mapsto> patchedBinding old new)"
    using memPatchBinding_cases [of w old new "Inr b" w'] by auto
  show "memBinding w (bnd_key old) = Some old \<Longrightarrow> patchBindingStatus memKube old new w = (Inl e, w') \<Longrightarrow>
      memBinding w' = memBinding w \<or>
      memBinding w' = (memBinding w)(bnd_key old \<mapsto> patchedBinding old new)"
    using memPatchBinding_cases [of w old new "Inl e" w'] by auto
next
  fix ns w bs
  have dom: "n \<in> set (map fst (mwBindings w))" if "memBinding w n = Some b" for n b
    using that by (auto simp: memBinding_def dest!: map_of_SomeD intro: rev_image_eqI)
  assume "listBindings memKube (Some ns) w = Inr bs"
  then have bs: "bs = concat (map (\<lambda>n. case memBinding w n of None \<Rightarrow> [] | Some b \<Rightarrow> [b])
      (filter (\<lambda>n. fst n = ns) (remdups (map fst (mwBindings w)))))"
    by (simp add: memListBindings_def)
  have "(\<exists>n \<in> {x \<in> set (map fst (mwBindings w)). fst x = ns}. memBinding w n = Some b) \<longleftrightarrow>
      (\<exists>nm. memBinding w (ns, nm) = Some b)" for b
    using dom by (metis (mono_tags, lifting) fst_conv mem_Collect_eq prod.collapse)
  then show "set bs = {b. \<exists>nm. memBinding w (ns, nm) = Some b}"
    unfolding bs set_concat_lookup set_filter set_remdups by blast
next
  fix w bs
  have dom: "n \<in> set (map fst (mwBindings w))" if "memBinding w n = Some b" for n b
    using that by (auto simp: memBinding_def dest!: map_of_SomeD intro: rev_image_eqI)
  assume "listBindings memKube None w = Inr bs"
  then have bs: "bs = concat (map (\<lambda>n. case memBinding w n of None \<Rightarrow> [] | Some b \<Rightarrow> [b])
      (remdups (map fst (mwBindings w))))"
    by (simp add: memListBindings_def)
  show "set bs = {b. \<exists>n. memBinding w n = Some b}"
    unfolding bs set_concat_lookup set_remdups using dom by blast
qed (simp add: memUpdateBinding_frame)

interpretation mem_stores: stores_api memKube memConfig memBinding
  by unfold_locales
    (simp_all add: memUpdateBinding_frame memPatchBinding_cfgs memCreateOrUpdate_bnds memDeleteConfig_bnds)

lemma memTarget_form:
  assumes "memTarget w n = Some t"
  shows "tgt_key t = n" "storedTargetStatus (tgtStatus t) = tgtStatus t"
  using assms by (cases n; auto simp: memTarget_def memTargetForm_def)+

lemma memTarget_put: "memTarget (putTarget n t w) = (memTarget w)(n \<mapsto> memTargetForm n t)"
  by (rule ext) (simp add: memTarget_def putTarget_def map_of_filter_neq)

lemma patchedTarget_put:
  assumes "memTarget w (tgt_key old) = Some old"
  shows "memTarget (putTarget (tgt_key old) (patchedTarget old new) w) =
     (memTarget w)(tgt_key old \<mapsto> patchedTarget old new)"
  using memTarget_form [OF assms] by (simp add: memTarget_put patchedTarget_def memTargetForm_def)

lemma distinct_concat_lookup:
  assumes "distinct ns" "\<And>n t. f n = Some t \<Longrightarrow> key t = n"
  shows "distinct (concat (map (\<lambda>n. case f n of None \<Rightarrow> [] | Some t \<Rightarrow> [t]) ns))"
  using assms(1)
proof (induction ns)
  case (Cons n ns)
  show ?case
  proof (cases "f n")
    case None
    with Cons show ?thesis by simp
  next
    case (Some t)
    have "t \<notin> set (concat (map (\<lambda>n. case f n of None \<Rightarrow> [] | Some t \<Rightarrow> [t]) ns))"
    proof
      assume "t \<in> set (concat (map (\<lambda>n. case f n of None \<Rightarrow> [] | Some t \<Rightarrow> [t]) ns))"
      then obtain m where m: "m \<in> set ns" "f m = Some t" by (auto split: option.splits)
      from assms(2) [OF Some] assms(2) [OF m(2)] have "m = n" by simp
      with m(1) Cons.prems show False by simp
    qed
    with Cons Some show ?thesis by simp
  qed
qed simp

interpretation mem_targets: target_api memKube memTarget
proof
  fix ns w ts
  have dom: "n \<in> set (map fst (mwTargets w))" if "memTarget w n = Some t" for n t
    using that by (auto simp: memTarget_def dest!: map_of_SomeD intro: rev_image_eqI)
  assume "listTargets memKube (Some ns) w = Inr ts"
  then have ts: "ts = concat (map (\<lambda>n. case memTarget w n of None \<Rightarrow> [] | Some b \<Rightarrow> [b])
      (filter (\<lambda>n. fst n = ns) (remdups (map fst (mwTargets w)))))"
    by (simp add: memListTargets_def)
  have "(\<exists>n \<in> {x \<in> set (map fst (mwTargets w)). fst x = ns}. memTarget w n = Some t) \<longleftrightarrow>
      (\<exists>nm. memTarget w (ns, nm) = Some t)" for t
    using dom by (metis (mono_tags, lifting) fst_conv mem_Collect_eq prod.collapse)
  then have "set ts = {t. \<exists>nm. memTarget w (ns, nm) = Some t}"
    unfolding ts set_concat_lookup set_filter set_remdups by blast
  moreover have "distinct ts" unfolding ts
    by (rule distinct_concat_lookup [where key = tgt_key]) (use memTarget_form(1) in auto)
  ultimately show "set ts = {t. \<exists>nm. memTarget w (ns, nm) = Some t} \<and> distinct ts" ..
next
  fix w ts
  have dom: "n \<in> set (map fst (mwTargets w))" if "memTarget w n = Some t" for n t
    using that by (auto simp: memTarget_def dest!: map_of_SomeD intro: rev_image_eqI)
  assume "listTargets memKube None w = Inr ts"
  then have ts: "ts = concat (map (\<lambda>n. case memTarget w n of None \<Rightarrow> [] | Some b \<Rightarrow> [b])
      (remdups (map fst (mwTargets w))))"
    by (simp add: memListTargets_def)
  have "(\<exists>n \<in> set (map fst (mwTargets w)). memTarget w n = Some t) \<longleftrightarrow> (\<exists>n. memTarget w n = Some t)" for t
    using dom by blast
  then show "set ts = {t. \<exists>n. memTarget w n = Some t}"
    unfolding ts set_concat_lookup set_remdups by blast
next
  fix old new :: VRouterTarget and t w w' e
  assume old: "memTarget w (tgt_key old) = Some old"
  show "patchTargetStatus memKube old new w = (Inr t, w') \<Longrightarrow>
      t = patchedTarget old new \<and> memTarget w' = (memTarget w)(tgt_key old \<mapsto> patchedTarget old new)"
    using old patchedTarget_put [OF old, of new] by (auto simp: memPatchTarget_def split: if_splits)
  show "patchTargetStatus memKube old new w = (Inl e, w') \<Longrightarrow>
      memTarget w' = memTarget w \<or> memTarget w' = (memTarget w)(tgt_key old \<mapsto> patchedTarget old new)"
    using old by (auto simp: memPatchTarget_def split: if_splits)
next
  fix c1 c2 w r w'
  show "patchClusterStatus memKube c1 c2 w = (r, w') \<Longrightarrow> memTarget w' = memTarget w"
    by (auto simp: memPutCluster_def memTarget_def fun_eq_iff Let_def split: if_splits)
qed (auto simp: found_def memTarget_form split: option.splits)

section \<open>A guest in memory\<close>

definition memProvider :: "mem_world provider" where
  "memProvider =
     \<lparr>IsVMRunning = (\<lambda>w. (Inr (mwRunning w), w)),
      CheckReady = (\<lambda>w. (if mwReady w then None else Some (ErrMsg ''vyos-router.service is not active''), w)),
      ExecScript = (\<lambda>c cmds sv w. (Inr (100 + int (length (mwScripts w))),
        w\<lparr>mwScripts := mwScripts w @ [(c, cmds, sv)]\<rparr>)),
      GetExecStatus = (\<lambda>h w. (case map_of (mwResults w) h of
        None \<Rightarrow> Inl (Wrapped ''daemon'' ErrExecResultLost) | Some s \<Rightarrow> Inr s, w))\<rparr>"

definition memBackends :: "mem_world backends" where
  "memBackends =
     \<lparr>newProxmox = (\<lambda>px cl node w. Inr memProvider), newDaemon = (\<lambda>d w. Inr memProvider),
      newKubevirt = (\<lambda>nm ns w. Inr memProvider)\<rparr>"

lemma memProvider_simps [simp]:
  "IsVMRunning memProvider w = (Inr (mwRunning w), w)"
  "CheckReady memProvider w =
     (if mwReady w then None else Some (ErrMsg ''vyos-router.service is not active''), w)"
  "ExecScript memProvider c cmds sv w =
     (Inr (100 + int (length (mwScripts w))), w\<lparr>mwScripts := mwScripts w @ [(c, cmds, sv)]\<rparr>)"
  "GetExecStatus memProvider h w =
     (case map_of (mwResults w) h of
        None \<Rightarrow> Inl (Wrapped ''daemon'' ErrExecResultLost) | Some s \<Rightarrow> Inr s, w)"
  by (simp_all add: memProvider_def)

lemma memBackends_frame: "backends_frame memConfig memBackends"
  by (simp add: backends_frame_def memBackends_def provider_frames_def memConfig_def fun_eq_iff)

section \<open>A sample installation\<close>

definition sampleMeta :: "string \<Rightarrow> ObjectMeta" where
  "sampleMeta nm =
     \<lparr>metaNamespace = ''default'', metaName = nm, metaLabels = Map.empty, metaGeneration = 1,
      metaFinalizers = [FinalizerName], metaOwners = [], metaDeletionTimestamp = None\<rparr>"

definition sampleProviderConfig :: ProviderConfig where
  "sampleProviderConfig =
     \<lparr>provType = ProviderKubeVirt,
      provKubeVirt = Some \<lparr>kvName = ''vm1'', kvNamespace = [], kvKubeconfig = None\<rparr>,
      provProxmox = None, provDaemon = None\<rparr>"

definition sampleTarget :: "string \<Rightarrow> VRouterTarget" where
  "sampleTarget nm =
     \<lparr>tgtMeta = sampleMeta nm,
      tgtSpec = \<lparr>tgtProvider = sampleProviderConfig, tgtParams = ''{}''\<rparr>,
      tgtStatus = \<lparr>ProxmoxNode = [], LastRebootTime = Some (900 * Second), VMRunning = True\<rparr>\<rparr>"

definition sampleSpec :: "string \<Rightarrow> string \<Rightarrow> VRouterConfigSpec" where
  "sampleSpec tgt text =
     \<lparr>cfgTargetRef = \<lparr>refNamespace = [], refName = tgt\<rparr>, cfgSave = Some True, cfgConfig = text,
      cfgCommands = []\<rparr>"

definition sampleConfig :: "string \<Rightarrow> string \<Rightarrow> string \<Rightarrow> VRouterConfig" where
  "sampleConfig nm tgt text =
     \<lparr>cfgMeta = sampleMeta nm, cfgSpec = sampleSpec tgt text, cfgStatus = emptyConfigStatus\<rparr>"

abbreviation sampleKey :: "string \<Rightarrow> nname" where
  "sampleKey nm \<equiv> (''default'', nm)"

definition sampleWorld :: mem_world where
  "sampleWorld =
     mem_empty\<lparr>mwConfigs := [(sampleKey ''b.r1'', sampleConfig ''b.r1'' ''r1'' ''system {}'')],
       mwTargets := [(sampleKey ''r1'', sampleTarget ''r1''), (sampleKey ''r2'', sampleTarget ''r2'')]\<rparr>"

definition exitedWith :: "int \<Rightarrow> string \<Rightarrow> ExecStatus" where
  "exitedWith code out = \<lparr>Exited = True, ExitCode = code, Stdout = out, Stderr = []\<rparr>"

definition storedConfig :: "mem_world \<Rightarrow> VRouterConfig" where
  "storedConfig w = the (memConfig w (sampleKey ''b.r1''))"

end
