(* ===== verification/ConfigWorld.thy ===== *)
theory ConfigWorld
  imports ConfigProps MemKube
begin

text \<open>
  Properties of the VRouterConfig reconciler over whole histories. A world is reachable for
  a configuration \<open>n\<close> when it is reached from one without \<open>n\<close> by reconciles of any
  configuration and by steps of the environment that do not write the status of \<open>n\<close>
  (spec edits, the clock, guests, other objects); only the reconciler writes the status.
\<close>

section \<open>Reachable worlds\<close>

inductive config_world ::
  "'w kube \<Rightarrow> 'w backends \<Rightarrow> ('w \<Rightarrow> nname \<Rightarrow> VRouterConfig option) \<Rightarrow> nname \<Rightarrow> 'w \<Rightarrow> bool"
  for k bk cfgs n where
  absent: "cfgs w n = None \<Longrightarrow> config_world k bk cfgs n w"
| created: "config_world k bk cfgs n w \<Longrightarrow> cfgs w n = None \<Longrightarrow> cfgs w' n = Some c \<Longrightarrow>
    freshConfigStatus (cfgStatus c) \<Longrightarrow> config_world k bk cfgs n w'"
| environment: "config_world k bk cfgs n w \<Longrightarrow>
    map_option cfgStatus (cfgs w' n) = map_option cfgStatus (cfgs w n) \<Longrightarrow>
    config_world k bk cfgs n w'"
| reconciled: "config_world k bk cfgs n w \<Longrightarrow> Config_Reconcile k bk m w = (r, e, w') \<Longrightarrow>
    config_world k bk cfgs n w'"

text \<open>Handles are process IDs: they are positive.\<close>

definition positive_handles :: "'w kube \<Rightarrow> 'w backends \<Rightarrow> bool" where
  "positive_handles k bk \<longleftrightarrow>
     (\<forall>target w prov c cmds sv w1 pid w2. NewProvider k bk target w = Inr prov \<longrightarrow>
        ExecScript prov c cmds sv w1 = (Inr pid, w2) \<longrightarrow> 0 < pid)"

text \<open>
  Where an event of the history comes from: a reconcile in a reachable world \<open>w0\<close> of the
  object \<open>c\<close> as it was then, with the answer of the provider built for it.
\<close>

definition witnessed ::
  "'w kube \<Rightarrow> 'w backends \<Rightarrow> ('w \<Rightarrow> nname \<Rightarrow> VRouterConfig option) \<Rightarrow> nname \<Rightarrow> apply_event \<Rightarrow> bool" where
  "witnessed k bk cfgs n ev \<longleftrightarrow>
     (\<exists>w0 c target prov. config_world k bk cfgs n w0 \<and> cfgs w0 n = Some c \<and>
        NewProvider k bk target w0 = Inr prov \<and> evidence prov c ev)"

lemma fresh_abs: "freshConfigStatus st \<Longrightarrow> fresh_apply (abs_status st)"
  by (auto simp: freshConfigStatus_def fresh_apply_def abs_status_def appliedCondition_def)

lemma witnessed_real:
  assumes "positive_handles k bk" "witnessed k bk cfgs n ev"
  shows "real_handle ev"
proof (cases ev)
  case (Dispatched pid g t rb)
  from assms(2) [unfolded Dispatched] obtain w0 target prov w1 w2 and c :: VRouterConfig where "NewProvider k bk target w0 = Inr prov"
    "ExecScript prov (cfgConfig (cfgSpec c)) (cfgCommands (cfgSpec c))
       (BoolValue (cfgSave (cfgSpec c)) True) w1 = (Inr pid, w2)"
    unfolding witnessed_def evidence_def apply_event.case by blast
  with assms(1) have "0 < pid" unfolding positive_handles_def by blast
  with Dispatched show ?thesis by (simp add: real_handle_def)
qed (simp_all add: real_handle_def)

text \<open>The history of an object: a run of the abstract machine from a fresh state.\<close>

lemma config_history:
  assumes "config_runtime k cfgs bk" "config_world k bk cfgs n w" "cfgs w n = Some c"
  shows "\<exists>s0 es. fresh_apply s0 \<and> apply_run s0 es (abs_status (cfgStatus c)) \<and>
           (\<forall>e \<in> set es. witnessed k bk cfgs n e)"
  using assms(2,3)
proof (induction arbitrary: c rule: config_world.induct)
  case (absent w)
  then show ?case by simp
next
  case (created w w' d)
  then have "fresh_apply (abs_status (cfgStatus c))" using fresh_abs by auto
  then show ?case
    by (intro exI [of _ "abs_status (cfgStatus c)"] exI [of _ "[]"]) (simp add: run_nil)
next
  case (environment w w')
  then obtain d where "cfgs w n = Some d" "cfgStatus d = cfgStatus c" by (cases "cfgs w n") auto
  with environment.IH show ?case by metis
next
  case (reconciled w m r e w')
  show ?case
  proof (cases "m = n")
    case True
    from config_runtime.Reconcile_progress [OF assms(1) reconciled.hyps(2) [unfolded True] reconciled.prems]
    obtain d where d: "cfgs w n = Some d"
      "cfgStatus c = cfgStatus d \<or>
       (\<exists>target prov. NewProvider k bk target w = Inr prov \<and> progress prov 2 d c)" by blast
    from reconciled.IH [OF d(1)] obtain s0 es where run: "fresh_apply s0"
      "apply_run s0 es (abs_status (cfgStatus d))" "\<forall>e \<in> set es. witnessed k bk cfgs n e" by blast
    from d(2) show ?thesis
    proof
      assume "\<exists>target prov. NewProvider k bk target w = Inr prov \<and> progress prov 2 d c"
      then obtain target prov fs where new: "NewProvider k bk target w = Inr prov"
        "apply_run (abs_status (cfgStatus d)) fs (abs_status (cfgStatus c))"
        "\<forall>e \<in> set fs. evidence prov d e"
        by (auto simp: progress_def)
      with d(1) reconciled.hyps(1) have "\<forall>e \<in> set fs. witnessed k bk cfgs n e"
        unfolding witnessed_def by blast
      with run new(2) show ?thesis
        by (intro exI [of _ s0] exI [of _ "es @ fs"]) (auto simp: apply_run_append)
    next
      assume "cfgStatus c = cfgStatus d"
      with run show ?thesis by metis
    qed
  next
    case False
    then have "cfgs w' n = cfgs w n"
      using config_runtime.Reconcile_isolated [OF assms(1) reconciled.hyps(2)] by simp
    with reconciled show ?thesis by simp
  qed
qed

text \<open>What every history gives.\<close>

lemma config_world_inv:
  assumes "config_runtime k cfgs bk" "positive_handles k bk" "config_world k bk cfgs n w"
    and "cfgs w n = Some c"
  shows "apply_inv (abs_status (cfgStatus c))"
proof -
  obtain s0 es where "fresh_apply s0" "apply_run s0 es (abs_status (cfgStatus c))"
    "\<forall>e \<in> set es. witnessed k bk cfgs n e"
    using config_history [OF assms(1,3,4)] by blast
  with assms(2) show ?thesis using apply_run_inv fresh_apply_inv witnessed_real by metis
qed

lemma config_world_earned:
  assumes "config_runtime k cfgs bk" "positive_handles k bk" "config_world k bk cfgs n w"
    and "cfgs w n = Some c" "appliedCondition (cfgStatus c) = Some cond"
    and "condStatus cond = ConditionTrue"
  shows "\<exists>es. success_recorded es (condObservedGeneration cond) \<and>
           (\<forall>e \<in> set es. witnessed k bk cfgs n e)"
proof -
  obtain s0 es where es: "fresh_apply s0" "apply_run s0 es (abs_status (cfgStatus c))"
    "\<forall>e \<in> set es. witnessed k bk cfgs n e"
    using config_history [OF assms(1,3,4)] by blast
  moreover have "aApplied (abs_status (cfgStatus c)) = Some (ConditionTrue, condObservedGeneration cond)"
    using assms(5,6) by (simp add: abs_status_def)
  ultimately have "success_recorded es (condObservedGeneration cond)"
    using fresh_run_history witnessed_real [OF assms(2)] by blast
  with es(3) show ?thesis by blast
qed

section \<open>Properties\<close>


text \<open>
  C2. Status invariant: in every reachable world the status of a VRouterConfig is
  consistent. A positive exec handle comes with phase Applying; phase Applying comes with
  \<open>Applied=False\<close> for the dispatched generation; phase Applied is the same as
  \<open>Applied=True\<close>; the generation of a True condition is the observed one; and without a
  handle there is no start time.
\<close>

theorem config_status_invariant:
  assumes "config_runtime k cfgs bk" "positive_handles k bk" "config_world k bk cfgs n w"
    and "cfgs w n = Some c"
  shows "apply_inv (abs_status (cfgStatus c))"
  by (rule config_world_inv [OF assms])


section \<open>Single reconciles\<close>

lemma time_sub_mono: "t \<le> t' \<Longrightarrow> time_sub t u \<le> time_sub t' u"
  by (auto simp: time_sub_def)

text \<open>What a handler that ends with a successful patch leaves in the store.\<close>

lemma failApplyTimeout_result:
  assumes "config_runtime k cfgs bk" "cfgs w (cfg_key cfg) = Some cfg"
    and "failApplyTimeout k cfg msg w = (r, None, w')"
  shows "\<exists>c'. cfgs w' (cfg_key cfg) = Some c' \<and> ExecPID (cfgStatus c') = 0 \<and>
           cfgPhase (cfgStatus c') = PhaseFailed"
  using config_runtime.finishPatch_result(1) [OF assms(1,2) assms(3) [unfolded failApplyTimeout_def]]
  by (simp add: config_runtime.setApplied_fields [OF assms(1)])

lemma unfinishedExec_timeout:
  assumes "ExecStartedTime (cfgStatus cfg) = Some t0" "execApplyTimeout < time_sub (now k w) t0"
  shows "\<exists>msg. unfinishedExec k cfg err w = failApplyTimeout k cfg msg w"
  using assms by (auto simp: unfinishedExec_def Let_def)

lemma finishExec_result:
  assumes "config_runtime k cfgs bk" "cfgs w (cfg_key cfg) = Some cfg"
    and "finishExec k cfg x w = (r, None, w')"
  shows "\<exists>c'. cfgs w' (cfg_key cfg) = Some c' \<and> r = noRequeue \<and> ExecPID (cfgStatus c') = 0 \<and>
     ExecStartedTime (cfgStatus c') = None \<and>
     cfgPhase (cfgStatus c') = (if applySucceeded x then PhaseApplied else PhaseFailed) \<and>
     LastAppliedTime (cfgStatus c') =
       (if applySucceeded x then Some (trunc_sec (now k w)) else LastAppliedTime (cfgStatus cfg)) \<and>
     aApplied (abs_status (cfgStatus c')) =
       Some (if applySucceeded x then ConditionTrue else ConditionFalse, ObservedGeneration (cfgStatus cfg))"
proof -
  have last: "map_option trunc_sec (LastAppliedTime (cfgStatus cfg)) = LastAppliedTime (cfgStatus cfg)"
    using config_api.stored_form [of k cfgs w "cfg_key cfg" cfg] assms(1,2) storedConfigStatus_simps(4)
    unfolding config_runtime_def by metis
  have keep: "LastAppliedTime (setApplied k s rs msg w st) = LastAppliedTime st" for s rs msg st
    by (simp add: setApplied_def)
  show ?thesis
    using config_runtime.finishPatch_result [OF assms(1,2) assms(3) [unfolded finishExec_def Let_def]] last
    by (simp add: config_runtime.setApplied_fields [OF assms(1)] config_runtime.abs_setApplied [OF assms(1)]
        abs_status_stored keep)
qed




text \<open>
  C12. The verdict on a script that ran to its end: if the poll is recorded, the handle is
  given up, the configuration counts as applied exactly when the exit code is 0 and neither
  stdout nor stderr shows a failure marker, the condition says so for the dispatched
  generation, and the time of the last success moves only then.
\<close>

theorem finished_script_verdict:
  assumes "config_runtime k cfgs bk" "provider_frames cfgs prov"
    and "cfgs w (cfg_key cfg) = Some cfg"
    and "GetExecStatus prov (ExecPID (cfgStatus cfg)) w = (Inr x, w1)" "Exited x"
    and "pollExecStatus k cfg prov w = (r, None, w')"
  defines "ok \<equiv> ExitCode x = 0 \<and>
    \<not> (\<exists>m \<in> set applyFailureMarkers. contains (ToLower (Stdout x @ newline # Stderr x)) (ToLower m))"
  shows "\<exists>c'. cfgs w' (cfg_key cfg) = Some c' \<and> r = noRequeue \<and> ExecPID (cfgStatus c') = 0 \<and>
     cfgPhase (cfgStatus c') = (if ok then PhaseApplied else PhaseFailed) \<and>
     LastAppliedTime (cfgStatus c') =
       (if ok then Some (trunc_sec (now k w1)) else LastAppliedTime (cfgStatus cfg)) \<and>
     aApplied (abs_status (cfgStatus c')) =
       Some (if ok then ConditionTrue else ConditionFalse, ObservedGeneration (cfgStatus cfg))"
proof -
  have ok: "applySucceeded x = ok"
    by (simp add: applySucceeded_def ok_def ApplyOutputIndicatesFailure_iff)
  have w1: "cfgs w1 (cfg_key cfg) = Some cfg"
    using provider_framesD(4) [OF assms(2,4)] assms(3) by simp
  have "finishExec k cfg x w1 = (r, None, w')"
    using assms(4,5,6) by (simp add: pollExecStatus_def)
  from finishExec_result [OF assms(1) w1 this] ok show ?thesis by auto
qed

text \<open>
  A lost result is applied again: when the provider no longer knows the handle and the
  reset is recorded, the next reconcile that finds the router ready dispatches the script
  again, whatever the generation and the reboot time of the target.
\<close>

theorem lost_result_reapplied:
  assumes "config_runtime k cfgs bk" "provider_frames cfgs prov"
    and "cfgs w (cfg_key cfg) = Some cfg"
    and "GetExecStatus prov (ExecPID (cfgStatus cfg)) w = (Inl err, w1)" "errors_Is err ErrExecResultLost"
    and "pollExecStatus k cfg prov w = (r, None, w')"
  shows "r = requeueIn requeueAfter \<and>
    (\<exists>c'. cfgs w' (cfg_key cfg) = Some c' \<and> cfgSpec c' = cfgSpec cfg \<and>
       (\<forall>prov' target v v'. CheckReady prov' v = (None, v') \<longrightarrow>
          checkReadyAndDispatch k c' prov' target v =
          applyConfig k c' prov' (LastRebootTime (tgtStatus target)) v'))"
proof -
  have w1: "cfgs w1 (cfg_key cfg) = Some cfg"
    using provider_framesD(4) [OF assms(2,4)] assms(3) by simp
  let ?st = "(cfgStatus cfg)\<lparr>ExecPID := 0, ExecStartedTime := None, cfgPhase := PhasePending,
    cfgMessage := ''previous apply result was lost; re-applying''\<rparr>"
  have "finishPatch k cfg ?st (requeueIn requeueAfter) w1 = (r, None, w')"
    using assms(4,5,6) by (simp add: pollExecStatus_def)
  from config_runtime.finishPatch_result [OF assms(1) w1 this] show ?thesis
    by (auto simp: checkReadyAndDispatch_def stampExecStartedTimeIfMissing_def dispatchOrPoll_def)
qed

section \<open>Witnesses\<close>

interpretation mem_runtime: config_runtime memKube memConfig memBackends
  by unfold_locales (rule memBackends_frame)

lemma mem_NewProvider: "NewProvider memKube memBackends t w = Inr p \<Longrightarrow> p = memProvider"
  by (auto simp: NewProvider_def memBackends_def Let_def split: ProviderType.splits option.splits sum.splits)

lemma mem_positive_handles: "positive_handles memKube memBackends"
  by (auto simp: positive_handles_def dest!: mem_NewProvider)

text \<open>
  A history of the sample installation: the configuration is dispatched, and its script ends
  with exit code 0.
\<close>

definition sampleApplying :: mem_world where
  "sampleApplying = world_of (Config_Reconcile memKube memBackends (sampleKey ''b.r1'') sampleWorld)"

definition sampleExited :: "ExecStatus \<Rightarrow> mem_world" where
  "sampleExited x = sampleApplying\<lparr>mwResults := [(100, x)]\<rparr>"

definition sampleApplied :: mem_world where
  "sampleApplied =
     world_of (Config_Reconcile memKube memBackends (sampleKey ''b.r1'') (sampleExited (exitedWith 0 ''ok'')))"

lemma reconciled_world:
  "config_world k bk cfgs n w \<Longrightarrow> config_world k bk cfgs n (world_of (Config_Reconcile k bk m w))"
  by (rule config_world.reconciled [where r = "result_of (Config_Reconcile k bk m w)"
        and e = "error_of (Config_Reconcile k bk m w)" and m = m]) simp_all

lemma sampleWorld_world: "config_world memKube memBackends memConfig (sampleKey ''b.r1'') sampleWorld"
proof (rule config_world.created)
  show "config_world memKube memBackends memConfig (sampleKey ''b.r1'') mem_empty"
    by (rule config_world.absent) (simp add: mem_empty_def memConfig_def)
  show "memConfig sampleWorld (sampleKey ''b.r1'') =
      Some (memForm (sampleKey ''b.r1'') (sampleConfig ''b.r1'' ''r1'' ''system {}''))"
    by (simp add: sampleWorld_def memConfig_def)
qed (simp_all add: mem_empty_def memConfig_def memForm_def sampleConfig_def freshConfigStatus_def
    emptyConfigStatus_def)

lemma sampleApplied_world: "config_world memKube memBackends memConfig (sampleKey ''b.r1'') sampleApplied"
proof -
  have "config_world memKube memBackends memConfig (sampleKey ''b.r1'') sampleApplying"
    unfolding sampleApplying_def by (rule reconciled_world [OF sampleWorld_world])
  then have "config_world memKube memBackends memConfig (sampleKey ''b.r1'') (sampleExited x)" for x
    by (rule config_world.environment) (simp add: sampleExited_def memConfig_def)
  then show ?thesis unfolding sampleApplied_def by (rule reconciled_world)
qed

lemma sampleApplied_stored:
  "memConfig sampleApplied (sampleKey ''b.r1'') = Some (storedConfig sampleApplied)"
proof -
  have "memConfig sampleApplied (sampleKey ''b.r1'') \<noteq> None" by code_simp
  then show ?thesis by (auto simp: storedConfig_def)
qed

lemma sampleApplying_stored:
  "memConfig (sampleExited x) (sampleKey ''b.r1'') = Some (storedConfig (sampleExited x))"
  "cfg_key (storedConfig (sampleExited x)) = sampleKey ''b.r1''"
  "ExecPID (cfgStatus (storedConfig (sampleExited x))) = 100"
  "ExecStartedTime (cfgStatus (storedConfig (sampleExited x))) = Some (1000 * Second)"
proof -
  have same: "memConfig (sampleExited x) = memConfig sampleApplying"
    by (simp add: fun_eq_iff sampleExited_def memConfig_def)
  then have eq: "storedConfig (sampleExited x) = storedConfig sampleApplying"
    by (simp add: storedConfig_def)
  have "memConfig sampleApplying (sampleKey ''b.r1'') \<noteq> None" by code_simp
  then show "memConfig (sampleExited x) (sampleKey ''b.r1'') = Some (storedConfig (sampleExited x))"
    using same eq by (auto simp: storedConfig_def)
  then show "cfg_key (storedConfig (sampleExited x)) = sampleKey ''b.r1''"
    by (rule memConfig_form(1))
  show "ExecPID (cfgStatus (storedConfig (sampleExited x))) = 100" unfolding eq by code_simp
  show "ExecStartedTime (cfgStatus (storedConfig (sampleExited x))) = Some (1000 * Second)"
    unfolding eq by code_simp
qed

lemma mem_frames_provider: "provider_frames memConfig memProvider"
  using memBackends_frame by (simp add: backends_frame_def memBackends_def)


theorem config_status_invariant_witness:
  "apply_inv (abs_status (cfgStatus (storedConfig sampleApplied)))"
  by (rule config_status_invariant [of memKube memConfig memBackends "sampleKey ''b.r1''" sampleApplied,
        OF mem_runtime.config_runtime_axioms mem_positive_handles sampleApplied_world sampleApplied_stored])


text \<open>Six minutes after the dispatch the router is down: the apply is given up.\<close>

definition sampleStuck :: mem_world where
  "sampleStuck = (sampleExited (exitedWith 0 ''ok''))\<lparr>mwNow := 1360 * Second, mwReady := False\<rparr>"


lemma memFresh_sample:
  "memConfig sampleWorld (sampleKey ''b.r1'') = Some (storedConfig sampleWorld)"
  "cfg_key (storedConfig sampleWorld) = sampleKey ''b.r1''"
proof -
  have "memConfig sampleWorld (sampleKey ''b.r1'') \<noteq> None" by code_simp
  then show "memConfig sampleWorld (sampleKey ''b.r1'') = Some (storedConfig sampleWorld)"
    by (auto simp: storedConfig_def)
  then show "cfg_key (storedConfig sampleWorld) = sampleKey ''b.r1''" by (rule memConfig_form(1))
qed

text \<open>An outcome without an error, from its evaluation.\<close>

lemma outcome_ok: "error_of out = None \<Longrightarrow> out = (result_of out, None, world_of out)"
  by (metis prod.collapse)



theorem finished_script_verdict_witness:
  "\<exists>c'. memConfig (world_of (pollExecStatus memKube (storedConfig sampleApplying) memProvider
          (sampleExited (exitedWith 0 ''Commit failed'')))) (sampleKey ''b.r1'') = Some c' \<and>
        cfgPhase (cfgStatus c') = PhaseFailed"
proof -
  let ?x = "exitedWith 0 ''Commit failed''"
  let ?out = "pollExecStatus memKube (storedConfig (sampleExited ?x)) memProvider (sampleExited ?x)"
  have marker: "\<exists>m \<in> set applyFailureMarkers. contains (ToLower (Stdout ?x @ newline # Stderr ?x)) (ToLower m)"
  proof (rule bexI)
    have "ToLower (''Commit failed'' @ [newline]) = ToLower ''Commit failed'' @ ToLower [newline]"
      by (rule ToLower_append_ascii) simp
    then show "contains (ToLower (Stdout ?x @ newline # Stderr ?x)) (ToLower ''Commit failed'')"
      by (simp only: exitedWith_def ExecStatus.simps contains_def sublist_append append_Nil2) simp
  qed (simp add: applyFailureMarkers_def)
  have stored: "memConfig (sampleExited ?x) (cfg_key (storedConfig (sampleExited ?x))) =
      Some (storedConfig (sampleExited ?x))"
    using sampleApplying_stored(1,2) [of ?x] by simp
  have exited: "GetExecStatus memProvider (ExecPID (cfgStatus (storedConfig (sampleExited ?x)))) (sampleExited ?x) =
      (Inr ?x, sampleExited ?x)" "Exited ?x"
    using sampleApplying_stored(3) [of ?x] by (simp_all add: sampleExited_def exitedWith_def)
  have "\<not> mwDown sampleApplying" by code_simp
  then have "error_of ?out = None"
    using exited stored
    by (simp add: pollExecStatus_def finishExec_def finishPatch_def memPatchConfig_def Let_def sampleExited_def)
  note out = outcome_ok [OF this]
  from finished_script_verdict [OF mem_runtime.config_runtime_axioms mem_frames_provider stored exited out]
    marker
  have "\<exists>c'. memConfig (world_of ?out) (cfg_key (storedConfig (sampleExited ?x))) = Some c' \<and>
      cfgPhase (cfgStatus c') = PhaseFailed"
    by (elim exE conjE) (simp only: not_True_eq_False simp_thms if_False, blast)
  moreover have "storedConfig (sampleExited ?x) = storedConfig sampleApplying"
    by (simp add: storedConfig_def sampleExited_def memConfig_def)
  ultimately show ?thesis using sampleApplying_stored(2) [of ?x] by auto
qed

theorem lost_result_reapplied_witness:
  "result_of (pollExecStatus memKube (storedConfig sampleApplying) memProvider sampleApplying) =
     requeueIn requeueAfter"
proof -
  let ?out = "pollExecStatus memKube (storedConfig sampleApplying) memProvider sampleApplying"
  have "error_of ?out = None" by code_simp
  note out = outcome_ok [OF this]
  have c: "memConfig sampleApplying (sampleKey ''b.r1'') = Some (storedConfig sampleApplying)"
    using sampleApplying_stored(1) [of undefined]
    by (simp add: sampleExited_def memConfig_def storedConfig_def)
  have "mwResults sampleApplying = []" by code_simp
  then show ?thesis
    using lost_result_reapplied [OF mem_runtime.config_runtime_axioms mem_frames_provider _ _ _ out,
        of "Wrapped ''daemon'' ErrExecResultLost" sampleApplying] c memConfig_form(1) [OF c]
    by simp
qed

end
