(* ===== verification/ConfigConvergence.thy ===== *)
theory ConfigConvergence
  imports ConfigWorld
begin

text \<open>
  A whole apply, from the moment it is due to \<open>Applied=True\<close>: the number of steps left is a
  measure of the status that every reconcile lowers whose questions to the router are answered
  as hoped for. A router that is not ready, a script that still runs and a lost result delay
  the end, each by a bounded number of reconciles.
\<close>

section \<open>Rounds\<close>

text \<open>
  The steps left for the generation \<open>gen\<close> and the reboot time \<open>reboot\<close>: a script that runs for them
  has to end; one that runs for others has to end first, then comes a dispatch and an end.
\<close>

definition steps_left :: "int \<Rightarrow> time option \<Rightarrow> VRouterConfigStatus \<Rightarrow> nat" where
  "steps_left gen reboot st =
     (if 0 < ExecPID st then (if gen = effectiveObservedGen st reboot then 1 else 3)
      else if gen = effectiveObservedGen st reboot \<and> conclusive (cfgPhase st) then 0 else 2)"

text \<open>
  A reconcile of \<open>n\<close> gets to the router: the configuration is live, has its finalizer and the
  generation \<open>gen\<close>, its target was rebooted at \<open>reboot\<close>, and the provider says that it runs.
\<close>

definition at_router ::
  "'w kube \<Rightarrow> 'w backends \<Rightarrow> nname \<Rightarrow> int \<Rightarrow> time option \<Rightarrow> 'w \<Rightarrow> bool" where
  "at_router k bk n gen reboot w \<longleftrightarrow>
     (case getConfig k n w of
        Inl e \<Rightarrow> False
      | Inr cfg \<Rightarrow>
          DeletionTimestamp_IsZero (cfgMeta cfg) \<and>
          ContainsFinalizer k (metaFinalizers (cfgMeta cfg)) FinalizerName \<and> cfg_generation cfg = gen \<and>
          (let ref = cfgTargetRef (cfgSpec cfg) in
           case getTarget k (ResolveNamespace ref (metaNamespace (cfgMeta cfg)), refName ref) w of
             Inl e \<Rightarrow> False
           | Inr target \<Rightarrow> LastRebootTime (tgtStatus target) = reboot \<and>
               (case NewProvider k bk target w of
                  Inl e \<Rightarrow> False
                | Inr prov \<Rightarrow> fst (IsVMRunning prov w) = Inr True)))"

text \<open>
  What the router answers to a reconcile. \<open>Later\<close>: it is not ready, the script still runs, or
  its result is lost. \<open>Bad\<close>: the script failed, or the time limit is over without a result.
\<close>

datatype answer = Good | Later | Bad

definition overdue :: "'w kube \<Rightarrow> VRouterConfig \<Rightarrow> 'w \<Rightarrow> bool" where
  "overdue k cfg w \<longleftrightarrow>
     (case ExecStartedTime (cfgStatus cfg) of
        None \<Rightarrow> False | Some t0 \<Rightarrow> execApplyTimeout < time_sub (now k w) t0)"

definition provider_answer :: "'w kube \<Rightarrow> VRouterConfig \<Rightarrow> 'w provider \<Rightarrow> 'w \<Rightarrow> answer" where
  "provider_answer k cfg prov w =
     (case stampExecStartedTimeIfMissing k cfg w of
        (Inl e, w1) \<Rightarrow> Good
      | (Inr cfg1, w1) \<Rightarrow>
          (let pid = ExecPID (cfgStatus cfg1) in
           case CheckReady prov w1 of
             (Some e, w2) \<Rightarrow> if 0 < pid \<and> overdue k cfg1 w2 then Bad else Later
           | (None, w2) \<Rightarrow>
               if pid \<le> 0 then Good
               else (case GetExecStatus prov pid w2 of
                       (Inl e, w3) \<Rightarrow>
                         if \<not> errors_Is e ErrExecResultLost \<and> overdue k cfg1 w3 then Bad else Later
                     | (Inr x, w3) \<Rightarrow>
                         if Exited x then (if applySucceeded x then Good else Bad)
                         else if overdue k cfg1 w3 then Bad else Later)))"

definition router_answer :: "'w kube \<Rightarrow> 'w backends \<Rightarrow> nname \<Rightarrow> 'w \<Rightarrow> answer" where
  "router_answer k bk n w =
     (case getConfig k n w of
        Inl e \<Rightarrow> Good
      | Inr cfg \<Rightarrow>
          (let ref = cfgTargetRef (cfgSpec cfg) in
           case getTarget k (ResolveNamespace ref (metaNamespace (cfgMeta cfg)), refName ref) w of
             Inl e \<Rightarrow> Good
           | Inr target \<Rightarrow>
               (case NewProvider k bk target w of
                  Inl e \<Rightarrow> Good
                | Inr prov \<Rightarrow> provider_answer k cfg prov (snd (IsVMRunning prov w)))))"

text \<open>
  \<open>m\<close> rounds, \<open>d\<close> of them delayed: reconciles of \<open>n\<close> that get to the router, return no error and
  will be run again, since they ask for it or since they have changed the object they watch.
  Between them others do what they like, except write the status.
\<close>

inductive apply_rounds ::
  "'w kube \<Rightarrow> 'w backends \<Rightarrow> ('w \<Rightarrow> nname \<Rightarrow> VRouterConfig option) \<Rightarrow> nname \<Rightarrow> int \<Rightarrow> time option \<Rightarrow>
     nat \<Rightarrow> nat \<Rightarrow> 'w \<Rightarrow> 'w \<Rightarrow> bool"
  for k bk cfgs n gen reboot where
    start: "apply_rounds k bk cfgs n gen reboot 0 0 w w"
  | round: "apply_rounds k bk cfgs n gen reboot m d w v \<Longrightarrow> at_router k bk n gen reboot v \<Longrightarrow>
      Config_Reconcile k bk n v = (r, None, u) \<Longrightarrow> router_answer k bk n v \<noteq> Bad \<Longrightarrow>
      r \<noteq> noRequeue \<or> cfgs u n \<noteq> cfgs v n \<Longrightarrow>
      map_option cfgStatus (cfgs v' n) = map_option cfgStatus (cfgs u n) \<Longrightarrow>
      d' = (if router_answer k bk n v = Later then Suc d else d) \<Longrightarrow>
      apply_rounds k bk cfgs n gen reboot (Suc m) d' w v'"

section \<open>One round\<close>

lemma steps_left_le: "steps_left gen reboot st \<le> 3"
  by (simp add: steps_left_def)

lemma effectiveObservedGen_eq:
  "ObservedGeneration st' = ObservedGeneration st \<Longrightarrow> LastRebootHandledTime st' = LastRebootHandledTime st \<Longrightarrow>
     effectiveObservedGen st' reboot = effectiveObservedGen st reboot"
  by (simp add: effectiveObservedGen_def)

lemma steps_left_cong:
  "ExecPID st' = ExecPID st \<Longrightarrow> cfgPhase st' = cfgPhase st \<Longrightarrow>
     ObservedGeneration st' = ObservedGeneration st \<Longrightarrow> LastRebootHandledTime st' = LastRebootHandledTime st \<Longrightarrow>
     steps_left gen reboot st' = steps_left gen reboot st"
  by (simp add: steps_left_def effectiveObservedGen_eq [of st' st])

text \<open>
  What a round does to the status: an answer as hoped for lowers the measure, or nothing is
  left and nothing happens; a delay raises it by at most two and asks for another round.
\<close>

definition round_done ::
  "int \<Rightarrow> time option \<Rightarrow> answer \<Rightarrow> ctrl_Result \<Rightarrow> VRouterConfig \<Rightarrow> VRouterConfig \<Rightarrow> bool" where
  "round_done gen reboot ans r c c' \<longleftrightarrow>
     (let a = steps_left gen reboot (cfgStatus c); b = steps_left gen reboot (cfgStatus c') in
      case ans of
        Good \<Rightarrow> (a = 0 \<and> c' = c \<and> r = noRequeue) \<or>
                (b < a \<and> (b = 0 \<longrightarrow> cfgPhase (cfgStatus c') = PhaseApplied))
      | Later \<Rightarrow> r \<noteq> noRequeue \<and> b \<le> a + 2 \<and> (b = 0 \<longrightarrow> a = 0 \<and> c' = c)
      | Bad \<Rightarrow> True)"

lemma waits_requeue [simp]:
  "requeueIn requeueAfter \<noteq> noRequeue" "requeueIn notReadyRequeue \<noteq> noRequeue"
  by (simp_all add: requeueIn_def noRequeue_def requeueAfter_def notReadyRequeue_def Second_def)

context config_runtime
begin

text \<open>A handler that ends with a patch: what counts is the status it writes.\<close>

lemma finishPatch_round:
  assumes "cfgs w (cfg_key cfg) = Some cfg" "finishPatch k cfg st res w = (r, None, w')"
    and "\<And>c'. cfgStatus c' = storedConfigStatus st \<Longrightarrow> round_done gen reboot ans res cfg c'"
  shows "\<exists>c'. cfgs w' (cfg_key cfg) = Some c' \<and> round_done gen reboot ans r cfg c'"
  using finishPatch_result [OF assms(1,2)] assms(3) by simp

lemma notReady_round:
  assumes "cfgs w (cfg_key cfg) = Some cfg" "handleCheckReadyFailure k cfg err w = (r, None, w')"
    and "\<not> (0 < ExecPID (cfgStatus cfg) \<and> overdue k cfg w)"
  shows "\<exists>c'. cfgs w' (cfg_key cfg) = Some c' \<and> round_done gen reboot Later r cfg c'"
proof -
  have h: "handleRouterNotReady k cfg err w = (r, None, w')"
    using assms(2,3) by (auto simp: handleCheckReadyFailure_def overdue_def split: option.splits if_splits)
  show ?thesis
  proof (cases "cfgPhase (cfgStatus cfg) = PhaseApplied")
    case True
    note out = h [unfolded handleRouterNotReady_def if_P [OF True]]
    show ?thesis
      by (rule finishPatch_round [OF assms(1) out])
        (simp add: round_done_def Let_def steps_left_def conclusive_def)
  next
    case False
    with h assms(1) show ?thesis by (auto simp: handleRouterNotReady_def round_done_def Let_def)
  qed
qed

lemma poll_round:
  assumes "cfgs w (cfg_key cfg) = Some cfg" "pollExecStatus k cfg prov w = (r, None, w')"
    and "provider_frames cfgs prov" "0 < ExecPID (cfgStatus cfg)"
    and "GetExecStatus prov (ExecPID (cfgStatus cfg)) w = (x, w1)"
    and "ans = (case x of
        Inl e \<Rightarrow> if \<not> errors_Is e ErrExecResultLost \<and> overdue k cfg w1 then Bad else Later
      | Inr s \<Rightarrow> if Exited s then (if applySucceeded s then Good else Bad)
          else if overdue k cfg w1 then Bad else Later)"
  shows "\<exists>c'. cfgs w' (cfg_key cfg) = Some c' \<and> round_done gen reboot ans r cfg c'"
proof -
  have c1: "cfgs w1 (cfg_key cfg) = Some cfg" using provider_framesD(4) [OF assms(3,5)] assms(1) by simp
  note stored = stored_cfg [OF assms(1)]
  note facts = round_done_def Let_def steps_left_def conclusive_def effectiveObservedGen_def
  have bad: "\<exists>c'. cfgs w' (cfg_key cfg) = Some c' \<and> round_done gen reboot Bad r cfg c'"
    using step_or_same_progress(2) [OF pollExecStatus_step [OF assms(1,2,4,3)] assms(1)]
    by (auto simp: round_done_def)
  have waiting: ?thesis if "unfinishedExec k cfg err w1 = (r, None, w')" "ans \<noteq> Bad \<longrightarrow> \<not> overdue k cfg w1 \<and> ans = Later" for err
  proof (cases "ans = Bad")
    case False
    with that have later: "ans = Later" "\<not> overdue k cfg w1" by blast+
    with that(1) have out: "finishPatch k cfg ((cfgStatus cfg)\<lparr>cfgPhase := PhaseApplying\<rparr>) (requeueIn requeueAfter) w1 = (r, None, w')"
      by (auto simp: unfinishedExec_def overdue_def Let_def split: option.splits if_splits)
    show ?thesis unfolding later(1)
      by (rule finishPatch_round [OF c1 out]) (simp add: facts stored assms(4))
  qed (use bad in simp)
  show ?thesis
  proof (cases x)
    case (Inl e)
    show ?thesis
    proof (cases "errors_Is e ErrExecResultLost")
      case True
      with assms(2,5,6) Inl have ans: "ans = Later" and out: "finishPatch k cfg
          ((cfgStatus cfg)\<lparr>ExecPID := 0, ExecStartedTime := None, cfgPhase := PhasePending,
            cfgMessage := ''previous apply result was lost; re-applying''\<rparr>) (requeueIn requeueAfter) w1 = (r, None, w')"
        by (simp_all add: pollExecStatus_def)
      show ?thesis unfolding ans
        by (rule finishPatch_round [OF c1 out]) (simp add: facts assms(4))
    next
      case False
      with assms(2,5,6) Inl waiting [of "Some e"] show ?thesis by (simp add: pollExecStatus_def split: if_splits)
    qed
  next
    case (Inr s)
    show ?thesis
    proof (cases "Exited s \<and> applySucceeded s")
      case True
      with assms(2,5,6) Inr have ans: "ans = Good" and "finishExec k cfg s w1 = (r, None, w')"
        by (simp_all add: pollExecStatus_def)
      note out = this(2) [unfolded finishExec_def Let_def]
      show ?thesis unfolding ans
        by (rule finishPatch_round [OF c1 out]) (use True stored assms(4) in \<open>simp add: facts\<close>)
    next
      case False
      with bad assms(2,5,6) Inr waiting [of None] show ?thesis
        by (cases "Exited s") (simp_all add: pollExecStatus_def split: if_splits)
    qed
  qed
qed

lemma dispatch_round:
  assumes "cfgs w (cfg_key cfg) = Some cfg" "dispatchOrPoll k cfg prov target w = (r, None, w')"
    and "provider_frames cfgs prov" "ExecPID (cfgStatus cfg) = 0"
    and "\<And>c cmds sv v pid v'. ExecScript prov c cmds sv v = (Inr pid, v') \<Longrightarrow> 0 < pid"
    and "map_option trunc_sec (LastRebootTime (tgtStatus target)) = LastRebootTime (tgtStatus target)"
  shows "\<exists>c'. cfgs w' (cfg_key cfg) = Some c' \<and>
    round_done (cfg_generation cfg) (LastRebootTime (tgtStatus target)) Good r cfg c'"
proof (cases "steps_left (cfg_generation cfg) (LastRebootTime (tgtStatus target)) (cfgStatus cfg) = 0")
  case True
  with assms(1,2,4) show ?thesis
    by (auto simp: dispatchOrPoll_def steps_left_def conclusive_def round_done_def Let_def split: if_splits)
next
  case False
  then have app: "applyConfig k cfg prov (LastRebootTime (tgtStatus target)) w = (r, None, w')"
    using assms(2,4) by (auto simp: dispatchOrPoll_def steps_left_def conclusive_def split: if_splits)
  then obtain pid w1 where x: "ExecScript prov (cfgConfig (cfgSpec cfg)) (cfgCommands (cfgSpec cfg))
      (BoolValue (cfgSave (cfgSpec cfg)) True) w = (Inr pid, w1)"
    by (auto simp: applyConfig_def split: prod.splits sum.splits)
  have c1: "cfgs w1 (cfg_key cfg) = Some cfg" using provider_framesD(3) [OF assms(3) x] assms(1) by simp
  have "0 < pid" using assms(5) [OF x] .
  with False assms(4,6) have "round_done (cfg_generation cfg) (LastRebootTime (tgtStatus target)) Good res cfg c'"
    if "ExecPID (cfgStatus c') = pid" "ObservedGeneration (cfgStatus c') = cfg_generation cfg"
      "LastRebootHandledTime (cfgStatus c') = LastRebootTime (tgtStatus target)" for res c'
    using that by (simp add: round_done_def Let_def steps_left_def effectiveObservedGen_def not_forced_again split: if_splits)
  then show ?thesis
    using app x assms(6) by (simp add: applyConfig_def Let_def) (erule finishPatch_round [OF c1], simp)
qed

lemma stamp_round:
  assumes "cfgs w (cfg_key cfg) = Some cfg" "stampExecStartedTimeIfMissing k cfg w = (Inr cfg1, w1)"
  shows "cfgs w1 (cfg_key cfg1) = Some cfg1" "cfg_key cfg1 = cfg_key cfg" "cfg_generation cfg1 = cfg_generation cfg"
    and "ExecPID (cfgStatus cfg1) = ExecPID (cfgStatus cfg)"
    and "steps_left gen reboot (cfgStatus cfg1) = steps_left gen reboot (cfgStatus cfg)"
    and "cfg1 = cfg \<or> ExecPID (cfgStatus cfg) \<noteq> 0"
proof -
  let ?new = "cfg\<lparr>cfgStatus := (cfgStatus cfg)\<lparr>ExecStartedTime := Some (now k w)\<rparr>\<rparr>"
  from assms(2) consider "cfg1 = cfg" "w1 = w"
    | "ExecPID (cfgStatus cfg) \<noteq> 0" "patchConfigStatus k cfg ?new w = (Inr cfg1, w1)"
    by (auto simp: stampExecStartedTimeIfMissing_def split: if_splits)
  then have "cfgs w1 (cfg_key cfg1) = Some cfg1 \<and> cfg_key cfg1 = cfg_key cfg \<and>
    cfg_generation cfg1 = cfg_generation cfg \<and> ExecPID (cfgStatus cfg1) = ExecPID (cfgStatus cfg) \<and>
    steps_left gen reboot (cfgStatus cfg1) = steps_left gen reboot (cfgStatus cfg) \<and>
    (cfg1 = cfg \<or> ExecPID (cfgStatus cfg) \<noteq> 0)"
  proof cases
    case 2
    from patch_ok [OF assms(1) 2(2)] 2(1) show ?thesis
      by (simp add: stored_cfg [OF assms(1)] steps_left_cong [of "storedConfigStatus _" "cfgStatus cfg"])
  qed (use assms(1) in simp)
  then show "cfgs w1 (cfg_key cfg1) = Some cfg1" "cfg_key cfg1 = cfg_key cfg" "cfg_generation cfg1 = cfg_generation cfg"
    and "ExecPID (cfgStatus cfg1) = ExecPID (cfgStatus cfg)"
    and "steps_left gen reboot (cfgStatus cfg1) = steps_left gen reboot (cfgStatus cfg)"
    and "cfg1 = cfg \<or> ExecPID (cfgStatus cfg) \<noteq> 0" by blast+
qed

lemma router_round:
  assumes "cfgs w (cfg_key cfg) = Some cfg" "checkReadyAndDispatch k cfg prov target w = (r, None, w')"
    and "provider_frames cfgs prov" "0 \<le> ExecPID (cfgStatus cfg)"
    and "\<And>c cmds sv v pid v'. ExecScript prov c cmds sv v = (Inr pid, v') \<Longrightarrow> 0 < pid"
    and "map_option trunc_sec (LastRebootTime (tgtStatus target)) = LastRebootTime (tgtStatus target)"
    and "provider_answer k cfg prov w \<noteq> Bad"
  shows "\<exists>c'. cfgs w' (cfg_key cfg) = Some c' \<and> round_done (cfg_generation cfg)
    (LastRebootTime (tgtStatus target)) (provider_answer k cfg prov w) r cfg c'"
proof -
  let ?g = "cfg_generation cfg" and ?rb = "LastRebootTime (tgtStatus target)" and ?a = "provider_answer k cfg prov w"
  from assms(2) obtain cfg1 w1 where st: "stampExecStartedTimeIfMissing k cfg w = (Inr cfg1, w1)"
    by (auto simp: checkReadyAndDispatch_def split: prod.splits sum.splits)
  note s = stamp_round [OF assms(1) st]
  obtain rd w2 where rd: "CheckReady prov w1 = (rd, w2)" by fastforce
  have c2: "cfgs w2 (cfg_key cfg1) = Some cfg1" using provider_framesD(2) [OF assms(3) rd] s(1) by simp
  have "\<exists>c'. cfgs w' (cfg_key cfg1) = Some c' \<and> round_done ?g ?rb ?a r cfg1 c'"
  proof (cases rd)
    case (Some e)
    with assms(2,7) st rd have "?a = Later" "\<not> (0 < ExecPID (cfgStatus cfg1) \<and> overdue k cfg1 w2)"
      "handleCheckReadyFailure k cfg1 e w2 = (r, None, w')"
      by (auto simp: provider_answer_def checkReadyAndDispatch_def Let_def split: if_splits)
    then show ?thesis using notReady_round [OF c2, of e r w' ?g ?rb] by simp
  next
    case None
    with assms(2) st rd have d: "dispatchOrPoll k cfg1 prov target w2 = (r, None, w')"
      by (simp add: checkReadyAndDispatch_def)
    show ?thesis
    proof (cases "0 < ExecPID (cfgStatus cfg1)")
      case True
      obtain x w3 where x: "GetExecStatus prov (ExecPID (cfgStatus cfg1)) w2 = (x, w3)" by fastforce
      from d True have "pollExecStatus k cfg1 prov w2 = (r, None, w')" by (simp add: dispatchOrPoll_def)
      from poll_round [OF c2 this assms(3) True x refl, of ?g ?rb] st rd None True x show ?thesis
        by (simp add: provider_answer_def Let_def)
    next
      case False
      with assms(4) s(4) have "ExecPID (cfgStatus cfg1) = 0" by simp
      from dispatch_round [OF c2 d assms(3) this assms(5,6)] s(3) st rd None False show ?thesis
        by (simp add: provider_answer_def Let_def)
    qed
  qed
  then obtain c' where c': "cfgs w' (cfg_key cfg) = Some c'" "round_done ?g ?rb ?a r cfg1 c'"
    using s(2) by auto
  have "cfg1 = cfg \<or> 0 < steps_left ?g ?rb (cfgStatus cfg)"
    using s(6) assms(4) by (auto simp: steps_left_def)
  with c' s(5) [of ?g ?rb] assms(7) show ?thesis
    by (auto simp: round_done_def Let_def split: answer.splits)
qed

lemma Reconcile_round:
  assumes "positive_handles k bk" "map_option trunc_sec reboot = reboot"
    and "at_router k bk n gen reboot w" "Config_Reconcile k bk n w = (r, None, w')"
    and "router_answer k bk n w \<noteq> Bad" "\<And>c. cfgs w n = Some c \<Longrightarrow> 0 \<le> ExecPID (cfgStatus c)"
  obtains c c' where "cfgs w n = Some c" "cfgs w' n = Some c'"
    "round_done gen reboot (router_answer k bk n w) r c c'"
proof -
  obtain cfg target prov where g: "getConfig k n w = Inr cfg" "DeletionTimestamp_IsZero (cfgMeta cfg)"
    "ContainsFinalizer k (metaFinalizers (cfgMeta cfg)) FinalizerName" "cfg_generation cfg = gen"
    "getTarget k (ResolveNamespace (cfgTargetRef (cfgSpec cfg)) (metaNamespace (cfgMeta cfg)),
       refName (cfgTargetRef (cfgSpec cfg))) w = Inr target"
    "LastRebootTime (tgtStatus target) = reboot" "NewProvider k bk target w = Inr prov"
    "fst (IsVMRunning prov w) = Inr True"
    using assms(3) by (auto simp: at_router_def Let_def split: sum.splits)
  from g(8) obtain w1 where run: "IsVMRunning prov w = (Inr True, w1)" by (metis fst_conv surj_pair)
  note st = get_found [OF g(1)]
  have fr: "provider_frames cfgs prov" using backends g(7) by (rule NewProvider_frames)
  have c1: "cfgs w1 (cfg_key cfg) = Some cfg" using provider_framesD(1) [OF fr run] st by simp
  have check: "checkReadyAndDispatch k cfg prov target w1 = (r, None, w')"
    using assms(4) g run by (simp add: Config_Reconcile_def Config_onChange_def Let_def)
  have ans: "router_answer k bk n w = provider_answer k cfg prov w1"
    using g run by (simp add: router_answer_def Let_def)
  have pid: "0 < pid" if "ExecScript prov c cmds sv v = (Inr pid, v')" for c cmds sv v pid v'
    using assms(1) g(7) that unfolding positive_handles_def by blast
  have "\<exists>c'. cfgs w' (cfg_key cfg) = Some c' \<and>
      round_done (cfg_generation cfg) (LastRebootTime (tgtStatus target)) (provider_answer k cfg prov w1) r cfg c'"
    by (rule router_round [OF c1 check fr]) (use assms(2,5,6) st g(6) ans pid in auto)
  with that st g(4,6) ans show thesis by auto
qed

text \<open>The measure over the rounds: each costs a step, and a delay brings at most three back.\<close>

lemma rounds_measure:
  assumes "apply_rounds k bk cfgs n gen reboot m d w v"
    and "positive_handles k bk" "map_option trunc_sec reboot = reboot"
    and "config_world k bk cfgs n w" "cfgs w n = Some c0" "0 < steps_left gen reboot (cfgStatus c0)"
  shows "config_world k bk cfgs n v \<and> (\<exists>c. cfgs v n = Some c \<and>
    m + steps_left gen reboot (cfgStatus c) \<le> 3 + 3 * d \<and>
    (steps_left gen reboot (cfgStatus c) = 0 \<longrightarrow> cfgPhase (cfgStatus c) = PhaseApplied))"
  using assms(1,4-6)
proof (induction rule: apply_rounds.induct)
  case (start w)
  with steps_left_le [of gen reboot "cfgStatus c0"] show ?case by auto
next
  case (round m d w v r u v' d')
  note ih = round.IH [OF round.prems]
  note world = conjunct1 [OF ih]
  from conjunct2 [OF ih] obtain c where c: "cfgs v n = Some c" "m + steps_left gen reboot (cfgStatus c) \<le> 3 + 3 * d"
    "steps_left gen reboot (cfgStatus c) = 0 \<longrightarrow> cfgPhase (cfgStatus c) = PhaseApplied"
    by (elim exE conjE) (rule that)
  have pid: "0 \<le> ExecPID (cfgStatus x)" if "cfgs v n = Some x" for x
    using config_world_inv [OF config_runtime_axioms assms(2) world that] by (simp add: apply_inv_def)
  obtain c1 where c1: "cfgs u n = Some c1" "round_done gen reboot (router_answer k bk n v) r c c1"
    by (rule Reconcile_round [OF assms(2,3) round.hyps(2-4) pid]) (use c(1) in auto)
  from round.hyps(6) c1(1) obtain c2 where c2: "cfgs v' n = Some c2" "cfgStatus c2 = cfgStatus c1"
    by (cases "cfgs v' n") auto
  have "config_world k bk cfgs n v'"
    by (rule config_world.environment [OF config_world.reconciled [OF world round.hyps(3)] round.hyps(6)])
  moreover have "Suc m + steps_left gen reboot (cfgStatus c2) \<le> 3 + 3 * d' \<and>
      (steps_left gen reboot (cfgStatus c2) = 0 \<longrightarrow> cfgPhase (cfgStatus c2) = PhaseApplied)"
    using c c1 c2 round.hyps(4,5,7)
    by (cases "router_answer k bk n v") (auto simp: round_done_def Let_def)
  ultimately show ?case by (intro conjI exI [of _ c2] c2(1)) (elim conjE, assumption)+
qed

end

section \<open>Property\<close>


section \<open>Witness\<close>

text \<open>
  The sample installation, from a moment at which the router is not ready yet: one delayed
  round, the dispatch, the poll that finds the script done, and a reconcile with nothing to do.
\<close>

definition sampleNotReady :: mem_world where
  "sampleNotReady = sampleWorld\<lparr>mwReady := False\<rparr>"

abbreviation sampleRun :: "mem_world \<Rightarrow> mem_world outcome" where
  "sampleRun \<equiv> Config_Reconcile memKube memBackends (sampleKey ''b.r1'')"

abbreviation sampleDone :: mem_world where
  "sampleDone \<equiv> sampleExited (exitedWith 0 ''ok'')"

lemma sample_at_router:
  assumes "w \<in> {sampleNotReady, sampleWorld, sampleDone, sampleApplied}"
  shows "at_router memKube memBackends (sampleKey ''b.r1'') 1 (Some (900 * Second)) w"
proof -
  have "at_router memKube memBackends (sampleKey ''b.r1'') 1 (Some (900 * Second)) sampleNotReady"
    "at_router memKube memBackends (sampleKey ''b.r1'') 1 (Some (900 * Second)) sampleWorld"
    "at_router memKube memBackends (sampleKey ''b.r1'') 1 (Some (900 * Second)) sampleDone"
    "at_router memKube memBackends (sampleKey ''b.r1'') 1 (Some (900 * Second)) sampleApplied"
    by code_simp+
  with assms show ?thesis by blast
qed

lemma sample_answers:
  "router_answer memKube memBackends (sampleKey ''b.r1'') sampleNotReady = Later"
  "router_answer memKube memBackends (sampleKey ''b.r1'') sampleWorld = Good"
  "router_answer memKube memBackends (sampleKey ''b.r1'') sampleDone = Good"
  "router_answer memKube memBackends (sampleKey ''b.r1'') sampleApplied = Good"
  by code_simp+

lemma sample_results:
  "error_of (sampleRun sampleNotReady) = None" "result_of (sampleRun sampleNotReady) = requeueIn notReadyRequeue"
  "error_of (sampleRun sampleWorld) = None" "result_of (sampleRun sampleWorld) = requeueIn requeueAfter"
  "error_of (sampleRun sampleDone) = None"
  "error_of (sampleRun sampleApplied) = None" "result_of (sampleRun sampleApplied) = noRequeue"
  by code_simp+

lemma sample_stores:
  "map_option cfgStatus (memConfig sampleWorld (sampleKey ''b.r1'')) =
     map_option cfgStatus (memConfig (world_of (sampleRun sampleNotReady)) (sampleKey ''b.r1''))"
  "map_option (\<lambda>c. cfgPhase (cfgStatus c)) (memConfig sampleDone (sampleKey ''b.r1'')) = Some PhaseApplying"
  "map_option (\<lambda>c. cfgPhase (cfgStatus c)) (memConfig sampleApplied (sampleKey ''b.r1'')) = Some PhaseApplied"
  "steps_left 1 (Some (900 * Second)) (cfgStatus (storedConfig sampleNotReady)) = 2"
  "steps_left 1 (Some (900 * Second)) (cfgStatus (storedConfig sampleApplied)) = 0"
  by code_simp+

lemma sample_environment:
  "memConfig sampleNotReady = memConfig sampleWorld"
  "memConfig sampleDone = memConfig (world_of (sampleRun sampleWorld))"
  "world_of (sampleRun sampleDone) = sampleApplied"
  by (simp_all add: fun_eq_iff sampleNotReady_def sampleExited_def sampleApplied_def sampleApplying_def memConfig_def)

text \<open>One round of the sample installation.\<close>

lemma sample_round:
  assumes "apply_rounds memKube memBackends memConfig n gen reboot m d w v" "at_router memKube memBackends n gen reboot v"
    and "error_of (Config_Reconcile memKube memBackends n v) = None"
    and "router_answer memKube memBackends n v = a" "a \<noteq> Bad"
    and "result_of (Config_Reconcile memKube memBackends n v) \<noteq> noRequeue \<or>
      memConfig (world_of (Config_Reconcile memKube memBackends n v)) n \<noteq> memConfig v n"
    and "map_option cfgStatus (memConfig v' n) =
      map_option cfgStatus (memConfig (world_of (Config_Reconcile memKube memBackends n v)) n)"
  shows "apply_rounds memKube memBackends memConfig n gen reboot (Suc m) (if a = Later then Suc d else d) w v'"
  by (rule apply_rounds.round [OF assms(1,2) outcome_ok [OF assms(3)] _ assms(6,7)])
    (use assms(4,5) in \<open>simp_all only: not_False_eq_True\<close>)

lemma sample_reboot: "map_option trunc_sec (Some (900 * Second)) = Some (900 * Second)"
  by (simp add: trunc_sec_def Second_def)

lemma sample_pid:
  assumes "memConfig sampleApplied (sampleKey ''b.r1'') = Some c"
  shows "0 \<le> ExecPID (cfgStatus c)"
proof -
  have "apply_inv (abs_status (cfgStatus c))"
    by (rule config_world_inv [of memKube memConfig memBackends "sampleKey ''b.r1''" sampleApplied,
          OF mem_runtime.config_runtime_axioms mem_positive_handles sampleApplied_world assms])
  then show ?thesis unfolding apply_inv_def by (elim conjE) (simp only: abs_status_simps)
qed

lemma sample_idle: "memConfig (world_of (sampleRun sampleApplied)) (sampleKey ''b.r1'') = memConfig sampleApplied (sampleKey ''b.r1'')"
proof -
  have ans: "router_answer memKube memBackends (sampleKey ''b.r1'') sampleApplied \<noteq> Bad"
    unfolding sample_answers(4) by simp
  have at: "at_router memKube memBackends (sampleKey ''b.r1'') 1 (Some (900 * Second)) sampleApplied"
    by (rule sample_at_router) blast
  obtain c c' where c: "memConfig sampleApplied (sampleKey ''b.r1'') = Some c"
    "memConfig (world_of (sampleRun sampleApplied)) (sampleKey ''b.r1'') = Some c'"
    "round_done 1 (Some (900 * Second)) (router_answer memKube memBackends (sampleKey ''b.r1'') sampleApplied)
       (result_of (sampleRun sampleApplied)) c c'"
    by (rule mem_runtime.Reconcile_round [OF mem_positive_handles sample_reboot at
          outcome_ok [OF sample_results(6)] ans sample_pid])
  have "c = storedConfig sampleApplied" using c(1) sampleApplied_stored by (simp only: option.inject)
  then have "steps_left 1 (Some (900 * Second)) (cfgStatus c) = 0" using sample_stores(5) by (simp only:)
  with c(3) have "c' = c" unfolding sample_answers(4) by (simp add: round_done_def Let_def)
  with c(1,2) show ?thesis by (simp only:)
qed


end
