(* ===== verification/ConfigSchedule.thy ===== *)
theory ConfigSchedule
  imports ConfigProps
begin

text \<open>
  When a reconcile of a VRouterConfig asks to be run again. A run that ends without an error
  and leaves an exec handle in the status asks for another run, unless it did not get to the
  router: the object is being deleted, or the provider reported the router as not running.
\<close>

text \<open>The reconcile of \<open>n\<close> stops before it looks at the router.\<close>

definition skips :: "'w kube \<Rightarrow> 'w backends \<Rightarrow> nname \<Rightarrow> 'w \<Rightarrow> bool" where
  "skips k bk n w \<longleftrightarrow>
     (case getConfig k n w of
        Inl _ \<Rightarrow> False
      | Inr cfg \<Rightarrow>
          \<not> DeletionTimestamp_IsZero (cfgMeta cfg) \<or>
          (let ref = cfgTargetRef (cfgSpec cfg) in
           case getTarget k (ResolveNamespace ref (metaNamespace (cfgMeta cfg)), refName ref) w of
             Inl _ \<Rightarrow> False
           | Inr target \<Rightarrow>
               (case NewProvider k bk target w of
                  Inl _ \<Rightarrow> False
                | Inr prov \<Rightarrow> fst (IsVMRunning prov w) = Inr False)))"

text \<open>An outcome that leaves a handle only together with a requeue.\<close>

definition rescheduled :: "('w \<Rightarrow> nname \<Rightarrow> VRouterConfig option) \<Rightarrow> nname \<Rightarrow> 'w outcome \<Rightarrow> bool" where
  "rescheduled cfgs n out \<longleftrightarrow>
     error_of out \<noteq> None \<or> 0 < RequeueAfter (result_of out) \<or>
     (\<forall>c. cfgs (world_of out) n = Some c \<longrightarrow> ExecPID (cfgStatus c) \<le> 0)"

context config_runtime
begin

lemma finishPatch_rescheduled:
  assumes "cfgs w (cfg_key cfg) = Some cfg" "ExecPID st \<le> 0 \<or> 0 < RequeueAfter res"
  shows "rescheduled cfgs (cfg_key cfg) (finishPatch k cfg st res w)"
proof -
  obtain r e w' where out: "finishPatch k cfg st res w = (r, e, w')" by (metis surj_pair)
  show ?thesis
    using finishPatch_result [OF assms(1), of st res r w'] assms(2) out
    by (cases e) (auto simp: rescheduled_def)
qed

lemma failApplyTimeout_rescheduled:
  "cfgs w (cfg_key cfg) = Some cfg \<Longrightarrow> rescheduled cfgs (cfg_key cfg) (failApplyTimeout k cfg msg w)"
  by (simp add: failApplyTimeout_def finishPatch_rescheduled)

lemma handleCheckReadyFailure_rescheduled:
  "cfgs w (cfg_key cfg) = Some cfg \<Longrightarrow> rescheduled cfgs (cfg_key cfg) (handleCheckReadyFailure k cfg e w)"
  by (auto simp: handleCheckReadyFailure_def handleRouterNotReady_def notReadyRequeue_def Second_def
      failApplyTimeout_rescheduled finishPatch_rescheduled rescheduled_def [of _ _ "(requeueIn _, _)"]
      split: option.splits)

lemma unfinishedExec_rescheduled:
  "cfgs w (cfg_key cfg) = Some cfg \<Longrightarrow> rescheduled cfgs (cfg_key cfg) (unfinishedExec k cfg err w)"
  by (auto simp: unfinishedExec_def Let_def requeueAfter_def Second_def failApplyTimeout_rescheduled
      finishPatch_rescheduled rescheduled_def [of _ _ "(noRequeue, Some _, _)"] split: option.splits)

lemma pollExecStatus_rescheduled:
  assumes "cfgs w (cfg_key cfg) = Some cfg" "provider_frames cfgs prov"
  shows "rescheduled cfgs (cfg_key cfg) (pollExecStatus k cfg prov w)"
proof -
  obtain x w1 where x: "GetExecStatus prov (ExecPID (cfgStatus cfg)) w = (x, w1)" by fastforce
  have "cfgs w1 (cfg_key cfg) = Some cfg" using provider_framesD(4) [OF assms(2) x] assms(1) by simp
  with x show ?thesis
    by (cases x) (simp_all add: pollExecStatus_def finishExec_def Let_def finishPatch_rescheduled
        unfinishedExec_rescheduled)
qed

lemma applyConfig_rescheduled:
  assumes "cfgs w (cfg_key cfg) = Some cfg" "provider_frames cfgs prov"
  shows "rescheduled cfgs (cfg_key cfg) (applyConfig k cfg prov reboot w)"
proof -
  obtain x w1 where x: "ExecScript prov (cfgConfig (cfgSpec cfg)) (cfgCommands (cfgSpec cfg))
      (BoolValue (cfgSave (cfgSpec cfg)) True) w = (x, w1)" by fastforce
  have "cfgs w1 (cfg_key cfg) = Some cfg" using provider_framesD(3) [OF assms(2) x] assms(1) by simp
  with x show ?thesis
    by (cases x) (simp_all add: applyConfig_def Let_def finishPatch_rescheduled requeueAfter_def Second_def
        rescheduled_def [of _ _ "(noRequeue, Some _, _)"])
qed

lemma checkReadyAndDispatch_rescheduled:
  assumes "cfgs w (cfg_key cfg) = Some cfg" "provider_frames cfgs prov"
  shows "rescheduled cfgs (cfg_key cfg) (checkReadyAndDispatch k cfg prov target w)"
proof -
  obtain pr w1 where pr: "stampExecStartedTimeIfMissing k cfg w = (pr, w1)" by fastforce
  show ?thesis
  proof (cases pr)
    case (Inl e)
    with pr show ?thesis by (simp add: checkReadyAndDispatch_def rescheduled_def)
  next
    case (Inr cfg1)
    from stamp_step(2) [OF assms(1) pr Inr] have cfg1: "cfgs w1 (cfg_key cfg1) = Some cfg1"
      "cfg_key cfg1 = cfg_key cfg" by auto
    obtain rd w2 where rd: "CheckReady prov w1 = (rd, w2)" by fastforce
    have c2: "cfgs w2 (cfg_key cfg1) = Some cfg1" using provider_framesD(2) [OF assms(2) rd] cfg1 by simp
    have "rescheduled cfgs (cfg_key cfg1) (dispatchOrPoll k cfg1 prov target w2)"
      using pollExecStatus_rescheduled [OF c2 assms(2)] applyConfig_rescheduled [OF c2 assms(2)] c2
      by (auto simp: dispatchOrPoll_def rescheduled_def)
    with pr Inr rd handleCheckReadyFailure_rescheduled [OF c2] cfg1(2) show ?thesis
      by (simp add: checkReadyAndDispatch_def split: option.splits)
  qed
qed

lemma Reconcile_rescheduled:
  assumes "Config_Reconcile k bk n w = (r, None, w')" "\<not> skips k bk n w"
    and "cfgs w' n = Some c" "0 < ExecPID (cfgStatus c)"
  shows "0 < RequeueAfter r"
proof (cases "getConfig k n w")
  case (Inl e)
  with assms(1,3) get_missing [OF Inl] show ?thesis
    by (auto simp: Config_Reconcile_def IgnoreNotFound_def split: if_splits)
next
  case (Inr cfg)
  with get_found have g: "cfgs w n = Some cfg" "cfg_key cfg = n" by blast+
  from assms(2) Inr have live: "DeletionTimestamp_IsZero (cfgMeta cfg)" by (auto simp: skips_def)
  show ?thesis
  proof (cases "ContainsFinalizer k (metaFinalizers (cfgMeta cfg)) FinalizerName")
    case False
    with assms(1) Inr live show ?thesis
      by (auto simp: Config_Reconcile_def Let_def Millisecond_def split: prod.splits option.splits)
  next
    case True
    with assms(1) Inr live have "Config_onChange k bk cfg w = (r, None, w')" by (simp add: Config_Reconcile_def)
    with assms(2) Inr live obtain target prov w1 where p: "NewProvider k bk target w = Inr prov"
      "IsVMRunning prov w = (Inr True, w1)" "checkReadyAndDispatch k cfg prov target w1 = (r, None, w')"
      by (auto simp: Config_onChange_def skips_def Let_def split: sum.splits prod.splits if_splits)
    have fr: "provider_frames cfgs prov" using backends p(1) by (rule NewProvider_frames)
    have "cfgs w1 (cfg_key cfg) = Some cfg" using provider_framesD(1) [OF fr p(2)] g by simp
    from checkReadyAndDispatch_rescheduled [OF this fr, of target] p(3) g(2) assms(3,4) show ?thesis
      by (simp add: rescheduled_def)
  qed
qed

end

end
