(* ===== verification/Template.thy ===== *)
theory Template
  imports ApiTypes
begin

text \<open>
  The package \<open>internal/template\<close>: the function map a template may use, rendering, and the
  merging of params. The template engine (\<open>text/template\<close>), its helper library (sprig),
  the JSON codec and the deep merge (mergo) are fields of the record \<open>templating\<close>; \<open>'d\<close> is
  a decoded JSON object, \<open>'f\<close> a helper function, \<open>'t\<close> a parsed template.
\<close>

record ('d, 'f, 't) templating =
  TxtFuncMap :: "string \<Rightarrow> 'f option"
  Parse :: "(string \<Rightarrow> 'f option) \<Rightarrow> string \<Rightarrow> gerror + 't"
  Execute :: "'t \<Rightarrow> 'd \<Rightarrow> gerror + string"
  Decode :: "string \<Rightarrow> gerror + 'd"
  Marshal :: "'d \<Rightarrow> gerror + string"
  emptyMap :: 'd
  Merge :: "'d \<Rightarrow> 'd \<Rightarrow> gerror + 'd"

section \<open>Rendering\<close>

definition deniedFuncs :: "string list" where
  "deniedFuncs = [''env'', ''expandenv'', ''getHostByName'']"

fun deleteFuncs :: "string list \<Rightarrow> (string \<Rightarrow> 'f option) \<Rightarrow> string \<Rightarrow> 'f option" where
  "deleteFuncs [] funcs = funcs"
| "deleteFuncs (n # ns) funcs = deleteFuncs ns (funcs(n := None))"

definition Funcs :: "('d, 'f, 't) templating \<Rightarrow> string \<Rightarrow> 'f option" where
  "Funcs lib = deleteFuncs deniedFuncs (TxtFuncMap lib)"

definition Render :: "('d, 'f, 't) templating \<Rightarrow> string \<Rightarrow> 'd \<Rightarrow> gerror + string" where
  "Render lib tmplStr data =
     (case Parse lib (Funcs lib) tmplStr of
        Inl e \<Rightarrow> Inl (Wrapped ''parse template'' e)
      | Inr tmpl \<Rightarrow>
          (case Execute lib tmpl data of
             Inl e \<Rightarrow> Inl (Wrapped ''execute template'' e)
           | Inr out \<Rightarrow> Inr out))"

lemma deleteFuncs_apply: "deleteFuncs ns funcs f = (if f \<in> set ns then None else funcs f)"
  by (induction ns arbitrary: funcs) auto

section \<open>Merging params\<close>

definition jsonToMap :: "('d, 'f, 't) templating \<Rightarrow> string \<Rightarrow> gerror + 'd" where
  "jsonToMap lib raw = (if raw = [] then Inr (emptyMap lib) else Decode lib raw)"

definition MergeParams ::
  "('d, 'f, 't) templating \<Rightarrow> string \<Rightarrow> string \<Rightarrow> gerror + 'd" where
  "MergeParams lib base override =
     (case jsonToMap lib base of
        Inl e \<Rightarrow> Inl (Wrapped ''decode base params'' e)
      | Inr baseMap \<Rightarrow>
          (case jsonToMap lib override of
             Inl e \<Rightarrow> Inl (Wrapped ''decode override params'' e)
           | Inr overMap \<Rightarrow>
               (case Merge lib baseMap overMap of
                  Inl e \<Rightarrow> Inl (Wrapped ''merge params'' e)
                | Inr m \<Rightarrow> Inr m)))"

fun mergeLoop ::
  "('d, 'f, 't) templating \<Rightarrow> nat \<Rightarrow> string \<Rightarrow> 'd \<Rightarrow> string list \<Rightarrow> gerror + 'd" where
  "mergeLoop lib i acc result [] = Inr result"
| "mergeLoop lib i acc result (layer # layers) =
     (case MergeParams lib acc layer of
        Inl e \<Rightarrow> Inl (Wrapped (''merge params layer '' @ digits i) e)
      | Inr merged \<Rightarrow>
          (case Marshal lib merged of
             Inl e \<Rightarrow> Inl (Wrapped (''re-encode merged params after layer '' @ digits i) e)
           | Inr raw \<Rightarrow> mergeLoop lib (Suc i) raw merged layers))"

definition MergeParamsLayers :: "('d, 'f, 't) templating \<Rightarrow> string list \<Rightarrow> gerror + 'd" where
  "MergeParamsLayers lib layers = mergeLoop lib 0 [] (emptyMap lib) layers"

section \<open>Layers override in order\<close>

text \<open>
  What the merging relies on. \<open>get d x\<close> is the value of the decoded object \<open>d\<close> at its key
  \<open>x\<close>, and \<open>plain v\<close> says that the value is a scalar or a list, not an object. A key the
  override does not mention keeps the base's value; a plain value of the override replaces a
  plain value of the base; encoding an object and decoding it again gives it back, and the
  encoding is not the empty text; the empty object has no key.
\<close>

definition merge_laws ::
  "('d, 'f, 't) templating \<Rightarrow> ('d \<Rightarrow> string \<Rightarrow> 'v option) \<Rightarrow> ('v \<Rightarrow> bool) \<Rightarrow> bool" where
  "merge_laws lib get plain \<longleftrightarrow>
     (\<forall>a b c x. Merge lib a b = Inr c \<longrightarrow> get b x = None \<longrightarrow> get c x = get a x) \<and>
     (\<forall>a b c x v. Merge lib a b = Inr c \<longrightarrow> get b x = Some v \<longrightarrow> plain v \<longrightarrow>
        (\<forall>u. get a x = Some u \<longrightarrow> plain u) \<longrightarrow> get c x = Some v) \<and>
     (\<forall>d raw. Marshal lib d = Inr raw \<longrightarrow> raw \<noteq> [] \<and> Decode lib raw = Inr d) \<and>
     (\<forall>x. get (emptyMap lib) x = None)"

text \<open>The value the last layer that mentions \<open>x\<close> gives it.\<close>

definition layerValue ::
  "('d, 'f, 't) templating \<Rightarrow> ('d \<Rightarrow> string \<Rightarrow> 'v option) \<Rightarrow> string \<Rightarrow> string \<Rightarrow> 'v option" where
  "layerValue lib get x layer = (case jsonToMap lib layer of Inl _ \<Rightarrow> None | Inr m \<Rightarrow> get m x)"

fun lastDefined :: "'v option \<Rightarrow> 'v option list \<Rightarrow> 'v option" where
  "lastDefined acc [] = acc"
| "lastDefined acc (v # vs) = lastDefined (case v of None \<Rightarrow> acc | Some _ \<Rightarrow> v) vs"

lemma MergeParams_value:
  assumes "merge_laws lib get plain" "MergeParams lib acc layer = Inr merged"
    and "jsonToMap lib acc = Inr result" "\<forall>v. get result x = Some v \<longrightarrow> plain v"
    and "\<forall>v. layerValue lib get x layer = Some v \<longrightarrow> plain v"
  shows "get merged x = (case layerValue lib get x layer of None \<Rightarrow> get result x | Some v \<Rightarrow> Some v)"
proof -
  from assms(2,3) obtain over where over: "jsonToMap lib layer = Inr over"
    "Merge lib result over = Inr merged"
    by (auto simp: MergeParams_def split: sum.splits)
  with assms(1,4,5) show ?thesis
    by (cases "get over x") (auto simp: merge_laws_def layerValue_def)
qed

lemma mergeLoop_value:
  assumes "merge_laws lib get plain" "mergeLoop lib i acc result layers = Inr d"
    and "jsonToMap lib acc = Inr result" "\<forall>v. get result x = Some v \<longrightarrow> plain v"
    and "\<forall>layer \<in> set layers. \<forall>v. layerValue lib get x layer = Some v \<longrightarrow> plain v"
  shows "get d x = lastDefined (get result x) (map (layerValue lib get x) layers)"
  using assms(2-5)
proof (induction layers arbitrary: i acc result)
  case Nil
  then show ?case by simp
next
  case (Cons layer layers)
  from Cons.prems(1) obtain merged raw where step: "MergeParams lib acc layer = Inr merged"
    "Marshal lib merged = Inr raw" "mergeLoop lib (Suc i) raw merged layers = Inr d"
    by (auto split: sum.splits)
  have raw: "jsonToMap lib raw = Inr merged"
    using assms(1) step(2) by (simp add: merge_laws_def jsonToMap_def)
  have v: "get merged x =
      (case layerValue lib get x layer of None \<Rightarrow> get result x | Some v \<Rightarrow> Some v)"
    using MergeParams_value [OF assms(1) step(1) Cons.prems(2,3)] Cons.prems(4) by simp
  then have "\<forall>v. get merged x = Some v \<longrightarrow> plain v"
    using Cons.prems(3,4) by (auto split: option.splits)
  from Cons.IH [OF step(3) raw this] Cons.prems(4) v show ?case
    by (simp split: option.splits)
qed

text \<open>
  Priority of params layers: in the merged params, a key has the value of the last layer
  that mentions it, as long as the values the layers give it are scalars or lists. An
  explicit zero value counts as a mention.
\<close>

theorem last_params_layer_wins:
  assumes "merge_laws lib get plain" "MergeParamsLayers lib layers = Inr d"
    and "\<forall>layer \<in> set layers. \<forall>v. layerValue lib get x layer = Some v \<longrightarrow> plain v"
  shows "get d x = lastDefined None (map (layerValue lib get x) layers)"
proof -
  have empty: "get (emptyMap lib) x = None" using assms(1) by (simp add: merge_laws_def)
  have "jsonToMap lib [] = Inr (emptyMap lib)" by (simp add: jsonToMap_def)
  from mergeLoop_value [OF assms(1) assms(2) [unfolded MergeParamsLayers_def] this] empty assms(3)
  show ?thesis by simp
qed

text \<open>
  No template can reach a denied function: rendering depends on the helper library only
  through a function map in which \<open>env\<close>, \<open>expandenv\<close> and \<open>getHostByName\<close> are absent and every
  other helper is as the library has it. Two libraries that differ only in the denied
  functions render every template the same.
\<close>

theorem denied_functions_unreachable:
  "(\<forall>f. Funcs lib f = (if f \<in> {''env'', ''expandenv'', ''getHostByName''} then None
                      else TxtFuncMap lib f)) \<and>
   (\<forall>g tmplStr data. (\<forall>f. f \<notin> {''env'', ''expandenv'', ''getHostByName''} \<longrightarrow> g f = TxtFuncMap lib f) \<longrightarrow>
      Render (lib\<lparr>TxtFuncMap := g\<rparr>) tmplStr data = Render lib tmplStr data)"
proof -
  define D where "D = {''env'', ''expandenv'', ''getHostByName''}"
  have D: "set deniedFuncs = D" by (simp add: D_def deniedFuncs_def)
  have funcs: "Funcs l f = (if f \<in> D then None else TxtFuncMap l f)"
    for l :: "('d, 'f, 't) templating" and f
    by (simp only: Funcs_def deleteFuncs_apply D)
  have render: "Render (lib\<lparr>TxtFuncMap := g\<rparr>) tmplStr data = Render lib tmplStr data"
    if "\<forall>f. f \<notin> D \<longrightarrow> g f = TxtFuncMap lib f" for g tmplStr data
  proof -
    have "Funcs (lib\<lparr>TxtFuncMap := g\<rparr>) = Funcs lib"
      by (rule ext) (use that in \<open>simp add: funcs\<close>)
    then show ?thesis by (cases "Parse lib (Funcs lib) tmplStr") (simp_all add: Render_def)
  qed
  show ?thesis unfolding D_def [symmetric] using funcs render by blast
qed

section \<open>Witnesses\<close>

text \<open>A library whose objects are lists of pairs and whose templates are literal texts.\<close>

definition pairsLib :: "((string \<times> string) list, unit, string) templating" where
  "pairsLib =
     \<lparr>TxtFuncMap = (\<lambda>f. Some ()), Parse = (\<lambda>fs s. Inr s), Execute = (\<lambda>t d. Inr t),
      Decode = (\<lambda>raw. case raw of
          [] \<Rightarrow> Inl (ErrMsg ''EOF'')
        | c # cs \<Rightarrow> Inr (if cs = [] then [] else [([c], cs)])),
      Marshal = (\<lambda>d. case d of
          [] \<Rightarrow> Inr ''-''
        | [([c], v # vs)] \<Rightarrow> Inr (c # v # vs)
        | _ \<Rightarrow> Inl (ErrMsg ''unsupported'')),
      emptyMap = [],
      Merge = (\<lambda>a b. Inr (b @ filter (\<lambda>(x, _). map_of b x = None) a))\<rparr>"

lemma map_of_filter_new:
  "map_of (filter (\<lambda>(x, _). map_of b x = None) a) x = (if map_of b x = None then map_of a x else None)"
  by (induction a) auto

lemma pairsLib_laws: "merge_laws pairsLib map_of (\<lambda>_. True)"
proof -
  have "Decode pairsLib raw = Inr d \<and> raw \<noteq> []" if "Marshal pairsLib d = Inr raw" for d raw
    using that by (auto simp: pairsLib_def split: list.splits prod.splits if_splits)
  moreover have "map_of c x = (case map_of b x of None \<Rightarrow> map_of a x | Some v \<Rightarrow> Some v)"
    if "Merge pairsLib a b = Inr c" for a b c x
    using that by (auto simp: pairsLib_def map_add_def map_of_filter_new split: option.splits)
  moreover have "emptyMap pairsLib = []" by (simp add: pairsLib_def)
  ultimately show ?thesis by (simp add: merge_laws_def)
qed

theorem last_params_layer_wins_witness:
  "\<exists>d. MergeParamsLayers pairsLib [''a1'', [], ''a2''] = Inr d \<and> map_of d ''a'' = Some ''2''"
proof -
  have "MergeParamsLayers pairsLib [''a1'', [], ''a2''] = Inr [(''a'', ''2'')]"
    by (simp add: MergeParamsLayers_def pairsLib_def MergeParams_def jsonToMap_def)
  with last_params_layer_wins [OF pairsLib_laws this, of "''a''"] show ?thesis
    by (simp add: layerValue_def jsonToMap_def pairsLib_def)
qed

theorem denied_functions_unreachable_witness:
  "Render (pairsLib\<lparr>TxtFuncMap := (\<lambda>f. if f = ''env'' then None else Some ())\<rparr>) ''x'' [] =
   Render pairsLib ''x'' []"
  by (rule conjunct2 [OF denied_functions_unreachable, rule_format]) (simp add: pairsLib_def)

end
