(* ===== verification/BindingController.thy ===== *)
theory BindingController
  imports Kube Template
begin

text \<open>
  The reconciler of VRouterBinding (\<open>internal/controller/vrouterbinding_controller.go\<close>): it
  renders one VRouterConfig per target, deletes orphans, and writes the rendered
  configurations, all at once or one per reconcile (rollout modes FixedInterval and
  WaitForApplied). One definition per function of the source. Reads go through \<open>k\<close> in the
  world \<open>w\<close>; templates are rendered with the library \<open>lib\<close>. Additions to instants do not
  overflow in the model.
\<close>

definition ReasonRolloutInProgress :: string where
  "ReasonRolloutInProgress = ''RolloutInProgress''"

definition ReasonRolloutHalted :: string where
  "ReasonRolloutHalted = ''RolloutHalted''"

section \<open>Status conditions\<close>

definition readyCondition ::
  "'w kube \<Rightarrow> VRouterBinding \<Rightarrow> ConditionStatus \<Rightarrow> string \<Rightarrow> string \<Rightarrow> 'w \<Rightarrow> Condition list" where
  "readyCondition k binding st reason msg w =
     SetStatusCondition k (now k w) (bndConditions (bndStatus binding))
       \<lparr>condType = ConditionReady, condStatus = st, condReason = reason, condMessage = msg,
        condObservedGeneration = metaGeneration (bndMeta binding), condLastTransitionTime = 0\<rparr>"

definition setReadyCondition ::
  "'w kube \<Rightarrow> VRouterBinding \<Rightarrow> ConditionStatus \<Rightarrow> string \<Rightarrow> string \<Rightarrow> 'w \<Rightarrow>
     (api_error + VRouterBinding) \<times> 'w" where
  "setReadyCondition k binding st reason msg w =
     patchBindingStatus k binding
       (binding\<lparr>bndStatus := (bndStatus binding)\<lparr>bndConditions := readyCondition k binding st reason msg w\<rparr>\<rparr>) w"

section \<open>Rendering\<close>

definition effectiveTemplateRefs :: "VRouterBinding \<Rightarrow> NameRef list" where
  "effectiveTemplateRefs binding =
     (case bndTemplateRef (bndSpec binding) of None \<Rightarrow> [] | Some ref \<Rightarrow> [ref]) @
     bndTemplateRefs (bndSpec binding)"

record desiredConfig =
  dcName :: string
  dcTarget :: NameRef
  dcSpec :: VRouterConfigSpec

definition fetchTemplates ::
  "'w kube \<Rightarrow> VRouterBinding \<Rightarrow> 'w \<Rightarrow> gerror + VRouterTemplate list" where
  "fetchTemplates k binding w =
     mapE (\<lambda>ref. let ns = ResolveNamespace ref (metaNamespace (bndMeta binding)) in
             case getTemplate k (ns, refName ref) w of
               Inl e \<Rightarrow> Inl (Wrapped (''get template '' @ quoted (refName ref) @
                               '' (namespace '' @ quoted ns @ '')'') (ApiError e))
             | Inr tmpl \<Rightarrow> Inr tmpl)
       (effectiveTemplateRefs binding)"

definition fetchParams :: "'w kube \<Rightarrow> VRouterBinding \<Rightarrow> 'w \<Rightarrow> gerror + string list" where
  "fetchParams k binding w =
     mapE (\<lambda>ref. let ns = ResolveNamespace ref (metaNamespace (bndMeta binding)) in
             case getParams k (ns, refName ref) w of
               Inl e \<Rightarrow> Inl (Wrapped (''get params '' @ quoted (refName ref) @
                               '' (namespace '' @ quoted ns @ '')'') (ApiError e))
             | Inr params \<Rightarrow> Inr (prmParams params))
       (bndParamsRefs (bndSpec binding))"

definition renderPart ::
  "('d, 'f, 't) templating \<Rightarrow> 'd \<Rightarrow> string \<Rightarrow> string \<Rightarrow> gerror + string list" where
  "renderPart lib params ctx text =
     (if text = [] then Inr []
      else case Render lib text params of
             Inl e \<Rightarrow> Inl (Wrapped ctx e)
           | Inr rendered \<Rightarrow> Inr [rendered])"

fun renderTemplates ::
  "('d, 'f, 't) templating \<Rightarrow> 'd \<Rightarrow> string \<Rightarrow> nat \<Rightarrow> (NameRef \<times> VRouterTemplate) list \<Rightarrow>
     gerror + (string list \<times> string list)" where
  "renderTemplates lib params tgt i [] = Inr ([], [])"
| "renderTemplates lib params tgt i ((ref, tmpl) # rest) =
     (let ctx = (\<lambda>what. ''render '' @ what @ '' from template['' @ digits i @ ''] '' @ quoted (refName ref) @
                  '' for target '' @ quoted tgt)
      in case renderPart lib params (ctx ''config'') (tmplConfig tmpl) of
           Inl e \<Rightarrow> Inl e
         | Inr configs \<Rightarrow>
             (case renderPart lib params (ctx ''commands'') (tmplCommands tmpl) of
                Inl e \<Rightarrow> Inl e
              | Inr commands \<Rightarrow>
                  (case renderTemplates lib params tgt (Suc i) rest of
                     Inl e \<Rightarrow> Inl e
                   | Inr (configParts, commandParts) \<Rightarrow>
                       Inr (configs @ configParts, commands @ commandParts))))"

definition configNameFor :: "VRouterBinding \<Rightarrow> string \<Rightarrow> string" where
  "configNameFor binding tgt = metaName (bndMeta binding) @ ''.'' @ tgt"

definition renderTarget ::
  "'w kube \<Rightarrow> ('d, 'f, 't) templating \<Rightarrow> VRouterBinding \<Rightarrow> VRouterTemplate list \<Rightarrow> string list \<Rightarrow>
     'w \<Rightarrow> NameRef \<Rightarrow> gerror + desiredConfig" where
  "renderTarget k lib binding templates paramsRefsJSON w ref =
     (case getTarget k (ResolveNamespace ref (metaNamespace (bndMeta binding)), refName ref) w of
        Inl e \<Rightarrow> Inl (Wrapped (''get target '' @ quoted (refName ref)) (ApiError e))
      | Inr target \<Rightarrow>
          (case MergeParamsLayers lib
                  (paramsRefsJSON @ [bndParams (bndSpec binding), tgtParams (tgtSpec target)]) of
             Inl e \<Rightarrow> Inl (Wrapped (''merge params for target '' @ quoted (refName ref)) e)
           | Inr params \<Rightarrow>
               (case renderTemplates lib params (refName ref) 0
                       (zip (effectiveTemplateRefs binding) templates) of
                  Inl e \<Rightarrow> Inl e
                | Inr (configParts, commandParts) \<Rightarrow>
                    Inr \<lparr>dcName = configNameFor binding (refName ref), dcTarget = ref,
                         dcSpec = \<lparr>cfgTargetRef = \<lparr>refNamespace = [], refName = refName ref\<rparr>,
                                   cfgSave = bndSave (bndSpec binding),
                                   cfgConfig = join [newline] configParts,
                                   cfgCommands = join [newline] commandParts\<rparr>\<rparr>)))"

definition renderAll ::
  "'w kube \<Rightarrow> ('d, 'f, 't) templating \<Rightarrow> VRouterBinding \<Rightarrow> 'w \<Rightarrow> gerror + desiredConfig list" where
  "renderAll k lib binding w =
     (case fetchTemplates k binding w of
        Inl e \<Rightarrow> Inl e
      | Inr templates \<Rightarrow>
          (case fetchParams k binding w of
             Inl e \<Rightarrow> Inl e
           | Inr paramsRefsJSON \<Rightarrow>
               mapE (renderTarget k lib binding templates paramsRefsJSON w)
                 (bndTargetRefs (bndSpec binding))))"

section \<open>Writes\<close>

fun deleteOrphans ::
  "'w kube \<Rightarrow> string list \<Rightarrow> VRouterConfig list \<Rightarrow> 'w \<Rightarrow> gerror option \<times> 'w" where
  "deleteOrphans k desiredNames [] w = (None, w)"
| "deleteOrphans k desiredNames (c # cs) w =
     (if metaName (cfgMeta c) \<in> set desiredNames then deleteOrphans k desiredNames cs w
      else case deleteConfig k c w of
             (Some e, w') \<Rightarrow>
               (Some (Wrapped (''delete orphan VRouterConfig '' @ quoted (metaName (cfgMeta c))) (ApiError e)), w')
           | (None, w') \<Rightarrow> deleteOrphans k desiredNames cs w')"

definition cleanupOrphans ::
  "'w kube \<Rightarrow> VRouterBinding \<Rightarrow> desiredConfig list \<Rightarrow> 'w \<Rightarrow> gerror option \<times> 'w" where
  "cleanupOrphans k binding desired w =
     (case listConfigs k (Some (metaNamespace (bndMeta binding)))
             [(LabelBinding, metaName (bndMeta binding))] w of
        Inl e \<Rightarrow> (Some (Wrapped ''list VRouterConfigs'' (ApiError e)), w)
      | Inr existing \<Rightarrow> deleteOrphans k (map dcName desired) existing w)"

definition mutateConfig ::
  "'w kube \<Rightarrow> VRouterBinding \<Rightarrow> desiredConfig \<Rightarrow> VRouterConfig \<Rightarrow> gerror + VRouterConfig" where
  "mutateConfig k binding d cfg =
     SetControllerReference k binding
       (cfg\<lparr>cfgMeta := (cfgMeta cfg)\<lparr>metaLabels := (metaLabels (cfgMeta cfg))
               (LabelBinding \<mapsto> metaName (bndMeta binding), LabelTarget \<mapsto> refName (dcTarget d))\<rparr>,
             cfgSpec := dcSpec d\<rparr>)"

definition blankConfig :: "VRouterBinding \<Rightarrow> desiredConfig \<Rightarrow> VRouterConfig" where
  "blankConfig binding d =
     \<lparr>cfgMeta = blankMeta (metaNamespace (bndMeta binding)) (dcName d),
      cfgSpec = \<lparr>cfgTargetRef = \<lparr>refNamespace = [], refName = []\<rparr>, cfgSave = None, cfgConfig = [],
                 cfgCommands = []\<rparr>,
      cfgStatus = emptyConfigStatus\<rparr>"

definition createOrUpdateOne ::
  "'w kube \<Rightarrow> VRouterBinding \<Rightarrow> desiredConfig \<Rightarrow> 'w \<Rightarrow> gerror option \<times> 'w" where
  "createOrUpdateOne k binding d w =
     (case CreateOrUpdateConfig k (blankConfig binding d) (mutateConfig k binding d) w of
        (Some e, w') \<Rightarrow> (Some (Wrapped (''sync VRouterConfig '' @ quoted (dcName d)) e), w')
      | (None, w') \<Rightarrow> (None, w'))"

fun createOrUpdateAll ::
  "'w kube \<Rightarrow> VRouterBinding \<Rightarrow> desiredConfig list \<Rightarrow> 'w \<Rightarrow> gerror option \<times> 'w" where
  "createOrUpdateAll k binding [] w = (None, w)"
| "createOrUpdateAll k binding (d # ds) w =
     (case createOrUpdateOne k binding d w of
        (Some e, w') \<Rightarrow> (Some e, w')
      | (None, w') \<Rightarrow> createOrUpdateAll k binding ds w')"

definition getExistingConfig ::
  "'w kube \<Rightarrow> VRouterBinding \<Rightarrow> string \<Rightarrow> 'w \<Rightarrow> gerror + VRouterConfig option" where
  "getExistingConfig k binding nm w =
     (case getConfig k (metaNamespace (bndMeta binding), nm) w of
        Inl e \<Rightarrow> if IsNotFound e then Inr None
                 else Inl (Wrapped (''get VRouterConfig '' @ quoted nm) (ApiError e))
      | Inr cfg \<Rightarrow> Inr (Some cfg))"

section \<open>Rollout gates\<close>

definition inTargetRefs :: "VRouterBinding \<Rightarrow> string \<Rightarrow> bool" where
  "inTargetRefs binding tgt \<longleftrightarrow> (\<exists>ref \<in> set (bndTargetRefs (bndSpec binding)). refName ref = tgt)"

definition appliedConditionForGeneration ::
  "'w kube \<Rightarrow> VRouterConfig option \<Rightarrow> Condition option" where
  "appliedConditionForGeneration k cfg =
     (case cfg of
        None \<Rightarrow> None
      | Some c \<Rightarrow>
          (case FindStatusCondition k (cfgConditions (cfgStatus c)) ConditionApplied of
             None \<Rightarrow> None
           | Some cond \<Rightarrow>
               if condStatus cond \<noteq> ConditionTrue \<or> condObservedGeneration cond \<noteq> cfg_generation c
               then None else Some cond))"

definition frontierRemaining ::
  "'w kube \<Rightarrow> RolloutMode \<Rightarrow> RolloutSpec \<Rightarrow> VRouterConfig option \<Rightarrow> RolloutStatus option \<Rightarrow> time \<Rightarrow> duration" where
  "frontierRemaining k mode rollout cfg frontier t =
     (case mode of
        RolloutModeFixedInterval \<Rightarrow>
          (case frontier of
             None \<Rightarrow> 0
           | Some f \<Rightarrow> time_sub (LastUpdateTime f + WaitInterval rollout) t)
      | RolloutModeWaitForApplied \<Rightarrow>
          (case appliedConditionForGeneration k cfg of
             None \<Rightarrow> PollInterval rollout
           | Some cond \<Rightarrow> time_sub (condLastTransitionTime cond + WaitAfterApplied rollout) t)
      | _ \<Rightarrow> 0)"

definition rolloutWaitDuration :: "RolloutMode \<Rightarrow> RolloutSpec \<Rightarrow> duration" where
  "rolloutWaitDuration mode rollout =
     (if mode = RolloutModeWaitForApplied then WaitAfterApplied rollout else WaitInterval rollout)"

definition postWriteRequeueInterval :: "RolloutMode \<Rightarrow> RolloutSpec \<Rightarrow> duration" where
  "postWriteRequeueInterval mode rollout =
     (if mode = RolloutModeWaitForApplied then PollInterval rollout else WaitInterval rollout)"

definition gateRemaining ::
  "'w kube \<Rightarrow> VRouterBinding \<Rightarrow> RolloutMode \<Rightarrow> RolloutSpec \<Rightarrow> RolloutStatus option \<Rightarrow> desiredConfig \<Rightarrow>
     time \<Rightarrow> 'w \<Rightarrow> gerror + duration" where
  "gateRemaining k binding mode rollout frontier nxt t w =
     (case frontier of
        None \<Rightarrow> Inr 0
      | Some f \<Rightarrow>
          if LastUpdatedTarget f = [] then Inr 0
          else if refName (dcTarget nxt) = LastUpdatedTarget f then Inr 0
          else if \<not> inTargetRefs binding (LastUpdatedTarget f)
          then Inr (time_sub (LastUpdateTime f + rolloutWaitDuration mode rollout) t)
          else case getExistingConfig k binding (configNameFor binding (LastUpdatedTarget f)) w of
                 Inl e \<Rightarrow> Inl e
               | Inr cfg \<Rightarrow> Inr (frontierRemaining k mode rollout cfg frontier t))"

definition stampRolloutFrontier ::
  "'w kube \<Rightarrow> VRouterBinding \<Rightarrow> string \<Rightarrow> time \<Rightarrow> string \<Rightarrow> 'w \<Rightarrow> (api_error + VRouterBinding) \<times> 'w" where
  "stampRolloutFrontier k binding tgt t msg w =
     patchBindingStatus k binding
       (binding\<lparr>bndStatus := (bndStatus binding)
          \<lparr>statusRollout := Some \<lparr>LastUpdatedTarget = tgt, LastUpdateTime = t\<rparr>,
           bndConditions := readyCondition k binding ConditionFalse ReasonRolloutInProgress msg w\<rparr>\<rparr>) w"

fun firstHaltingFailedConfig ::
  "'w kube \<Rightarrow> VRouterBinding \<Rightarrow> desiredConfig list \<Rightarrow> 'w \<Rightarrow> gerror + VRouterConfig option" where
  "firstHaltingFailedConfig k binding [] w = Inr None"
| "firstHaltingFailedConfig k binding (d # ds) w =
     (case getExistingConfig k binding (dcName d) w of
        Inl e \<Rightarrow> Inl e
      | Inr None \<Rightarrow> firstHaltingFailedConfig k binding ds w
      | Inr (Some c) \<Rightarrow>
          if cfgPhase (cfgStatus c) \<noteq> PhaseFailed then firstHaltingFailedConfig k binding ds w
          else if cfgSpec c \<noteq> dcSpec d then firstHaltingFailedConfig k binding ds w
          else Inr (Some c))"

fun firstNotAppliedConfig ::
  "'w kube \<Rightarrow> VRouterBinding \<Rightarrow> desiredConfig list \<Rightarrow> 'w \<Rightarrow> gerror + desiredConfig option" where
  "firstNotAppliedConfig k binding [] w = Inr None"
| "firstNotAppliedConfig k binding (d # ds) w =
     (case getExistingConfig k binding (dcName d) w of
        Inl e \<Rightarrow> Inl e
      | Inr existing \<Rightarrow>
          if appliedConditionForGeneration k existing = None then Inr (Some d)
          else firstNotAppliedConfig k binding ds w)"

section \<open>The rollout walk\<close>

definition matches :: "VRouterConfig option \<Rightarrow> desiredConfig \<Rightarrow> bool" where
  "matches existing d \<longleftrightarrow> (\<exists>c. existing = Some c \<and> cfgSpec c = dcSpec d)"

lemma matches_code [code]:
  "matches existing d = (case existing of None \<Rightarrow> False | Some c \<Rightarrow> cfgSpec c = dcSpec d)"
  by (simp add: matches_def split: option.splits)

text \<open>The first mismatch: the only place that writes a configuration.\<close>

definition writeMismatch ::
  "'w kube \<Rightarrow> VRouterBinding \<Rightarrow> RolloutMode \<Rightarrow> RolloutSpec \<Rightarrow> RolloutStatus option \<Rightarrow> time \<Rightarrow> nat \<Rightarrow> nat \<Rightarrow>
     desiredConfig \<Rightarrow> 'w \<Rightarrow> 'w outcome" where
  "writeMismatch k binding mode rollout frontier t cnt i d w =
     (case gateRemaining k binding mode rollout frontier d t w of
        Inl e \<Rightarrow> (noRequeue, Some e, w)
      | Inr wait \<Rightarrow>
          if 0 < wait then (requeueIn wait, None, w)
          else case stampRolloutFrontier k binding (refName (dcTarget d)) t
                      (digits (i + 1) @ ''/'' @ digits cnt @ '' targets updated'') w of
                 (Inl e, w1) \<Rightarrow> (noRequeue, Some (ApiError e), w1)
               | (Inr binding1, w1) \<Rightarrow>
                   (case createOrUpdateOne k binding1 d w1 of
                      (Some e, w2) \<Rightarrow> (noRequeue, Some e, w2)
                    | (None, w2) \<Rightarrow> (requeueIn (postWriteRequeueInterval mode rollout), None, w2)))"

text \<open>The loop of \<open>runRollout\<close>: a return from inside it, or None when it runs through.\<close>

fun rolloutWalk ::
  "'w kube \<Rightarrow> VRouterBinding \<Rightarrow> RolloutMode \<Rightarrow> RolloutSpec \<Rightarrow> RolloutStatus option \<Rightarrow> time \<Rightarrow> nat \<Rightarrow> nat \<Rightarrow>
     desiredConfig list \<Rightarrow> 'w \<Rightarrow> 'w outcome option" where
  "rolloutWalk k binding mode rollout frontier t cnt i [] w = None"
| "rolloutWalk k binding mode rollout frontier t cnt i (d # ds) w =
     (case getExistingConfig k binding (dcName d) w of
        Inl e \<Rightarrow> Some (noRequeue, Some e, w)
      | Inr existing \<Rightarrow>
          if \<not> matches existing d
          then Some (writeMismatch k binding mode rollout frontier t cnt i d w)
          else case frontier of
                 None \<Rightarrow> rolloutWalk k binding mode rollout frontier t cnt (Suc i) ds w
               | Some f \<Rightarrow>
                   if refName (dcTarget d) \<noteq> LastUpdatedTarget f
                   then rolloutWalk k binding mode rollout frontier t cnt (Suc i) ds w
                   else let remaining = frontierRemaining k mode rollout existing frontier t in
                        if 0 < remaining then Some (requeueIn remaining, None, w)
                        else rolloutWalk k binding mode rollout frontier t cnt (Suc i) ds w)"

definition finishReady ::
  "'w kube \<Rightarrow> VRouterBinding \<Rightarrow> string \<Rightarrow> 'w \<Rightarrow> 'w outcome" where
  "finishReady k binding msg w =
     (case setReadyCondition k binding ConditionTrue ''ReconcileSucceeded'' msg w of
        (Inl e, w') \<Rightarrow> (noRequeue, Some (ApiError e), w')
      | (Inr _, w') \<Rightarrow> (noRequeue, None, w'))"

definition succeededMessage :: string where
  "succeededMessage = ''All VRouterConfigs reconciled successfully.''"

text \<open>What \<open>runRollout\<close> does once the walk ran through.\<close>

definition completeRollout ::
  "'w kube \<Rightarrow> VRouterBinding \<Rightarrow> RolloutMode \<Rightarrow> RolloutSpec \<Rightarrow> desiredConfig list \<Rightarrow> 'w \<Rightarrow> 'w outcome" where
  "completeRollout k binding mode rollout desired w =
     (if mode = RolloutModeWaitForApplied then
        (case firstNotAppliedConfig k binding desired w of
           Inl e \<Rightarrow> (noRequeue, Some e, w)
         | Inr (Some _) \<Rightarrow>
             (requeueIn (PollInterval rollout), None,
              snd (setReadyCondition k binding ConditionFalse ReasonRolloutInProgress
                     ''waiting for all configs Applied'' w))
         | Inr None \<Rightarrow>
             finishReady k binding (''All '' @ digits (length desired) @ '' VRouterConfigs applied.'') w)
      else finishReady k binding succeededMessage w)"

definition walkOrComplete ::
  "'w kube \<Rightarrow> VRouterBinding \<Rightarrow> RolloutMode \<Rightarrow> RolloutSpec \<Rightarrow> desiredConfig list \<Rightarrow> 'w \<Rightarrow> 'w outcome" where
  "walkOrComplete k binding mode rollout desired w =
     (case rolloutWalk k binding mode rollout (statusRollout (bndStatus binding)) (now k w)
             (length desired) 0 desired w of
        Some out \<Rightarrow> out
      | None \<Rightarrow> completeRollout k binding mode rollout desired w)"

text \<open>\<open>rollout\<close> is \<open>*binding.Spec.Rollout\<close>, which the modes that come here have.\<close>

definition runRollout ::
  "'w kube \<Rightarrow> VRouterBinding \<Rightarrow> RolloutSpec \<Rightarrow> desiredConfig list \<Rightarrow> 'w \<Rightarrow> 'w outcome" where
  "runRollout k binding rollout desired w =
     (let mode = EffectiveMode (bndRollout (bndSpec binding)) in
      if mode = RolloutModeWaitForApplied then
        (case firstHaltingFailedConfig k binding desired w of
           Inl e \<Rightarrow> (noRequeue, Some e, w)
         | Inr (Some failed) \<Rightarrow>
             (requeueIn (PollInterval rollout), None,
              snd (setReadyCondition k binding ConditionFalse ReasonRolloutHalted
                     (''VRouterConfig '' @ quoted (metaName (cfgMeta failed)) @ '' is Failed'') w))
         | Inr None \<Rightarrow> walkOrComplete k binding mode rollout desired w)
      else walkOrComplete k binding mode rollout desired w)"

section \<open>The handlers\<close>

definition reconcileError ::
  "'w kube \<Rightarrow> VRouterBinding \<Rightarrow> gerror \<Rightarrow> 'w \<Rightarrow> 'w outcome" where
  "reconcileError k binding e w =
     (noRequeue, Some e,
      snd (setReadyCondition k binding ConditionFalse ''ReconcileError'' (error_text e) w))"

definition writeAll ::
  "'w kube \<Rightarrow> VRouterBinding \<Rightarrow> desiredConfig list \<Rightarrow> 'w \<Rightarrow> 'w outcome" where
  "writeAll k binding desired w =
     (case createOrUpdateAll k binding desired w of
        (Some e, w') \<Rightarrow> reconcileError k binding e w'
      | (None, w') \<Rightarrow> finishReady k binding succeededMessage w')"

definition Binding_onChange ::
  "'w kube \<Rightarrow> ('d, 'f, 't) templating \<Rightarrow> VRouterBinding \<Rightarrow> 'w \<Rightarrow> 'w outcome" where
  "Binding_onChange k lib binding w =
     (case renderAll k lib binding w of
        Inl e \<Rightarrow> reconcileError k binding e w
      | Inr desired \<Rightarrow>
          (case cleanupOrphans k binding desired w of
             (Some e, w1) \<Rightarrow> reconcileError k binding e w1
           | (None, w1) \<Rightarrow>
               (let mode = EffectiveMode (bndRollout (bndSpec binding)) in
                case bndRollout (bndSpec binding) of
                  Some rollout \<Rightarrow>
                    if mode = RolloutModeFixedInterval \<or> mode = RolloutModeWaitForApplied
                    then runRollout k binding rollout desired w1
                    else writeAll k binding desired w1
                | None \<Rightarrow> writeAll k binding desired w1)))"

definition Binding_onDelete :: "'w kube \<Rightarrow> VRouterBinding \<Rightarrow> 'w \<Rightarrow> 'w outcome" where
  "Binding_onDelete k binding w =
     (let m = bndMeta binding;
          b1 = binding\<lparr>bndMeta := m\<lparr>metaFinalizers := RemoveFinalizer k (metaFinalizers m) FinalizerName\<rparr>\<rparr>
      in case updateBinding k b1 w of (err, w') \<Rightarrow> (noRequeue, map_option ApiError err, w'))"

definition Binding_Reconcile ::
  "'w kube \<Rightarrow> ('d, 'f, 't) templating \<Rightarrow> nname \<Rightarrow> 'w \<Rightarrow> 'w outcome" where
  "Binding_Reconcile k lib req w =
     (case getBinding k req w of
        Inl e \<Rightarrow> (noRequeue, IgnoreNotFound e, w)
      | Inr binding \<Rightarrow>
          (let m = bndMeta binding in
           if \<not> DeletionTimestamp_IsZero m then Binding_onDelete k binding w
           else if \<not> ContainsFinalizer k (metaFinalizers m) FinalizerName then
             (case updateBinding k
                     (binding\<lparr>bndMeta := m\<lparr>metaFinalizers := AddFinalizer k (metaFinalizers m) FinalizerName\<rparr>\<rparr>) w of
                (Some e, w') \<Rightarrow> (noRequeue, Some (ApiError e), w')
              | (None, w') \<Rightarrow> (requeueIn Millisecond, None, w'))
           else Binding_onChange k lib binding w))"

section \<open>Event mapping\<close>

definition bindingsReferencing ::
  "'w kube \<Rightarrow> (VRouterBinding \<Rightarrow> NameRef list) \<Rightarrow> nname \<Rightarrow> 'w \<Rightarrow> nname list" where
  "bindingsReferencing k refs obj w =
     (case listBindings k None w of
        Inl _ \<Rightarrow> []
      | Inr bs \<Rightarrow>
          map bnd_key (filter (\<lambda>b. \<exists>ref \<in> set (refs b).
            refName ref = snd obj \<and> ResolveNamespace ref (metaNamespace (bndMeta b)) = fst obj) bs))"

definition bindingsForTemplate :: "'w kube \<Rightarrow> nname \<Rightarrow> 'w \<Rightarrow> nname list" where
  "bindingsForTemplate k = bindingsReferencing k effectiveTemplateRefs"

definition bindingsForTarget :: "'w kube \<Rightarrow> nname \<Rightarrow> 'w \<Rightarrow> nname list" where
  "bindingsForTarget k = bindingsReferencing k (\<lambda>b. bndTargetRefs (bndSpec b))"

definition bindingsForParams :: "'w kube \<Rightarrow> nname \<Rightarrow> 'w \<Rightarrow> nname list" where
  "bindingsForParams k = bindingsReferencing k (\<lambda>b. bndParamsRefs (bndSpec b))"

end
