(* ===== verification/BindingProps.thy ===== *)
theory BindingProps
  imports BindingController
begin

text \<open>
  Lemmas about the VRouterBinding reconciler, under the laws of the locale
  \<open>binding_runtime\<close>: what each write leaves in the two stores, how the rollout walk ends,
  and what the gates let through. The properties are in the theory BindingWorld.
\<close>

abbreviation dc_key :: "VRouterBinding \<Rightarrow> desiredConfig \<Rightarrow> nname" where
  "dc_key binding d \<equiv> (metaNamespace (bndMeta binding), dcName d)"

text \<open>The Ready condition of a binding.\<close>

definition ready_is :: "VRouterBinding \<Rightarrow> ConditionStatus \<Rightarrow> string \<Rightarrow> int \<Rightarrow> bool" where
  "ready_is b st rs gen \<longleftrightarrow>
     (\<exists>c. List.find (\<lambda>c. condType c = ConditionReady) (bndConditions (bndStatus b)) = Some c \<and>
          condStatus c = st \<and> condReason c = rs \<and> condObservedGeneration c = gen)"

text \<open>A configuration as \<open>createOrUpdateOne\<close> writes it.\<close>

definition generated :: "VRouterBinding \<Rightarrow> desiredConfig \<Rightarrow> VRouterConfig option \<Rightarrow> VRouterConfig \<Rightarrow> bool" where
  "generated b d old c \<longleftrightarrow>
     cfg_key c = dc_key b d \<and> cfgSpec c = defaultedConfigSpec (dcSpec d) \<and>
     metaLabels (cfgMeta c) LabelBinding = Some (metaName (bndMeta b)) \<and>
     metaLabels (cfgMeta c) LabelTarget = Some (refName (dcTarget d)) \<and>
     (case old of
        None \<Rightarrow> freshConfigStatus (cfgStatus c)
      | Some o1 \<Rightarrow> cfgStatus c = cfgStatus o1 \<and>
          (cfgSpec c = cfgSpec o1 \<longrightarrow> cfg_generation c = cfg_generation o1) \<and>
          (cfgSpec c \<noteq> cfgSpec o1 \<longrightarrow> cfg_generation c = cfg_generation o1 + 1))"

text \<open>The stored configuration of a target has the rendered spec.\<close>

definition matched ::
  "('w \<Rightarrow> nname \<Rightarrow> VRouterConfig option) \<Rightarrow> 'w \<Rightarrow> VRouterBinding \<Rightarrow> desiredConfig \<Rightarrow> bool" where
  "matched cfgs w b d \<longleftrightarrow> matches (cfgs w (dc_key b d)) d"

text \<open>An object that is deleted, or waits for its finalizers.\<close>

definition gone_or_deleting :: "VRouterConfig option \<Rightarrow> bool" where
  "gone_or_deleting x \<longleftrightarrow> (\<forall>c. x = Some c \<longrightarrow> \<not> DeletionTimestamp_IsZero (cfgMeta c))"

text \<open>The number of targets whose stored configuration is not the rendered one.\<close>

definition pending ::
  "('w \<Rightarrow> nname \<Rightarrow> VRouterConfig option) \<Rightarrow> 'w \<Rightarrow> VRouterBinding \<Rightarrow> desiredConfig list \<Rightarrow> nat" where
  "pending cfgs w b ds = length (filter (\<lambda>d. \<not> matched cfgs w b d) ds)"

lemma pending_write:
  assumes "ds = pre @ d # post" "distinct (map dcName ds)" "\<not> matched cfgs w b d"
    and "cfgs w' = (cfgs w)(dc_key b d \<mapsto> c')" "cfgSpec c' = dcSpec d"
  shows "pending cfgs w b ds = Suc (pending cfgs w' b ds)"
proof -
  have other: "matched cfgs w' b x = matched cfgs w b x" if "x \<in> set pre \<union> set post" for x
  proof -
    have "dcName x \<noteq> dcName d" using assms(1,2) that by (auto simp: rev_image_eqI)
    with assms(4) show ?thesis by (simp add: matched_def)
  qed
  have "filter (\<lambda>x. \<not> matched cfgs w' b x) xs = filter (\<lambda>x. \<not> matched cfgs w b x) xs"
    if "set xs \<subseteq> set pre \<union> set post" for xs
    using that other by (intro filter_cong) auto
  moreover have "matched cfgs w' b d" using assms(4,5) by (simp add: matched_def matches_def)
  ultimately show ?thesis using assms(1,3) by (simp add: pending_def)
qed

lemma pending_pos: "0 < pending cfgs w b ds \<longleftrightarrow> (\<exists>d \<in> set ds. \<not> matched cfgs w b d)"
  by (induction ds) (auto simp: pending_def)

lemma split_first:
  "\<exists>x \<in> set xs. P x \<Longrightarrow> \<exists>pre x post. xs = pre @ x # post \<and> (\<forall>p \<in> set pre. \<not> P p) \<and> P x"
  by (drule split_list_first_prop) blast

section \<open>What renderAll returns\<close>

lemma renderTarget_shape:
  "renderTarget k lib b ts ps w ref = Inr d \<Longrightarrow>
     dcName d = configNameFor b (refName ref) \<and> dcTarget d = ref \<and>
     cfgSave (dcSpec d) = bndSave (bndSpec b) \<and>
     cfgTargetRef (dcSpec d) = \<lparr>refNamespace = [], refName = refName ref\<rparr>"
proof (cases "getTarget k (ResolveNamespace ref (metaNamespace (bndMeta b)), refName ref) w")
  case (Inr target)
  assume "renderTarget k lib b ts ps w ref = Inr d"
  with Inr show ?thesis
    by (cases "MergeParamsLayers lib (ps @ [bndParams (bndSpec b), tgtParams (tgtSpec target)])")
      (auto simp: renderTarget_def split: sum.splits)
qed (simp add: renderTarget_def)

lemma renderAll_shape:
  assumes "renderAll k lib b w = Inr ds"
  shows "list_all2 (\<lambda>ref d. dcName d = configNameFor b (refName ref) \<and> dcTarget d = ref \<and>
     cfgSave (dcSpec d) = bndSave (bndSpec b) \<and>
     cfgTargetRef (dcSpec d) = \<lparr>refNamespace = [], refName = refName ref\<rparr>)
     (bndTargetRefs (bndSpec b)) ds"
proof -
  obtain ts ps where "mapE (renderTarget k lib b ts ps w) (bndTargetRefs (bndSpec b)) = Inr ds"
    using assms by (auto simp: renderAll_def split: sum.splits)
  then show ?thesis by (rule list_all2_mono [OF mapE_Inr]) (rule renderTarget_shape)
qed

lemma renderAll_names:
  assumes "renderAll k lib b w = Inr ds"
  shows "map dcName ds = map (\<lambda>ref. configNameFor b (refName ref)) (bndTargetRefs (bndSpec b))"
    and "map dcTarget ds = bndTargetRefs (bndSpec b)"
    and "d \<in> set ds \<Longrightarrow> cfgSave (dcSpec d) = bndSave (bndSpec b)"
proof -
  note shape = renderAll_shape [OF assms]
  from shape show "map dcName ds = map (\<lambda>ref. configNameFor b (refName ref)) (bndTargetRefs (bndSpec b))"
    by (induction rule: list_all2_induct) simp_all
  from shape show "map dcTarget ds = bndTargetRefs (bndSpec b)"
    by (induction rule: list_all2_induct) simp_all
  from shape show "cfgSave (dcSpec d) = bndSave (bndSpec b)" if "d \<in> set ds"
    using that by (induction rule: list_all2_induct) auto
qed

lemma renderAll_distinct:
  assumes "renderAll k lib b w = Inr ds" "distinct (map refName (bndTargetRefs (bndSpec b)))"
  shows "distinct (map dcName ds)"
  using renderAll_names(1) [OF assms(1)] assms(2)
  by (simp add: configNameFor_def distinct_map inj_on_def)

text \<open>Nothing holds a rollout step back: no gate waits, and with WaitForApplied nothing has failed.\<close>

definition passable ::
  "'w kube \<Rightarrow> ('w \<Rightarrow> nname \<Rightarrow> VRouterConfig option) \<Rightarrow> VRouterBinding \<Rightarrow> RolloutMode \<Rightarrow> RolloutSpec \<Rightarrow>
     desiredConfig list \<Rightarrow> 'w \<Rightarrow> bool" where
  "passable k cfgs b mode rollout ds w \<longleftrightarrow>
     (\<forall>d \<in> set ds.
        (\<forall>wait. gateRemaining k b mode rollout (statusRollout (bndStatus b)) d (now k w) w = Inr wait \<longrightarrow> wait \<le> 0) \<and>
        (\<forall>f. statusRollout (bndStatus b) = Some f \<longrightarrow> refName (dcTarget d) = LastUpdatedTarget f \<longrightarrow>
           frontierRemaining k mode rollout (cfgs w (dc_key b d)) (statusRollout (bndStatus b)) (now k w) \<le> 0) \<and>
        (\<forall>c. mode = RolloutModeWaitForApplied \<longrightarrow> cfgs w (dc_key b d) = Some c \<longrightarrow> cfgSpec c = dcSpec d \<longrightarrow>
           cfgPhase (cfgStatus c) \<noteq> PhaseFailed))"

lemma fixed_passable:
  "\<forall>f. statusRollout (bndStatus b) = Some f \<longrightarrow> LastUpdateTime f + WaitInterval rollout \<le> now k w \<Longrightarrow>
     passable k cfgs b RolloutModeFixedInterval rollout ds w"
  by (auto simp: passable_def gateRemaining_def frontierRemaining_def rolloutWaitDuration_def
      split: option.splits if_splits sum.splits)

locale binding_runtime = stores_api k cfgs bnds + conditions_api k + owners_api k
  for k :: "'w kube" and cfgs :: "'w \<Rightarrow> nname \<Rightarrow> VRouterConfig option"
    and bnds :: "'w \<Rightarrow> nname \<Rightarrow> VRouterBinding option"
begin

section \<open>Reads\<close>

lemma getExisting_eq:
  "getExistingConfig k b nm w = Inr x \<Longrightarrow> x = cfgs w (metaNamespace (bndMeta b), nm)"
  using get_found get_missing
  by (auto simp: getExistingConfig_def split: sum.splits if_splits)

lemma applied_iff:
  "appliedConditionForGeneration k (cfgs w n) = Some cond \<longleftrightarrow>
     (\<exists>c. cfgs w n = Some c \<and> List.find (\<lambda>c. condType c = ConditionApplied) (cfgConditions (cfgStatus c)) = Some cond \<and>
          condStatus cond = ConditionTrue \<and> condObservedGeneration cond = cfg_generation c)"
  by (auto simp: appliedConditionForGeneration_def find_eq split: option.splits)

section \<open>Writes\<close>

lemma setReady_cfgs: "setReadyCondition k b st rs msg w = (r, w') \<Longrightarrow> cfgs w' = cfgs w"
  by (auto simp: setReadyCondition_def dest: patchb_cfgs)

lemma setReady_cfgs_snd [simp]: "cfgs (snd (setReadyCondition k b st rs msg w)) = cfgs w"
  by (rule setReady_cfgs [OF prod.collapse [symmetric]])

lemma reconcileError_cfgs: "reconcileError k b e w = (r, e', w') \<Longrightarrow> cfgs w' = cfgs w \<and> e' = Some e"
  by (auto simp: reconcileError_def)

lemma finishReady_cfgs: "finishReady k b msg w = (r, e, w') \<Longrightarrow> cfgs w' = cfgs w"
  by (auto simp: finishReady_def split: prod.splits sum.splits dest: setReady_cfgs)

lemma ready_find:
  "List.find (\<lambda>c. condType c = ConditionReady) (map truncCondition (readyCondition k b st rs msg w)) = Some c \<Longrightarrow>
     condStatus c = st \<and> condReason c = rs \<and> condMessage c = msg \<and>
     condObservedGeneration c = metaGeneration (bndMeta b)"
  using find_set_same [of "\<lparr>condType = ConditionReady, condStatus = st, condReason = rs, condMessage = msg,
        condObservedGeneration = metaGeneration (bndMeta b), condLastTransitionTime = 0\<rparr>"
      "now k w" "bndConditions (bndStatus b)"]
  by (auto simp: readyCondition_def split: option.splits)

lemma ready_find_ex:
  "\<exists>c. List.find (\<lambda>c. condType c = ConditionReady) (map truncCondition (readyCondition k b st rs msg w)) = Some c"
  using find_set_same [of "\<lparr>condType = ConditionReady, condStatus = st, condReason = rs, condMessage = msg,
        condObservedGeneration = metaGeneration (bndMeta b), condLastTransitionTime = 0\<rparr>"
      "now k w" "bndConditions (bndStatus b)"]
  by (auto simp: readyCondition_def)

lemma setReady_ok:
  assumes "bnds w (bnd_key b) = Some b" "setReadyCondition k b st rs msg w = (Inr b1, w')"
  shows "\<exists>b'. bnds w' = (bnds w)(bnd_key b \<mapsto> b') \<and> ready_is b' st rs (metaGeneration (bndMeta b)) \<and>
           bndSpec b' = bndSpec b"
proof -
  let ?new = "b\<lparr>bndStatus := (bndStatus b)\<lparr>bndConditions := readyCondition k b st rs msg w\<rparr>\<rparr>"
  have "bnds w' = (bnds w)(bnd_key b \<mapsto> patchedBinding b ?new)"
    using patchb_ok [OF assms(1) assms(2) [unfolded setReadyCondition_def]] by simp
  moreover have "ready_is (patchedBinding b ?new) st rs (metaGeneration (bndMeta b))"
    using ready_find_ex [of b st rs msg w] ready_find [of b st rs msg w]
    by (fastforce simp: ready_is_def simp del: find_truncCondition)
  ultimately show ?thesis by fastforce
qed

lemma setReady_frontier:
  assumes "bnds w (bnd_key b) = Some b" "setReadyCondition k b st rs msg w = (r, w')"
  shows "\<exists>b'. bnds w' (bnd_key b) = Some b' \<and> statusRollout (bndStatus b') = statusRollout (bndStatus b)"
proof -
  have "map_option (\<lambda>f. f\<lparr>LastUpdateTime := trunc_sec (LastUpdateTime f)\<rparr>) (statusRollout (bndStatus b)) =
      statusRollout (bndStatus b)"
    using storedb_form [OF assms(1)] storedBindingStatus_simps(2) by metis
  with patchb_cases [OF assms(1) assms(2) [unfolded setReadyCondition_def]] assms(1) show ?thesis
    by auto
qed

lemma finishReady_ok:
  assumes "bnds w (bnd_key b) = Some b" "finishReady k b msg w = (r, None, w')"
  shows "\<exists>b'. bnds w' (bnd_key b) = Some b' \<and>
           ready_is b' ConditionTrue ''ReconcileSucceeded'' (metaGeneration (bndMeta b))"
  using assms(2) setReady_ok [OF assms(1)]
  by (fastforce simp: finishReady_def split: prod.splits sum.splits)

lemma mutate_key: "mutateConfig k b d c = Inr m \<Longrightarrow>
  cfg_key m = cfg_key c \<and> cfgSpec m = dcSpec d \<and>
  metaLabels (cfgMeta m) LabelBinding = Some (metaName (bndMeta b)) \<and>
  metaLabels (cfgMeta m) LabelTarget = Some (refName (dcTarget d))"
  by (auto simp: mutateConfig_def dest!: owner_set)

lemma blank_key [simp]:
  "metaNamespace (cfgMeta (blankConfig b d)) = metaNamespace (bndMeta b)"
  "metaName (cfgMeta (blankConfig b d)) = dcName d"
  by (simp_all add: blankConfig_def blankMeta_def)

lemma written_generated:
  assumes "mutateConfig k b d (case cfgs w (dc_key b d) of None \<Rightarrow> blankConfig b d | Some c0 \<Rightarrow> c0) = Inr m"
    and "written (cfgs w (dc_key b d)) m c'"
  shows "generated b d (cfgs w (dc_key b d)) c'"
  using mutate_key [OF assms(1)] assms(2) stored_key [of w "dc_key b d"]
  by (auto simp: generated_def written_def split: option.splits)

lemma createOne_cases:
  assumes "createOrUpdateOne k b d w = (r, w')"
  shows "bnds w' = bnds w"
    and "(r \<noteq> None \<and> cfgs w' = cfgs w) \<or>
      (\<exists>c'. cfgs w' = (cfgs w)(dc_key b d \<mapsto> c') \<and> generated b d (cfgs w (dc_key b d)) c')"
proof -
  obtain e where e: "CreateOrUpdateConfig k (blankConfig b d) (mutateConfig k b d) w = (e, w')"
    "r = None \<longleftrightarrow> e = None"
    using assms by (auto simp: createOrUpdateOne_def split: prod.splits option.splits)
  show "bnds w' = bnds w" using write_bnds [OF e(1)] .
  show "(r \<noteq> None \<and> cfgs w' = cfgs w) \<or>
      (\<exists>c'. cfgs w' = (cfgs w)(dc_key b d \<mapsto> c') \<and> generated b d (cfgs w (dc_key b d)) c')"
  proof (cases e)
    case None
    with e(1) write_ok [of "blankConfig b d" "mutateConfig k b d" w w'] written_generated [of b d w]
    show ?thesis by auto
  next
    case (Some ge)
    with e write_fail [of "blankConfig b d" "mutateConfig k b d" w ge w'] written_generated [of b d w]
    show ?thesis by auto
  qed
qed

lemma stamp_cfgs: "stampRolloutFrontier k b tgt t msg w = (r, w') \<Longrightarrow> cfgs w' = cfgs w"
  by (auto simp: stampRolloutFrontier_def dest: patchb_cfgs)

lemma stamp_ok:
  assumes "bnds w (bnd_key b) = Some b" "stampRolloutFrontier k b tgt t msg w = (Inr b1, w')"
  shows "bnds w' (bnd_key b) = Some b1" "bndMeta b1 = bndMeta b" "bndSpec b1 = bndSpec b"
    "statusRollout (bndStatus b1) = Some \<lparr>LastUpdatedTarget = tgt, LastUpdateTime = trunc_sec t\<rparr>"
    "ready_is b1 ConditionFalse ReasonRolloutInProgress (metaGeneration (bndMeta b))"
proof -
  let ?new = "b\<lparr>bndStatus := (bndStatus b)
      \<lparr>statusRollout := Some \<lparr>LastUpdatedTarget = tgt, LastUpdateTime = t\<rparr>,
       bndConditions := readyCondition k b ConditionFalse ReasonRolloutInProgress msg w\<rparr>\<rparr>"
  have b1: "b1 = patchedBinding b ?new" "bnds w' = (bnds w)(bnd_key b \<mapsto> patchedBinding b ?new)"
    using patchb_ok [OF assms(1) assms(2) [unfolded stampRolloutFrontier_def]] by auto
  then show "bnds w' (bnd_key b) = Some b1" "bndMeta b1 = bndMeta b" "bndSpec b1 = bndSpec b"
    "statusRollout (bndStatus b1) = Some \<lparr>LastUpdatedTarget = tgt, LastUpdateTime = trunc_sec t\<rparr>"
    by simp_all
  show "ready_is b1 ConditionFalse ReasonRolloutInProgress (metaGeneration (bndMeta b))"
    using ready_find_ex [of b ConditionFalse ReasonRolloutInProgress msg w]
      ready_find [of b ConditionFalse ReasonRolloutInProgress msg w]
    by (fastforce simp: b1(1) ready_is_def simp del: find_truncCondition)
qed

section \<open>The walk\<close>

lemma walk_cases:
  assumes "rolloutWalk k b mode rollout fr t cnt i ds w = Some out"
  shows "(\<exists>pre d post. ds = pre @ d # post \<and> (\<forall>p \<in> set pre. matched cfgs w b p) \<and> \<not> matched cfgs w b d \<and>
            out = writeMismatch k b mode rollout fr t cnt (i + length pre) d w) \<or>
         (world_of out = w \<and> (error_of out \<noteq> None \<or> 0 < RequeueAfter (result_of out)))"
  using assms
proof (induction ds arbitrary: i)
  case Nil
  then show ?case by simp
next
  case (Cons d ds)
  show ?case
  proof (cases "getExistingConfig k b (dcName d) w")
    case (Inl e)
    with Cons.prems show ?thesis by auto
  next
    case (Inr existing)
    then have ex: "existing = cfgs w (dc_key b d)" by (rule getExisting_eq)
    show ?thesis
    proof (cases "matches existing d")
      case False
      with Cons.prems Inr ex show ?thesis
        by (intro disjI1 exI [of _ "[]"] exI [of _ d] exI [of _ ds]) (simp add: matched_def)
    next
      case True
      with Cons.prems Inr consider
          "rolloutWalk k b mode rollout fr t cnt (Suc i) ds w = Some out"
        | "world_of out = w" "0 < RequeueAfter (result_of out)"
        by (auto simp: Let_def split: option.splits if_splits)
      then show ?thesis
      proof cases
        case 1
        from Cons.IH [OF this] show ?thesis
        proof
          assume "\<exists>pre e post. ds = pre @ e # post \<and> (\<forall>p \<in> set pre. matched cfgs w b p) \<and> \<not> matched cfgs w b e \<and>
            out = writeMismatch k b mode rollout fr t cnt (Suc i + length pre) e w"
          then obtain pre e post where "ds = pre @ e # post" "\<forall>p \<in> set pre. matched cfgs w b p"
            "\<not> matched cfgs w b e" "out = writeMismatch k b mode rollout fr t cnt (Suc i + length pre) e w"
            by blast
          with True ex show ?thesis
            by (intro disjI1 exI [of _ "d # pre"] exI [of _ e] exI [of _ post]) (simp add: matched_def)
        qed blast
      qed blast
    qed
  qed
qed

lemma walk_through:
  assumes "rolloutWalk k b mode rollout fr t cnt i ds w = None"
  shows "\<forall>d \<in> set ds. matched cfgs w b d \<and>
    (\<forall>f. fr = Some f \<longrightarrow> refName (dcTarget d) = LastUpdatedTarget f \<longrightarrow>
       frontierRemaining k mode rollout (cfgs w (dc_key b d)) fr t \<le> 0)"
  using assms
proof (induction ds arbitrary: i)
  case Nil
  then show ?case by simp
next
  case (Cons d ds)
  from Cons.prems obtain existing where ex: "getExistingConfig k b (dcName d) w = Inr existing"
    by (cases "getExistingConfig k b (dcName d) w") auto
  with getExisting_eq have "existing = cfgs w (dc_key b d)" by blast
  with Cons ex show ?case
    by (auto simp: matched_def Let_def split: option.splits if_splits)
qed

lemma writeMismatch_cases:
  assumes "writeMismatch k b mode rollout fr t cnt i d w = (r, e, w')" "bnds w (bnd_key b) = Some b"
  shows "cfgs w' = cfgs w \<or>
    (\<exists>wait c' b'. gateRemaining k b mode rollout fr d t w = Inr wait \<and> wait \<le> 0 \<and>
       cfgs w' = (cfgs w)(dc_key b d \<mapsto> c') \<and> generated b d (cfgs w (dc_key b d)) c' \<and>
       bnds w' (bnd_key b) = Some b' \<and> bndSpec b' = bndSpec b \<and>
       statusRollout (bndStatus b') =
         Some \<lparr>LastUpdatedTarget = refName (dcTarget d), LastUpdateTime = trunc_sec t\<rparr> \<and>
       ready_is b' ConditionFalse ReasonRolloutInProgress (metaGeneration (bndMeta b)))"
proof (cases "\<exists>wait b1 w1. gateRemaining k b mode rollout fr d t w = Inr wait \<and> wait \<le> 0 \<and>
      stampRolloutFrontier k b (refName (dcTarget d)) t
        (digits (i + 1) @ ''/'' @ digits cnt @ '' targets updated'') w = (Inr b1, w1)")
  case True
  then obtain wait b1 w1 where g: "gateRemaining k b mode rollout fr d t w = Inr wait" "wait \<le> 0"
    "stampRolloutFrontier k b (refName (dcTarget d)) t
        (digits (i + 1) @ ''/'' @ digits cnt @ '' targets updated'') w = (Inr b1, w1)" by blast
  note st = stamp_ok [OF assms(2) g(3)]
  obtain ge where ge: "createOrUpdateOne k b1 d w1 = (ge, w')"
    using assms(1) g by (auto simp: writeMismatch_def split: prod.splits option.splits)
  from createOne_cases [OF ge] stamp_cfgs [OF g(3)] st g(1,2) show ?thesis
    by (auto simp: generated_def)
next
  case False
  with assms(1) have "cfgs w' = cfgs w"
    by (auto simp: writeMismatch_def split: sum.splits prod.splits if_splits dest: stamp_cfgs)
  then show ?thesis by simp
qed

lemma completeRollout_cfgs:
  "completeRollout k b mode rollout ds w = (r, e, w') \<Longrightarrow> cfgs w' = cfgs w"
  by (auto simp: completeRollout_def split: sum.splits option.splits if_splits dest: finishReady_cfgs)

text \<open>Every run of a rollout writes at most one configuration, and only a first mismatch.\<close>

lemma runRollout_cases:
  assumes "runRollout k b rollout ds w = (r, e, w')" "bnds w (bnd_key b) = Some b"
    and "cfgs w' \<noteq> cfgs w"
  defines "mode \<equiv> EffectiveMode (bndRollout (bndSpec b))"
  shows "\<exists>pre d post c' b' wait. ds = pre @ d # post \<and> (\<forall>p \<in> set pre. matched cfgs w b p) \<and> \<not> matched cfgs w b d \<and>
     gateRemaining k b mode rollout (statusRollout (bndStatus b)) d (now k w) w = Inr wait \<and> wait \<le> 0 \<and>
     cfgs w' = (cfgs w)(dc_key b d \<mapsto> c') \<and> generated b d (cfgs w (dc_key b d)) c' \<and>
     bnds w' (bnd_key b) = Some b' \<and> bndSpec b' = bndSpec b \<and>
     statusRollout (bndStatus b') =
       Some \<lparr>LastUpdatedTarget = refName (dcTarget d), LastUpdateTime = trunc_sec (now k w)\<rparr> \<and>
     ready_is b' ConditionFalse ReasonRolloutInProgress (metaGeneration (bndMeta b))"
proof -
  have "walkOrComplete k b mode rollout ds w = (r, e, w')"
    using assms(1,3) by (auto simp: runRollout_def Let_def mode_def split: if_splits sum.splits option.splits)
  then obtain out where out: "rolloutWalk k b mode rollout (statusRollout (bndStatus b)) (now k w)
      (length ds) 0 ds w = Some out" "out = (r, e, w')"
    using assms(3) by (auto simp: walkOrComplete_def split: option.splits dest: completeRollout_cfgs)
  from walk_cases [OF out(1)] out(2) assms(3) obtain pre d post where d: "ds = pre @ d # post"
    "\<forall>p \<in> set pre. matched cfgs w b p" "\<not> matched cfgs w b d"
    "writeMismatch k b mode rollout (statusRollout (bndStatus b)) (now k w) (length ds)
       (length pre) d w = (r, e, w')"
    by auto
  from writeMismatch_cases [OF d(4) assms(2)] assms(3) d(1-3) show ?thesis by blast
qed

section \<open>The gates\<close>

lemma gate_fixed:
  assumes "gateRemaining k b RolloutModeFixedInterval rollout fr d t w = Inr wait" "wait \<le> 0"
    and "fr = Some f" "LastUpdatedTarget f \<noteq> []" "LastUpdatedTarget f \<noteq> refName (dcTarget d)"
  shows "LastUpdateTime f + WaitInterval rollout \<le> t"
proof -
  have "wait = time_sub (LastUpdateTime f + WaitInterval rollout) t"
    using assms(1,3-5)
    by (auto simp: gateRemaining_def rolloutWaitDuration_def frontierRemaining_def split: if_splits sum.splits)
  with assms(2) show ?thesis by simp
qed

lemma gate_applied:
  assumes "gateRemaining k b RolloutModeWaitForApplied rollout fr d t w = Inr wait" "wait \<le> 0"
    and "fr = Some f" "LastUpdatedTarget f \<noteq> []" "LastUpdatedTarget f \<noteq> refName (dcTarget d)"
    and "0 < PollInterval rollout" "inTargetRefs b (LastUpdatedTarget f)"
  shows "\<exists>c cond. cfgs w (metaNamespace (bndMeta b), configNameFor b (LastUpdatedTarget f)) = Some c \<and>
     List.find (\<lambda>c. condType c = ConditionApplied) (cfgConditions (cfgStatus c)) = Some cond \<and>
     condStatus cond = ConditionTrue \<and> condObservedGeneration cond = cfg_generation c \<and>
     condLastTransitionTime cond + WaitAfterApplied rollout \<le> t"
proof -
  let ?n = "(metaNamespace (bndMeta b), configNameFor b (LastUpdatedTarget f))"
  have "wait = frontierRemaining k RolloutModeWaitForApplied rollout (cfgs w ?n) fr t"
    using assms(1,3-5,7) getExisting_eq
    by (auto simp: gateRemaining_def split: if_splits sum.splits)
  with assms(2,6) obtain cond where cond: "appliedConditionForGeneration k (cfgs w ?n) = Some cond"
    "time_sub (condLastTransitionTime cond + WaitAfterApplied rollout) t \<le> 0"
    by (auto simp: frontierRemaining_def split: option.splits)
  moreover from cond(2) have "condLastTransitionTime cond + WaitAfterApplied rollout \<le> t"
    by simp
  ultimately show ?thesis unfolding applied_iff by blast
qed

section \<open>Halting and completion\<close>

lemma halting_found:
  assumes "firstHaltingFailedConfig k b ds w = Inr (Some c)"
  shows "\<exists>d \<in> set ds. cfgs w (dc_key b d) = Some c \<and> cfgPhase (cfgStatus c) = PhaseFailed \<and>
           cfgSpec c = dcSpec d"
  using assms getExisting_eq
  by (induction ds) (fastforce split: sum.splits option.splits if_splits)+

lemma halting_none:
  assumes "firstHaltingFailedConfig k b ds w = Inr None" "d \<in> set ds" "cfgs w (dc_key b d) = Some c"
    and "cfgSpec c = dcSpec d"
  shows "cfgPhase (cfgStatus c) \<noteq> PhaseFailed"
  using assms getExisting_eq
  by (induction ds) (fastforce split: sum.splits option.splits if_splits)+

lemma notApplied_none:
  assumes "firstNotAppliedConfig k b ds w = Inr None" "d \<in> set ds"
  shows "\<exists>cond. appliedConditionForGeneration k (cfgs w (dc_key b d)) = Some cond"
  using assms getExisting_eq
  by (induction ds) (fastforce split: sum.splits if_splits)+

lemma halting_exists:
  assumes "d \<in> set ds" "cfgs w (dc_key b d) = Some c" "cfgPhase (cfgStatus c) = PhaseFailed"
    and "cfgSpec c = dcSpec d"
  shows "firstHaltingFailedConfig k b ds w \<noteq> Inr None"
  using assms halting_none by blast

text \<open>
  The walk when nothing holds it back: it reaches the first mismatch, and if no API call fails
  it writes it; without a mismatch it runs through.
\<close>

lemma walk_next:
  assumes "rolloutWalk k b mode rollout fr t cnt i (p # ds) w = Some out" "error_of out = None"
    and "matched cfgs w b p"
    and "\<forall>f. fr = Some f \<longrightarrow> refName (dcTarget p) = LastUpdatedTarget f \<longrightarrow>
      frontierRemaining k mode rollout (cfgs w (dc_key b p)) fr t \<le> 0"
  shows "rolloutWalk k b mode rollout fr t cnt (Suc i) ds w = Some out"
proof -
  from assms(1,2) obtain x where x: "getExistingConfig k b (dcName p) w = Inr x"
    by (cases "getExistingConfig k b (dcName p) w") auto
  with getExisting_eq [OF x] assms(3) have "matches x p" "x = cfgs w (dc_key b p)" by (simp_all add: matched_def)
  with assms(1,4) x show ?thesis by (auto simp: Let_def split: option.splits if_splits)
qed

lemma walk_reaches:
  assumes "rolloutWalk k b mode rollout fr t cnt i (pre @ d # post) w = Some out" "error_of out = None"
    and "\<forall>p \<in> set pre. matched cfgs w b p" "\<not> matched cfgs w b d"
    and "\<forall>p \<in> set pre. \<forall>f. fr = Some f \<longrightarrow> refName (dcTarget p) = LastUpdatedTarget f \<longrightarrow>
      frontierRemaining k mode rollout (cfgs w (dc_key b p)) fr t \<le> 0"
  shows "out = writeMismatch k b mode rollout fr t cnt (i + length pre) d w"
  using assms(1,3,5)
proof (induction pre arbitrary: i)
  case Nil
  with assms(2) obtain x where x: "getExistingConfig k b (dcName d) w = Inr x"
    by (cases "getExistingConfig k b (dcName d) w") auto
  with getExisting_eq [OF x] assms(4) Nil show ?case by (simp add: matched_def)
next
  case (Cons p pre)
  from Cons.prems(1) have "rolloutWalk k b mode rollout fr t cnt i (p # pre @ d # post) w = Some out" by simp
  from walk_next [OF this assms(2)] Cons.prems(2,3)
  have "rolloutWalk k b mode rollout fr t cnt (Suc i) (pre @ d # post) w = Some out" by simp
  from Cons.IH [OF this] Cons.prems(2,3) show ?case by simp
qed

lemma walk_passes:
  assumes "rolloutWalk k b mode rollout fr t cnt i ds w = Some out" "error_of out = None"
    and "\<forall>d \<in> set ds. matched cfgs w b d"
    and "\<forall>p \<in> set ds. \<forall>f. fr = Some f \<longrightarrow> refName (dcTarget p) = LastUpdatedTarget f \<longrightarrow>
      frontierRemaining k mode rollout (cfgs w (dc_key b p)) fr t \<le> 0"
  shows False
  using assms(1,3,4)
proof (induction ds arbitrary: i)
  case (Cons d ds)
  have "rolloutWalk k b mode rollout fr t cnt (Suc i) ds w = Some out"
    by (rule walk_next [OF Cons.prems(1) assms(2)]) (use Cons.prems(2,3) in simp_all)
  from Cons.IH [OF this] Cons.prems(2,3) show ?case by simp
qed simp

lemma writeMismatch_writes:
  assumes "writeMismatch k b mode rollout fr t cnt i d w = (r, None, w')" "bnds w (bnd_key b) = Some b"
    and "\<forall>wait. gateRemaining k b mode rollout fr d t w = Inr wait \<longrightarrow> wait \<le> 0"
  shows "r = requeueIn (postWriteRequeueInterval mode rollout) \<and>
    (\<exists>c'. cfgs w' = (cfgs w)(dc_key b d \<mapsto> c') \<and> generated b d (cfgs w (dc_key b d)) c')"
proof -
  from assms(1,3) obtain b1 w1 where st: "stampRolloutFrontier k b (refName (dcTarget d)) t
      (digits (i + 1) @ ''/'' @ digits cnt @ '' targets updated'') w = (Inr b1, w1)"
    "createOrUpdateOne k b1 d w1 = (None, w')" "r = requeueIn (postWriteRequeueInterval mode rollout)"
    by (fastforce simp: writeMismatch_def split: sum.splits prod.splits option.splits if_splits)
  note s1 = stamp_ok [OF assms(2) st(1)] and s2 = stamp_cfgs [OF st(1)]
  from createOne_cases(2) [OF st(2)] s1 s2 st(3) show ?thesis by (auto simp: generated_def)
qed

lemma passable_walk:
  assumes "runRollout k b rollout ds w = (r, None, w')"
    and "\<forall>d \<in> set ds. \<forall>c. EffectiveMode (bndRollout (bndSpec b)) = RolloutModeWaitForApplied \<longrightarrow>
      cfgs w (dc_key b d) = Some c \<longrightarrow> cfgSpec c = dcSpec d \<longrightarrow> cfgPhase (cfgStatus c) \<noteq> PhaseFailed"
  shows "walkOrComplete k b (EffectiveMode (bndRollout (bndSpec b))) rollout ds w = (r, None, w')"
  using assms halting_found
  by (fastforce simp: runRollout_def Let_def split: if_splits sum.splits option.splits)

lemma rollout_step:
  assumes "runRollout k b rollout ds w = (r, None, w')" "bnds w (bnd_key b) = Some b"
    and "EffectiveMode (bndRollout (bndSpec b)) = mode" "passable k cfgs b mode rollout ds w"
    and "\<exists>d \<in> set ds. \<not> matched cfgs w b d"
  shows "r = requeueIn (postWriteRequeueInterval mode rollout) \<and> cfgs w' \<noteq> cfgs w \<or>
    (\<exists>d \<in> set ds. cfgSave (dcSpec d) = None)"
proof -
  let ?fr = "statusRollout (bndStatus b)"
  let ?walk = "rolloutWalk k b mode rollout ?fr (now k w) (length ds) 0 ds w"
  obtain pre d post where d: "ds = pre @ d # post" "\<forall>p \<in> set pre. matched cfgs w b p" "\<not> matched cfgs w b d"
    using split_first [OF assms(5)] by blast
  have "?walk \<noteq> None" using walk_through [of b mode rollout ?fr "now k w" "length ds" 0 ds w] assms(5) by blast
  moreover have "walkOrComplete k b mode rollout ds w = (r, None, w')"
    using passable_walk [OF assms(1)] assms(3,4) unfolding passable_def by blast
  ultimately have "?walk = Some (r, None, w')" by (auto simp: walkOrComplete_def)
  from walk_reaches [OF this [unfolded d(1)] _ d(2,3)] assms(4) d(1)
  have "writeMismatch k b mode rollout ?fr (now k w) (length (pre @ d # post)) (0 + length pre) d w = (r, None, w')"
    by (simp add: passable_def)
  from writeMismatch_writes [OF this assms(2)] assms(4) d(1) obtain c' where
    c': "r = requeueIn (postWriteRequeueInterval mode rollout)"
      "cfgs w' = (cfgs w)(dc_key b d \<mapsto> c')" "cfgSpec c' = defaultedConfigSpec (dcSpec d)"
    by (auto simp: generated_def passable_def)
  show ?thesis
  proof (cases "cfgSave (dcSpec d)")
    case None
    with d(1) show ?thesis by auto
  next
    case (Some sv)
    with c'(3) have "cfgSpec c' = dcSpec d" by (simp add: defaultedConfigSpec_explicit)
    with c'(2) have "matched cfgs w' b d" by (simp add: matched_def matches_def)
    with d(3) c'(1) show ?thesis by (auto simp: matched_def)
  qed
qed

lemma runRollout_halted:
  assumes "bnds w (bnd_key b) = Some b"
    and "EffectiveMode (bndRollout (bndSpec b)) = RolloutModeWaitForApplied"
    and "d \<in> set ds" "cfgs w (dc_key b d) = Some c" "cfgPhase (cfgStatus c) = PhaseFailed"
    and "cfgSpec c = dcSpec d" "runRollout k b rollout ds w = (r, e, w')"
  shows "cfgs w' = cfgs w \<and> (e = None \<longrightarrow> r = requeueIn (PollInterval rollout)) \<and>
    (\<exists>b'. bnds w' (bnd_key b) = Some b' \<and> statusRollout (bndStatus b') = statusRollout (bndStatus b))"
proof (cases "firstHaltingFailedConfig k b ds w")
  case (Inl err)
  with assms show ?thesis by (auto simp: runRollout_def)
next
  case (Inr x)
  then obtain c0 where "x = Some c0" using halting_exists [OF assms(3-6)] by (cases x) auto
  with Inr assms(2,7) have w': "r = requeueIn (PollInterval rollout)" "e = None"
    "w' = snd (setReadyCondition k b ConditionFalse ReasonRolloutHalted
       (''VRouterConfig '' @ quoted (metaName (cfgMeta c0)) @ '' is Failed'') w)"
    by (auto simp: runRollout_def)
  with setReady_frontier [OF assms(1) prod.collapse [symmetric]] show ?thesis by auto
qed

lemma completeRollout_ready:
  assumes "completeRollout k b mode rollout ds w = (noRequeue, None, w')" "bnds w (bnd_key b) = Some b"
    and "0 < PollInterval rollout"
  shows "(mode = RolloutModeWaitForApplied \<longrightarrow>
       (\<forall>d \<in> set ds. \<exists>cond. appliedConditionForGeneration k (cfgs w (dc_key b d)) = Some cond)) \<and>
     (\<exists>b'. bnds w' (bnd_key b) = Some b' \<and>
       ready_is b' ConditionTrue ''ReconcileSucceeded'' (metaGeneration (bndMeta b)))"
proof -
  have "requeueIn (PollInterval rollout) \<noteq> noRequeue"
    using assms(3) by (simp add: requeueIn_def noRequeue_def)
  with assms(1) obtain msg where "finishReady k b msg w = (noRequeue, None, w')"
    "mode = RolloutModeWaitForApplied \<longrightarrow> firstNotAppliedConfig k b ds w = Inr None"
    by (auto simp: completeRollout_def split: if_splits sum.splits option.splits)
  with finishReady_ok [OF assms(2)] notApplied_none show ?thesis by blast
qed

lemma runRollout_complete:
  assumes "runRollout k b rollout ds w = (noRequeue, None, w')" "bnds w (bnd_key b) = Some b"
    and "0 < PollInterval rollout" "0 < WaitInterval rollout"
  shows "(\<forall>d \<in> set ds. matched cfgs w b d) \<and> cfgs w' = cfgs w \<and>
     (EffectiveMode (bndRollout (bndSpec b)) = RolloutModeWaitForApplied \<longrightarrow>
       (\<forall>d \<in> set ds. \<exists>cond. appliedConditionForGeneration k (cfgs w (dc_key b d)) = Some cond)) \<and>
     (\<exists>b'. bnds w' (bnd_key b) = Some b' \<and>
       ready_is b' ConditionTrue ''ReconcileSucceeded'' (metaGeneration (bndMeta b)))"
proof -
  define mode where "mode = EffectiveMode (bndRollout (bndSpec b))"
  have ne: "requeueIn x \<noteq> noRequeue" if "0 < x" for x
    using that by (simp add: requeueIn_def noRequeue_def)
  have "walkOrComplete k b mode rollout ds w = (noRequeue, None, w')"
    using assms(1) ne [OF assms(3)]
    by (auto simp: runRollout_def Let_def mode_def split: if_splits sum.splits option.splits)
  moreover have "rolloutWalk k b mode rollout (statusRollout (bndStatus b)) (now k w) (length ds) 0 ds w \<noteq>
      Some (noRequeue, None, w')"
  proof
    assume "rolloutWalk k b mode rollout (statusRollout (bndStatus b)) (now k w) (length ds) 0 ds w =
      Some (noRequeue, None, w')"
    from walk_cases [OF this] obtain d i where
      "writeMismatch k b mode rollout (statusRollout (bndStatus b)) (now k w) (length ds) i d w =
        (noRequeue, None, w')"
      by auto
    with ne assms(3,4) show False
      by (auto simp: writeMismatch_def postWriteRequeueInterval_def
          split: sum.splits prod.splits option.splits if_splits)
  qed
  ultimately have run: "rolloutWalk k b mode rollout (statusRollout (bndStatus b)) (now k w) (length ds) 0 ds w = None"
    "completeRollout k b mode rollout ds w = (noRequeue, None, w')"
    by (auto simp: walkOrComplete_def split: option.splits)
  with walk_through [OF run(1)] completeRollout_ready [OF run(2) assms(2,3)]
    completeRollout_cfgs [OF run(2)] show ?thesis
    by (auto simp: mode_def)
qed

section \<open>Orphans\<close>

lemma deleteOrphans_frame:
  assumes "deleteOrphans k names cs w = (r, w')" "\<forall>c \<in> set cs. cfg_key c = n \<longrightarrow> metaName (cfgMeta c) \<in> set names"
  shows "cfgs w' n = cfgs w n"
  using assms
proof (induction cs arbitrary: w)
  case Nil
  then show ?case by simp
next
  case (Cons c cs)
  show ?case
  proof (cases "metaName (cfgMeta c) \<in> set names")
    case True
    with Cons show ?thesis by simp
  next
    case False
    obtain u w1 where u: "deleteConfig k c w = (u, w1)" by fastforce
    have "n \<noteq> cfg_key c" using False Cons.prems(2) by auto
    from delete_frame [OF u this] have "cfgs w1 n = cfgs w n" .
    with Cons False u show ?thesis by (auto split: option.splits)
  qed
qed

lemma deleteOrphans_bnds: "deleteOrphans k names cs w = (r, w') \<Longrightarrow> bnds w' = bnds w"
proof (induction cs arbitrary: w)
  case (Cons c cs)
  obtain u w1 where "deleteConfig k c w = (u, w1)" by fastforce
  with Cons delete_bnds [OF this] show ?case by (auto split: option.splits if_splits)
qed simp

lemma delete_keeps_deleting:
  assumes "deleteConfig k c w = (None, w1)" "gone_or_deleting (cfgs w n)"
  shows "gone_or_deleting (cfgs w1 n)"
  using assms delete_ok [OF assms(1)] delete_frame [OF assms(1), of n]
  by (cases "n = cfg_key c") (auto simp: gone_or_deleting_def)

lemma deleteOrphans_ok:
  assumes "deleteOrphans k names cs w = (None, w')"
    and "gone_or_deleting (cfgs w n) \<or> (\<exists>c \<in> set cs. cfg_key c = n \<and> metaName (cfgMeta c) \<notin> set names)"
  shows "gone_or_deleting (cfgs w' n)"
  using assms
proof (induction cs arbitrary: w)
  case Nil
  then show ?case by simp
next
  case (Cons c cs)
  show ?case
  proof (cases "metaName (cfgMeta c) \<in> set names")
    case True
    with Cons show ?thesis by auto
  next
    case False
    with Cons.prems(1) obtain w1 where w1: "deleteConfig k c w = (None, w1)"
      "deleteOrphans k names cs w1 = (None, w')"
      by (auto split: prod.splits option.splits)
    have "gone_or_deleting (cfgs w1 n) \<or> (\<exists>c \<in> set cs. cfg_key c = n \<and> metaName (cfgMeta c) \<notin> set names)"
      using Cons.prems(2) delete_keeps_deleting [OF w1(1), of n] delete_ok [OF w1(1)]
      unfolding gone_or_deleting_def by (metis set_ConsD)
    from Cons.IH [OF w1(2) this] show ?thesis .
  qed
qed

lemma cleanup_ok:
  assumes "cleanupOrphans k b ds w = (None, w')"
  shows "bnds w' = bnds w"
    and "cfgs w (metaNamespace (bndMeta b), nm) = Some c \<Longrightarrow>
      metaLabels (cfgMeta c) LabelBinding = Some (metaName (bndMeta b)) \<Longrightarrow> nm \<notin> dcName ` set ds \<Longrightarrow>
      gone_or_deleting (cfgs w' (metaNamespace (bndMeta b), nm))"
proof -
  obtain cs where cs: "listConfigs k (Some (metaNamespace (bndMeta b)))
      [(LabelBinding, metaName (bndMeta b))] w = Inr cs"
    "deleteOrphans k (map dcName ds) cs w = (None, w')"
    using assms by (auto simp: cleanupOrphans_def split: sum.splits)
  show "bnds w' = bnds w" using cs(2) by (rule deleteOrphans_bnds)
  assume "cfgs w (metaNamespace (bndMeta b), nm) = Some c"
    "metaLabels (cfgMeta c) LabelBinding = Some (metaName (bndMeta b))" "nm \<notin> dcName ` set ds"
  moreover from this(1) have "cfg_key c = (metaNamespace (bndMeta b), nm)" by (rule stored_key)
  ultimately have "\<exists>c \<in> set cs. cfg_key c = (metaNamespace (bndMeta b), nm) \<and>
      metaName (cfgMeta c) \<notin> set (map dcName ds)"
    unfolding list_sound [OF cs(1)] by auto
  with deleteOrphans_ok [OF cs(2)] show "gone_or_deleting (cfgs w' (metaNamespace (bndMeta b), nm))" by blast
qed

lemma cleanup_frame:
  assumes "cleanupOrphans k b ds w = (r, w')"
    and "fst n \<noteq> metaNamespace (bndMeta b) \<or> snd n \<in> dcName ` set ds \<or>
      (\<forall>c. cfgs w n = Some c \<longrightarrow> metaLabels (cfgMeta c) LabelBinding \<noteq> Some (metaName (bndMeta b)))"
  shows "cfgs w' n = cfgs w n"
proof (cases "listConfigs k (Some (metaNamespace (bndMeta b))) [(LabelBinding, metaName (bndMeta b))] w")
  case (Inl e)
  with assms(1) show ?thesis by (simp add: cleanupOrphans_def)
next
  case (Inr cs)
  have "\<forall>c \<in> set cs. cfg_key c = n \<longrightarrow> metaName (cfgMeta c) \<in> set (map dcName ds)"
    using assms(2) unfolding list_sound [OF Inr] by auto
  with assms(1) Inr show ?thesis
    using deleteOrphans_frame [of "map dcName ds" cs w r w' n] by (simp add: cleanupOrphans_def)
qed

section \<open>Writing everything\<close>

lemma createAll_frame:
  assumes "createOrUpdateAll k b ds w = (r, w')"
  shows "bnds w' = bnds w" "n \<notin> dc_key b ` set ds \<Longrightarrow> cfgs w' n = cfgs w n"
  using assms
proof (induction ds arbitrary: w)
  case (Cons d ds)
  {
    case 1
    obtain u w1 where u: "createOrUpdateOne k b d w = (u, w1)" by fastforce
    with createOne_cases(1) [OF u] Cons.IH(1) 1 show ?case by (auto split: option.splits)
  next
    case 2
    obtain u w1 where u: "createOrUpdateOne k b d w = (u, w1)" by fastforce
    have "cfgs w1 n = cfgs w n" using createOne_cases(2) [OF u] 2(1) by auto
    with u Cons.IH(2) 2 show ?case by (auto split: option.splits)
  }
qed simp_all

lemma createAll_ok:
  assumes "createOrUpdateAll k b ds w = (None, w')" "distinct (map dcName ds)" "d \<in> set ds"
  shows "\<exists>c. cfgs w' (dc_key b d) = Some c \<and> generated b d (cfgs w (dc_key b d)) c"
  using assms
proof (induction ds arbitrary: w)
  case Nil
  then show ?case by simp
next
  case (Cons x ds)
  from Cons.prems(1) obtain w1 where w1: "createOrUpdateOne k b x w = (None, w1)"
    "createOrUpdateAll k b ds w1 = (None, w')"
    by (auto split: prod.splits option.splits)
  obtain c' where c': "cfgs w1 = (cfgs w)(dc_key b x \<mapsto> c')" "generated b x (cfgs w (dc_key b x)) c'"
    using createOne_cases(2) [OF w1(1)] by auto
  show ?case
  proof (cases "d = x")
    case True
    have "dc_key b x \<notin> dc_key b ` set ds" using Cons.prems(2) by auto
    with createAll_frame(2) [OF w1(2)] True c' show ?thesis by auto
  next
    case False
    with Cons.prems(2,3) have d: "d \<in> set ds" "dc_key b d \<noteq> dc_key b x" by (auto simp: rev_image_eqI)
    with Cons.IH [OF w1(2)] Cons.prems(2) c' show ?thesis by auto
  qed
qed

section \<open>onChange\<close>

lemma onChange_render_error:
  assumes "renderAll k lib b w = Inl err" "Binding_onChange k lib b w = (r, e, w')"
  shows "cfgs w' = cfgs w \<and> e = Some err"
  using assms reconcileError_cfgs by (simp add: Binding_onChange_def)

lemma onChange_disabled_cases:
  assumes "Binding_onChange k lib b w = (r, None, w')"
    and "EffectiveMode (bndRollout (bndSpec b)) = RolloutModeDisabled"
  obtains ds w1 w2 where "renderAll k lib b w = Inr ds" "cleanupOrphans k b ds w = (None, w1)"
    "createOrUpdateAll k b ds w1 = (None, w2)" "finishReady k b succeededMessage w2 = (r, None, w')"
proof -
  obtain ds where ds: "renderAll k lib b w = Inr ds"
    using assms(1) by (cases "renderAll k lib b w") (auto simp: Binding_onChange_def reconcileError_def)
  obtain ce w1 where w1: "cleanupOrphans k b ds w = (ce, w1)" by fastforce
  with ds assms(1) have ce: "ce = None" by (cases ce) (auto simp: Binding_onChange_def reconcileError_def)
  with ds w1 assms have "writeAll k b ds w1 = (r, None, w')"
    by (auto simp: Binding_onChange_def Let_def split: option.splits)
  moreover obtain ue w2 where "createOrUpdateAll k b ds w1 = (ue, w2)" by fastforce
  ultimately have "createOrUpdateAll k b ds w1 = (None, w2)" "finishReady k b succeededMessage w2 = (r, None, w')"
    by (cases ue; auto simp: writeAll_def reconcileError_def)+
  with that ds w1 ce show thesis by blast
qed

lemma onChange_disabled:
  assumes "Binding_onChange k lib b w = (r, None, w')" "bnds w (bnd_key b) = Some b"
    and "EffectiveMode (bndRollout (bndSpec b)) = RolloutModeDisabled"
    and "distinct (map refName (bndTargetRefs (bndSpec b)))"
  shows "\<exists>ds. renderAll k lib b w = Inr ds \<and>
     (\<forall>d \<in> set ds. \<exists>c. cfgs w' (dc_key b d) = Some c \<and> generated b d (cfgs w (dc_key b d)) c) \<and>
     (\<forall>nm c. cfgs w (metaNamespace (bndMeta b), nm) = Some c \<longrightarrow>
        metaLabels (cfgMeta c) LabelBinding = Some (metaName (bndMeta b)) \<longrightarrow> nm \<notin> dcName ` set ds \<longrightarrow>
        gone_or_deleting (cfgs w' (metaNamespace (bndMeta b), nm))) \<and>
     (\<exists>b'. bnds w' (bnd_key b) = Some b' \<and>
        ready_is b' ConditionTrue ''ReconcileSucceeded'' (metaGeneration (bndMeta b)))"
proof -
  obtain ds w1 w2 where p: "renderAll k lib b w = Inr ds" "cleanupOrphans k b ds w = (None, w1)"
    "createOrUpdateAll k b ds w1 = (None, w2)" "finishReady k b succeededMessage w2 = (r, None, w')"
    using onChange_disabled_cases [OF assms(1,3)] by blast
  have cf: "cfgs w' = cfgs w2" using finishReady_cfgs [OF p(4)] .
  have keep: "cfgs w1 (dc_key b d) = cfgs w (dc_key b d)" if "d \<in> set ds" for d
    using cleanup_frame [OF p(2), of "dc_key b d"] that by simp
  have all: "\<forall>d \<in> set ds. \<exists>c. cfgs w' (dc_key b d) = Some c \<and> generated b d (cfgs w (dc_key b d)) c"
    using createAll_ok [OF p(3) renderAll_distinct [OF p(1) assms(4)]] cf keep by auto
  have orph: "gone_or_deleting (cfgs w' (metaNamespace (bndMeta b), nm))"
    if "cfgs w (metaNamespace (bndMeta b), nm) = Some c"
      "metaLabels (cfgMeta c) LabelBinding = Some (metaName (bndMeta b))" "nm \<notin> dcName ` set ds" for nm c
  proof -
    have "(metaNamespace (bndMeta b), nm) \<notin> dc_key b ` set ds" using that(3) by auto
    with createAll_frame(2) [OF p(3)] cf cleanup_ok(2) [OF p(2) that] show ?thesis by simp
  qed
  have "bnds w2 (bnd_key b) = Some b"
    using createAll_frame(1) [OF p(3)] cleanup_ok(1) [OF p(2)] assms(2) by simp
  with finishReady_ok [OF _ p(4)] all orph p(1) show ?thesis by blast
qed

section \<open>Event mapping\<close>

lemma bindingsReferencing_complete:
  assumes "bnds w (bnd_key b) = Some b" "listBindings k None w = Inr bs"
    and "ref \<in> set (refs b)" "refName ref = snd obj"
    and "ResolveNamespace ref (metaNamespace (bndMeta b)) = fst obj"
  shows "bnd_key b \<in> set (bindingsReferencing k refs obj w)"
proof -
  have "b \<in> set bs" using listb_sound [OF assms(2)] assms(1) by auto
  with assms(2-5) show ?thesis by (auto simp: bindingsReferencing_def intro!: image_eqI)
qed

end

end
