(* ===== verification/Webhooks.thy ===== *)
theory Webhooks
  imports BindingController Provider
begin

text \<open>
  The admission webhooks (\<open>internal/webhook/v1\<close>): validation of creates, updates and deletes
  of the six resources. A validator returns admission warnings and an error if the request
  is rejected. Here the functions take the object at its type; the handlers with their type
  assertions, the defaulters and the registration are the theory \<open>AdmissionServer\<close>.
\<close>

type_synonym admission = "string list \<times> gerror option"

abbreviation admitted :: "admission \<Rightarrow> bool" where
  "admitted a \<equiv> snd a = None"

abbreviation errorf :: "string \<Rightarrow> gerror option" where
  "errorf s \<equiv> Some (ErrMsg s)"

section \<open>Rollout and provider settings\<close>

definition validateRollout :: "RolloutSpec option \<Rightarrow> gerror option" where
  "validateRollout rollout =
     (case rollout of
        None \<Rightarrow> None
      | Some r \<Rightarrow>
          (case EffectiveMode rollout of
             RolloutModeFixedInterval \<Rightarrow>
               if WaitInterval r \<le> 0
               then errorf ''spec.rollout.waitInterval must be greater than zero when spec.rollout.mode is FixedInterval''
               else None
           | RolloutModeWaitForApplied \<Rightarrow>
               if PollInterval r < 0 then errorf ''spec.rollout.pollInterval must not be negative''
               else if WaitAfterApplied r < 0 then errorf ''spec.rollout.waitAfterApplied must not be negative''
               else None
           | _ \<Rightarrow> None))"

definition validateProviderConfig :: "ProviderConfig \<Rightarrow> string \<Rightarrow> gerror option" where
  "validateProviderConfig provider namespace =
     (let kubevirt = (case provKubeVirt provider of
            None \<Rightarrow> errorf ''provider.kubevirt must be set when type is kubevirt''
          | Some kv \<Rightarrow> if kvName kv = [] then errorf ''provider.kubevirt.name must not be empty'' else None)
      in case provType provider of
           ProviderKubeVirt \<Rightarrow> kubevirt
         | ProviderUnset \<Rightarrow> kubevirt
         | ProviderProxmox \<Rightarrow>
             (case provProxmox provider of
                None \<Rightarrow> errorf ''provider.proxmox must be set when type is proxmox''
              | Some px \<Rightarrow>
                  if refName (pxClusterRef px) = [] then errorf ''provider.proxmox.clusterRef.name must be set''
                  else if ResolveNamespace (pxClusterRef px) namespace \<noteq> namespace
                  then errorf ''cross-namespace reference not allowed: provider.proxmox.clusterRef may only reference the same namespace''
                  else None)
         | ProviderVRouterDaemon \<Rightarrow>
             (case provDaemon provider of
                None \<Rightarrow> errorf ''provider.daemon must be set when type is vrouter-daemon''
              | Some d \<Rightarrow>
                  if daemonAddress d = [] then errorf ''provider.daemon.address must be set''
                  else if daemonAgentID d = [] then errorf ''provider.daemon.agentID must be set''
                  else None)
         | ProviderOther t \<Rightarrow> errorf (''unknown provider type: '' @ t))"

section \<open>VRouterBinding\<close>

definition deprecationWarnings :: "VRouterBinding \<Rightarrow> string list" where
  "deprecationWarnings binding =
     (case bndTemplateRef (bndSpec binding) of
        None \<Rightarrow> []
      | Some _ \<Rightarrow> [''spec.templateRef is deprecated, use spec.templateRefs instead''])"

text \<open>
  The check of one reference: its namespace, then its existence. \<open>fld\<close> is the field in the
  messages, \<open>nf\<close> and \<open>ctx\<close> are the texts for a missing object and for another error.
\<close>

definition checkRef ::
  "(nname \<Rightarrow> 'w \<Rightarrow> api_error + 'a) \<Rightarrow> string \<Rightarrow> string \<Rightarrow> (string \<Rightarrow> string) \<Rightarrow> string \<Rightarrow> NameRef \<Rightarrow> 'w \<Rightarrow> gerror option" where
  "checkRef get namespace fld nf ctx ref w =
     (let ns = ResolveNamespace ref namespace in
      if ns \<noteq> namespace
      then errorf (''cross-namespace reference not allowed: '' @ fld @ '' may only reference the same namespace'')
      else case get (ns, refName ref) w of
             Inl e \<Rightarrow>
               if IsNotFound e then errorf (nf (quoted ns)) else Some (Wrapped ctx (ApiError e))
           | Inr _ \<Rightarrow> None)"

fun checkRefs :: "(nat \<Rightarrow> NameRef \<Rightarrow> gerror option) \<Rightarrow> nat \<Rightarrow> NameRef list \<Rightarrow> gerror option" where
  "checkRefs check i [] = None"
| "checkRefs check i (ref # refs) =
     (case check i ref of Some e \<Rightarrow> Some e | None \<Rightarrow> checkRefs check (Suc i) refs)"

definition index_of :: "string \<Rightarrow> nat \<Rightarrow> string" where
  "index_of fld i = fld @ ''['' @ digits i @ '']''"

definition notFoundText :: "string \<Rightarrow> NameRef \<Rightarrow> string \<Rightarrow> string" where
  "notFoundText fld ref ns = fld @ '' '' @ quoted (refName ref) @ '' (namespace '' @ ns @ '') not found''"

definition checkTemplateRef :: "'w kube \<Rightarrow> VRouterBinding \<Rightarrow> 'w \<Rightarrow> gerror option" where
  "checkTemplateRef k binding w =
     (case bndTemplateRef (bndSpec binding) of
        None \<Rightarrow> None
      | Some ref \<Rightarrow>
          checkRef (getTemplate k) (metaNamespace (bndMeta binding)) ''spec.templateRef''
            (notFoundText ''spec.templateRef'' ref) ''get templateRef'' ref w)"

definition checkTemplateRefs :: "'w kube \<Rightarrow> VRouterBinding \<Rightarrow> 'w \<Rightarrow> gerror option" where
  "checkTemplateRefs k binding w =
     checkRefs (\<lambda>i ref. checkRef (getTemplate k) (metaNamespace (bndMeta binding))
         (index_of ''spec.templateRefs'' i) (notFoundText (index_of ''spec.templateRefs'' i) ref)
         (index_of ''get templateRefs'' i @ '' '' @ quoted (refName ref)) ref w)
       0 (bndTemplateRefs (bndSpec binding))"

definition checkParamsRefs :: "'w kube \<Rightarrow> VRouterBinding \<Rightarrow> 'w \<Rightarrow> gerror option" where
  "checkParamsRefs k binding w =
     checkRefs (\<lambda>i ref. checkRef (getParams k) (metaNamespace (bndMeta binding))
         (index_of ''spec.paramsRefs'' i) (notFoundText (index_of ''spec.paramsRefs'' i) ref)
         (index_of ''get paramsRefs'' i @ '' '' @ quoted (refName ref)) ref w)
       0 (bndParamsRefs (bndSpec binding))"

definition checkTargetRefs :: "'w kube \<Rightarrow> VRouterBinding \<Rightarrow> 'w \<Rightarrow> gerror option" where
  "checkTargetRefs k binding w =
     checkRefs (\<lambda>i ref. checkRef (getTarget k) (metaNamespace (bndMeta binding))
         (index_of ''spec.targetRefs'' i) (notFoundText ''spec.targetRefs'' ref)
         (''get targetRef '' @ quoted (refName ref)) ref w)
       0 (bndTargetRefs (bndSpec binding))"

definition validateBinding :: "'w kube \<Rightarrow> VRouterBinding \<Rightarrow> 'w \<Rightarrow> gerror option" where
  "validateBinding k binding w =
     (if bndTargetRefs (bndSpec binding) = [] then errorf ''spec.targetRefs must not be empty''
      else if bndTemplateRef (bndSpec binding) = None \<and> bndTemplateRefs (bndSpec binding) = []
      then errorf ''at least one of spec.templateRef or spec.templateRefs must be set''
      else case checkTemplateRef k binding w of
             Some e \<Rightarrow> Some e
           | None \<Rightarrow>
               (case checkTemplateRefs k binding w of
                  Some e \<Rightarrow> Some e
                | None \<Rightarrow>
                    (case checkParamsRefs k binding w of
                       Some e \<Rightarrow> Some e
                     | None \<Rightarrow>
                         (case checkTargetRefs k binding w of
                            Some e \<Rightarrow> Some e
                          | None \<Rightarrow> validateRollout (bndRollout (bndSpec binding))))))"

definition Binding_ValidateCreate :: "'w kube \<Rightarrow> VRouterBinding \<Rightarrow> 'w \<Rightarrow> admission" where
  "Binding_ValidateCreate k binding w = (deprecationWarnings binding, validateBinding k binding w)"

definition Binding_ValidateUpdate :: "'w kube \<Rightarrow> VRouterBinding \<Rightarrow> 'w \<Rightarrow> admission" where
  "Binding_ValidateUpdate k binding w =
     (deprecationWarnings binding,
      if \<not> DeletionTimestamp_IsZero (bndMeta binding) then None else validateBinding k binding w)"

definition Binding_ValidateDelete :: "VRouterBinding \<Rightarrow> admission" where
  "Binding_ValidateDelete binding = ([], None)"

section \<open>VRouterConfig\<close>

definition validateVRouterConfig :: "'w kube \<Rightarrow> VRouterConfig \<Rightarrow> 'w \<Rightarrow> gerror option" where
  "validateVRouterConfig k cfg w =
     (let ref = cfgTargetRef (cfgSpec cfg); ns = metaNamespace (cfgMeta cfg) in
      if ResolveNamespace ref ns \<noteq> ns
      then errorf ''cross-namespace reference not allowed: spec.targetRef may only reference the same namespace''
      else case getTarget k (ns, refName ref) w of
             Inl e \<Rightarrow>
               if IsNotFound e then errorf (''spec.targetRef '' @ quoted (refName ref) @ '' not found'')
               else Some (Wrapped ''get targetRef'' (ApiError e))
           | Inr _ \<Rightarrow> None)"

definition Config_ValidateCreate :: "'w kube \<Rightarrow> VRouterConfig \<Rightarrow> 'w \<Rightarrow> admission" where
  "Config_ValidateCreate k cfg w = ([], validateVRouterConfig k cfg w)"

definition Config_ValidateUpdate :: "'w kube \<Rightarrow> VRouterConfig \<Rightarrow> 'w \<Rightarrow> admission" where
  "Config_ValidateUpdate k cfg w =
     ([], if \<not> DeletionTimestamp_IsZero (cfgMeta cfg) then None else validateVRouterConfig k cfg w)"

definition Config_ValidateDelete :: "VRouterConfig \<Rightarrow> admission" where
  "Config_ValidateDelete cfg = ([], None)"

section \<open>VRouterTarget\<close>

definition referencedText :: "string \<Rightarrow> string \<Rightarrow> string \<Rightarrow> string \<Rightarrow> nat \<Rightarrow> string" where
  "referencedText what nm kind first cnt =
     ''cannot delete '' @ what @ '' '' @ quoted nm @ '': still referenced by '' @ kind @ '' '' @ quoted first @
     (if cnt = 1 then [] else '' (and '' @ digits (cnt - 1) @ '' others)'')"

definition refersTo :: "NameRef \<Rightarrow> string \<Rightarrow> ObjectMeta \<Rightarrow> bool" where
  "refersTo ref namespace m \<longleftrightarrow>
     refName ref = metaName m \<and> ResolveNamespace ref namespace = metaNamespace m"

definition checkTargetNotReferenced :: "'w kube \<Rightarrow> VRouterTarget \<Rightarrow> 'w \<Rightarrow> gerror option" where
  "checkTargetNotReferenced k target w =
     (let m = tgtMeta target in
      case listBindings k (Some (metaNamespace m)) w of
        Inl e \<Rightarrow> Some (Wrapped ''list VRouterBindings'' (ApiError e))
      | Inr bs \<Rightarrow>
          (let referencingBindings =
             map (\<lambda>b. metaName (bndMeta b))
               (filter (\<lambda>b. \<exists>ref \<in> set (bndTargetRefs (bndSpec b)). refersTo ref (metaNamespace (bndMeta b)) m) bs)
           in case listConfigs k (Some (metaNamespace m)) [] w of
                Inl e \<Rightarrow> Some (Wrapped ''list VRouterConfigs'' (ApiError e))
              | Inr cs \<Rightarrow>
                  (let referencingConfigs =
                     map (\<lambda>c. metaName (cfgMeta c))
                       (filter (\<lambda>c. refersTo (cfgTargetRef (cfgSpec c)) (metaNamespace (cfgMeta c)) m) cs);
                       cnt = length referencingBindings + length referencingConfigs
                   in if cnt = 0 then None
                      else case referencingBindings of
                             first # _ \<Rightarrow> errorf (referencedText ''VRouterTarget'' (metaName m) ''VRouterBinding'' first cnt)
                           | [] \<Rightarrow>
                               errorf (referencedText ''VRouterTarget'' (metaName m) ''VRouterConfig''
                                 (hd referencingConfigs) cnt))))"

definition Target_ValidateCreate :: "VRouterTarget \<Rightarrow> admission" where
  "Target_ValidateCreate target =
     ([], validateProviderConfig (tgtProvider (tgtSpec target)) (metaNamespace (tgtMeta target)))"

definition Target_ValidateUpdate :: "VRouterTarget \<Rightarrow> admission" where
  "Target_ValidateUpdate target =
     ([], if \<not> DeletionTimestamp_IsZero (tgtMeta target) then None
          else validateProviderConfig (tgtProvider (tgtSpec target)) (metaNamespace (tgtMeta target)))"

definition Target_ValidateDelete :: "'w kube \<Rightarrow> VRouterTarget \<Rightarrow> 'w \<Rightarrow> admission" where
  "Target_ValidateDelete k target w = ([], checkTargetNotReferenced k target w)"

section \<open>VRouterParams, VRouterTemplate and ProxmoxCluster\<close>

definition checkParamsNotReferenced :: "'w kube \<Rightarrow> VRouterParams \<Rightarrow> 'w \<Rightarrow> gerror option" where
  "checkParamsNotReferenced k params w =
     (let m = prmMeta params in
      case listBindings k (Some (metaNamespace m)) w of
        Inl e \<Rightarrow> Some (Wrapped ''list VRouterBindings'' (ApiError e))
      | Inr bs \<Rightarrow>
          (let referencingBindings =
             map (\<lambda>b. metaName (bndMeta b))
               (filter (\<lambda>b. \<exists>ref \<in> set (bndParamsRefs (bndSpec b)). refersTo ref (metaNamespace (bndMeta b)) m) bs)
           in case referencingBindings of
                [] \<Rightarrow> None
              | first # _ \<Rightarrow>
                  errorf (referencedText ''VRouterParams'' (metaName m) ''binding'' first
                    (length referencingBindings))))"

definition Params_ValidateCreate :: "VRouterParams \<Rightarrow> admission" where
  "Params_ValidateCreate params = ([], None)"

definition Params_ValidateUpdate :: "VRouterParams \<Rightarrow> admission" where
  "Params_ValidateUpdate params = ([], None)"

definition Params_ValidateDelete :: "'w kube \<Rightarrow> VRouterParams \<Rightarrow> 'w \<Rightarrow> admission" where
  "Params_ValidateDelete k params w = ([], checkParamsNotReferenced k params w)"

definition validateTemplateSpec :: "('d, 'f, 't) templating \<Rightarrow> VRouterTemplate \<Rightarrow> gerror option" where
  "validateTemplateSpec lib tmpl =
     (let check = (\<lambda>fld text rest.
            if text = [] then rest
            else case Parse lib (Funcs lib) text of
                   Inl e \<Rightarrow> Some (Wrapped (fld @ '': invalid template syntax'') e)
                 | Inr _ \<Rightarrow> rest)
      in check ''spec.config'' (tmplConfig tmpl) (check ''spec.commands'' (tmplCommands tmpl) None))"

definition Template_ValidateCreate :: "('d, 'f, 't) templating \<Rightarrow> VRouterTemplate \<Rightarrow> admission" where
  "Template_ValidateCreate lib tmpl = ([], validateTemplateSpec lib tmpl)"

definition Template_ValidateUpdate :: "('d, 'f, 't) templating \<Rightarrow> VRouterTemplate \<Rightarrow> admission" where
  "Template_ValidateUpdate lib tmpl = ([], validateTemplateSpec lib tmpl)"

fun emptyEndpoint :: "nat \<Rightarrow> string list \<Rightarrow> nat option" where
  "emptyEndpoint i [] = None"
| "emptyEndpoint i (e # es) = (if e = [] then Some i else emptyEndpoint (Suc i) es)"

definition validateProxmoxCluster :: "ProxmoxCluster \<Rightarrow> gerror option" where
  "validateProxmoxCluster cluster =
     (let sp = pxcSpec cluster in
      if pxcEndpoints sp = [] then errorf ''spec.endpoints must not be empty''
      else case emptyEndpoint 0 (pxcEndpoints sp) of
             Some i \<Rightarrow> errorf (index_of ''spec.endpoints'' i @ '' must not be empty'')
           | None \<Rightarrow>
               if pxcSyncInterval sp \<le> 0 then errorf ''spec.syncInterval must be greater than zero''
               else if secretRefName (pxcCredentialsRef sp) = [] then errorf ''spec.credentialsRef.name must be set''
               else None)"

definition Cluster_ValidateCreate :: "ProxmoxCluster \<Rightarrow> admission" where
  "Cluster_ValidateCreate cluster = ([], validateProxmoxCluster cluster)"

definition Cluster_ValidateUpdate :: "ProxmoxCluster \<Rightarrow> admission" where
  "Cluster_ValidateUpdate cluster =
     ([], if \<not> DeletionTimestamp_IsZero (pxcMeta cluster) then None else validateProxmoxCluster cluster)"

section \<open>What the reference checks establish\<close>

lemma checkRef_ok:
  "checkRef get ns fld nf ctx ref w = None \<longleftrightarrow>
     ResolveNamespace ref ns = ns \<and> (\<exists>x. get (ns, refName ref) w = Inr x)"
  by (auto simp: checkRef_def Let_def split: sum.splits)

lemma checkRefs_ok: "checkRefs check i refs = None \<Longrightarrow> ref \<in> set refs \<Longrightarrow> \<exists>j. check j ref = None"
  by (induction refs arbitrary: i) (auto split: option.splits)

lemma validateBinding_ok:
  assumes "validateBinding k b w = None"
  shows "bndTargetRefs (bndSpec b) \<noteq> []" "effectiveTemplateRefs b \<noteq> []"
    and "ref \<in> set (effectiveTemplateRefs b) \<Longrightarrow>
      ResolveNamespace ref (metaNamespace (bndMeta b)) = metaNamespace (bndMeta b) \<and>
      (\<exists>x. getTemplate k (metaNamespace (bndMeta b), refName ref) w = Inr x)"
    and "ref \<in> set (bndParamsRefs (bndSpec b)) \<Longrightarrow>
      ResolveNamespace ref (metaNamespace (bndMeta b)) = metaNamespace (bndMeta b) \<and>
      (\<exists>x. getParams k (metaNamespace (bndMeta b), refName ref) w = Inr x)"
    and "ref \<in> set (bndTargetRefs (bndSpec b)) \<Longrightarrow>
      ResolveNamespace ref (metaNamespace (bndMeta b)) = metaNamespace (bndMeta b) \<and>
      (\<exists>x. getTarget k (metaNamespace (bndMeta b), refName ref) w = Inr x)"
    and "validateRollout (bndRollout (bndSpec b)) = None"
proof -
  from assms have ok: "bndTargetRefs (bndSpec b) \<noteq> []"
    "bndTemplateRef (bndSpec b) \<noteq> None \<or> bndTemplateRefs (bndSpec b) \<noteq> []"
    "checkTemplateRef k b w = None" "checkTemplateRefs k b w = None" "checkParamsRefs k b w = None"
    "checkTargetRefs k b w = None" "validateRollout (bndRollout (bndSpec b)) = None"
    unfolding validateBinding_def by (auto split: if_splits option.splits)
  then show "bndTargetRefs (bndSpec b) \<noteq> []" "effectiveTemplateRefs b \<noteq> []"
    "validateRollout (bndRollout (bndSpec b)) = None"
    by (auto simp: effectiveTemplateRefs_def split: option.splits)
  show "ResolveNamespace ref (metaNamespace (bndMeta b)) = metaNamespace (bndMeta b) \<and>
      (\<exists>x. getTemplate k (metaNamespace (bndMeta b), refName ref) w = Inr x)"
    if "ref \<in> set (effectiveTemplateRefs b)"
    using that ok(3) checkRefs_ok [OF ok(4) [unfolded checkTemplateRefs_def], of ref]
    by (auto simp: effectiveTemplateRefs_def checkTemplateRef_def checkRef_ok split: option.splits)
  show "ResolveNamespace ref (metaNamespace (bndMeta b)) = metaNamespace (bndMeta b) \<and>
      (\<exists>x. getParams k (metaNamespace (bndMeta b), refName ref) w = Inr x)"
    if "ref \<in> set (bndParamsRefs (bndSpec b))"
    using checkRefs_ok [OF ok(5) [unfolded checkParamsRefs_def] that] by (auto simp: checkRef_ok)
  show "ResolveNamespace ref (metaNamespace (bndMeta b)) = metaNamespace (bndMeta b) \<and>
      (\<exists>x. getTarget k (metaNamespace (bndMeta b), refName ref) w = Inr x)"
    if "ref \<in> set (bndTargetRefs (bndSpec b))"
    using checkRefs_ok [OF ok(6) [unfolded checkTargetRefs_def] that] by (auto simp: checkRef_ok)
qed

lemma validateRollout_ok:
  assumes "validateRollout r = None" "r = Some sp"
  shows "EffectiveMode r = RolloutModeFixedInterval \<Longrightarrow> 0 < WaitInterval sp"
    and "EffectiveMode r = RolloutModeWaitForApplied \<Longrightarrow> 0 \<le> PollInterval sp \<and> 0 \<le> WaitAfterApplied sp"
  using assms by (auto simp: validateRollout_def split: if_splits)

lemma emptyEndpoint_None: "emptyEndpoint i es = None \<longleftrightarrow> [] \<notin> set es"
  by (induction es arbitrary: i) auto

end
