(* ===== verification/ProxmoxWorld.thy ===== *)
theory ProxmoxWorld
  imports ProxmoxController Webhooks ConfigController MemKube
begin

text \<open>
  The properties of the ProxmoxCluster reconciler: what a sync writes into the targets of the
  cluster and that it leaves every other target alone, one stamp per reboot and a forced
  re-apply for the next one, the schedule of the polls, and the fuel of the guest poll. They
  rest on the storage laws of \<open>target_api\<close>; a patch that fails is only logged by the source,
  so where a property needs the write to happen, \<open>patches_work\<close> says that it does.
\<close>

section \<open>Reboot times\<close>

text \<open>The boot times a sync derives for a target from uptimes below the threshold.\<close>

definition lowUptime :: "rat \<Rightarrow> time \<Rightarrow> rat \<Rightarrow> time list" where
  "lowUptime threshold t uptime =
     (if 0 < uptime \<and> uptime \<le> threshold then [t - secondsToDuration uptime] else [])"

definition guestBoots ::
  "'w kube \<Rightarrow> 'w pxapi \<Rightarrow> ProxmoxCluster \<Rightarrow> string \<Rightarrow> string \<Rightarrow> rat \<Rightarrow> int \<Rightarrow> vmInfo \<Rightarrow> 'w \<Rightarrow> time list" where
  "guestBoots k px cluster tid tsec threshold vmid info w =
     (if BoolValue (pxcCheckGuestUptime (pxcSpec cluster)) True \<and> vmNode info \<noteq> [] then
        (case fetchGuestUptime k px cluster (vmNode info) vmid tid tsec w of
           (Inl e, w1) \<Rightarrow> [] | (Inr u, w1) \<Rightarrow> lowUptime threshold (now k w1) u)
      else [])"

definition observedBoots ::
  "'w kube \<Rightarrow> 'w pxapi \<Rightarrow> ProxmoxCluster \<Rightarrow> string \<Rightarrow> string \<Rightarrow> (int \<Rightarrow> vmInfo option) \<Rightarrow> rat \<Rightarrow> time \<Rightarrow>
     VRouterTarget \<Rightarrow> 'w \<Rightarrow> time list" where
  "observedBoots k px cluster tid tsec vmMap threshold t0 t w =
     (case vmMap (vmidOf t) of
        None \<Rightarrow> []
      | Some info \<Rightarrow>
          lowUptime threshold t0 (vmUptime info) @
          guestBoots k px cluster tid tsec threshold (vmidOf t) info w)"

lemma nextRebootTime_Some [simp]:
  "nextRebootTime t u (Some c) = (if t - u \<le> c + 5 * Second then None else Some (t - u))"
  by (simp add: nextRebootTime_def rebootTimeTolerance_def Second_def Let_def time_sub_le_iff
      minDuration_def maxDuration_def algebra_simps)

lemma nextRebootTime_None [simp]: "nextRebootTime t u None = Some (t - u)"
  by (simp add: nextRebootTime_def)

text \<open>The effect of a check on the reboot time, as a function of the derived boot times.\<close>

definition takeBoot :: "time option \<Rightarrow> time \<Rightarrow> time option" where
  "takeBoot cur b = (case cur of Some c \<Rightarrow> if b \<le> c + 5 * Second then cur else Some b | None \<Rightarrow> Some b)"

lemma takeBoot_Some [simp]: "takeBoot (Some c) b = (if b \<le> c + 5 * Second then Some c else Some b)"
  by (simp add: takeBoot_def)

lemma checkUptime_boot:
  "LastRebootTime (fst (checkUptime thr t u s)) = foldl takeBoot (LastRebootTime (fst s)) (lowUptime thr t u)"
  "ProxmoxNode (fst (checkUptime thr t u s)) = ProxmoxNode (fst s)"
  "VMRunning (fst (checkUptime thr t u s)) = VMRunning (fst s)"
  by (cases "LastRebootTime (fst s)"; simp add: checkUptime_def lowUptime_def takeBoot_def)+

lemma checkUptime_unchanged:
  "(snd s \<or> fst s = st) \<Longrightarrow> snd (checkUptime thr t u s) \<or> fst (checkUptime thr t u s) = st"
  by (auto simp: checkUptime_def split: option.splits)

lemma guestCheck_boot:
  assumes "guestCheck k px cluster tid tsec thr vmid info s w = (s', w')"
  shows "LastRebootTime (fst s') = foldl takeBoot (LastRebootTime (fst s)) (guestBoots k px cluster tid tsec thr vmid info w)"
    "ProxmoxNode (fst s') = ProxmoxNode (fst s)" "VMRunning (fst s') = VMRunning (fst s)"
    "(snd s \<or> fst s = st) \<Longrightarrow> snd s' \<or> fst s' = st"
  using assms checkUptime_unchanged [of s st]
  by (auto simp: guestCheck_def guestBoots_def checkUptime_boot split: if_splits prod.splits sum.splits)

lemma observeTarget_status:
  assumes "observeTarget k px cluster tid tsec vmMap thr t0 t w = ((st, changed), w')"
  shows "LastRebootTime st = foldl takeBoot (LastRebootTime (tgtStatus t)) (observedBoots k px cluster tid tsec vmMap thr t0 t w)"
    "ProxmoxNode st = desiredProxmoxNode vmMap (vmidOf t)" "VMRunning st = VMRunning (tgtStatus t)"
    "changed \<or> st = tgtStatus t"
proof -
  let ?s = "updateNode (desiredProxmoxNode vmMap (vmidOf t)) (tgtStatus t)"
  have s: "LastRebootTime (fst ?s) = LastRebootTime (tgtStatus t)"
    "ProxmoxNode (fst ?s) = desiredProxmoxNode vmMap (vmidOf t)" "VMRunning (fst ?s) = VMRunning (tgtStatus t)"
    "snd ?s \<or> fst ?s = tgtStatus t"
    by (auto simp: updateNode_def)
  let ?goal = "LastRebootTime st = foldl takeBoot (LastRebootTime (tgtStatus t)) (observedBoots k px cluster tid tsec vmMap thr t0 t w) \<and>
      ProxmoxNode st = desiredProxmoxNode vmMap (vmidOf t) \<and> VMRunning st = VMRunning (tgtStatus t) \<and> (changed \<or> st = tgtStatus t)"
  have ?goal
  proof (cases "vmMap (vmidOf t)")
    case None
    with assms have "?s = (st, changed)" by (simp add: observeTarget_def Let_def)
    with s None show ?goal by (simp add: observedBoots_def)
  next
    case (Some info)
    with assms have g: "guestCheck k px cluster tid tsec thr (vmidOf t) info (checkUptime thr t0 (vmUptime info) ?s) w =
        ((st, changed), w')"
      by (simp add: observeTarget_def Let_def)
    from guestCheck_boot(1-3) [OF g] guestCheck_boot(4) [OF g checkUptime_unchanged [OF s(4)]] s Some
    show ?goal by (simp add: observedBoots_def checkUptime_boot)
  qed
  then show "LastRebootTime st = foldl takeBoot (LastRebootTime (tgtStatus t)) (observedBoots k px cluster tid tsec vmMap thr t0 t w)"
    "ProxmoxNode st = desiredProxmoxNode vmMap (vmidOf t)" "VMRunning st = VMRunning (tgtStatus t)"
    "changed \<or> st = tgtStatus t"
    by blast+
qed

lemma foldl_takeBoot_same:
  "\<forall>b \<in> set bs. b \<le> c + 5 * Second \<Longrightarrow> foldl takeBoot (Some c) bs = Some c"
  by (induction bs) (auto simp: takeBoot_def)

lemma foldl_takeBoot_mono: "\<exists>x. foldl takeBoot (Some c) bs = Some x \<and> c \<le> x \<and> (x = c \<or> x \<in> set bs)"
proof (induction bs arbitrary: c)
  case (Cons b bs)
  show ?case
  proof (cases "b \<le> c + 5 * Second")
    case True
    then show ?thesis using Cons [of c] by (auto simp: takeBoot_def)
  next
    case False
    then have "c \<le> b" by (simp add: Second_def)
    then show ?thesis using False Cons [of b] by (force simp: takeBoot_def)
  qed
qed simp

lemma foldl_takeBoot_newer:
  assumes "b \<in> set bs" "c + 5 * Second < b"
  shows "\<exists>x \<in> set bs. foldl takeBoot (Some c) bs = Some x \<and> c + Second < x"
  using assms
proof (induction bs)
  case (Cons a bs)
  show ?case
  proof (cases "a \<le> c + 5 * Second")
    case True
    with Cons show ?thesis by (auto simp: takeBoot_def)
  next
    case False
    then have "c + Second < a" by (simp add: Second_def)
    moreover obtain x where "foldl takeBoot (Some a) bs = Some x" "a \<le> x" "x = a \<or> x \<in> set bs"
      using foldl_takeBoot_mono [of a bs] by blast
    ultimately show ?thesis using False by (intro bexI [of _ x]) auto
  qed
qed simp

section \<open>Frames and clocks of the fetches\<close>

lemma px_framesD:
  assumes "px_frames obs px"
  shows "httpDo px req w = (r, w') \<Longrightarrow> obs w' = obs w" "waitFor px d w = (e, w') \<Longrightarrow> obs w' = obs w"
  using assms unfolding px_frames_def by (metis snd_conv)+

lemma guestExec_frame:
  "px_frames obs px \<Longrightarrow> guestExec px ins auth path eps e w = (r, w') \<Longrightarrow> obs w' = obs w"
  by (induction px ins auth path eps e w rule: guestExec.induct)
    (auto simp: Let_def split: option.splits prod.splits sum.splits if_splits dest: px_framesD)

lemma guestStatus_frame:
  "px_frames obs px \<Longrightarrow> guestStatus px ins auth path eps w = (r, w') \<Longrightarrow> obs w' = obs w"
  by (induction px ins auth path eps w rule: guestStatus.induct)
    (auto simp: Let_def split: option.splits prod.splits sum.splits if_splits dest: px_framesD)

lemma pollGuest_frame:
  "px_frames obs px \<Longrightarrow> pollGuest k px ins auth path eps dl fuel w = (r, w') \<Longrightarrow> obs w' = obs w"
proof (induction fuel arbitrary: w)
  case (Suc fuel)
  note fr = px_framesD(2) [OF Suc.prems(1)] guestStatus_frame [OF Suc.prems(1)] Suc.IH [OF Suc.prems(1)]
  show ?case
  proof (cases "guestStatus px ins auth path eps w")
    case (Pair a w1)
    with fr have "obs w1 = obs w" by metis
    obtain e w2 where w2: "waitFor px (500 * Millisecond) w1 = (e, w2)" by (cases "waitFor px (500 * Millisecond) w1")
    have "obs w2 = obs w1" using px_framesD(2) [OF Suc.prems(1) w2] .
    with \<open>obs w1 = obs w\<close> Suc.prems(2) Pair w2 show ?thesis
      by (auto split: option.splits if_splits dest!: Suc.IH [OF Suc.prems(1)])
  qed
qed simp

lemma fetchGuestUptime_frame:
  assumes "px_frames obs px" "fetchGuestUptime k px cluster node vmid tid tsec w = (r, w')"
  shows "obs w' = obs w"
proof -
  obtain a w1 where a: "guestExec px (pxcInsecureSkipTLSVerify (pxcSpec cluster)) (authHeader tid tsec)
      ((''/api2/json/nodes/'' @ node @ ''/qemu/'' @ decimal vmid @ ''/agent/'') @ ''exec'')
      (pxcEndpoints (pxcSpec cluster)) None w = (a, w1)"
    by (metis surj_pair)
  then have "obs w1 = obs w" by (rule guestExec_frame [OF assms(1)])
  note f = assms(2) [unfolded fetchGuestUptime_def Let_def a prod.case]
  show ?thesis
  proof (cases a)
    case (Inl e)
    with f \<open>obs w1 = obs w\<close> show ?thesis by simp
  next
    case (Inr pid)
    from pollGuest_frame [OF assms(1) f [unfolded Inr sum.case]] \<open>obs w1 = obs w\<close> show ?thesis by simp
  qed
qed

lemma observeTarget_frame:
  "px_frames obs px \<Longrightarrow> observeTarget k px cluster tid tsec vmMap thr t0 t w = (s, w') \<Longrightarrow> obs w' = obs w"
  by (auto simp: observeTarget_def guestCheck_def Let_def split: option.splits if_splits prod.splits sum.splits
      dest: fetchGuestUptime_frame)

lemma guestStatus_clock:
  "px_clock k px \<Longrightarrow> guestStatus px ins auth path eps w = (r, w') \<Longrightarrow> now k w \<le> now k w'"
proof (induction px ins auth path eps w rule: guestStatus.induct)
  case (2 px ins auth path ep eps w)
  have "now k w \<le> now k w1" if "httpDo px req w = (x, w1)" for req x w1
    using 2(3) that unfolding px_clock_def by (metis snd_conv)
  with 2 show ?case
    by (fastforce simp: Let_def split: option.splits prod.splits sum.splits if_splits)
qed simp

lemma pollGuest_fuel:
  assumes "px_clock k px" "n \<le> fuel" "dl \<le> now k w + int n * (500 * Millisecond)"
  shows "pollGuest k px ins auth path eps dl fuel w = pollGuest k px ins auth path eps dl n w"
  using assms(2,3)
proof (induction n arbitrary: fuel w)
  case 0
  then show ?case by (cases fuel) auto
next
  case (Suc n)
  then obtain f where f: "fuel = Suc f" "n \<le> f" by (cases fuel) auto
  have "pollGuest k px ins auth path eps dl f w2 = pollGuest k px ins auth path eps dl n w2"
    if "guestStatus px ins auth path eps w = (r, w1)" "waitFor px (500 * Millisecond) w1 = (None, w2)" for r w1 w2
  proof (rule Suc.IH [OF f(2)])
    have "now k w \<le> now k w1" by (rule guestStatus_clock [OF assms(1) that(1)])
    moreover have "now k w1 + 500 * Millisecond \<le> now k w2"
      using assms(1) that(2) by (auto simp: px_clock_def)
    ultimately show "dl \<le> now k w2 + int n * (500 * Millisecond)"
      using Suc.prems(2) by (simp add: algebra_simps)
  qed
  with f show ?case by (auto split: prod.splits option.splits)
qed

section \<open>One turn of the loops\<close>

text \<open>While \<open>up\<close> holds, a status patch of a stored target succeeds.\<close>

definition patches_work :: "'w kube \<Rightarrow> ('w \<Rightarrow> nname \<Rightarrow> VRouterTarget option) \<Rightarrow> ('w \<Rightarrow> bool) \<Rightarrow> bool" where
  "patches_work k tgts up \<longleftrightarrow>
     (\<forall>old new w. up w \<longrightarrow> tgts w (tgt_key old) = Some old \<longrightarrow>
        (\<exists>t w'. patchTargetStatus k old new w = (Inr t, w') \<and> up w'))"

text \<open>The target after a sync worked out the status \<open>st\<close>.\<close>

definition synced :: "VRouterTarget \<Rightarrow> VRouterTargetStatus \<Rightarrow> VRouterTarget" where
  "synced t st = t\<lparr>tgtStatus := storedTargetStatus st\<rparr>"

context target_api
begin

lemma patch_works:
  assumes "patches_work k tgts up" "up w" "tgts w (tgt_key t) = Some t"
  shows "up (snd (patchTargetStatus k t new w)) \<and>
    tgts (snd (patchTargetStatus k t new w)) = (tgts w)(tgt_key t \<mapsto> patchedTarget t new)"
  using assms patcht_ok [of w t new] unfolding patches_work_def by (metis snd_conv)

lemma syncTarget_step:
  assumes "patches_work k tgts up" "px_frames (\<lambda>w. (tgts w, up w)) px"
    and "up w" "tgts w (tgt_key t) = Some t"
    and "w' = syncTarget k px c tid tsec vmMap thr t0 t w"
  shows "up w' \<and> (\<exists>t'. tgts w' = (tgts w)(tgt_key t \<mapsto> t') \<and>
    (if belongsTo c t
     then (\<exists>st. t' = synced t st \<and> ProxmoxNode st = desiredProxmoxNode vmMap (vmidOf t) \<and>
             VMRunning st = VMRunning (tgtStatus t) \<and>
             LastRebootTime st = foldl takeBoot (LastRebootTime (tgtStatus t))
               (observedBoots k px c tid tsec vmMap thr t0 t w))
     else t' = t))"
proof (cases "belongsTo c t")
  case False
  then have "w' = w" using assms(5) by (simp add: syncTarget_def)
  with False assms(3,4) show ?thesis by (auto simp: fun_upd_idem)
next
  case True
  obtain st ch w1 where o: "observeTarget k px c tid tsec vmMap thr t0 t w = ((st, ch), w1)"
    by (metis surj_pair)
  note obs = observeTarget_status [OF o]
  have fr: "tgts w1 = tgts w" "up w1" using observeTarget_frame [OF assms(2) o] assms(3) by auto
  have "up w' \<and> tgts w' = (tgts w)(tgt_key t \<mapsto> synced t st)"
  proof (cases ch)
    case True
    with \<open>belongsTo c t\<close> o assms(5) have "w' = snd (patchTargetStatus k t (t\<lparr>tgtStatus := st\<rparr>) w1)"
      by (simp add: syncTarget_def)
    with patch_works [OF assms(1) fr(2), of t "t\<lparr>tgtStatus := st\<rparr>"] assms(4) fr(1) show ?thesis
      by (simp add: synced_def patchedTarget_def)
  next
    case False
    with \<open>belongsTo c t\<close> o assms(5) have "w' = w1" by (simp add: syncTarget_def)
    moreover have "synced t st = t"
      using obs(4) False storedt_form [OF assms(4)] by (simp add: synced_def)
    ultimately show ?thesis using fr assms(4) by (simp add: fun_upd_idem)
  qed
  with True obs show ?thesis by auto
qed

lemma stopTarget_step:
  assumes "patches_work k tgts up" "up w" "tgts w (tgt_key t) = Some t" "w' = stopTarget k c t w"
  shows "up w' \<and> (\<exists>t'. tgts w' = (tgts w)(tgt_key t \<mapsto> t') \<and>
    t' = (if belongsTo c t then t\<lparr>tgtStatus := (tgtStatus t)\<lparr>VMRunning := False\<rparr>\<rparr> else t))"
proof (cases "belongsTo c t \<and> VMRunning (tgtStatus t)")
  case True
  let ?new = "t\<lparr>tgtStatus := (tgtStatus t)\<lparr>VMRunning := False\<rparr>\<rparr>"
  have "storedTargetStatus ((tgtStatus t)\<lparr>VMRunning := False\<rparr>) = (tgtStatus t)\<lparr>VMRunning := False\<rparr>"
    using storedt_form [OF assms(3)] by (cases "tgtStatus t") (simp add: storedTargetStatus_def)
  then have "patchedTarget t ?new = ?new" by (simp add: patchedTarget_def)
  with True patch_works [OF assms(1-3), of ?new] assms(4) show ?thesis by (simp add: stopTarget_def)
next
  case False
  then have "w' = w" using assms(4) by (auto simp: stopTarget_def)
  moreover have "t\<lparr>tgtStatus := (tgtStatus t)\<lparr>VMRunning := False\<rparr>\<rparr> = t" if "\<not> VMRunning (tgtStatus t)"
    using that by simp
  ultimately show ?thesis using False assms(2,3) by (auto simp: fun_upd_idem)
qed

lemma listed_stored:
  assumes "listTargets k (Some ns) w = Inr ts"
  shows "distinct ts" "\<forall>t \<in> set ts. tgts w (tgt_key t) = Some t \<and> fst (tgt_key t) = ns"
    "tgts w (ns, nm) = Some t \<Longrightarrow> t \<in> set ts"
  using listt_sound [OF assms] storedt_key by fastforce+

lemma stop_all:
  assumes "patches_work k tgts up" "up w" "listTargets k (Some ns) w = Inr ts"
    and "ns = metaNamespace (pxcMeta c)" "w' = fold (stopTarget k c) ts w"
  shows "tgts w' n = (case tgts w n of
      None \<Rightarrow> None
    | Some t \<Rightarrow> Some (if fst n = ns \<and> belongsTo c t
        then t\<lparr>tgtStatus := (tgtStatus t)\<lparr>VMRunning := False\<rparr>\<rparr> else t))"
proof -
  note l = listed_stored [OF assms(3)]
  have F: "up w' \<and> (\<forall>t \<in> set ts. \<exists>t'. tgts w' (tgt_key t) = Some t' \<and>
      t' = (if belongsTo c t then t\<lparr>tgtStatus := (tgtStatus t)\<lparr>VMRunning := False\<rparr>\<rparr> else t)) \<and>
      (\<forall>n. (\<forall>t \<in> set ts. tgt_key t \<noteq> n) \<longrightarrow> tgts w' n = tgts w n)"
    unfolding assms(5)
    by (rule fold_targets [where Q = "\<lambda>t. True" and up = up])
      (use l(1,2) assms(2) stopTarget_step [OF assms(1)] in auto)
  show ?thesis
  proof (cases "\<exists>t \<in> set ts. tgt_key t = n")
    case True
    then obtain t where t: "t \<in> set ts" "tgt_key t = n" by blast
    with F l(2) show ?thesis by fastforce
  next
    case False
    with F have "tgts w' n = tgts w n" by blast
    moreover have "fst n \<noteq> ns" if "tgts w n = Some t" for t
      using False l(3) [of "snd n" t] storedt_key [OF that] that by (metis prod.collapse)
    ultimately show ?thesis by (auto split: option.splits)
  qed
qed

lemma sync_all:
  assumes "patches_work k tgts up" "px_frames (\<lambda>w. (tgts w, up w)) px" "up w"
    and "listTargets k (Some ns) w = Inr ts" "ns = metaNamespace (pxcMeta c)"
    and "w' = fold (syncTarget k px c tid tsec vmMap thr t0) ts w"
  shows "up w'" and "(\<forall>n t. tgts w n = Some t \<and> fst n = ns \<and> belongsTo c t \<longrightarrow>
      (\<exists>st. tgts w' n = Some (synced t st) \<and> ProxmoxNode st = desiredProxmoxNode vmMap (vmidOf t) \<and>
         VMRunning st = VMRunning (tgtStatus t))) \<and>
    (\<forall>n. (\<forall>t. tgts w n = Some t \<longrightarrow> fst n = ns \<longrightarrow> \<not> belongsTo c t) \<longrightarrow> tgts w' n = tgts w n)"
proof -
  note l = listed_stored [OF assms(4)]
  let ?R = "\<lambda>t t'. if belongsTo c t
     then (\<exists>st. t' = synced t st \<and> ProxmoxNode st = desiredProxmoxNode vmMap (vmidOf t) \<and>
             VMRunning st = VMRunning (tgtStatus t)) else t' = t"
  have F: "up w' \<and> (\<forall>t \<in> set ts. \<exists>t'. tgts w' (tgt_key t) = Some t' \<and> ?R t t') \<and>
      (\<forall>n. (\<forall>t \<in> set ts. tgt_key t \<noteq> n) \<longrightarrow> tgts w' n = tgts w n)"
    unfolding assms(6)
  proof (rule fold_targets [where Q = "\<lambda>t. True" and up = up])
    show "up (syncTarget k px c tid tsec vmMap thr t0 t v) \<and>
        (\<exists>t'. tgts (syncTarget k px c tid tsec vmMap thr t0 t v) = (tgts v)(tgt_key t \<mapsto> t') \<and> ?R t t')"
      if "up v" "tgts v (tgt_key t) = Some t" for t v
      using syncTarget_step [OF assms(1,2) that refl, of c tid tsec vmMap thr t0]
      by (cases "belongsTo c t") auto
  qed (use l(1,2) assms(3) in auto)
  have listed: "t \<in> set ts \<and> tgt_key t = n" if "tgts w n = Some t" "fst n = ns" for n t
    using l(3) [of "snd n" t] storedt_key [OF that(1)] that by (metis prod.collapse)
  have own: "tgts w n = Some t" "fst n = ns" if "t \<in> set ts" "tgt_key t = n" for n t
    using l(2) that by auto
  show "up w'" using F by blast
  show "(\<forall>n t. tgts w n = Some t \<and> fst n = ns \<and> belongsTo c t \<longrightarrow>
      (\<exists>st. tgts w' n = Some (synced t st) \<and> ProxmoxNode st = desiredProxmoxNode vmMap (vmidOf t) \<and>
         VMRunning st = VMRunning (tgtStatus t))) \<and>
    (\<forall>n. (\<forall>t. tgts w n = Some t \<longrightarrow> fst n = ns \<longrightarrow> \<not> belongsTo c t) \<longrightarrow> tgts w' n = tgts w n)"
  proof (intro conjI allI impI; (elim conjE)?)
    fix n t assume "tgts w n = Some t" "fst n = ns" "belongsTo c t"
    with listed F show "\<exists>st. tgts w' n = Some (synced t st) \<and>
        ProxmoxNode st = desiredProxmoxNode vmMap (vmidOf t) \<and>
        VMRunning st = VMRunning (tgtStatus t)" by fastforce
  next
    fix n assume n: "\<forall>t. tgts w n = Some t \<longrightarrow> fst n = ns \<longrightarrow> \<not> belongsTo c t"
    show "tgts w' n = tgts w n"
    proof (cases "\<exists>t \<in> set ts. tgt_key t = n")
      case True
      then obtain t where t: "t \<in> set ts" "tgt_key t = n" by blast
      with n own [OF t] F show ?thesis by fastforce
    qed (use F in blast)
  qed
qed

end

lemma poll_errors:
  assumes "fetchClusterResources px c tid tsec w = (Inl e, w1)"
  shows "pollCluster k px c tid tsec w =
    (requeueIn (effectiveSyncInterval c), None,
     markTargetsStopped k c (setSyncedCondition k c ConditionFalse ''FetchFailed'' (error_text e) w1))"
  using assms by (simp add: pollCluster_def)

lemma fetchFrom_frame:
  "px_frames obs px \<Longrightarrow> fetchFrom px ins auth eps e w = (r, w') \<Longrightarrow> obs w' = obs w"
  by (induction px ins auth eps e w rule: fetchFrom.induct)
    (auto simp: Let_def split: option.splits prod.splits sum.splits if_splits dest: px_framesD)

section \<open>Properties\<close>

text \<open>
  C29. An unreachable cluster stops its own targets: when no endpoint of the cluster gives a
  list of resources, exactly the targets of its namespace that refer to it get
  \<open>VMRunning=False\<close>; their metadata, spec, node and reboot time and every other target stay
  as they were, and the cluster is polled again after its interval.
\<close>

theorem unreachable_cluster_stops_own_targets:
  assumes "target_api k tgts" "px_frames (\<lambda>w. (tgts w, up w)) px"
    and "patches_work k tgts up" "\<And>c1 c2 w. up (snd (patchClusterStatus k c1 c2 w)) = up w" "up w"
    and "fetchClusterResources px c tid tsec w = (Inl e, w1)"
    and "\<And>ns w. \<exists>ts. listTargets k (Some ns) w = Inr ts"
    and "pollCluster k px c tid tsec w = (r, err, w')"
  shows "err = None \<and> RequeueAfter r = effectiveSyncInterval c \<and>
    tgts w' n = (case tgts w n of
        None \<Rightarrow> None
      | Some t \<Rightarrow> Some (if fst n = metaNamespace (pxcMeta c) \<and> belongsTo c t
          then t\<lparr>tgtStatus := (tgtStatus t)\<lparr>VMRunning := False\<rparr>\<rparr> else t))"
proof -
  let ?w2 = "setSyncedCondition k c ConditionFalse ''FetchFailed'' (error_text e) w1"
  obtain ts where ts: "listTargets k (Some (metaNamespace (pxcMeta c))) ?w2 = Inr ts" using assms(7) by blast
  have "tgts w1 = tgts w" "up w1"
    using fetchFrom_frame [OF assms(2) assms(6) [unfolded fetchClusterResources_def]] assms(5) by auto
  then have w2: "tgts ?w2 = tgts w" "up ?w2"
    using target_api.patch_cluster_tgts [OF assms(1)] assms(4) unfolding setSyncedCondition_def
    by (metis prod.collapse)+
  show ?thesis
    using assms(8) target_api.stop_all [OF assms(1,3) w2(2) ts refl refl, of n]
    unfolding poll_errors [OF assms(6)] markTargetsStopped_def ts w2(1) by auto
qed

text \<open>The nodes after a sync.\<close>

lemma sync_nodes:
  assumes "target_api k tgts" "px_frames (\<lambda>w. (tgts w, up w)) px"
    and "patches_work k tgts up" "up w"
    and "syncTargets k px c tid tsec vmMap w = (r, None, w')"
  shows "(\<forall>n t. tgts w n = Some t \<and> fst n = metaNamespace (pxcMeta c) \<and> belongsTo c t \<longrightarrow>
      (\<exists>t'. tgts w' n = Some t' \<and> tgtMeta t' = tgtMeta t \<and> tgtSpec t' = tgtSpec t \<and>
         VMRunning (tgtStatus t') = VMRunning (tgtStatus t) \<and>
         ProxmoxNode (tgtStatus t') = (case vmMap (vmidOf t) of None \<Rightarrow> [] | Some info \<Rightarrow> vmNode info))) \<and>
    (\<forall>n. (\<forall>t. tgts w n = Some t \<longrightarrow> fst n = metaNamespace (pxcMeta c) \<longrightarrow> \<not> belongsTo c t) \<longrightarrow>
       tgts w' n = tgts w n)"
proof -
  from assms(5) obtain ts x where ts: "listTargets k (Some (metaNamespace (pxcMeta c))) w = Inr ts"
    and p: "recordSync k c (now k w) (fold (syncTarget k px c tid tsec vmMap
        (rebootThreshold (effectiveSyncInterval c)) (now k w)) ts w) = (r, None, w')"
    by (auto simp: syncTargets_def split: sum.splits)
  from p have w': "tgts w' = tgts (fold (syncTarget k px c tid tsec vmMap
        (rebootThreshold (effectiveSyncInterval c)) (now k w)) ts w)"
    using target_api.patch_cluster_tgts [OF assms(1)]
    by (auto simp: recordSync_def split: prod.splits sum.splits)
  show ?thesis
    using target_api.sync_all(2) [OF assms(1,3,2,4) ts refl refl, of tid tsec vmMap
        "rebootThreshold (effectiveSyncInterval c)" "now k w"]
    unfolding w' desiredProxmoxNode_def synced_def by (auto; fastforce)
qed

text \<open>
  C30. A sync writes what the cluster reported, into the targets of that cluster only: after a
  sync that ends without an error, the node of every target of the cluster's namespace that
  refers to it is the node the fresh list gives its VM, and empty when the list does not
  contain the VM, so no stale node is left; the VM state, metadata and spec of these targets
  and every other target stay as they were.
\<close>

theorem sync_writes_reported_nodes:
  assumes "target_api k tgts" "px_frames (\<lambda>w. (tgts w, up w)) px"
    and "patches_work k tgts up" "up w"
    and "syncTargets k px c tid tsec vmMap w = (r, None, w')"
  shows "(\<forall>n t. tgts w n = Some t \<and> fst n = metaNamespace (pxcMeta c) \<and> belongsTo c t \<longrightarrow>
      (\<exists>t'. tgts w' n = Some t' \<and> tgtMeta t' = tgtMeta t \<and> tgtSpec t' = tgtSpec t \<and>
         VMRunning (tgtStatus t') = VMRunning (tgtStatus t) \<and>
         ProxmoxNode (tgtStatus t') = (case vmMap (vmidOf t) of None \<Rightarrow> [] | Some info \<Rightarrow> vmNode info))) \<and>
    (\<forall>n. (\<forall>t. tgts w n = Some t \<longrightarrow> fst n = metaNamespace (pxcMeta c) \<longrightarrow> \<not> belongsTo c t) \<longrightarrow>
       tgts w' n = tgts w n)"
  by (rule sync_nodes [OF assms])

text \<open>
  C31. A reboot is stamped once: let \<open>b1\<close> be the boot time a first sync derived for a reboot
  at the instant \<open>R\<close>, stored in whole seconds. As long as every boot time a later sync
  derives for the target (from the uptime Proxmox reports and from the guest's own) is also
  within two seconds of \<open>R\<close>, that sync leaves the reboot time as it is.
\<close>

theorem reboot_stamped_once:
  assumes "target_api k tgts" "px_frames (\<lambda>w. (tgts w, up w)) px" "patches_work k tgts up" "up w"
    and "tgts w (tgt_key t) = Some t"
    and "LastRebootTime (tgtStatus t) = Some (trunc_sec b1)" "\<bar>b1 - R\<bar> \<le> 2 * Second"
    and "\<forall>b \<in> set (observedBoots k px c tid tsec vmMap thr t0 t w). \<bar>b - R\<bar> \<le> 2 * Second"
  shows "\<exists>t'. tgts (syncTarget k px c tid tsec vmMap thr t0 t w) (tgt_key t) = Some t' \<and>
     LastRebootTime (tgtStatus t') = LastRebootTime (tgtStatus t)"
proof -
  have "b \<le> trunc_sec b1 + 5 * Second" if "\<bar>b - R\<bar> \<le> 2 * Second" for b
    using that assms(7) trunc_sec_gt [of b1] by (simp add: Second_def)
  with assms(8) have "foldl takeBoot (LastRebootTime (tgtStatus t)) (observedBoots k px c tid tsec vmMap thr t0 t w) =
      Some (trunc_sec b1)"
    unfolding assms(6) by (intro foldl_takeBoot_same) blast
  with target_api.syncTarget_step [OF assms(1,3,2,4,5) refl, of c tid tsec vmMap thr t0] assms(6)
  show ?thesis by (auto simp: synced_def split: if_splits)
qed


text \<open>
  C32. The schedule of the polls: an admitted cluster is polled again and again, since every
  reconcile that ends without an error asks for another run in positive time; before the
  interval since the last recorded sync is over, a reconcile does nothing and asks for the
  run exactly at its end.
\<close>

theorem cluster_poll_schedule:
  assumes "validateProxmoxCluster c = None" "pxcSyncInterval (pxcSpec c) < maxDuration"
    and "Cluster_onChange k px c w = (r, err, w')"
  shows "(err = None \<longrightarrow> 0 < RequeueAfter r) \<and>
    (\<forall>t. LastSyncTime (pxcStatus c) = Some t \<and> t \<le> now k w \<and> now k w < t + pxcSyncInterval (pxcSpec c) \<longrightarrow>
       err = None \<and> w' = w \<and> now k w + RequeueAfter r = t + pxcSyncInterval (pxcSpec c))"
proof -
  have pos: "0 < pxcSyncInterval (pxcSpec c)"
    using assms(1) by (auto simp: validateProxmoxCluster_def Let_def split: if_splits option.splits)
  then have eff: "effectiveSyncInterval c = pxcSyncInterval (pxcSpec c)"
    by (simp add: effectiveSyncInterval_def)
  have auth: "0 < RequeueAfter r" if "authenticateAndPoll k px c w = (r, None, w')" for r
    using that pos by (auto simp: authenticateAndPoll_def pollCluster_def syncTargets_def recordSync_def Let_def eff
        split: sum.splits prod.splits if_splits)
  have sub: "time_sub (now k w) t = now k w - t"
    if "t \<le> now k w" "now k w < t + pxcSyncInterval (pxcSpec c)" for t
    using that assms(2) by (simp add: time_sub_def minDuration_def maxDuration_def)
  show ?thesis
    using assms(3) auth sub by (auto simp: Cluster_onChange_def eff Let_def split: option.splits if_splits)
qed

text \<open>
  C33. The guest poll ends: under a clock that does not run backwards and timers that do not
  fire early, the loop over the exec status has stopped after twenty rounds, because its
  deadline is ten seconds away when it starts: with more rounds it returns the same.
\<close>

theorem guest_poll_ends:
  assumes "px_clock k px" "guestPollRounds \<le> rounds"
  shows "pollGuest k px ins auth path eps (now k w + 10 * Second) rounds w =
    pollGuest k px ins auth path eps (now k w + 10 * Second) guestPollRounds w"
  by (rule pollGuest_fuel [OF assms]) (simp add: guestPollRounds_def Second_def Millisecond_def)

section \<open>A sample cluster\<close>

text \<open>
  A Proxmox API whose one endpoint answers every request: the resource list, an exec handle,
  and the guest uptime. \<open>deadPx\<close> is one nobody can reach.
\<close>

definition memPx :: "(int \<times> vmInfo) list \<Rightarrow> rat \<Rightarrow> mem_world pxapi" where
  "memPx items uptime =
     \<lparr>httpNewRequest = (\<lambda>req. None),
      httpDo = (\<lambda>req w. (Inr \<lparr>respStatus = 200, respBody = [], respReadErr = None\<rparr>, w)),
      decodeResources = (\<lambda>body. Inr items), decodeExecPID = (\<lambda>body. Inr 7),
      decodeExecStatus = (\<lambda>body. Inr (1, [])), scanFloat = (\<lambda>text. uptime),
      waitFor = (\<lambda>d w. (None, w\<lparr>mwNow := mwNow w + d\<rparr>))\<rparr>"

definition deadPx :: "mem_world pxapi" where
  "deadPx = (memPx [] 0)\<lparr>httpDo := (\<lambda>req w. (Inl (ErrMsg ''no route to host''), w))\<rparr>"

definition sampleCluster :: ProxmoxCluster where
  "sampleCluster =
     \<lparr>pxcMeta = sampleMeta ''pve'',
      pxcSpec = \<lparr>pxcEndpoints = [''https://pve1:8006/''], pxcCredentialsRef = \<lparr>secretRefName = ''creds''\<rparr>,
        pxcInsecureSkipTLSVerify = False, pxcSyncInterval = 60 * Second, pxcCheckGuestUptime = None\<rparr>,
      pxcStatus = \<lparr>LastSyncTime = Some (980 * Second), pxcConditions = []\<rparr>\<rparr>"

definition sampleGuest :: "string \<Rightarrow> int \<Rightarrow> time \<Rightarrow> VRouterTarget" where
  "sampleGuest nm vmid reboot =
     \<lparr>tgtMeta = sampleMeta nm,
      tgtSpec = \<lparr>tgtProvider = \<lparr>provType = ProviderProxmox, provKubeVirt = None,
          provProxmox = Some \<lparr>pxVMID = vmid, pxClusterRef = \<lparr>refNamespace = [], refName = ''pve''\<rparr>\<rparr>,
          provDaemon = None\<rparr>, tgtParams = ''{}''\<rparr>,
      tgtStatus = \<lparr>ProxmoxNode = ''pve1'', LastRebootTime = Some reboot, VMRunning = True\<rparr>\<rparr>"

definition sampleCloud :: "time \<Rightarrow> mem_world" where
  "sampleCloud reboot =
     mem_empty\<lparr>mwTargets := [(sampleKey ''r1'', sampleGuest ''r1'' 101 reboot),
       (sampleKey ''r2'', sampleGuest ''r2'' 102 reboot), (sampleKey ''r3'', sampleTarget ''r3'')]\<rparr>"

definition sampleItems :: "(int \<times> vmInfo) list" where
  "sampleItems = [(101, \<lparr>vmNode = ''pve2'', vmUptime = 49\<rparr>)]"

lemma mem_px_frames:
  "px_frames (\<lambda>w. (memTarget w, \<not> mwDown w)) (memPx items uptime)"
  "px_frames (\<lambda>w. (memTarget w, \<not> mwDown w)) deadPx"
  by (simp_all add: px_frames_def memPx_def deadPx_def memTarget_def fun_eq_iff)

lemma mem_px_clock: "px_clock memKube (memPx items uptime)"
  by (simp add: px_clock_def memPx_def)

lemma mem_patches_work: "patches_work memKube memTarget (\<lambda>w. \<not> mwDown w)"
  by (simp add: patches_work_def memPatchTarget_def putTarget_def)

lemma mem_cluster_patch_down: "mwDown (snd (patchClusterStatus memKube c1 c2 w)) = mwDown w"
  by (simp add: memPutCluster_def Let_def)

lemma sampleCloud_targets:
  "memTarget (sampleCloud (900 * Second)) (sampleKey ''r1'') = Some (sampleGuest ''r1'' 101 (900 * Second))"
  "memTarget (sampleCloud (950 * Second)) (sampleKey ''r1'') = Some (sampleGuest ''r1'' 101 (950 * Second))"
  "memTarget (sampleCloud (900 * Second)) (sampleKey ''r2'') = Some (sampleGuest ''r2'' 102 (900 * Second))"
  "memTarget (sampleCloud (900 * Second)) (sampleKey ''r3'') = Some (sampleTarget ''r3'')"
  by (simp_all add: sampleCloud_def memTarget_def memTargetForm_def sampleGuest_def sampleTarget_def
      sampleMeta_def storedTargetStatus_def trunc_sec_def Second_def)

lemma sampleGuest_simps:
  "tgt_key (sampleGuest nm vmid reboot) = sampleKey nm" "belongsTo sampleCluster (sampleGuest nm vmid reboot)"
  "vmidOf (sampleGuest nm vmid reboot) = vmid" "\<not> belongsTo sampleCluster (sampleTarget nm)"
  by (simp_all add: sampleGuest_def sampleMeta_def belongsTo_def clusterRefOf_def sampleCluster_def vmidOf_def
      sampleTarget_def sampleProviderConfig_def)

lemma sample_boots:
  "observedBoots memKube (memPx sampleItems (97 / 2)) sampleCluster tid tsec (resourceMap sampleItems) 90
     (1000 * Second) (sampleGuest ''r1'' 101 reboot) (sampleCloud reboot) = [951 * Second, 951500000000]"
  by (simp add: observedBoots_def sampleGuest_def vmidOf_def resourceMap_def sampleItems_def guestBoots_def
      sampleCluster_def BoolValue_def fetchGuestUptime_def guestPollRounds_def eval_nat_numeral memPx_def
      okStatus_def sampleCloud_def mem_empty_def lowUptime_def secondsToDuration_def Second_def Let_def)

theorem unreachable_cluster_stops_own_targets_witness:
  "\<exists>w'. pollCluster memKube deadPx sampleCluster ''id'' ''secret'' (sampleCloud (900 * Second)) =
      (requeueIn (60 * Second), None, w') \<and>
    memTarget w' (sampleKey ''r1'') = Some ((sampleGuest ''r1'' 101 (900 * Second))
      \<lparr>tgtStatus := (tgtStatus (sampleGuest ''r1'' 101 (900 * Second)))\<lparr>VMRunning := False\<rparr>\<rparr>) \<and>
    memTarget w' (sampleKey ''r3'') = Some (sampleTarget ''r3'')"
proof -
  let ?w = "sampleCloud (900 * Second)"
  have fetch: "fetchClusterResources deadPx sampleCluster ''id'' ''secret'' ?w =
      (Inl (Wrapped ''all endpoints failed'' (ErrMsg ''no route to host'')), ?w)"
    by (simp add: fetchClusterResources_def sampleCluster_def deadPx_def memPx_def allFailed_def Let_def)
  obtain r err w' where p: "pollCluster memKube deadPx sampleCluster ''id'' ''secret'' ?w = (r, err, w')"
    by (metis surj_pair)
  have lists: "\<exists>ts. listTargets memKube (Some ns) w = Inr ts" for ns w by (simp add: memListTargets_def)
  have up: "\<not> mwDown ?w" by (simp add: sampleCloud_def mem_empty_def)
  note T = unreachable_cluster_stops_own_targets [OF mem_targets.target_api_axioms mem_px_frames(2) mem_patches_work
      _ up fetch lists p]
  have ns: "metaNamespace (pxcMeta sampleCluster) = ''default''" "effectiveSyncInterval sampleCluster = 60 * Second"
    by (simp_all add: sampleCluster_def sampleMeta_def effectiveSyncInterval_def Second_def)
  have "err = None \<and> RequeueAfter r = 60 * Second"
    using T [of "sampleKey ''r1''"] mem_cluster_patch_down unfolding ns by blast
  moreover from this have "r = requeueIn (60 * Second)" by (cases r) (simp add: requeueIn_def)
  moreover have "memTarget w' (sampleKey ''r1'') = Some ((sampleGuest ''r1'' 101 (900 * Second))
      \<lparr>tgtStatus := (tgtStatus (sampleGuest ''r1'' 101 (900 * Second)))\<lparr>VMRunning := False\<rparr>\<rparr>)"
    using T [of "sampleKey ''r1''"] mem_cluster_patch_down by (simp add: ns sampleCloud_targets sampleGuest_simps)
  moreover have "memTarget w' (sampleKey ''r3'') = Some (sampleTarget ''r3'')"
    using T [of "sampleKey ''r3''"] mem_cluster_patch_down by (simp add: ns sampleCloud_targets sampleGuest_simps)
  ultimately show ?thesis using p by blast
qed

lemma sampleCloud_sync:
  "\<exists>r w'. syncTargets memKube (memPx sampleItems (97 / 2)) sampleCluster ''id'' ''secret''
     (resourceMap sampleItems) (sampleCloud (900 * Second)) = (r, None, w')"
proof -
  let ?w = "sampleCloud (900 * Second)"
  have up: "\<not> mwDown ?w" by (simp add: sampleCloud_def mem_empty_def)
  obtain ts where ts: "listTargets memKube (Some (metaNamespace (pxcMeta sampleCluster))) ?w = Inr ts"
    by (simp add: memListTargets_def)
  obtain r err w' where p: "syncTargets memKube (memPx sampleItems (97 / 2)) sampleCluster ''id'' ''secret''
      (resourceMap sampleItems) ?w = (r, err, w')"
    by (metis surj_pair)
  have "\<not> mwDown (fold (syncTarget memKube (memPx sampleItems (97 / 2)) sampleCluster ''id'' ''secret''
      (resourceMap sampleItems) (rebootThreshold (effectiveSyncInterval sampleCluster)) (now memKube ?w)) ts ?w)"
    using mem_targets.sync_all(1) [OF mem_patches_work mem_px_frames(1) up ts refl refl] by simp
  with p ts have err: "err = None"
    by (auto simp: syncTargets_def recordSync_def memPutCluster_def Let_def split: prod.splits sum.splits if_splits)
  with p show ?thesis by blast
qed

theorem sync_writes_reported_nodes_witness:
  "\<exists>r w' t1 t2. syncTargets memKube (memPx sampleItems (97 / 2)) sampleCluster ''id'' ''secret''
      (resourceMap sampleItems) (sampleCloud (900 * Second)) = (r, None, w') \<and>
    memTarget w' (sampleKey ''r1'') = Some t1 \<and> ProxmoxNode (tgtStatus t1) = ''pve2'' \<and>
    memTarget w' (sampleKey ''r2'') = Some t2 \<and> ProxmoxNode (tgtStatus t2) = [] \<and>
    memTarget w' (sampleKey ''r3'') = Some (sampleTarget ''r3'')"
proof -
  let ?w = "sampleCloud (900 * Second)"
  have up: "\<not> mwDown ?w" by (simp add: sampleCloud_def mem_empty_def)
  obtain r w' where p: "syncTargets memKube (memPx sampleItems (97 / 2)) sampleCluster ''id'' ''secret''
      (resourceMap sampleItems) ?w = (r, None, w')"
    using sampleCloud_sync by blast
  note T = sync_writes_reported_nodes [OF mem_targets.target_api_axioms mem_px_frames(1) mem_patches_work up p]
  have ns: "metaNamespace (pxcMeta sampleCluster) = ''default''"
    by (simp add: sampleCluster_def sampleMeta_def)
  obtain t1 where "memTarget w' (sampleKey ''r1'') = Some t1" "ProxmoxNode (tgtStatus t1) = ''pve2''"
    using T [THEN conjunct1, rule_format, of "sampleKey ''r1''" "sampleGuest ''r1'' 101 (900 * Second)"]
    by (auto simp: ns sampleCloud_targets sampleGuest_simps resourceMap_def sampleItems_def)
  moreover obtain t2 where "memTarget w' (sampleKey ''r2'') = Some t2" "ProxmoxNode (tgtStatus t2) = []"
    using T [THEN conjunct1, rule_format, of "sampleKey ''r2''" "sampleGuest ''r2'' 102 (900 * Second)"]
    by (auto simp: ns sampleCloud_targets sampleGuest_simps resourceMap_def sampleItems_def)
  moreover have "memTarget w' (sampleKey ''r3'') = Some (sampleTarget ''r3'')"
    using T [THEN conjunct2, rule_format, of "sampleKey ''r3''"]
    by (auto simp: ns sampleCloud_targets sampleGuest_simps)
  ultimately show ?thesis using p by blast
qed

theorem reboot_stamped_once_witness:
  "\<exists>t'. memTarget (syncTarget memKube (memPx sampleItems (97 / 2)) sampleCluster ''id'' ''secret''
      (resourceMap sampleItems) 90 (1000 * Second) (sampleGuest ''r1'' 101 (950 * Second))
      (sampleCloud (950 * Second))) (sampleKey ''r1'') = Some t' \<and>
    LastRebootTime (tgtStatus t') = Some (950 * Second)"
proof -
  let ?t = "sampleGuest ''r1'' 101 (950 * Second)" and ?w = "sampleCloud (950 * Second)"
  have up: "\<not> mwDown ?w" by (simp add: sampleCloud_def mem_empty_def)
  have lr: "LastRebootTime (tgtStatus ?t) = Some (trunc_sec 950300000000)"
    by (simp add: sampleGuest_def trunc_sec_def Second_def)
  have near: "\<bar>950300000000 - 950000000000\<bar> \<le> 2 * Second" by (simp add: Second_def)
  have boots: "\<forall>b \<in> set (observedBoots memKube (memPx sampleItems (97 / 2)) sampleCluster ''id'' ''secret''
      (resourceMap sampleItems) 90 (1000 * Second) ?t ?w). \<bar>b - 950000000000\<bar> \<le> 2 * Second"
    unfolding sample_boots by (simp add: Second_def)
  from reboot_stamped_once [OF mem_targets.target_api_axioms mem_px_frames(1) mem_patches_work up _ lr near boots]
  moreover have "LastRebootTime (tgtStatus ?t) = Some (950 * Second)" by (simp add: sampleGuest_def)
  ultimately show ?thesis using sampleCloud_targets(2) by (auto simp: sampleGuest_simps(1))
qed


theorem cluster_poll_schedule_witness:
  "\<exists>r. Cluster_onChange memKube (memPx sampleItems (97 / 2)) sampleCluster (sampleCloud (900 * Second)) =
      (r, None, sampleCloud (900 * Second)) \<and> RequeueAfter r = 40 * Second"
proof -
  let ?w = "sampleCloud (900 * Second)"
  obtain r err w' where p: "Cluster_onChange memKube (memPx sampleItems (97 / 2)) sampleCluster ?w = (r, err, w')"
    by (metis surj_pair)
  have adm: "validateProxmoxCluster sampleCluster = None"
    by (simp add: validateProxmoxCluster_def sampleCluster_def Let_def Second_def)
  have iv: "pxcSyncInterval (pxcSpec sampleCluster) < maxDuration"
    by (simp add: sampleCluster_def Second_def maxDuration_def)
  have t: "LastSyncTime (pxcStatus sampleCluster) = Some (980 * Second)" "mwNow ?w = 1000 * Second"
    "pxcSyncInterval (pxcSpec sampleCluster) = 60 * Second"
    by (simp_all add: sampleCluster_def sampleCloud_def mem_empty_def)
  from cluster_poll_schedule [OF adm iv p, THEN conjunct2, rule_format, of "980 * Second"]
  have "err = None \<and> w' = ?w \<and> RequeueAfter r = 40 * Second"
    unfolding memKube_simps t by (simp add: Second_def)
  with p show ?thesis by blast
qed

theorem guest_poll_ends_witness:
  "pollGuest memKube (memPx sampleItems (97 / 2)) False (authHeader ''id'' ''secret'') ''/x'' []
     (now memKube mem_empty + 10 * Second) 1000 mem_empty =
   pollGuest memKube (memPx sampleItems (97 / 2)) False (authHeader ''id'' ''secret'') ''/x'' []
     (now memKube mem_empty + 10 * Second) 20 mem_empty"
  using guest_poll_ends [OF mem_px_clock, where rounds = 1000] by (simp add: guestPollRounds_def)

end
