(* ===== verification/TargetController.thy ===== *)
theory TargetController
  imports MemKube ConfigController
begin

text \<open>
  The reconciler of VRouterTarget (\<open>internal/controller/vroutertarget_controller.go\<close>): the
  poll of the VM state every minute, and the mapping of VirtualMachineInstance events to
  targets. The lemmas state what a poll records, and that the event of a virtual machine
  reaches everything whose provider would be built for that machine.
\<close>

definition vmRunningPollInterval :: duration where "vmRunningPollInterval = 60 * Second"

definition Target_Reconcile :: "'w kube \<Rightarrow> 'w backends \<Rightarrow> nname \<Rightarrow> 'w \<Rightarrow> 'w outcome" where
  "Target_Reconcile k bk req w =
     (case getTarget k req w of
        Inl e \<Rightarrow> (noRequeue, IgnoreNotFound e, w)
      | Inr target \<Rightarrow>
          (case NewProvider k bk target w of
             Inl _ \<Rightarrow> (requeueIn vmRunningPollInterval, None, w)
           | Inr prov \<Rightarrow>
               (case IsVMRunning prov w of
                  (Inl _, w1) \<Rightarrow> (requeueIn vmRunningPollInterval, None, w1)
                | (Inr running, w1) \<Rightarrow>
                    if running \<noteq> VMRunning (tgtStatus target) then
                      (case patchTargetStatus k target
                              (target\<lparr>tgtStatus := (tgtStatus target)\<lparr>VMRunning := running\<rparr>\<rparr>) w1 of
                         (Inl e, w2) \<Rightarrow>
                           (noRequeue, Some (Wrapped ''patch VRouterTarget status'' (ApiError e)), w2)
                       | (Inr _, w2) \<Rightarrow> (requeueIn vmRunningPollInterval, None, w2))
                    else (requeueIn vmRunningPollInterval, None, w1))))"

text \<open>
  The reconcilers of VRouterTemplate and VRouterParams only exist to be registered: both kinds
  are plain data, which the binding controller watches and reads.
\<close>

definition Template_Reconcile :: "nname \<Rightarrow> 'w \<Rightarrow> 'w outcome" where
  "Template_Reconcile req w = (noRequeue, None, w)"

definition Params_Reconcile :: "nname \<Rightarrow> 'w \<Rightarrow> 'w outcome" where
  "Params_Reconcile req w = (noRequeue, None, w)"

definition vmiToVRouterTargets :: "'w kube \<Rightarrow> string \<Rightarrow> string \<Rightarrow> 'w \<Rightarrow> nname list" where
  "vmiToVRouterTargets k vmiNS vmiName w =
     (case listTargets k None w of
        Inl _ \<Rightarrow> []
      | Inr ts \<Rightarrow>
          map tgt_key (filter (\<lambda>tgt.
            case provKubeVirt (tgtProvider (tgtSpec tgt)) of
              None \<Rightarrow> False
            | Some kv \<Rightarrow>
                let ns = (if kvNamespace kv = [] then metaNamespace (tgtMeta tgt) else kvNamespace kv)
                in kvName kv = vmiName \<and> ns = vmiNS) ts))"

section \<open>What a poll records\<close>

lemma target_form_running:
  assumes "storedTargetStatus s = s"
  shows "storedTargetStatus (s\<lparr>VMRunning := v\<rparr>) = s\<lparr>VMRunning := v\<rparr>"
  using assms by (cases s) (simp add: storedTargetStatus_def)

context target_api
begin

lemma Target_Reconcile_stored:
  assumes "backends_frame tgts bk" "tgts w n = Some t" "getTarget k n w = Inr t"
    and "NewProvider k bk t w = Inr prov" "Target_Reconcile k bk n w = (r, None, w')"
  shows "RequeueAfter r = 60 * Second \<and>
    (case IsVMRunning prov w of
       (Inr running, w1) \<Rightarrow>
         tgts w' = (tgts w)(n \<mapsto> t\<lparr>tgtStatus := (tgtStatus t)\<lparr>VMRunning := running\<rparr>\<rparr>)
     | (Inl e, w1) \<Rightarrow> tgts w' = tgts w)"
proof -
  obtain a w1 where run: "IsVMRunning prov w = (a, w1)" by (cases "IsVMRunning prov w")
  have w1: "tgts w1 = tgts w"
    using provider_framesD(1) [OF NewProvider_frames [OF assms(1,4)] run] .
  have key: "tgt_key t = n" by (rule storedt_key [OF assms(2)])
  note form = storedt_form [OF assms(2)]
  show ?thesis
  proof (cases a)
    case (Inl e)
    with assms(3-5) run w1 show ?thesis
      by (auto simp: Target_Reconcile_def vmRunningPollInterval_def)
  next
    case (Inr v)
    show ?thesis
    proof (cases "v = VMRunning (tgtStatus t)")
      case True
      then have "t\<lparr>tgtStatus := (tgtStatus t)\<lparr>VMRunning := v\<rparr>\<rparr> = t" by simp
      with True Inr assms(2-5) run w1 show ?thesis
        by (auto simp: Target_Reconcile_def vmRunningPollInterval_def)
    next
      case False
      let ?new = "t\<lparr>tgtStatus := (tgtStatus t)\<lparr>VMRunning := v\<rparr>\<rparr>"
      from False Inr assms(3-5) run obtain t' where
        p: "patchTargetStatus k t ?new w1 = (Inr t', w')" "RequeueAfter r = 60 * Second"
        by (auto simp: Target_Reconcile_def vmRunningPollInterval_def split: prod.splits sum.splits)
      have "tgts w' = (tgts w1)(tgt_key t \<mapsto> patchedTarget t ?new)"
        using patcht_ok [OF _ p(1)] assms(2) key w1 by simp
      moreover have "patchedTarget t ?new = ?new"
        by (simp add: patchedTarget_def target_form_running [OF form])
      ultimately show ?thesis using run Inr w1 key p(2) by simp
    qed
  qed
qed

lemma vmi_events:
  assumes "listTargets k None w = Inr ts" "tgts w n = Some t"
    and "provType (tgtProvider (tgtSpec t)) \<noteq> ProviderProxmox"
      "provType (tgtProvider (tgtSpec t)) \<noteq> ProviderVRouterDaemon"
    and "NewProvider k bk t w2 = Inr prov"
  shows "\<exists>nm ns. NewProvider k bk t w2 = newKubevirt bk nm ns w2 \<and>
     n \<in> set (vmiToVRouterTargets k ns nm w)"
proof -
  from assms(3-5) obtain kv where kv: "provKubeVirt (tgtProvider (tgtSpec t)) = Some kv"
    by (auto simp: NewProvider_def Let_def split: ProviderType.splits option.splits)
  let ?ns = "if kvNamespace kv = [] then metaNamespace (tgtMeta t) else kvNamespace kv"
  have "NewProvider k bk t w2 = newKubevirt bk (kvName kv) ?ns w2"
    using assms(3,4) kv by (auto simp: NewProvider_def Let_def split: ProviderType.splits)
  moreover have "t \<in> set ts" using listt_all [OF assms(1)] assms(2) by blast
  then have "tgt_key t \<in> set (vmiToVRouterTargets k ?ns (kvName kv) w)"
    using assms(1) kv by (auto simp: vmiToVRouterTargets_def Let_def image_iff)
  moreover have "tgt_key t = n" by (rule storedt_key [OF assms(2)])
  ultimately show ?thesis by metis
qed

end

text \<open>
  A poll of a target records what the provider says about the VM and nothing else: when
  the reconcile of a stored target ends without an error after the provider answered, the
  stored object is the old one with the answer in \<open>VMRunning\<close>; metadata, spec, node and reboot
  time and every other target stay as they were, and the next poll comes in a minute. When
  the provider gives no answer, no target changes and the poll is repeated in a minute.
\<close>

theorem target_poll_records_answer:
  assumes "target_api k tgts" "backends_frame tgts bk"
    and "tgts w n = Some t" "getTarget k n w = Inr t" "NewProvider k bk t w = Inr prov"
    and "Target_Reconcile k bk n w = (r, None, w')"
  shows "RequeueAfter r = 60 * Second \<and>
    (case IsVMRunning prov w of
       (Inr running, w1) \<Rightarrow>
         tgts w' = (tgts w)(n \<mapsto> t\<lparr>tgtStatus := (tgtStatus t)\<lparr>VMRunning := running\<rparr>\<rparr>)
     | (Inl e, w1) \<Rightarrow> tgts w' = tgts w)"
  by (rule target_api.Target_Reconcile_stored [OF assms])

text \<open>
  No VM event is lost: for a stored target that is neither a Proxmox nor a vrouter-daemon
  target, a provider the factory builds (in whatever world) talks to one virtual machine
  instance, and the mapping of that instance's events, the list succeeding, contains the target.
\<close>

theorem vmi_event_reaches_target:
  assumes "target_api k tgts" "listTargets k None w = Inr ts" "tgts w n = Some t"
    and "provType (tgtProvider (tgtSpec t)) \<notin> {ProviderProxmox, ProviderVRouterDaemon}"
    and "NewProvider k bk t w2 = Inr prov"
  shows "\<exists>nm ns. NewProvider k bk t w2 = newKubevirt bk nm ns w2 \<and>
     n \<in> set (vmiToVRouterTargets k ns nm w)"
  by (rule target_api.vmi_events [OF assms(1-3) _ _ assms(5)]) (use assms(4) in auto)

lemma memBackends_target_frame: "backends_frame memTarget memBackends"
  by (simp add: backends_frame_def memBackends_def provider_frames_def memTarget_def fun_eq_iff)

definition sampleStopped :: mem_world where "sampleStopped = sampleWorld\<lparr>mwRunning := False\<rparr>"

theorem target_poll_records_answer_witness:
  "memTarget (world_of (Target_Reconcile memKube memBackends (sampleKey ''r1'') sampleStopped)) (sampleKey ''r1'') =
     Some ((sampleTarget ''r1'')\<lparr>tgtStatus := (tgtStatus (sampleTarget ''r1''))\<lparr>VMRunning := False\<rparr>\<rparr>)"
proof -
  let ?n = "sampleKey ''r1''" and ?t = "sampleTarget ''r1''" and ?w = sampleStopped
  have st: "memTarget ?w ?n = Some ?t"
    by (simp add: sampleStopped_def sampleWorld_def memTarget_def memTargetForm_def sampleTarget_def
        sampleMeta_def storedTargetStatus_def trunc_sec_def Second_def)
  have g: "getTarget memKube ?n ?w = Inr ?t" using st by (simp add: found_def)
  have p: "NewProvider memKube memBackends ?t ?w = Inr memProvider"
    by (simp add: NewProvider_def sampleTarget_def sampleProviderConfig_def memBackends_def Let_def)
  have r: "\<exists>w'. Target_Reconcile memKube memBackends ?n ?w = (requeueIn vmRunningPollInterval, None, w')"
    using g p st by (simp add: Target_Reconcile_def memPatchTarget_def sampleTarget_def sampleStopped_def
        sampleWorld_def mem_empty_def sampleMeta_def)
  then obtain w' where w': "Target_Reconcile memKube memBackends ?n ?w = (requeueIn vmRunningPollInterval, None, w')"
    by blast
  from target_poll_records_answer [OF mem_targets.target_api_axioms memBackends_target_frame st g p w']
  have "memTarget w' = (memTarget ?w)(?n \<mapsto> ?t\<lparr>tgtStatus := (tgtStatus ?t)\<lparr>VMRunning := False\<rparr>\<rparr>)"
    by (simp add: sampleStopped_def)
  then show ?thesis by (simp add: w')
qed

theorem vmi_event_reaches_target_witness:
  "\<exists>nm ns. newKubevirt memBackends nm ns sampleWorld = Inr memProvider \<and>
     sampleKey ''r1'' \<in> set (vmiToVRouterTargets memKube ns nm sampleWorld)"
proof -
  let ?n = "sampleKey ''r1''" and ?t = "sampleTarget ''r1''" and ?w = sampleWorld
  have st: "memTarget ?w ?n = Some ?t"
    by (simp add: sampleWorld_def memTarget_def memTargetForm_def sampleTarget_def
        sampleMeta_def storedTargetStatus_def trunc_sec_def Second_def)
  have p: "NewProvider memKube memBackends ?t ?w = Inr memProvider"
    by (simp add: NewProvider_def sampleTarget_def sampleProviderConfig_def memBackends_def Let_def)
  obtain ts where ts: "listTargets memKube None ?w = Inr ts" by (simp add: memListTargets_def)
  have k: "provType (tgtProvider (tgtSpec ?t)) \<notin> {ProviderProxmox, ProviderVRouterDaemon}"
    by (simp add: sampleTarget_def sampleProviderConfig_def)
  from vmi_event_reaches_target [OF mem_targets.target_api_axioms ts st k p]
  show ?thesis unfolding p by metis
qed

end
