(* ===== verification/Operator.thy ===== *)
theory Operator
  imports ConfigWorld ConfigSchedule BindingProps ProxmoxWorld TargetController
begin

text \<open>
  The whole operator: the six controllers as the manager registers them (\<open>cmd/main.go\<close>), the
  events each of them watches (\<open>SetupWithManager\<close>), and the steps the operator takes over a
  work queue. The queue and its delivery belong to controller-runtime: a request stays queued
  until it is reconciled, a reconcile that fails or asks for it is queued again, and every
  change of an object reaches the controllers that watch it. Reconciles are atomic in the
  model, requeue delays and the rate limit are not: a queued request may run at any time.
\<close>

section \<open>Controllers\<close>

datatype controller = TemplateCtl | ParamsCtl | TargetCtl | BindingCtl | ConfigCtl | ClusterCtl

type_synonym work = "controller \<times> nname"

fun runController ::
  "'w kube \<Rightarrow> ('d, 'f, 't) templating \<Rightarrow> 'w pxapi \<Rightarrow> 'w backends \<Rightarrow> controller \<Rightarrow> nname \<Rightarrow> 'w \<Rightarrow> 'w outcome" where
  "runController k lib px bk TemplateCtl req w = Template_Reconcile req w"
| "runController k lib px bk ParamsCtl req w = Params_Reconcile req w"
| "runController k lib px bk TargetCtl req w = Target_Reconcile k bk req w"
| "runController k lib px bk BindingCtl req w = Binding_Reconcile k lib req w"
| "runController k lib px bk ConfigCtl req w = Config_Reconcile k bk req w"
| "runController k lib px bk ClusterCtl req w = Cluster_Reconcile k px req w"

section \<open>Watches\<close>

text \<open>An event carries the object; of a VirtualMachineInstance the name is what counts.\<close>

datatype event =
    TemplateEvent VRouterTemplate
  | ParamsEvent VRouterParams
  | TargetEvent VRouterTarget
  | BindingEvent VRouterBinding
  | ConfigEvent VRouterConfig
  | ClusterEvent ProxmoxCluster
  | VMIEvent string string

abbreviation metaKey :: "ObjectMeta \<Rightarrow> nname" where
  "metaKey m \<equiv> (metaNamespace m, metaName m)"

fun Template_watches :: "event \<Rightarrow> nname list" where
  "Template_watches (TemplateEvent t) = [metaKey (tmplMeta t)]"
| "Template_watches _ = []"

fun Params_watches :: "event \<Rightarrow> nname list" where
  "Params_watches (ParamsEvent p) = [metaKey (prmMeta p)]"
| "Params_watches _ = []"

fun Target_watches :: "'w kube \<Rightarrow> 'w \<Rightarrow> event \<Rightarrow> nname list" where
  "Target_watches k w (TargetEvent t) = [tgt_key t]"
| "Target_watches k w (VMIEvent ns nm) = vmiToVRouterTargets k ns nm w"
| "Target_watches k w _ = []"

fun Binding_watches :: "'w kube \<Rightarrow> 'w \<Rightarrow> event \<Rightarrow> nname list" where
  "Binding_watches k w (BindingEvent b) = [bnd_key b]"
| "Binding_watches k w (TemplateEvent t) = bindingsForTemplate k (metaKey (tmplMeta t)) w"
| "Binding_watches k w (TargetEvent t) = bindingsForTarget k (tgt_key t) w"
| "Binding_watches k w (ParamsEvent p) = bindingsForParams k (metaKey (prmMeta p)) w"
| "Binding_watches k w _ = []"

fun Config_watches :: "'w kube \<Rightarrow> 'w \<Rightarrow> event \<Rightarrow> nname list" where
  "Config_watches k w (ConfigEvent c) = [cfg_key c]"
| "Config_watches k w (VMIEvent ns nm) = vmiToVRouterConfigs k ns nm w"
| "Config_watches k w (TargetEvent t) = configsForTarget k (metaNamespace (tgtMeta t)) (metaName (tgtMeta t)) w"
| "Config_watches k w _ = []"

fun Cluster_watches :: "event \<Rightarrow> nname list" where
  "Cluster_watches (ClusterEvent c) = [metaKey (pxcMeta c)]"
| "Cluster_watches (TargetEvent t) = clusterForTarget t"
| "Cluster_watches _ = []"

definition requests :: "'w kube \<Rightarrow> 'w \<Rightarrow> event \<Rightarrow> work list" where
  "requests k w ev =
     map (Pair TemplateCtl) (Template_watches ev) @ map (Pair ParamsCtl) (Params_watches ev) @
     map (Pair TargetCtl) (Target_watches k w ev) @ map (Pair BindingCtl) (Binding_watches k w ev) @
     map (Pair ConfigCtl) (Config_watches k w ev) @ map (Pair ClusterCtl) (Cluster_watches ev)"

section \<open>Changes\<close>

text \<open>What the API server stores, by kind.\<close>

record 'w store_view =
  vwTemplates :: "'w \<Rightarrow> nname \<Rightarrow> VRouterTemplate option"
  vwParams :: "'w \<Rightarrow> nname \<Rightarrow> VRouterParams option"
  vwTargets :: "'w \<Rightarrow> nname \<Rightarrow> VRouterTarget option"
  vwBindings :: "'w \<Rightarrow> nname \<Rightarrow> VRouterBinding option"
  vwConfigs :: "'w \<Rightarrow> nname \<Rightarrow> VRouterConfig option"
  vwClusters :: "'w \<Rightarrow> nname \<Rightarrow> ProxmoxCluster option"

definition diff :: "('w \<Rightarrow> nname \<Rightarrow> 'a option) \<Rightarrow> 'w \<Rightarrow> 'w \<Rightarrow> 'a set" where
  "diff objs w w' = {x. \<exists>n. objs w n \<noteq> objs w' n \<and> (objs w n = Some x \<or> objs w' n = Some x)}"

text \<open>An update is seen with the object before and the object after.\<close>

definition changes :: "'w store_view \<Rightarrow> 'w \<Rightarrow> 'w \<Rightarrow> event set" where
  "changes vw w w' =
     TemplateEvent ` diff (vwTemplates vw) w w' \<union> ParamsEvent ` diff (vwParams vw) w w' \<union>
     TargetEvent ` diff (vwTargets vw) w w' \<union> BindingEvent ` diff (vwBindings vw) w w' \<union>
     ConfigEvent ` diff (vwConfigs vw) w w' \<union> ClusterEvent ` diff (vwClusters vw) w w'"

definition enqueue :: "'w kube \<Rightarrow> 'w \<Rightarrow> event set \<Rightarrow> work set" where
  "enqueue k w evs = (\<Union>ev \<in> evs. set (requests k w ev))"

lemma diff_same [simp]: "diff objs w w = {}"
  by (simp add: diff_def)

lemma changes_same [simp]: "changes vw w w = {}"
  by (simp add: changes_def)

lemma enqueue_none [simp]: "enqueue k w {} = {}"
  by (simp add: enqueue_def)

section \<open>Steps\<close>

text \<open>
  The state of the operator: the world, the queue, and for the proofs the configurations whose
  last reconcile did not get to the router.
\<close>

record 'w operator_state =
  opWorld :: 'w
  opQueue :: "work set"
  opSkipped :: "nname set"

definition after_run ::
  "'w kube \<Rightarrow> 'w store_view \<Rightarrow> 'w backends \<Rightarrow> work \<Rightarrow> 'w outcome \<Rightarrow> 'w operator_state \<Rightarrow> 'w operator_state" where
  "after_run k vw bk x out s =
     (let w = opWorld s; w' = world_of out in
      \<lparr>opWorld = w',
       opQueue = (opQueue s - {x}) \<union>
         (if error_of out \<noteq> None \<or> 0 < RequeueAfter (result_of out) then {x} else {}) \<union>
         enqueue k w' (changes vw w w'),
       opSkipped =
         (if fst x \<noteq> ConfigCtl then opSkipped s
          else if skips k bk (snd x) w then insert (snd x) (opSkipped s)
          else opSkipped s - {snd x})\<rparr>)"

text \<open>
  Outside changes do not write the status of a VRouterConfig: they may create one with a fresh
  status, change what the user owns, or remove one.
\<close>

definition benign :: "('w \<Rightarrow> nname \<Rightarrow> VRouterConfig option) \<Rightarrow> 'w \<Rightarrow> 'w \<Rightarrow> bool" where
  "benign cfgs w w' \<longleftrightarrow>
     (\<forall>n. cfgs w' n = None \<or> map_option cfgStatus (cfgs w' n) = map_option cfgStatus (cfgs w n) \<or>
        (cfgs w n = None \<and> (\<exists>c. cfgs w' n = Some c \<and> freshConfigStatus (cfgStatus c))))"

text \<open>A step the operator makes on its own: it reconciles a queued request.\<close>

inductive run_step ::
  "'w kube \<Rightarrow> ('d, 'f, 't) templating \<Rightarrow> 'w pxapi \<Rightarrow> 'w backends \<Rightarrow> 'w store_view \<Rightarrow>
     'w operator_state \<Rightarrow> 'w operator_state \<Rightarrow> bool"
  for k lib px bk vw where
  run: "x \<in> opQueue s \<Longrightarrow> run_step k lib px bk vw s
    (after_run k vw bk x (runController k lib px bk (fst x) (snd x) (opWorld s)) s)"

text \<open>
  A step from outside: users, guests, the clock, the goroutines of the daemon backend. Changed
  objects and virtual machine instances are seen by their watches.
\<close>

inductive outside_step ::
  "'w kube \<Rightarrow> 'w store_view \<Rightarrow> 'w operator_state \<Rightarrow> 'w operator_state \<Rightarrow> bool" for k vw where
  outside: "benign (vwConfigs vw) (opWorld s) w' \<Longrightarrow> outside_step k vw s
    (s\<lparr>opWorld := w', opQueue := opQueue s \<union> enqueue k w' (changes vw (opWorld s) w' \<union> (\<lambda>(ns, nm). VMIEvent ns nm) ` vms)\<rparr>)"

text \<open>The objects a process lists when it starts.\<close>

definition listed :: "'w store_view \<Rightarrow> 'w \<Rightarrow> event set" where
  "listed vw w =
     TemplateEvent ` {x. \<exists>n. vwTemplates vw w n = Some x} \<union> ParamsEvent ` {x. \<exists>n. vwParams vw w n = Some x} \<union>
     TargetEvent ` {x. \<exists>n. vwTargets vw w n = Some x} \<union> BindingEvent ` {x. \<exists>n. vwBindings vw w n = Some x} \<union>
     ConfigEvent ` {x. \<exists>n. vwConfigs vw w n = Some x} \<union> ClusterEvent ` {x. \<exists>n. vwClusters vw w n = Some x}"

text \<open>
  The states an installation can get into. It begins without VRouterConfigs; a restart lists
  everything, and may lose what the process kept in memory.
\<close>

inductive operator_reach ::
  "'w kube \<Rightarrow> ('d, 'f, 't) templating \<Rightarrow> 'w pxapi \<Rightarrow> 'w backends \<Rightarrow> 'w store_view \<Rightarrow>
     'w operator_state \<Rightarrow> bool"
  for k lib px bk vw where
  install: "\<forall>n. vwConfigs vw w n = None \<Longrightarrow>
    operator_reach k lib px bk vw \<lparr>opWorld = w, opQueue = enqueue k w (listed vw w), opSkipped = {}\<rparr>"
| run: "operator_reach k lib px bk vw s \<Longrightarrow> run_step k lib px bk vw s s' \<Longrightarrow> operator_reach k lib px bk vw s'"
| outside: "operator_reach k lib px bk vw s \<Longrightarrow> outside_step k vw s s' \<Longrightarrow> operator_reach k lib px bk vw s'"
| restart: "operator_reach k lib px bk vw s \<Longrightarrow> benign (vwConfigs vw) (opWorld s) w' \<Longrightarrow>
    operator_reach k lib px bk vw \<lparr>opWorld = w', opQueue = enqueue k w' (listed vw w'), opSkipped = opSkipped s\<rparr>"

inductive_cases run_stepE: "run_step k lib px bk vw s s'"
inductive_cases outside_stepE: "outside_step k vw s s'"

end
