(* ===== verification/OperatorProps.thy ===== *)
theory OperatorProps
  imports Operator
begin

text \<open>
  What a step of the operator does to the status of a VRouterConfig. The locale
  \<open>operator_runtime\<close> collects what the six controllers rely on. Every controller but the one of
  VRouterConfigs makes benign changes only, so its runs are steps of the environment in the
  histories of the theory ConfigWorld.
\<close>

section \<open>Benign changes\<close>

abbreviation benigns :: "('w \<Rightarrow> nname \<Rightarrow> VRouterConfig option) \<Rightarrow> 'w \<Rightarrow> 'w \<Rightarrow> bool" where
  "benigns cfgs \<equiv> (benign cfgs)\<^sup>*\<^sup>*"

lemma benign_same: "cfgs w' = cfgs w \<Longrightarrow> benigns cfgs w w'"
  by (rule r_into_rtranclp) (simp add: benign_def)

lemma benign_at:
  assumes "\<And>m. m \<noteq> n \<Longrightarrow> cfgs w' m = cfgs w m"
    and "\<And>c'. cfgs w' n = Some c' \<Longrightarrow>
      (case cfgs w n of None \<Rightarrow> freshConfigStatus (cfgStatus c') | Some c \<Rightarrow> cfgStatus c' = cfgStatus c)"
  shows "benigns cfgs w w'"
proof (rule r_into_rtranclp)
  show "benign cfgs w w'" unfolding benign_def
  proof
    fix m
    show "cfgs w' m = None \<or> map_option cfgStatus (cfgs w' m) = map_option cfgStatus (cfgs w m) \<or>
      (cfgs w m = None \<and> (\<exists>c. cfgs w' m = Some c \<and> freshConfigStatus (cfgStatus c)))"
      using assms(1) [of m] assms(2) by (cases "m = n") (force split: option.splits)+
  qed
qed

lemma written_benign:
  assumes "cfgs w' = (cfgs w)(n \<mapsto> c')" "written (cfgs w n) m c'"
  shows "benigns cfgs w w'"
  by (rule benign_at [of n]) (use assms in \<open>auto simp: written_def split: option.splits\<close>)

text \<open>Benign changes stay within the histories, and start no exec.\<close>

lemma benigns_world:
  assumes "benigns cfgs w w'" "config_world k bk cfgs n w"
  shows "config_world k bk cfgs n w'"
  using assms
proof (induction rule: rtranclp_induct)
  case (step u v)
  from step.hyps(2) consider "cfgs v n = None"
    | "map_option cfgStatus (cfgs v n) = map_option cfgStatus (cfgs u n)"
    | c where "cfgs u n = None" "cfgs v n = Some c" "freshConfigStatus (cfgStatus c)"
    unfolding benign_def by metis
  then show ?case
  proof cases
    case 1
    then show ?thesis by (rule config_world.absent)
  next
    case 2
    with step.IH [OF step.prems] show ?thesis by (rule config_world.environment)
  next
    case 3
    with step.IH [OF step.prems] show ?thesis by (rule config_world.created)
  qed
qed

lemma benigns_exec:
  assumes "benigns cfgs w w'" "cfgs w' n = Some c'" "0 < ExecPID (cfgStatus c')"
  shows "\<exists>c. cfgs w n = Some c \<and> 0 < ExecPID (cfgStatus c)"
  using assms
proof (induction arbitrary: c' rule: rtranclp_induct)
  case (step u v)
  from step.hyps(2) [unfolded benign_def, rule_format, of n] step.prems
  obtain c where "cfgs u n = Some c" "0 < ExecPID (cfgStatus c)"
    by (cases "cfgs u n") (auto simp: freshConfigStatus_def)
  with step.IH show ?case by blast
qed blast

text \<open>A configuration with an exec has a request queued, or its last reconcile skipped it.\<close>

definition scheduled ::
  "('w \<Rightarrow> nname \<Rightarrow> VRouterConfig option) \<Rightarrow> 'w operator_state \<Rightarrow> nname \<Rightarrow> bool" where
  "scheduled cfgs s n \<longleftrightarrow>
     (\<forall>c. cfgs (opWorld s) n = Some c \<longrightarrow> 0 < ExecPID (cfgStatus c) \<longrightarrow>
        (ConfigCtl, n) \<in> opQueue s \<or> n \<in> opSkipped s)"

lemma config_event_enqueued:
  assumes "ConfigEvent c \<in> evs" "cfg_key c = n"
  shows "(ConfigCtl, n) \<in> enqueue k w evs"
  using assms by (auto simp: enqueue_def requests_def intro!: bexI [of _ "ConfigEvent c"])

section \<open>The controllers\<close>

locale operator_api =
  fixes k :: "'w kube" and cfgs :: "'w \<Rightarrow> nname \<Rightarrow> VRouterConfig option" and px :: "'w pxapi"
  assumes delete_status: "deleteConfig k c w = (u, w') \<Longrightarrow> cfgs w' (cfg_key c) = Some c' \<Longrightarrow>
      \<exists>c0. cfgs w (cfg_key c) = Some c0 \<and> cfgStatus c' = cfgStatus c0"
    and patch_target_cfgs: "patchTargetStatus k t1 t2 w = (tr, w') \<Longrightarrow> cfgs w' = cfgs w"
    and patch_cluster_cfgs: "patchClusterStatus k c1 c2 w = (cr, w') \<Longrightarrow> cfgs w' = cfgs w"
    and update_cluster_cfgs: "updateCluster k c1 w = (u, w') \<Longrightarrow> cfgs w' = cfgs w"
    and px_cfgs: "px_frames cfgs px"

locale operator_runtime = binding_runtime k cfgs bnds + config_runtime k cfgs bk + operator_api k cfgs px
  for k :: "'w kube" and cfgs :: "'w \<Rightarrow> nname \<Rightarrow> VRouterConfig option"
    and bnds :: "'w \<Rightarrow> nname \<Rightarrow> VRouterBinding option" and bk :: "'w backends" and px :: "'w pxapi"
begin

lemma delete_benign: "deleteConfig k c w = (u, w') \<Longrightarrow> benigns cfgs w w'"
  using delete_frame delete_status by (intro benign_at [of "cfg_key c"]) (fastforce split: option.splits)+

lemma createOne_benign:
  assumes "createOrUpdateOne k b d w = (r, w')"
  shows "benigns cfgs w w'"
proof -
  obtain e where "CreateOrUpdateConfig k (blankConfig b d) (mutateConfig k b d) w = (e, w')"
    using assms by (auto simp: createOrUpdateOne_def split: prod.splits option.splits)
  from write_cases [OF this] show ?thesis
    by (elim disjE exE conjE) (rule benign_same, assumption, rule written_benign)
qed

lemma createAll_benign: "createOrUpdateAll k b ds w = (r, w') \<Longrightarrow> benigns cfgs w w'"
proof (induction ds arbitrary: w)
  case (Cons d ds)
  obtain u w1 where "createOrUpdateOne k b d w = (u, w1)" by fastforce
  with Cons createOne_benign [OF this] show ?case by (auto split: option.splits intro: rtranclp_trans)
qed simp

lemma deleteOrphans_benign: "deleteOrphans k names cs w = (r, w') \<Longrightarrow> benigns cfgs w w'"
proof (induction cs arbitrary: w)
  case (Cons c cs)
  obtain u w1 where "deleteConfig k c w = (u, w1)" by fastforce
  with Cons delete_benign [OF this] show ?case
    by (auto split: option.splits if_splits intro: rtranclp_trans)
qed simp

lemma cleanup_benign: "cleanupOrphans k b ds w = (r, w') \<Longrightarrow> benigns cfgs w w'"
  by (auto simp: cleanupOrphans_def dest: deleteOrphans_benign split: sum.splits)

lemma writeMismatch_benign:
  assumes "writeMismatch k b mode rollout fr t cnt i d w = (r, e, w')"
  shows "benigns cfgs w w'"
proof -
  obtain x w1 where x: "stampRolloutFrontier k b (refName (dcTarget d)) t
      (digits (i + 1) @ ''/'' @ digits cnt @ '' targets updated'') w = (x, w1)" by fastforce
  have w1: "benigns cfgs w w1" by (rule benign_same [OF stamp_cfgs [OF x]])
  from assms x consider "w' = w" | "w' = w1" | b1 u where "createOrUpdateOne k b1 d w1 = (u, w')"
    by (auto simp: writeMismatch_def split: sum.splits prod.splits if_splits option.splits)
  then show ?thesis
  proof cases
    case (3 b1 u)
    from w1 createOne_benign [OF this] show ?thesis by (rule rtranclp_trans)
  qed (use w1 in simp_all)
qed

lemma runRollout_benign:
  assumes "runRollout k b rollout ds w = (r, e, w')"
  shows "benigns cfgs w w'"
proof (cases "cfgs w' = cfgs w")
  case True
  then show ?thesis by (rule benign_same)
next
  case False
  define mode where "mode = EffectiveMode (bndRollout (bndSpec b))"
  have "walkOrComplete k b mode rollout ds w = (r, e, w')"
    using assms False by (auto simp: runRollout_def Let_def mode_def split: if_splits sum.splits option.splits)
  then obtain out where out: "rolloutWalk k b mode rollout (statusRollout (bndStatus b)) (now k w)
      (length ds) 0 ds w = Some out" "out = (r, e, w')"
    using False by (auto simp: walkOrComplete_def split: option.splits dest: completeRollout_cfgs)
  from walk_cases [OF out(1)] out(2) False obtain cnt i d where
    "writeMismatch k b mode rollout (statusRollout (bndStatus b)) (now k w) cnt i d w = (r, e, w')" by auto
  then show ?thesis by (rule writeMismatch_benign)
qed

lemma reconcileError_benign: "reconcileError k b x w = (r, e, w') \<Longrightarrow> benigns cfgs w w'"
  by (rule benign_same) (simp add: reconcileError_cfgs)

lemma updateb_benign: "updateBinding k b w = (u, w') \<Longrightarrow> benigns cfgs w w'"
  by (rule benign_same) (rule updateb_cfgs)

lemma writeAll_benign:
  assumes "writeAll k b ds w = (r, e, w')"
  shows "benigns cfgs w w'"
proof -
  obtain x w1 where x: "createOrUpdateAll k b ds w = (x, w1)" by fastforce
  have "cfgs w' = cfgs w1"
    using assms x reconcileError_cfgs finishReady_cfgs by (auto simp: writeAll_def split: option.splits)
  from createAll_benign [OF x] benign_same [of cfgs, OF this] show ?thesis by (rule rtranclp_trans)
qed

lemma onChange_benign:
  assumes "Binding_onChange k lib b w = (r, e, w')"
  shows "benigns cfgs w w'"
proof (cases "renderAll k lib b w")
  case (Inl err)
  with assms show ?thesis by (auto simp: Binding_onChange_def dest: reconcileError_benign)
next
  case (Inr ds)
  obtain x w1 where x: "cleanupOrphans k b ds w = (x, w1)" by fastforce
  have "benigns cfgs w1 w'"
    using assms Inr x
    by (auto simp: Binding_onChange_def Let_def split: option.splits if_splits
        dest: runRollout_benign writeAll_benign reconcileError_benign)
  with cleanup_benign [OF x] show ?thesis by (rule rtranclp_trans)
qed

lemma Binding_benign: "Binding_Reconcile k lib n w = (r, e, w') \<Longrightarrow> benigns cfgs w w'"
  by (auto simp: Binding_Reconcile_def Binding_onDelete_def Let_def dest: onChange_benign updateb_benign
      split: sum.splits prod.splits option.splits if_splits)

lemma Target_benign:
  assumes "Target_Reconcile k bk n w = (r, e, w')"
  shows "benigns cfgs w w'"
proof (rule benign_same)
  have "cfgs w1 = cfgs w" if "NewProvider k bk t w = Inr p" "IsVMRunning p w = (x, w1)" for t p x w1
    by (rule provider_framesD(1) [OF NewProvider_frames [OF backends that(1)] that(2)])
  then show "cfgs w' = cfgs w"
    using assms patch_target_cfgs unfolding Target_Reconcile_def
    by (auto split: sum.splits prod.splits if_splits)
qed

lemma sync_cfgs: "cfgs (syncTarget k px c tid tsec vmMap thr t0 t w) = cfgs w"
  using observeTarget_frame [OF px_cfgs] patch_target_cfgs
  by (auto simp: syncTarget_def split: prod.splits) (metis prod.collapse)+

lemma stop_cfgs: "cfgs (stopTarget k c t w) = cfgs w"
  using patch_target_cfgs by (auto simp: stopTarget_def) (metis prod.collapse)

lemma fold_cfgs: "(\<And>t w. cfgs (f t w) = cfgs w) \<Longrightarrow> cfgs (fold f ts w) = cfgs w"
  by (induction ts arbitrary: w) simp_all

lemma synced_cfgs: "cfgs (setSyncedCondition k c st rs msg w) = cfgs w"
  unfolding setSyncedCondition_def using patch_cluster_cfgs by (metis prod.collapse)

lemma Cluster_benign:
  assumes "Cluster_Reconcile k px n w = (r, e, w')"
  shows "benigns cfgs w w'"
proof (rule benign_same)
  have poll: "cfgs w' = cfgs w" if "pollCluster k px c tid tsec w = (r, e, w')" for c tid tsec
  proof -
    obtain x w1 where x: "fetchClusterResources px c tid tsec w = (x, w1)" by fastforce
    have "cfgs w1 = cfgs w"
      using fetchFrom_frame [OF px_cfgs] x by (auto simp: fetchClusterResources_def)
    with that x show ?thesis
      by (cases x) (auto simp: pollCluster_def markTargetsStopped_def syncTargets_def recordSync_def
          fold_cfgs stop_cfgs sync_cfgs synced_cfgs dest: patch_cluster_cfgs split: sum.splits prod.splits)
  qed
  have auth: "cfgs w' = cfgs w" if "authenticateAndPoll k px c w = (r, e, w')" for c
    using that poll by (auto simp: authenticateAndPoll_def Let_def synced_cfgs split: sum.splits if_splits)
  show "cfgs w' = cfgs w"
    using assms auth update_cluster_cfgs
    by (auto simp: Cluster_Reconcile_def Cluster_onDelete_def Cluster_onChange_def Let_def
        split: sum.splits prod.splits option.splits if_splits)
qed

lemma other_benign:
  assumes "runController k lib px bk c n w = (r, e, w')" "c \<noteq> ConfigCtl"
  shows "benigns cfgs w w'"
  using assms Binding_benign [of lib n w] Target_benign [of n w] Cluster_benign [of n w]
  by (cases c) (auto simp: Template_Reconcile_def Params_Reconcile_def)

lemma run_world:
  assumes "config_world k bk cfgs n w"
  shows "config_world k bk cfgs n (world_of (runController k lib px bk c m w))"
proof (cases "c = ConfigCtl")
  case True
  with reconciled_world [OF assms] show ?thesis by simp
next
  case False
  with benigns_world [OF other_benign assms] show ?thesis by (metis prod.collapse)
qed

text \<open>Reachable states are worlds of the histories of every VRouterConfig.\<close>

lemma reach_world:
  assumes "operator_reach k lib px bk vw s" "vwConfigs vw = cfgs"
  shows "config_world k bk cfgs n (opWorld s)"
  using assms(1)
proof (induction rule: operator_reach.induct)
  case (install w)
  then have "cfgs w n = None" using assms(2) by metis
  then show ?case by (simp add: config_world.absent)
next
  case (run s s')
  from run.hyps(2) run_world [OF run.IH] show ?case
    by (auto elim!: run_stepE simp: after_run_def Let_def)
next
  case (outside s s')
  from outside.hyps(2) assms(2) obtain w' where "benign cfgs (opWorld s) w'" "opWorld s' = w'"
    by (auto elim!: outside_stepE)
  with benigns_world [OF r_into_rtranclp outside.IH] show ?case by blast
next
  case (restart s w')
  with assms(2) benigns_world [OF r_into_rtranclp restart.IH] show ?case by simp
qed

lemma enqueue_listed:
  assumes "cfgs w n = Some c" "vwConfigs vw = cfgs"
  shows "(ConfigCtl, n) \<in> enqueue k w (listed vw w)"
proof -
  have "c \<in> {x. \<exists>n. vwConfigs vw w n = Some x}" using assms by blast
  then have "ConfigEvent c \<in> listed vw w" unfolding listed_def by blast
  from config_event_enqueued [OF this stored_key [OF assms(1)]] show ?thesis .
qed

lemma run_scheduled:
  assumes "scheduled cfgs s n" "x \<in> opQueue s"
  shows "scheduled cfgs (after_run k vw bk x (runController k lib px bk (fst x) (snd x) (opWorld s)) s) n"
proof -
  obtain r e w' where out: "runController k lib px bk (fst x) (snd x) (opWorld s) = (r, e, w')"
    by (metis surj_pair)
  show ?thesis
  proof (cases "x = (ConfigCtl, n)")
    case True
    with out Reconcile_rescheduled [of n "opWorld s" r w'] show ?thesis
      by (cases e) (auto simp: scheduled_def after_run_def Let_def)
  next
    case False
    have "\<exists>c. cfgs (opWorld s) n = Some c \<and> 0 < ExecPID (cfgStatus c)"
      if "cfgs w' n = Some c'" "0 < ExecPID (cfgStatus c')" for c'
    proof (cases "fst x = ConfigCtl")
      case True
      with False have "n \<noteq> snd x" by (cases x) auto
      with True out Reconcile_isolated [of "snd x" "opWorld s" r e w' n] that show ?thesis by force
    next
      case f: False
      from benigns_exec [OF other_benign [OF out f] that] show ?thesis .
    qed
    then have kept: "(ConfigCtl, n) \<in> opQueue s \<or> n \<in> opSkipped s"
      if "cfgs w' n = Some c'" "0 < ExecPID (cfgStatus c')" for c'
      using assms(1) that unfolding scheduled_def by blast
    show ?thesis unfolding scheduled_def
    proof (intro allI impI)
      fix c' let ?s = "after_run k vw bk x (runController k lib px bk (fst x) (snd x) (opWorld s)) s"
      assume "cfgs (opWorld ?s) n = Some c'" "0 < ExecPID (cfgStatus c')"
      with kept [of c'] out False show "(ConfigCtl, n) \<in> opQueue ?s \<or> n \<in> opSkipped ?s"
        by (cases x) (auto simp: after_run_def Let_def)
    qed
  qed
qed

lemma benign_scheduled:
  assumes "scheduled cfgs s n" "benign cfgs (opWorld s) w'"
  shows "scheduled cfgs (s\<lparr>opWorld := w', opQueue := opQueue s \<union> new\<rparr>) n"
  using assms benigns_exec [of cfgs "opWorld s" w' n, OF r_into_rtranclp] unfolding scheduled_def
  by fastforce

lemma reach_scheduled:
  assumes "operator_reach k lib px bk vw s" "vwConfigs vw = cfgs"
  shows "scheduled cfgs s n"
  using assms(1)
proof (induction rule: operator_reach.induct)
  case (install w)
  then have "cfgs w n = None" using assms(2) by metis
  then show ?case by (simp add: scheduled_def)
next
  case (run s s')
  from run.hyps(2) run_scheduled [OF run.IH] show ?case by (auto elim!: run_stepE)
next
  case (outside s s')
  from outside.hyps(2) benign_scheduled [OF outside.IH] assms(2) show ?case by (auto elim!: outside_stepE)
next
  case (restart s w')
  with assms(2) enqueue_listed show ?case by (simp add: scheduled_def)
qed

end

end
