(* ===== verification/DaemonWorld.thy ===== *)
theory DaemonWorld
  imports DaemonBackend ConfigWorld
begin

text \<open>
  The properties of the vrouter-daemon backend: what one operator process promises about its
  handles, what a restart does to the promise, and the deadline of the background call.
\<close>

text \<open>
  C35. Within one operator process the registry is reliable: the handles it hands out are
  positive and never repeated, and a dispatched handle is in one of three phases, which a
  poll tells apart: no result yet and the poll says running; exactly one result, not
  delivered yet, and the poll delivers it; or the result was delivered exactly once, and the
  poll reports a lost result. A handle that was not dispatched has no result.
\<close>

theorem daemon_result_delivered_once:
  assumes "reg_run es s"
  shows "distinct (dispatches es) \<and> (\<forall>h \<in> set (dispatches es). 0 < h) \<and>
    (h \<notin> set (dispatches es) \<longrightarrow> results h es = [] \<and> deliveries h es = []) \<and>
    (h \<in> set (dispatches es) \<longrightarrow>
       fst (pollExec h s) = Inr stillRunning \<and> results h es = [] \<and> deliveries h es = [] \<or>
       results h es = [fst (pollExec h s)] \<and> deliveries h es = [] \<or>
       (\<exists>r e. results h es = [r] \<and> deliveries h es = [r] \<and> fst (pollExec h s) = Inl e \<and>
          errors_Is e ErrExecResultLost))"
proof -
  note inv = reg_inv_run [OF assms, unfolded reg_inv_def]
  have "h \<in> set (dispatches es) \<Longrightarrow>
       fst (pollExec h s) = Inr stillRunning \<and> results h es = [] \<and> deliveries h es = [] \<or>
       results h es = [fst (pollExec h s)] \<and> deliveries h es = [] \<or>
       (\<exists>r e. results h es = [r] \<and> deliveries h es = [r] \<and> fst (pollExec h s) = Inl e \<and>
          errors_Is e ErrExecResultLost)"
    using inv [THEN conjunct2, THEN conjunct2, rule_format, of h]
    by (auto simp: remembers_def pollExec_def length_Suc_conv split: option.splits execEntry.splits)
  with inv remembers_fresh(2,3) show ?thesis by metis
qed

text \<open>
  C37. The promise does not survive a restart of the operator: the new process hands out the
  handle 1 again. If that goes to some other apply which then succeeds, a configuration that
  recorded the handle 1 before the restart takes that result for its own: its next recorded
  poll makes it \<open>Applied\<close>, with the condition \<open>Applied=True\<close> for its observed generation,
  although its own script need not have run.
\<close>

theorem foreign_result_after_restart:
  assumes "config_runtime k cfgs bk" "cfgs w (cfg_key a) = Some a" "ExecPID (cfgStatus a) = 1"
    and "registry ctl w = completeExec 1 (Inr resp) (snd (dispatchExec other config commands freshProcess))"
    and "\<And>s v. cfgs (setRegistry ctl s v) = cfgs v"
    and "applyResult (Inr resp) = Inr st" "applySucceeded st"
    and "pollExecStatus k a (daemonBackend ctl own) w = (r, None, w')"
  shows "fst (dispatchExec other config commands freshProcess) = 1 \<and>
    (\<exists>a'. cfgs w' (cfg_key a) = Some a' \<and> cfgPhase (cfgStatus a') = PhaseApplied \<and>
       aApplied (abs_status (cfgStatus a')) = Some (ConditionTrue, ObservedGeneration (cfgStatus a)))"
proof -
  obtain s1 where p: "pollExec 1 (registry ctl w) = (Inr st, s1)"
    using assms(6) by (simp add: assms(4) dispatchExec_def completeExec_def pollExec_def freshProcess_def Let_def)
  have "Exited st" using assms(6) by (auto simp: applyResult_def)
  with p assms(3,8) have "finishExec k a st (setRegistry ctl s1 w) = (r, None, w')"
    by (simp add: pollExecStatus_def daemonBackend_def daemon_GetExecStatus_def)
  from finishExec_result [OF assms(1) _ this] assms(2,5,7) show ?thesis
    by (auto simp: dispatchExec_def freshProcess_def Let_def)
qed

text \<open>What a recorded dispatch leaves in the store.\<close>

lemma applyConfig_recorded:
  assumes "config_runtime k cfgs bk" "provider_frames cfgs prov"
    and "cfgs w (cfg_key cfg) = Some cfg" "applyConfig k cfg prov reboot w = (r, None, w')"
  shows "\<exists>pid w1 st c1. ExecScript prov (cfgConfig (cfgSpec cfg)) (cfgCommands (cfgSpec cfg))
      (BoolValue (cfgSave (cfgSpec cfg)) True) w = (Inr pid, w1) \<and>
    patchConfigStatus k cfg (cfg\<lparr>cfgStatus := st\<rparr>) w1 = (Inr c1, w') \<and>
    cfgs w' (cfg_key cfg) = Some (patched cfg (cfg\<lparr>cfgStatus := st\<rparr>)) \<and>
    ExecPID st = pid \<and> ObservedGeneration st = cfg_generation cfg"
proof -
  obtain pid w1 where pid: "ExecScript prov (cfgConfig (cfgSpec cfg)) (cfgCommands (cfgSpec cfg))
      (BoolValue (cfgSave (cfgSpec cfg)) True) w = (Inr pid, w1)"
    using assms(4) by (auto simp: applyConfig_def split: prod.splits sum.splits)
  have w1: "cfgs w1 (cfg_key cfg) = Some cfg"
    using provider_framesD(3) [OF assms(2) pid] assms(3) by simp
  obtain st where st: "finishPatch k cfg st (requeueIn requeueAfter) w1 = (r, None, w')"
    "ExecPID st = pid" "ObservedGeneration st = cfg_generation cfg"
    using assms(4) pid by (auto simp: applyConfig_def Let_def config_runtime.setApplied_fields [OF assms(1)])
  from st(1) obtain c1 where "patchConfigStatus k cfg (cfg\<lparr>cfgStatus := st\<rparr>) w1 = (Inr c1, w')"
    by (auto simp: finishPatch_def split: prod.splits sum.splits)
  with pid st config_runtime.finishPatch_result(1) [OF assms(1) w1 st(1)] show ?thesis by auto
qed

text \<open>
  C6. End to end through the daemon: when a dispatch is recorded, the handle in the status is
  that of a background call which sends the configuration and the commands of the spec to the
  agent of the target with its timeout. After that call ended with a response, the next
  recorded poll releases the handle and makes the configuration \<open>Applied\<close> or \<open>Failed\<close> by the
  exit code and the output in that response, for the generation that was dispatched. The
  environment in between leaves alone the registry and the object.
\<close>

theorem daemon_apply_end_to_end:
  assumes "config_runtime k cfgs bk" "control_channel ctl cfgs" "daemonNew ctl dcfg w0 = Inr (daemonBackend ctl dp)"
    and "\<forall>a b u x u'. patchConfigStatus k a b u = (x, u') \<longrightarrow> registry ctl u' = registry ctl u"
    and "cfgs w (cfg_key cfg) = Some cfg"
    and "applyConfig k cfg (daemonBackend ctl dp) reboot w = (r, None, w1)"
    and "cfgs w1 (cfg_key cfg) = Some c1" "cfgs v (cfg_key cfg) = Some c1"
    and "registry ctl v = registry ctl w1"
    and "fst (ApplyConfigCall ctl
           \<lparr>arConn = dpConn dp, arAgentID = dpAgentID dp,
            arPayload = \<lparr>plConfig = cfgConfig (cfgSpec cfg), plCommands = cfgCommands (cfgSpec cfg)\<rparr>,
            arTimeoutSeconds = dpTimeoutSeconds dp,
            arDeadlineSeconds = applyDeadline (dpTimeoutSeconds dp)\<rparr> v) = Inr resp"
    and "applyResult (Inr resp) = Inr st"
    and "pollExecStatus k c1 (daemonBackend ctl dp) (runApply ctl (ExecPID (cfgStatus c1)) v) = (r2, None, w2)"
  shows "0 < ExecPID (cfgStatus c1) \<and>
    (\<exists>c2. cfgs w2 (cfg_key cfg) = Some c2 \<and> ExecPID (cfgStatus c2) = 0 \<and>
       cfgPhase (cfgStatus c2) = (if applySucceeded st then PhaseApplied else PhaseFailed) \<and>
       aApplied (abs_status (cfgStatus c2)) =
         Some (if applySucceeded st then ConditionTrue else ConditionFalse, cfg_generation cfg))"
proof -
  let ?prov = "daemonBackend ctl dp"
  note frames = control_channel.daemon_frames [OF assms(2,3)]
  obtain h w0 cst where disp: "daemon_ExecScript ctl dp (cfgConfig (cfgSpec cfg)) (cfgCommands (cfgSpec cfg))
      (BoolValue (cfgSave (cfgSpec cfg)) True) w = (Inr h, w0)"
    and reg: "registry ctl w1 = registry ctl w0"
    and c1: "c1 = patched cfg (cfg\<lparr>cfgStatus := cst\<rparr>)" "ExecPID cst = h" "ObservedGeneration cst = cfg_generation cfg"
    using applyConfig_recorded [OF assms(1) frames assms(5,6)] assms(4,7)
    by (fastforce simp: daemonBackend_def)
  have h: "0 < h" by (rule control_channel.daemon_handle [OF assms(2) disp])
  have c1': "ExecPID (cfgStatus c1) = h" "ObservedGeneration (cfgStatus c1) = cfg_generation cfg" "cfg_key c1 = cfg_key cfg"
    using c1 by simp_all
  let ?u = "runApply ctl h v"
  obtain w3 where got: "daemon_GetExecStatus ctl h ?u = (Inr st, w3)"
    using control_channel.daemon_exec_cycle [OF assms(2) disp, of v] assms(9-11) reg
    by (cases "daemon_GetExecStatus ctl h ?u") auto
  then have get: "GetExecStatus ?prov (ExecPID (cfgStatus c1)) ?u = (Inr st, w3)" "Exited st"
    using assms(11) c1' by (auto simp: daemonBackend_def applyResult_def)
  have "cfgs w3 (cfg_key c1) = Some c1"
    using provider_framesD(4) [OF frames get(1)] control_channel.runApply_frame [OF assms(2)] assms(8) c1' by simp
  moreover have "finishExec k c1 st w3 = (r2, None, w2)"
    using assms(12) get c1' by (simp add: pollExecStatus_def)
  ultimately show ?thesis
    using finishExec_result [OF assms(1), of w3 c1 st r2 w2] h c1' by auto
qed

text \<open>
  The deadline of the background call: for timeouts up to 2147483637 seconds it lies ten
  seconds after the timeout the agent is given; for the larger ones a 32-bit field admits,
  the sum wraps around, the deadline lies in the past and the call cannot succeed.
\<close>

theorem daemon_deadline_wraps:
  assumes "1 \<le> t" "t < 2 ^ 31"
  shows "applyDeadline t = (if t \<le> 2147483637 then t + 10 else t + 10 - 2 ^ 32)"
proof -
  have w: "word_of_int t + 10 = (word_of_int (t + 10) :: 32 word)" by simp
  let ?x = "t + 10 + 2147483648"
  have m: "applyDeadline t = ?x mod 4294967296 - 2147483648"
    unfolding applyDeadline_def w int_word_sint by simp
  have "?x mod 4294967296 = (if t \<le> 2147483637 then ?x else ?x - 4294967296)"
  proof (cases "t \<le> 2147483637")
    case True
    with assms show ?thesis by (simp add: mod_pos_pos_trivial)
  next
    case False
    have "?x mod 4294967296 = (?x - 4294967296) mod 4294967296" by (rule minus_mod_self2 [symmetric])
    also have "\<dots> = ?x - 4294967296" using False assms by (intro mod_pos_pos_trivial) simp_all
    finally show ?thesis using False by simp
  qed
  with m show ?thesis by simp
qed

section \<open>Witnesses\<close>

text \<open>Two execs; the first has ended and its result was delivered.\<close>

definition sampleRouter :: daemonProvider where
  "sampleRouter = \<lparr>dpConn = 1, dpAgentID = ''r1'', dpTimeoutSeconds = 60\<rparr>"

definition okResponse :: ApplyConfigResponse where
  "okResponse = \<lparr>rsExitCode = 0, rsStdout = ''ok'', rsStderr = [], rsErrorMessage = []\<rparr>"

definition twoPending :: daemon_state where
  "twoPending =
     snd (dispatchExec sampleRouter ''b'' [] (snd (dispatchExec sampleRouter ''a'' [] freshProcess)))"

definition firstDone :: daemon_state where
  "firstDone = completeExec 1 (Inr okResponse) twoPending"

definition firstDelivered :: daemon_state where
  "firstDelivered = snd (pollExec 1 firstDone)"

lemma sampleRegistry_run:
  "reg_run [Delivered 1 (applyResult (Inr okResponse)), Complete 1 (Inr okResponse), Dispatch 2, Dispatch 1]
     firstDelivered"
proof (intro reg_run.step reg_run.start)
  let ?s1 = "snd (dispatchExec sampleRouter ''a'' [] freshProcess)"
  show "reg_step freshProcess (Dispatch 1) ?s1"
    by (rule reg_step.dispatch [where dp = sampleRouter and config = "''a''" and commands = "[]"])
      (simp add: dispatchExec_def freshProcess_def Let_def)
  show "reg_step ?s1 (Dispatch 2) twoPending"
    by (rule reg_step.dispatch [where dp = sampleRouter and config = "''b''" and commands = "[]"])
      (simp add: twoPending_def dispatchExec_def freshProcess_def Let_def)
  have pending: "\<exists>req. execMap twoPending 1 = Some (Pending req)"
    by (simp add: twoPending_def dispatchExec_def freshProcess_def Let_def)
  then show "reg_step twoPending (Complete 1 (Inr okResponse)) firstDone"
    unfolding firstDone_def by (auto intro: reg_step.complete)
  have ended: "execMap firstDone 1 = Some (Done (applyResult (Inr okResponse)))"
    using pending by (auto simp: firstDone_def completeExec_def)
  then show "reg_step firstDone (Delivered 1 (applyResult (Inr okResponse))) firstDelivered"
    by (rule reg_step.delivered) (simp add: pollExec_def ended firstDelivered_def)
qed (rule reg_run.start)

theorem daemon_result_delivered_once_witness:
  "(\<exists>e. fst (pollExec 1 firstDelivered) = Inl e \<and> errors_Is e ErrExecResultLost) \<and>
   fst (pollExec 2 firstDelivered) = Inr stillRunning"
  using daemon_result_delivered_once [OF sampleRegistry_run, of 1]
    daemon_result_delivered_once [OF sampleRegistry_run, of 2]
  by auto

text \<open>
  The operator was restarted while an apply of the sample configuration was running; the
  handle 1 of the new process belongs to the apply of another router, which has succeeded.
\<close>

definition memControl :: "mem_world control" where
  "memControl =
     \<lparr>IsConnected = (\<lambda>c a w. (Inr (mwRunning w), w)), ApplyConfigCall = (\<lambda>req w. (Inr okResponse, w)),
      dialAddr = (\<lambda>a. Inr 1), registry = mwRegistry, setRegistry = (\<lambda>s w. w\<lparr>mwRegistry := s\<rparr>)\<rparr>"

definition otherRouter :: daemonProvider where
  "otherRouter = \<lparr>dpConn = 1, dpAgentID = ''r2'', dpTimeoutSeconds = 60\<rparr>"

definition sampleRestarted :: mem_world where
  "sampleRestarted =
     sampleWorld\<lparr>mwConfigs := [(sampleKey ''b.r1'', (sampleConfig ''b.r1'' ''r1'' ''system {}'')
         \<lparr>cfgStatus := emptyConfigStatus\<lparr>cfgPhase := PhaseApplying, ExecPID := 1, ObservedGeneration := 1\<rparr>\<rparr>)],
       mwRegistry := completeExec 1 (Inr okResponse) (snd (dispatchExec otherRouter ''x'' [] freshProcess))\<rparr>"

theorem foreign_result_after_restart_witness:
  "\<exists>a'. memConfig (world_of (pollExecStatus memKube (storedConfig sampleRestarted)
          (daemonBackend memControl sampleRouter) sampleRestarted)) (sampleKey ''b.r1'') = Some a' \<and>
        cfgPhase (cfgStatus a') = PhaseApplied"
proof -
  let ?out = "pollExecStatus memKube (storedConfig sampleRestarted) (daemonBackend memControl sampleRouter)
    sampleRestarted"
  have "error_of ?out = None" by code_simp
  note out = outcome_ok [OF this]
  have a: "memConfig sampleRestarted (sampleKey ''b.r1'') = Some (storedConfig sampleRestarted)"
    by (simp add: storedConfig_def sampleRestarted_def memConfig_def)
  note key = memConfig_form(1) [OF a]
  have pid: "ExecPID (cfgStatus (storedConfig sampleRestarted)) = 1"
    by code_simp
  have result: "applyResult (Inr okResponse) = Inr (exitedWith 0 ''ok'')"
    by (simp add: applyResult_def okResponse_def exitedWith_def)
  have ok: "applySucceeded (exitedWith 0 ''ok'')" by code_simp
  have other: "registry memControl sampleRestarted =
      completeExec 1 (Inr okResponse) (snd (dispatchExec otherRouter ''x'' [] freshProcess))"
    by (simp add: memControl_def sampleRestarted_def)
  have "memConfig (setRegistry memControl s v) = memConfig v" for s v
    by (rule ext) (simp add: memControl_def memConfig_def)
  from foreign_result_after_restart [OF mem_runtime.config_runtime_axioms a [folded key] pid other this
      result ok out] key
  show ?thesis by auto
qed

theorem daemon_deadline_wraps_witness:
  "applyDeadline 2147483640 = - 2147483646 \<and> applyDeadline 60 = 70"
  using daemon_deadline_wraps [of 2147483640] daemon_deadline_wraps [of 60] by simp

text \<open>The sample configuration through the daemon, from the dispatch to the verdict.\<close>

interpretation mem_control: control_channel memControl memConfig
  by unfold_locales (auto simp: memControl_def memConfig_def fun_eq_iff)

lemma memPatchConfig_registry:
  "patchConfigStatus memKube a b u = (x, u') \<Longrightarrow> mwRegistry u' = mwRegistry u"
  by (auto simp: memPatchConfig_def putConfig_def Let_def split: if_splits option.splits)

definition sampleDispatched :: mem_world where
  "sampleDispatched =
     world_of (applyConfig memKube (storedConfig sampleWorld) (daemonBackend memControl sampleRouter) None sampleWorld)"

definition sampleAnswered :: mem_world where
  "sampleAnswered = runApply memControl (ExecPID (cfgStatus (storedConfig sampleDispatched))) sampleDispatched"

theorem daemon_apply_end_to_end_witness:
  "\<exists>c2. memConfig (world_of (pollExecStatus memKube (storedConfig sampleDispatched)
          (daemonBackend memControl sampleRouter) sampleAnswered)) (sampleKey ''b.r1'') = Some c2 \<and>
        cfgPhase (cfgStatus c2) = PhaseApplied \<and>
        aApplied (abs_status (cfgStatus c2)) = Some (ConditionTrue, cfg_generation (storedConfig sampleWorld))"
proof -
  let ?d = "\<lparr>daemonAddress = ''vrouterd:9090'', daemonAgentID = ''r1'', daemonTimeoutSeconds = 0\<rparr>"
  let ?out = "applyConfig memKube (storedConfig sampleWorld) (daemonBackend memControl sampleRouter) None sampleWorld"
  let ?poll = "pollExecStatus memKube (storedConfig sampleDispatched) (daemonBackend memControl sampleRouter) sampleAnswered"
  have new: "daemonNew memControl ?d w = Inr (daemonBackend memControl sampleRouter)" for w
    by (simp add: daemonNew_def newDaemonProvider_def getConn_def memControl_def sampleRouter_def)
  have "error_of ?out = None" by code_simp
  note out = outcome_ok [OF this, folded sampleDispatched_def]
  have "error_of ?poll = None" by code_simp
  note poll = outcome_ok [OF this, unfolded sampleAnswered_def]
  have "memConfig sampleDispatched (sampleKey ''b.r1'') \<noteq> None" by code_simp
  then have c1: "memConfig sampleDispatched (sampleKey ''b.r1'') = Some (storedConfig sampleDispatched)"
    by (auto simp: storedConfig_def)
  have result: "applyResult (Inr okResponse) = Inr (exitedWith 0 ''ok'')"
    by (simp add: applyResult_def okResponse_def exitedWith_def)
  have ok: "applySucceeded (exitedWith 0 ''ok'')" by code_simp
  have reg: "\<forall>a b u x u'. patchConfigStatus memKube a b u = (x, u') \<longrightarrow>
      registry memControl u' = registry memControl u"
    using memPatchConfig_registry by (simp add: memControl_def)
  have call: "fst (ApplyConfigCall memControl req v) = Inr okResponse" for req v
    by (simp add: memControl_def)
  note key = memFresh_sample(2)
  from daemon_apply_end_to_end [OF mem_runtime.config_runtime_axioms mem_control.control_channel_axioms new reg
      memFresh_sample(1) [folded key] out c1 [folded key] c1 [folded key] refl call result poll]
    ok key show ?thesis by (auto simp: sampleAnswered_def)
qed

end
