(* ===== verification/Base64.thy ===== *)
theory Base64
  imports Prelude
begin

text \<open>
  \<open>base64.StdEncoding\<close> of the Go standard library, which the backends use on the wire to the
  guest agent: \<open>EncodeToString\<close>, and \<open>DecodeString\<close> with the bytes it returns besides an
  error (a quantum at a time; line breaks are skipped, padding is required, nothing may
  follow it). The lemmas show that decoding gives back what was encoded.
\<close>

section \<open>Digits\<close>

definition b64_char :: "nat \<Rightarrow> char" where
  "b64_char n =
     char_of (if n < 26 then n + 65 else if n < 52 then n + 71 else if n < 62 then n - 4
              else if n = 62 then 43 else 47 :: nat)"

definition b64_value :: "char \<Rightarrow> nat option" where
  "b64_value c =
     (let n = of_char c :: nat in
      if 65 \<le> n \<and> n \<le> 90 then Some (n - 65)
      else if 97 \<le> n \<and> n \<le> 122 then Some (n - 71)
      else if 48 \<le> n \<and> n \<le> 57 then Some (n + 4)
      else if n = 43 then Some 62 else if n = 47 then Some 63 else None)"

abbreviation pad :: char where "pad \<equiv> CHR ''=''"

definition line_break :: "char \<Rightarrow> bool" where
  "line_break c \<longleftrightarrow> c = CHR 0x0A \<or> c = CHR 0x0D"

lemma b64_value_char [simp]: "n < 64 \<Longrightarrow> b64_value (b64_char n) = Some n"
  by (auto simp: b64_char_def b64_value_def Let_def)

lemma b64_char_plain: "n < 64 \<Longrightarrow> b64_char n \<noteq> pad \<and> \<not> line_break (b64_char n)"
proof
  assume n: "n < 64"
  then show "b64_char n \<noteq> pad" using b64_value_char [OF n] by (auto simp: b64_value_def)
  show "\<not> line_break (b64_char n)" using b64_value_char [OF n] by (auto simp: b64_value_def line_break_def)
qed

section \<open>Encoding\<close>

fun base64Encode :: "string \<Rightarrow> string" where
  "base64Encode [] = []"
| "base64Encode [x] =
     (let a = of_char x :: nat in [b64_char (a div 4), b64_char (a mod 4 * 16), pad, pad])"
| "base64Encode [x, y] =
     (let a = of_char x :: nat; b = of_char y in
      [b64_char (a div 4), b64_char (a mod 4 * 16 + b div 16), b64_char (b mod 16 * 4), pad])"
| "base64Encode (x # y # z # s) =
     (let a = of_char x :: nat; b = of_char y; c = of_char z in
      b64_char (a div 4) # b64_char (a mod 4 * 16 + b div 16) # b64_char (b mod 16 * 4 + c div 64) #
      b64_char (c mod 64) # base64Encode s)"

section \<open>Decoding\<close>

text \<open>The bytes of two, three or four digits.\<close>

fun quantum_bytes :: "nat list \<Rightarrow> string" where
  "quantum_bytes [a, b] = [char_of (a * 4 + b div 16)]"
| "quantum_bytes [a, b, c] = [char_of (a * 4 + b div 16), char_of (b mod 16 * 16 + c div 4)]"
| "quantum_bytes [a, b, c, d] =
     [char_of (a * 4 + b div 16), char_of (b mod 16 * 16 + c div 4), char_of (c mod 4 * 64 + d)]"
| "quantum_bytes _ = []"

text \<open>
  \<open>decodeQuantum\<close>: the end of the input, the bytes with the rest of the input, or an error
  with the bytes that are kept.
\<close>

datatype quantum = QEnd | QBytes string string | QError string

definition padded :: "nat list \<Rightarrow> string \<Rightarrow> quantum" where
  "padded acc s =
     (if dropWhile line_break s = [] then QBytes (quantum_bytes acc) [] else QError (quantum_bytes acc))"

fun decodeQuantum :: "nat list \<Rightarrow> string \<Rightarrow> quantum" where
  "decodeQuantum acc [] = (if acc = [] then QEnd else QError [])"
| "decodeQuantum acc (c # s) =
     (case b64_value c of
        Some v \<Rightarrow>
          if length acc = 3 then QBytes (quantum_bytes (acc @ [v])) s else decodeQuantum (acc @ [v]) s
      | None \<Rightarrow>
          if line_break c then decodeQuantum acc s
          else if c \<noteq> pad \<or> length acc < 2 then QError []
          else if length acc = 2 then
            (case dropWhile line_break s of
               [] \<Rightarrow> QError []
             | d # s1 \<Rightarrow> if d = pad then padded acc s1 else QError [])
          else padded acc s)"

lemma decodeQuantum_shorter: "decodeQuantum acc s = QBytes bs r \<Longrightarrow> length r < length s"
proof (induction acc s rule: decodeQuantum.induct)
  case (2 acc c s)
  have "padded a t = QBytes bs r \<Longrightarrow> r = []" for a t by (auto simp: padded_def split: if_splits)
  with 2 show ?case by (fastforce split: option.splits if_splits list.splits)
qed (simp split: if_splits)

function base64Decode :: "string \<Rightarrow> string \<times> gerror option" where
  "base64Decode s =
     (case decodeQuantum [] s of
        QEnd \<Rightarrow> ([], None)
      | QError bs \<Rightarrow> (bs, Some (ErrMsg ''illegal base64 data''))
      | QBytes bs r \<Rightarrow> (case base64Decode r of (rest, err) \<Rightarrow> (bs @ rest, err)))"
  by pat_completeness auto
termination by (relation "measure length") (auto dest: decodeQuantum_shorter)

declare base64Decode.simps [simp del]

section \<open>Round trip\<close>

lemma pad_facts [simp]: "b64_value pad = None" "\<not> line_break pad"
  by (simp_all add: b64_value_def line_break_def)

lemma sextets:
  fixes a b c :: nat
  assumes "a < 256" "b < 256" "c < 256"
  shows "a div 4 < 64" "a mod 4 * 16 + b div 16 < 64" "b mod 16 * 4 + c div 64 < 64" "c mod 64 < 64"
    "(a mod 4 * 16 + b div 16) div 16 = a mod 4" "(a mod 4 * 16 + b div 16) mod 16 = b div 16"
    "(b mod 16 * 4 + c div 64) div 4 = b mod 16" "(b mod 16 * 4 + c div 64) mod 4 = c div 64"
  using assms by auto

lemma decodeQuantum_full:
  assumes "p < 64" "q < 64" "r < 64" "u < 64"
  shows "decodeQuantum [] (b64_char p # b64_char q # b64_char r # b64_char u # s) =
    QBytes (quantum_bytes [p, q, r, u]) s"
  using assms by simp

lemma decodeQuantum_padded:
  assumes "p < 64" "q < 64" "r < 64"
  shows "decodeQuantum [] [b64_char p, b64_char q, b64_char r, pad] = QBytes (quantum_bytes [p, q, r]) []"
    "decodeQuantum [] [b64_char p, b64_char q, pad, pad] = QBytes (quantum_bytes [p, q]) []"
  using assms by (simp_all add: padded_def)

lemma base64Decode_nil [simp]: "base64Decode [] = ([], None)"
  by (simp add: base64Decode.simps)

lemma byte_char: "char_of (of_char x :: nat) = x"
  by simp

lemma base64_round_trip: "base64Decode (base64Encode s) = (s, None)"
proof (induction s rule: base64Encode.induct)
  case 1
  show ?case by simp
next
  case (2 x)
  note S = sextets [OF of_char_bound [of x] of_char_bound [of "CHR 0x00"] of_char_bound [of "CHR 0x00"]]
  show ?case
    using S by (simp add: base64Decode.simps [of "_ # _"] decodeQuantum_padded Let_def del: decodeQuantum.simps)
next
  case (3 x y)
  note S = sextets [OF of_char_bound [of x] of_char_bound [of y] of_char_bound [of "CHR 0x00"]]
  show ?case
    using S by (simp add: base64Decode.simps [of "_ # _"] decodeQuantum_padded Let_def del: decodeQuantum.simps)
next
  case (4 x y z s)
  note S = sextets [OF of_char_bound [of x] of_char_bound [of y] of_char_bound [of z]]
  show ?case
    using S 4 by (simp add: base64Decode.simps [of "_ # _"] decodeQuantum_full Let_def del: decodeQuantum.simps)
qed

end
