(* ===== verification/KubevirtBackend.thy ===== *)
theory KubevirtBackend
  imports Provider Qga Base64
begin

text \<open>
  The KubeVirt backend (\<open>internal/provider/kubevirt/provider.go\<close>) and the guest agent
  commands (\<open>internal/provider/qga/constants.go\<close>). The cluster API, the SPDY stream into the
  virt-launcher pod, the JSON decoders and \<open>crypto/rand\<close> are the record \<open>virt\<close>, an argument
  of the operations. The source polls a guest process until it exits or the context is done;
  \<open>ctxRounds\<close> says how often the half-second timer wins against the context, so the model
  covers every number of polls (the source itself has no bound).
\<close>

section \<open>Guest agent commands\<close>

definition CmdPing :: string where "CmdPing = ''{\"execute\":\"guest-ping\"}''"

definition CmdFileOpen :: "string \<Rightarrow> string" where
  "CmdFileOpen path =
     ''{\"execute\":\"guest-file-open\",\"arguments\":{\"path\":'' @ quoted path @ '',\"mode\":\"w\"}}''"

definition CmdFileWrite :: "int \<Rightarrow> string \<Rightarrow> string" where
  "CmdFileWrite handle b64 =
     ''{\"execute\":\"guest-file-write\",\"arguments\":{\"handle\":'' @ decimal handle @
     '',\"buf-b64\":'' @ quoted b64 @ ''}}''"

definition CmdFileClose :: "int \<Rightarrow> string" where
  "CmdFileClose handle =
     ''{\"execute\":\"guest-file-close\",\"arguments\":{\"handle\":'' @ decimal handle @ ''}}''"

definition CmdExecServiceSubState :: "string \<Rightarrow> string" where
  "CmdExecServiceSubState unit =
     ''{\"execute\":\"guest-exec\",\"arguments\":{\"path\":\"/usr/bin/systemctl\",\"arg\":'' @
     ''[\"show\",\"-p\",\"SubState\",\"--value\",'' @ quoted unit @ ''],\"capture-output\":true}}''"

definition CmdExecScript :: "string \<Rightarrow> string" where
  "CmdExecScript path =
     ''{\"execute\":\"guest-exec\",\"arguments\":{\"path\":\"/bin/vbash\",\"arg\":['' @ quoted path @
     ''],\"capture-output\":true}}''"

definition CmdExecOSRelease :: string where
  "CmdExecOSRelease =
     ''{\"execute\":\"guest-exec\",\"arguments\":{\"path\":\"/bin/cat\",\"arg\":[\"/etc/os-release\"],'' @
     ''\"capture-output\":true}}''"

definition CmdExecStatus :: "int \<Rightarrow> string" where
  "CmdExecStatus pid = ''{\"execute\":\"guest-exec-status\",\"arguments\":{\"pid\":'' @ decimal pid @ ''}}''"

definition VyOSService :: string where "VyOSService = ''vyos-router.service''"
definition ScriptPath :: string where "ScriptPath = ''/tmp/vrouter-apply.sh''"

section \<open>The interface\<close>

record qga_status =
  qsExited :: bool
  qsExitCode :: int
  qsOutData :: string
  qsErrData :: string

record 'w virt =
  getVMI :: "nname \<Rightarrow> 'w \<Rightarrow> api_error + string"
  listPods :: "string option \<Rightarrow> (string \<times> string) list \<Rightarrow> 'w \<Rightarrow> api_error + nname list"
  newClientset :: "gerror option"
  newSPDYExecutor :: "nname \<Rightarrow> string \<Rightarrow> string list \<Rightarrow> gerror option"
  stream :: "nname \<Rightarrow> string \<Rightarrow> string list \<Rightarrow> 'w \<Rightarrow> (string \<times> string \<times> gerror option) \<times> 'w"
  decodeQGAError :: "string \<Rightarrow> gerror + string option"
  decodeGuestPID :: "string \<Rightarrow> gerror + int"
  decodeGuestHandle :: "string \<Rightarrow> gerror + int"
  decodeGuestStatus :: "string \<Rightarrow> gerror + qga_status"
  cryptoRand :: "'w \<Rightarrow> nat \<Rightarrow> nat \<Rightarrow> gerror + string"
  ctxRounds :: nat
  ctxErr :: gerror
  halfSecond :: "'w \<Rightarrow> 'w"

text \<open>The virtual machine a provider is bound to.\<close>

record kvMachine =
  vmName :: string
  vmNamespace :: string

section \<open>Talking to the guest agent\<close>

definition findVirtLauncherPod :: "'w virt \<Rightarrow> kvMachine \<Rightarrow> 'w \<Rightarrow> gerror + nname" where
  "findVirtLauncherPod v vm w =
     (case listPods v (if vmNamespace vm \<noteq> [] then Some (vmNamespace vm) else None)
             [(''vm.kubevirt.io/name'', vmName vm)] w of
        Inl e \<Rightarrow> Inl (Wrapped ''list virt-launcher pods'' (ApiError e))
      | Inr [] \<Rightarrow> Inl (ErrMsg (''no virt-launcher pod found for VM '' @ quoted (vmName vm) @
                   '' (namespace: '' @ quoted (vmNamespace vm) @ '')''))
      | Inr (pod # _) \<Rightarrow> Inr pod)"

definition execInPod ::
  "'w virt \<Rightarrow> nname \<Rightarrow> string \<Rightarrow> string list \<Rightarrow> 'w \<Rightarrow> (string \<times> string \<times> gerror option) \<times> 'w" where
  "execInPod v pod container command w =
     (case newSPDYExecutor v pod container command of
        Some e \<Rightarrow> (([], [], Some (Wrapped ''SPDY executor'' e)), w)
      | None \<Rightarrow> stream v pod container command w)"

definition runQGA :: "'w virt \<Rightarrow> kvMachine \<Rightarrow> string \<Rightarrow> 'w \<Rightarrow> (gerror + string) \<times> 'w" where
  "runQGA v vm agentCmd w =
     (case findVirtLauncherPod v vm w of
        Inl e \<Rightarrow> (Inl e, w)
      | Inr pod \<Rightarrow>
          (case execInPod v pod ''compute''
                  [''virsh'', ''qemu-agent-command'', vmNamespace vm @ ''_'' @ vmName vm, agentCmd] w of
             ((out, err, Some e), w1) \<Rightarrow> (Inl (Wrapped (''virsh exec failed (stderr: '' @ err @ '')'') e), w1)
           | ((out, err, None), w1) \<Rightarrow>
               (case decodeQGAError v out of
                  Inr (Some desc) \<Rightarrow> (Inl (ErrMsg (''QGA error: '' @ desc)), w1)
                | _ \<Rightarrow> (Inr out, w1))))"

definition decodeBase64OrEmpty :: "string \<Rightarrow> string \<times> gerror option" where
  "decodeBase64OrEmpty s = (if s = [] then ([], None) else base64Decode s)"

text \<open>One turn of the polling loop: an answer, or None while the process runs.\<close>

definition pollCapture :: "'w virt \<Rightarrow> kvMachine \<Rightarrow> int \<Rightarrow> 'w \<Rightarrow> (gerror + string) option \<times> 'w" where
  "pollCapture v vm pid w =
     (case runQGA v vm (CmdExecStatus pid) w of
        (Inl e, w1) \<Rightarrow> (Some (Inl (Wrapped ''guest-exec-status'' e)), w1)
      | (Inr resp, w1) \<Rightarrow>
          (case decodeGuestStatus v resp of
             Inl e \<Rightarrow> (Some (Inl (Wrapped ''guest-exec-status parse'' e)), w1)
           | Inr st \<Rightarrow>
               if \<not> qsExited st then (None, w1)
               else if qsExitCode st \<noteq> 0
               then (Some (Inl (ErrMsg (''guest-exec exited non-zero (exitCode='' @
                       decimal (qsExitCode st) @ '')''))), w1)
               else (case decodeBase64OrEmpty (qsOutData st) of
                       (out, None) \<Rightarrow> (Some (Inr out), w1)
                     | (out, Some e) \<Rightarrow> (Some (Inl e), w1))))"

fun captureLoop :: "'w virt \<Rightarrow> kvMachine \<Rightarrow> int \<Rightarrow> nat \<Rightarrow> 'w \<Rightarrow> (gerror + string) \<times> 'w" where
  "captureLoop v vm pid rounds w =
     (case pollCapture v vm pid w of
        (Some r, w1) \<Rightarrow> (r, w1)
      | (None, w1) \<Rightarrow>
          (case rounds of 0 \<Rightarrow> (Inl (ctxErr v), w1) | Suc n \<Rightarrow> captureLoop v vm pid n (halfSecond v w1)))"

declare captureLoop.simps [simp del]

definition runGuestExecCapture :: "'w virt \<Rightarrow> kvMachine \<Rightarrow> string \<Rightarrow> 'w \<Rightarrow> (gerror + string) \<times> 'w" where
  "runGuestExecCapture v vm execCmd w =
     (case runQGA v vm execCmd w of
        (Inl e, w1) \<Rightarrow> (Inl e, w1)
      | (Inr resp, w1) \<Rightarrow>
          (case decodeGuestPID v resp of
             Inl e \<Rightarrow> (Inl (Wrapped ''guest-exec parse'' e), w1)
           | Inr pid \<Rightarrow> captureLoop v vm pid (ctxRounds v) w1))"

section \<open>The guest's flavor\<close>

text \<open>\<open>strings.Trim\<close> with a cutset of the two quotation marks.\<close>

definition is_quote :: "char \<Rightarrow> bool" where
  "is_quote c \<longleftrightarrow> c = CHR 0x22 \<or> c = CHR 0x27"

definition trimQuotes :: "string \<Rightarrow> string" where
  "trimQuotes s = rev (dropWhile is_quote (rev (dropWhile is_quote s)))"

fun osReleaseID :: "string list \<Rightarrow> string" where
  "osReleaseID [] = []"
| "osReleaseID (l # ls) =
     (let line = TrimSpace l in
      if \<not> prefix ''ID='' line then osReleaseID ls
      else trimQuotes (TrimSpace (drop 3 line)))"

definition parseOSReleaseID :: "string \<Rightarrow> string" where
  "parseOSReleaseID content = osReleaseID (split_lines content)"

definition detectFlavor :: "'w virt \<Rightarrow> kvMachine \<Rightarrow> 'w \<Rightarrow> (gerror + flavor) \<times> 'w" where
  "detectFlavor v vm w =
     (case runGuestExecCapture v vm CmdExecOSRelease w of
        (Inl e, w1) \<Rightarrow> (Inl (Wrapped ''read /etc/os-release'' e), w1)
      | (Inr out, w1) \<Rightarrow>
          (let ident = parseOSReleaseID out in
           if ident = [] then (Inl (ErrMsg ''no ID field in /etc/os-release''), w1)
           else (ByID ident, w1)))"

section \<open>The provider\<close>

definition kubevirt_IsVMRunning :: "'w virt \<Rightarrow> kvMachine \<Rightarrow> 'w \<Rightarrow> (gerror + bool) \<times> 'w" where
  "kubevirt_IsVMRunning v vm w =
     (case getVMI v (vmNamespace vm, vmName vm) w of
        Inl e \<Rightarrow> if IsNotFound e then (Inr False, w) else (Inl (ApiError e), w)
      | Inr phase \<Rightarrow> (Inr (phase \<notin> {''Succeeded'', ''Failed''}), w))"

definition kubevirt_CheckReady :: "'w virt \<Rightarrow> kvMachine \<Rightarrow> 'w \<Rightarrow> gerror option \<times> 'w" where
  "kubevirt_CheckReady v vm w =
     (case runQGA v vm CmdPing w of
        (Inl e, w1) \<Rightarrow> (Some (Wrapped ''QGA not responding'' e), w1)
      | (Inr _, w1) \<Rightarrow>
          (case detectFlavor v vm w1 of
             (Inl e, w2) \<Rightarrow> (Some (Wrapped ''detect guest OS flavor'' e), w2)
           | (Inr fl, w2) \<Rightarrow>
               (let unit = RouterServiceUnit fl in
                case runGuestExecCapture v vm (CmdExecServiceSubState unit) w2 of
                  (Inl e, w3) \<Rightarrow> (Some (Wrapped ''service substate check'' e), w3)
                | (Inr out, w3) \<Rightarrow>
                    (let substate = TrimSpace out in
                     if substate \<noteq> ''exited''
                     then (Some (ErrMsg (unit @ '' not ready (substate='' @ substate @ '')'')), w3)
                     else (None, w3)))))"

definition kubevirt_ExecScript ::
  "'w virt \<Rightarrow> kvMachine \<Rightarrow> string \<Rightarrow> string \<Rightarrow> bool \<Rightarrow> 'w \<Rightarrow> (gerror + int) \<times> 'w" where
  "kubevirt_ExecScript v vm config commands save w =
     (case RenderScript (cryptoRand v w) config commands save of
        Inl e \<Rightarrow> (Inl (Wrapped ''render script'' e), w)
      | Inr content \<Rightarrow>
     (case runQGA v vm (CmdFileOpen ScriptPath) w of
        (Inl e, w1) \<Rightarrow> (Inl (Wrapped ''guest-file-open'' e), w1)
      | (Inr openResp, w1) \<Rightarrow>
     (case decodeGuestHandle v openResp of
        Inl e \<Rightarrow> (Inl (Wrapped ''guest-file-open parse'' e), w1)
      | Inr handle \<Rightarrow>
     (case runQGA v vm (CmdFileWrite handle (base64Encode content)) w1 of
        (Inl e, w2) \<Rightarrow> (Inl (Wrapped ''guest-file-write'' e), w2)
      | (Inr _, w2) \<Rightarrow>
     (case runQGA v vm (CmdFileClose handle) w2 of
        (Inl e, w3) \<Rightarrow> (Inl (Wrapped ''guest-file-close'' e), w3)
      | (Inr _, w3) \<Rightarrow>
     (case runQGA v vm (CmdExecScript ScriptPath) w3 of
        (Inl e, w4) \<Rightarrow> (Inl (Wrapped ''guest-exec'' e), w4)
      | (Inr resp, w4) \<Rightarrow>
     (case decodeGuestPID v resp of
        Inl e \<Rightarrow> (Inl (Wrapped ''guest-exec parse'' e), w4)
      | Inr pid \<Rightarrow> (Inr pid, w4))))))))"

definition kubevirt_GetExecStatus :: "'w virt \<Rightarrow> kvMachine \<Rightarrow> int \<Rightarrow> 'w \<Rightarrow> (gerror + ExecStatus) \<times> 'w" where
  "kubevirt_GetExecStatus v vm pid w =
     (case runQGA v vm (CmdExecStatus pid) w of
        (Inl e, w1) \<Rightarrow> (Inl (Wrapped ''guest-exec-status'' e), w1)
      | (Inr resp, w1) \<Rightarrow>
          (case decodeGuestStatus v resp of
             Inl e \<Rightarrow> (Inl (Wrapped ''guest-exec-status parse'' e), w1)
           | Inr st \<Rightarrow>
               (Inr \<lparr>Exited = qsExited st, ExitCode = qsExitCode st,
                     Stdout = fst (decodeBase64OrEmpty (qsOutData st)),
                     Stderr = fst (decodeBase64OrEmpty (qsErrData st))\<rparr>, w1)))"

definition kubevirtBackend :: "'w virt \<Rightarrow> kvMachine \<Rightarrow> 'w provider" where
  "kubevirtBackend v vm =
     \<lparr>IsVMRunning = kubevirt_IsVMRunning v vm, CheckReady = kubevirt_CheckReady v vm,
      ExecScript = kubevirt_ExecScript v vm, GetExecStatus = kubevirt_GetExecStatus v vm\<rparr>"

definition kubevirtNew :: "'w virt \<Rightarrow> string \<Rightarrow> string \<Rightarrow> 'w \<Rightarrow> gerror + 'w provider" where
  "kubevirtNew v name namespace w =
     (case newClientset v of
        Some e \<Rightarrow> Inl (Wrapped ''build kubernetes client'' e)
      | None \<Rightarrow> Inr (kubevirtBackend v \<lparr>vmName = name, vmNamespace = namespace\<rparr>))"

section \<open>What the channel to the guest promises\<close>

text \<open>
  The stream and the timer leave alone what \<open>obs\<close> observes (the stored API objects), and the
  guest agent reports process IDs, which are positive.
\<close>

locale guest_channel =
  fixes v :: "'w virt" and obs :: "'w \<Rightarrow> 'o"
  assumes stream_frame: "stream v pod c cmd w = (r, w') \<Longrightarrow> obs w' = obs w"
    and half_frame: "obs (halfSecond v w) = obs w"
    and guest_pid: "decodeGuestPID v s = Inr pid \<Longrightarrow> 0 < pid"
begin

lemma runQGA_frame: "runQGA v vm cmd w = (r, w') \<Longrightarrow> obs w' = obs w"
  by (auto simp: runQGA_def execInPod_def dest: stream_frame
      split: sum.splits prod.splits option.splits)

lemma pollCapture_frame: "pollCapture v vm pid w = (r, w') \<Longrightarrow> obs w' = obs w"
  by (auto simp: pollCapture_def dest: runQGA_frame split: sum.splits prod.splits option.splits if_splits)

lemma captureLoop_frame: "captureLoop v vm pid rounds w = (r, w') \<Longrightarrow> obs w' = obs w"
proof (induction rounds arbitrary: w)
  case 0
  then show ?case
    by (subst (asm) captureLoop.simps) (auto dest: pollCapture_frame split: prod.splits option.splits)
next
  case (Suc n)
  then show ?case
    by (subst (asm) captureLoop.simps)
      (auto dest!: Suc.IH pollCapture_frame simp: half_frame split: prod.splits option.splits)
qed

lemma runGuestExecCapture_frame: "runGuestExecCapture v vm cmd w = (r, w') \<Longrightarrow> obs w' = obs w"
  by (auto simp: runGuestExecCapture_def dest!: runQGA_frame captureLoop_frame split: sum.splits prod.splits)

lemma detectFlavor_frame: "detectFlavor v vm w = (r, w') \<Longrightarrow> obs w' = obs w"
  by (auto simp: detectFlavor_def Let_def dest!: runGuestExecCapture_frame
      split: sum.splits prod.splits if_splits)

lemma CheckReady_frame: "kubevirt_CheckReady v vm w = (r, w') \<Longrightarrow> obs w' = obs w"
  by (auto simp: kubevirt_CheckReady_def Let_def
      dest!: runQGA_frame detectFlavor_frame runGuestExecCapture_frame
      split: sum.splits prod.splits if_splits)

lemma ExecScript_frame: "kubevirt_ExecScript v vm c cmds sv w = (r, w') \<Longrightarrow> obs w' = obs w"
  by (auto simp: kubevirt_ExecScript_def dest!: runQGA_frame split: sum.splits prod.splits)

lemma GetExecStatus_frame: "kubevirt_GetExecStatus v vm pid w = (r, w') \<Longrightarrow> obs w' = obs w"
  by (auto simp: kubevirt_GetExecStatus_def dest!: runQGA_frame split: sum.splits prod.splits)

lemma IsVMRunning_frame: "kubevirt_IsVMRunning v vm w = (r, w') \<Longrightarrow> w' = w"
  by (auto simp: kubevirt_IsVMRunning_def split: sum.splits if_splits)

lemma kubevirt_frames: "kubevirtNew v nm ns w = Inr p \<Longrightarrow> provider_frames obs p"
  using CheckReady_frame ExecScript_frame GetExecStatus_frame IsVMRunning_frame
  by (auto simp: kubevirtNew_def kubevirtBackend_def provider_frames_def split: option.splits)
    (metis prod.collapse)+

lemma kubevirt_handle: "kubevirt_ExecScript v vm c cmds sv w = (Inr pid, w') \<Longrightarrow> 0 < pid"
  by (auto simp: kubevirt_ExecScript_def dest: guest_pid split: sum.splits prod.splits)

end

end
