(* ===== verification/GuestWorld.thy ===== *)
theory GuestWorld
  imports KubevirtBackend MemKube
begin

text \<open>
  Properties of the KubeVirt backend: the script it puts into the guest, the flavor of the
  guest it recognises, and the end of its polling loop.
\<close>

section \<open>The script in the guest\<close>

definition agentCommand :: "kvMachine \<Rightarrow> string \<Rightarrow> string list" where
  "agentCommand vm cmd =
     [''virsh'', ''qemu-agent-command'', vmNamespace vm @ ''_'' @ vmName vm, cmd]"

text \<open>The guest agent calls of an apply.\<close>

definition scriptCalls :: "int \<Rightarrow> string \<Rightarrow> string list" where
  "scriptCalls h b64 =
     [CmdFileOpen ScriptPath, CmdFileWrite h b64, CmdFileClose h, CmdExecScript ScriptPath]"

lemma runQGA_sent:
  assumes "\<forall>pod c cmd w r w'. stream v pod c cmd w = (r, w') \<longrightarrow> sent w' = sent w @ [cmd]"
    and "runQGA v vm cmd w = (r, w')"
  shows "\<exists>cs. sent w' = sent w @ map (agentCommand vm) cs \<and>
    (case r of Inl e \<Rightarrow> prefix cs [cmd] | Inr out \<Rightarrow> cs = [cmd])"
proof -
  have "sent w' = sent w @ [agentCommand vm cmd] \<or> sent w' = sent w \<and> (\<exists>e. r = Inl e)"
    using assms
    by (auto simp: runQGA_def execInPod_def agentCommand_def split: sum.splits prod.splits option.splits)
  then show ?thesis
  proof
    assume "sent w' = sent w @ [agentCommand vm cmd]"
    then show ?thesis by (intro exI [of _ "[cmd]"]) (auto split: sum.splits)
  qed (auto intro: exI [of _ "[]"])
qed

text \<open>A step of the script: the call, and what follows when it got its answer.\<close>

lemma sent_then:
  assumes "\<forall>pod c cmd w r w'. stream v pod c cmd w = (r, w') \<longrightarrow> sent w' = sent w @ [cmd]"
    and "(case runQGA v vm cmd w of (Inl e, w1) \<Rightarrow> (Inl (Wrapped ctx e), w1) | (Inr out, w1) \<Rightarrow> rest out w1) =
      (r, w')"
    and "\<And>out w1. rest out w1 = (r, w') \<Longrightarrow>
      \<exists>cs. sent w' = sent w1 @ map (agentCommand vm) cs \<and> prefix cs cmds \<and> (\<forall>pid. r = Inr pid \<longrightarrow> cs = cmds)"
  shows "\<exists>cs. sent w' = sent w @ map (agentCommand vm) cs \<and> prefix cs (cmd # cmds) \<and>
    (\<forall>pid. r = Inr pid \<longrightarrow> cs = cmd # cmds)"
proof -
  obtain x w1 where x: "runQGA v vm cmd w = (x, w1)" by fastforce
  from runQGA_sent [OF assms(1) x] obtain cs where cs: "sent w1 = sent w @ map (agentCommand vm) cs"
    "case x of Inl e \<Rightarrow> prefix cs [cmd] | Inr out \<Rightarrow> cs = [cmd]" by blast
  show ?thesis
  proof (cases x)
    case (Inl e)
    with x cs assms(2) show ?thesis by (intro exI [of _ cs]) (auto simp: prefix_Cons)
  next
    case (Inr out)
    with x assms(2) have "rest out w1 = (r, w')" by simp
    from assms(3) [OF this] obtain ds where "sent w' = sent w1 @ map (agentCommand vm) ds" "prefix ds cmds"
      "\<forall>pid. r = Inr pid \<longrightarrow> ds = cmds" by blast
    with cs Inr show ?thesis by (intro exI [of _ "cmd # ds"]) auto
  qed
qed

text \<open>
  C16. The guest never runs an incomplete script: whatever fails on the way, the commands an
  apply sends to the guest agent are an initial part of open, write, close and execute, with a
  write whose content decodes to the whole rendered script; without a script none is sent.
  When the apply returns a process ID, all four were sent.
\<close>

theorem kubevirt_runs_complete_script:
  assumes "\<forall>pod c cmd w r w'. stream v pod c cmd w = (r, w') \<longrightarrow> sent w' = sent w @ [cmd]"
    and "kubevirt_ExecScript v vm config commands save w = (r, w')"
  shows "\<exists>cs. sent w' = sent w @ map (agentCommand vm) cs \<and>
    (case RenderScript (cryptoRand v w) config commands save of
       Inl e \<Rightarrow> cs = []
     | Inr script \<Rightarrow> (\<exists>h b64. base64Decode b64 = (script, None) \<and> prefix cs (scriptCalls h b64) \<and>
         (\<forall>pid. r = Inr pid \<longrightarrow> cs = scriptCalls h b64)))"
proof (cases "RenderScript (cryptoRand v w) config commands save")
  case (Inl e)
  with assms(2) show ?thesis by (auto simp: kubevirt_ExecScript_def)
next
  case (Inr script)
  let ?b64 = "base64Encode script"
  note steps = sent_then [OF assms(1)]
  have exec: "\<exists>cs. sent w' = sent u @ map (agentCommand vm) cs \<and> prefix cs [CmdExecScript ScriptPath] \<and>
      (\<forall>pid. r = Inr pid \<longrightarrow> cs = [CmdExecScript ScriptPath])"
    if "(case runQGA v vm (CmdExecScript ScriptPath) u of
        (Inl e, w4) \<Rightarrow> (Inl (Wrapped ''guest-exec'' e), w4)
      | (Inr resp, w4) \<Rightarrow>
          (case decodeGuestPID v resp of
             Inl e \<Rightarrow> (Inl (Wrapped ''guest-exec parse'' e), w4) | Inr pid \<Rightarrow> (Inr pid, w4))) = (r, w')" for u
    by (rule steps [OF that]) (auto split: sum.splits)
  obtain x w1 where x: "runQGA v vm (CmdFileOpen ScriptPath) w = (x, w1)" by fastforce
  from runQGA_sent [OF assms(1) x] obtain c1 where c1: "sent w1 = sent w @ map (agentCommand vm) c1"
    "case x of Inl e \<Rightarrow> prefix c1 [CmdFileOpen ScriptPath] | Inr out \<Rightarrow> c1 = [CmdFileOpen ScriptPath]" by blast
  have "\<exists>h cs. sent w' = sent w @ map (agentCommand vm) cs \<and> prefix cs (scriptCalls h ?b64) \<and>
      (\<forall>pid. r = Inr pid \<longrightarrow> cs = scriptCalls h ?b64)"
  proof (cases "\<exists>out h. x = Inr out \<and> decodeGuestHandle v out = Inr h")
    case True
    then obtain out h where h: "x = Inr out" "decodeGuestHandle v out = Inr h" by blast
    have "\<exists>cs. sent w' = sent w1 @ map (agentCommand vm) cs \<and> prefix cs (tl (scriptCalls h ?b64)) \<and>
        (\<forall>pid. r = Inr pid \<longrightarrow> cs = tl (scriptCalls h ?b64))"
      unfolding scriptCalls_def list.sel
      by (rule steps, use assms(2) Inr x h in \<open>simp add: kubevirt_ExecScript_def\<close>, rule steps, assumption)
        (rule exec)
    then obtain cs where "sent w' = sent w1 @ map (agentCommand vm) cs" "prefix cs (tl (scriptCalls h ?b64))"
      "\<forall>pid. r = Inr pid \<longrightarrow> cs = tl (scriptCalls h ?b64)" by blast
    with c1 h show ?thesis
      by (intro exI [of _ h] exI [of _ "CmdFileOpen ScriptPath # cs"]) (auto simp: scriptCalls_def)
  next
    case False
    with assms(2) Inr x have "w' = w1" "\<exists>e. r = Inl e"
      by (auto simp: kubevirt_ExecScript_def split: sum.splits)
    with c1 show ?thesis
      by (intro exI [of _ 0] exI [of _ c1]) (auto simp: scriptCalls_def prefix_Cons split: sum.splits)
  qed
  then obtain h cs where cs: "sent w' = sent w @ map (agentCommand vm) cs"
    "prefix cs (scriptCalls h ?b64)" "\<forall>pid. r = Inr pid \<longrightarrow> cs = scriptCalls h ?b64"
    by blast
  with Inr base64_round_trip [of script] show ?thesis by auto
qed

section \<open>The flavor of the guest\<close>

lemma split_lines_skip:
  "\<forall>l \<in> set before. \<not> prefix ''ID='' (TrimSpace l) \<Longrightarrow> osReleaseID (before @ ls) = osReleaseID ls"
  by (induction before) (simp_all add: Let_def)

lemma quote_visible: "is_quote c \<Longrightarrow> visible c"
  by (auto simp: is_quote_def visible_def)

lemma trimQuotes_around:
  assumes "s \<noteq> []" "\<forall>c \<in> set s. \<not> is_quote c" "\<forall>c \<in> set q. is_quote c"
  shows "trimQuotes (q @ s @ q) = s"
proof -
  have drop: "dropWhile is_quote (x @ y @ z) = y @ z"
    if "\<forall>c \<in> set x. is_quote c" "y \<noteq> []" "\<not> is_quote (hd y)" for x y z
    using that by (cases y) (simp_all add: dropWhile_append2)
  have "dropWhile is_quote (q @ s @ q) = s @ q" using assms by (intro drop) auto
  moreover have "dropWhile is_quote (rev q @ rev s @ []) = rev s"
    using assms by (subst drop) (auto simp: hd_rev)
  ultimately show ?thesis by (simp add: trimQuotes_def)
qed

text \<open>
  The flavor comes from the \<open>ID\<close> field: when the guest's os-release file has the line
  \<open>ID=x\<close>, with \<open>x\<close> plain or in quotation marks, and no earlier line is an \<open>ID\<close> field (lines as
  \<open>NAME=\<close>, \<open>VERSION_ID=\<close> or \<open>ID_LIKE=\<close> are not), the flavor is the one registered for \<open>x\<close>, and
  an error that names \<open>x\<close> when there is none.
\<close>

theorem os_release_flavor:
  assumes "runGuestExecCapture v vm CmdExecOSRelease w = (Inr content, w1)"
    and "split_lines content = before @ (''ID='' @ q @ ident @ q) # after"
    and "\<forall>l \<in> set before. \<not> prefix ''ID='' (TrimSpace l)"
    and "set q \<subseteq> {CHR 0x22, CHR 0x27}" "ident \<noteq> []"
    and "\<forall>c \<in> set ident. visible c \<and> c \<notin> {CHR 0x22, CHR 0x27}"
  shows "detectFlavor v vm w =
    (if ident = ''vyos'' then Inr vyos else if ident = ''dozenos'' then Inr dozenos
     else Inl (ErrMsg (''unknown guest OS flavor ID '' @ quoted ident)), w1)"
proof -
  have plain: "\<forall>c \<in> set ident. \<not> is_quote c" using assms(6) by (auto simp: is_quote_def)
  have quotes: "\<forall>c \<in> set q. is_quote c" using assms(4) by (auto simp: is_quote_def)
  have vis: "\<forall>c \<in> set (q @ ident @ q). visible c" using quotes quote_visible assms(6) by auto
  let ?v = "q @ ident @ q"
  have ne: "?v \<noteq> []" using assms(5) by simp
  have "TrimSpace ?v = ?v"
    using vis ne by (intro TrimSpace_visible) (simp_all del: append_is_Nil_conv set_append)
  moreover have "TrimSpace (''ID='' @ ?v) = ''ID='' @ ?v"
    using vis ne last_in_set [of ?v] by (intro TrimSpace_visible) (simp_all add: visible_def)
  ultimately have "osReleaseID ((''ID='' @ ?v) # after) = ident"
    using trimQuotes_around [OF assms(5) plain quotes] by (simp add: Let_def)
  then have "parseOSReleaseID content = ident"
    by (simp only: parseOSReleaseID_def assms(2) split_lines_skip [OF assms(3)])
  with assms(1,5) show ?thesis by (simp add: detectFlavor_def Let_def ByID_def byID_def)
qed

section \<open>The polling loop\<close>

text \<open>The world after \<open>n\<close> polls without an answer.\<close>

fun afterPolls :: "'w virt \<Rightarrow> kvMachine \<Rightarrow> int \<Rightarrow> nat \<Rightarrow> 'w \<Rightarrow> 'w" where
  "afterPolls v vm pid 0 w = w"
| "afterPolls v vm pid (Suc n) w = afterPolls v vm pid n (halfSecond v (snd (pollCapture v vm pid w)))"

text \<open>
  The number of rounds does not matter once it covers the first poll with an answer: that
  answer is the result. A context that ends before gives its error.
\<close>

lemma captureLoop_answer:
  assumes "\<forall>i < n. fst (pollCapture v vm pid (afterPolls v vm pid i w)) = None"
    and "pollCapture v vm pid (afterPolls v vm pid n w) = (Some r, w')" "n \<le> rounds"
  shows "captureLoop v vm pid rounds w = (r, w')"
  using assms
proof (induction n arbitrary: w rounds)
  case 0
  then show ?case by (subst captureLoop.simps) simp
next
  case (Suc n)
  obtain m where m: "rounds = Suc m" "n \<le> m" using Suc.prems(3) by (cases rounds) auto
  have first: "fst (pollCapture v vm pid w) = None" using Suc.prems(1) by fastforce
  have "captureLoop v vm pid m (halfSecond v (snd (pollCapture v vm pid w))) = (r, w')"
    using Suc.prems(1,2) m(2) by (intro Suc.IH) (force, simp_all)
  with first m(1) show ?case
    by (subst captureLoop.simps) (auto split: prod.splits)
qed

lemma captureLoop_gives_up:
  assumes "\<forall>i \<le> rounds. fst (pollCapture v vm pid (afterPolls v vm pid i w)) = None"
  shows "fst (captureLoop v vm pid rounds w) = Inl (ctxErr v)"
  using assms
proof (induction rounds arbitrary: w)
  case 0
  then show ?case by (subst captureLoop.simps) (auto split: prod.splits option.splits)
next
  case (Suc m)
  have first: "fst (pollCapture v vm pid w) = None" using Suc.prems by fastforce
  have "fst (captureLoop v vm pid m (halfSecond v (snd (pollCapture v vm pid w)))) = Inl (ctxErr v)"
    using Suc.prems by (intro Suc.IH) force
  with first show ?case by (subst captureLoop.simps) (auto split: prod.splits)
qed

section \<open>A sample guest\<close>

text \<open>
  A pod whose guest agent answers every command; every process has exited with code 0, and
  the text it wrote is an os-release file.
\<close>

definition sampleRelease :: string where
  "sampleRelease = join [newline] [''NAME=VyOS'', ''ID_LIKE=debian'', ''ID=\"vyos\"'', []]"

definition memVirt :: "mem_world virt" where
  "memVirt =
     \<lparr>getVMI = (\<lambda>n w. Inr ''Running''), listPods = (\<lambda>ns labels w. Inr [(''default'', ''virt-launcher-vm1'')]),
      newClientset = None, newSPDYExecutor = (\<lambda>pod c cmd. None),
      stream = (\<lambda>pod c cmd w. (([], [], None), w\<lparr>mwSent := mwSent w @ [cmd]\<rparr>)),
      decodeQGAError = (\<lambda>out. Inr None), decodeGuestPID = (\<lambda>out. Inr 7),
      decodeGuestHandle = (\<lambda>out. Inr 1000),
      decodeGuestStatus = (\<lambda>out. Inr \<lparr>qsExited = True, qsExitCode = 0,
        qsOutData = base64Encode sampleRelease, qsErrData = []\<rparr>),
      cryptoRand = (\<lambda>w. zeroBytes), ctxRounds = 3, ctxErr = ErrMsg ''context deadline exceeded'',
      halfSecond = (\<lambda>w. w\<lparr>mwNow := mwNow w + 500 * Millisecond\<rparr>)\<rparr>"

definition sampleMachine :: kvMachine where
  "sampleMachine = \<lparr>vmName = ''vm1'', vmNamespace = ''default''\<rparr>"

lemma memVirt_stream: "\<forall>pod c cmd w r w'. stream memVirt pod c cmd w = (r, w') \<longrightarrow> mwSent w' = mwSent w @ [cmd]"
  by (auto simp: memVirt_def)

interpretation mem_guest: guest_channel memVirt memConfig
  by unfold_locales (auto simp: memVirt_def memConfig_def fun_eq_iff)

lemma memVirt_answers:
  "decodeGuestPID memVirt out = Inr 7" "decodeGuestHandle memVirt out = Inr 1000"
  "decodeGuestStatus memVirt out =
     Inr \<lparr>qsExited = True, qsExitCode = 0, qsOutData = base64Encode sampleRelease, qsErrData = []\<rparr>"
  "cryptoRand memVirt w = zeroBytes"
  by (simp_all add: memVirt_def)

lemma runQGA_mem:
  "runQGA memVirt vm cmd w = (Inr [], w\<lparr>mwSent := mwSent w @ [agentCommand vm cmd]\<rparr>)"
  by (simp add: runQGA_def findVirtLauncherPod_def execInPod_def memVirt_def agentCommand_def)

theorem kubevirt_runs_complete_script_witness:
  "\<exists>script h b64. base64Decode b64 = (script, None) \<and>
     RenderScript zeroBytes ''system {}'' [] True = Inr script \<and>
     mwSent (snd (kubevirt_ExecScript memVirt sampleMachine ''system {}'' [] True sampleWorld)) =
       map (agentCommand sampleMachine) (scriptCalls h b64)"
proof -
  let ?out = "kubevirt_ExecScript memVirt sampleMachine ''system {}'' [] True sampleWorld"
  have "heredocDelimiter zeroBytes ''system {}'' =
      Inr (heredocDelimiterPrefix @ hexEncode (replicate 16 (CHR 0x00)))"
    by (rule delimiter_first_attempt) (simp_all add: zeroBytes_def)
  then obtain script where script: "RenderScript zeroBytes ''system {}'' [] True = Inr script"
    by (simp add: RenderScript_def)
  then have pid: "fst ?out = Inr 7"
    by (simp add: kubevirt_ExecScript_def memVirt_answers runQGA_mem)
  have "mwSent sampleWorld = []" by (simp add: sampleWorld_def mem_empty_def)
  with pid script kubevirt_runs_complete_script [OF memVirt_stream surjective_pairing [of ?out]]
  show ?thesis by (auto simp: memVirt_answers)
qed

theorem os_release_flavor_witness:
  "fst (detectFlavor memVirt sampleMachine sampleWorld) = Inr vyos"
proof -
  have "base64Encode sampleRelease \<noteq> []" by code_simp
  then have "decodeBase64OrEmpty (base64Encode sampleRelease) = (sampleRelease, None)"
    by (simp add: decodeBase64OrEmpty_def base64_round_trip)
  then have "fst (runGuestExecCapture memVirt sampleMachine CmdExecOSRelease sampleWorld) = Inr sampleRelease"
    by (simp add: runGuestExecCapture_def runQGA_mem memVirt_answers captureLoop.simps pollCapture_def)
  then obtain w1 where run: "runGuestExecCapture memVirt sampleMachine CmdExecOSRelease sampleWorld = (Inr sampleRelease, w1)"
    by (metis prod.collapse)
  have "split_lines sampleRelease = [''NAME=VyOS'', ''ID_LIKE=debian''] @ (''ID='' @ ''\"'' @ ''vyos'' @ ''\"'') # [[]]"
    by (simp add: sampleRelease_def)
  from os_release_flavor [OF run this] show ?thesis
    by (simp add: visible_def TrimSpace_visible)
qed

end
