(* ===== verification/ProxmoxBackend.thy ===== *)
theory ProxmoxBackend
  imports ProxmoxController KubevirtBackend
begin

text \<open>
  The Proxmox backend (\<open>internal/provider/proxmox/provider.go\<close>): requests that fail over
  between the endpoints of a cluster, the node of a VM, and the guest agent calls of the
  REST API. HTTP, the JSON codec and \<open>crypto/rand\<close> are the record \<open>pxagent\<close>, an argument of
  the operations; \<open>pgRounds\<close> says how often the half-second timer wins against the context
  in the loop of \<open>CheckReady\<close>.
\<close>

record agent_status =
  asExited :: int
  asExitCode :: int
  asOutData :: string
  asErrData :: string

record 'w pxagent =
  pgNewRequest :: "http_request \<Rightarrow> gerror option"
  pgDo :: "http_request \<Rightarrow> 'w \<Rightarrow> (gerror + http_response) \<times> 'w"
  decodeNodes :: "string \<Rightarrow> gerror + (int \<times> string) list"
  decodeVMStatus :: "string \<Rightarrow> gerror + string"
  decodeAgentPID :: "string \<Rightarrow> gerror + int"
  decodeAgentStatus :: "string \<Rightarrow> gerror + agent_status"
  marshalFile :: "string \<Rightarrow> string \<Rightarrow> gerror + string"
  marshalCommand :: "string list \<Rightarrow> gerror + string"
  pgRand :: "'w \<Rightarrow> nat \<Rightarrow> nat \<Rightarrow> gerror + string"
  pgRounds :: nat
  pgCtxErr :: gerror
  pgHalfSecond :: "'w \<Rightarrow> 'w"

record pxMachine =
  pmEndpoints :: "string list"
  pmInsecure :: bool
  pmTokenID :: string
  pmTokenSecret :: string
  pmVMID :: int
  pmCachedNode :: string

section \<open>Requests\<close>

definition pmRequest :: "pxMachine \<Rightarrow> string \<Rightarrow> string \<Rightarrow> string option \<Rightarrow> string \<Rightarrow> http_request" where
  "pmRequest p method path payload ep =
     \<lparr>reqMethod = method, reqURL = ep @ path,
      reqHeaders = authHeader (pmTokenID p) (pmTokenSecret p) #
        (if payload \<noteq> None then [(''Content-Type'', ''application/json'')] else []),
      reqBody = (case payload of None \<Rightarrow> [] | Some b \<Rightarrow> b), reqInsecureSkipVerify = pmInsecure p\<rparr>"

fun tryDoFrom ::
  "'w pxagent \<Rightarrow> pxMachine \<Rightarrow> string \<Rightarrow> string \<Rightarrow> string option \<Rightarrow> string list \<Rightarrow> gerror option \<Rightarrow> 'w \<Rightarrow>
     (gerror + string \<times> int) \<times> 'w" where
  "tryDoFrom pg p method path payload [] lastErr w = (Inl (allFailed lastErr), w)"
| "tryDoFrom pg p method path payload (ep # eps) lastErr w =
     (let req = pmRequest p method path payload ep in
      case pgNewRequest pg req of
        Some e \<Rightarrow> (Inl e, w)
      | None \<Rightarrow>
          (case pgDo pg req w of
             (Inl e, w1) \<Rightarrow> tryDoFrom pg p method path payload eps (Some e) w1
           | (Inr resp, w1) \<Rightarrow>
               (case respReadErr resp of
                  Some e \<Rightarrow> tryDoFrom pg p method path payload eps (Some e) w1
                | None \<Rightarrow> (Inr (respBody resp, respStatus resp), w1))))"

definition tryDo ::
  "'w pxagent \<Rightarrow> pxMachine \<Rightarrow> string \<Rightarrow> string \<Rightarrow> string option \<Rightarrow> 'w \<Rightarrow> (gerror + string \<times> int) \<times> 'w" where
  "tryDo pg p method path payload w = tryDoFrom pg p method path payload (pmEndpoints p) None w"

definition statusError :: "int \<Rightarrow> string \<Rightarrow> string" where
  "statusError code body = ''HTTP '' @ decimal code @ '': '' @ TrimSpace body"

definition only2xx :: "(gerror + string \<times> int) \<times> 'w \<Rightarrow> (gerror + string) \<times> 'w" where
  "only2xx r =
     (case r of
        (Inl e, w) \<Rightarrow> (Inl e, w)
      | (Inr (body, code), w) \<Rightarrow>
          if okStatus code then (Inr body, w) else (Inl (ErrMsg (statusError code body)), w))"

definition pxGet :: "'w pxagent \<Rightarrow> pxMachine \<Rightarrow> string \<Rightarrow> 'w \<Rightarrow> (gerror + string) \<times> 'w" where
  "pxGet pg p path w = only2xx (tryDo pg p ''GET'' path None w)"

definition pxPost :: "'w pxagent \<Rightarrow> pxMachine \<Rightarrow> string \<Rightarrow> string option \<Rightarrow> 'w \<Rightarrow> (gerror + string) \<times> 'w" where
  "pxPost pg p path payload w = only2xx (tryDo pg p ''POST'' path payload w)"

section \<open>The node of the VM\<close>

definition resolveNode :: "'w pxagent \<Rightarrow> pxMachine \<Rightarrow> 'w \<Rightarrow> (gerror + string) \<times> 'w" where
  "resolveNode pg p w =
     (if pmCachedNode p \<noteq> [] then (Inr (pmCachedNode p), w)
      else case pxGet pg p ''/api2/json/cluster/resources?type=vm'' w of
             (Inl e, w1) \<Rightarrow> (Inl (Wrapped ''cluster resources'' e), w1)
           | (Inr body, w1) \<Rightarrow>
               (case decodeNodes pg body of
                  Inl e \<Rightarrow> (Inl (Wrapped ''cluster resources decode'' e), w1)
                | Inr vms \<Rightarrow>
                    (case map_of vms (pmVMID p) of
                       Some node \<Rightarrow> (Inr node, w1)
                     | None \<Rightarrow> (Inl (Wrapped (''VMID '' @ decimal (pmVMID p) @ '' not found in cluster'')
                                 ErrVMNotFound), w1))))"

definition qemuPath :: "pxMachine \<Rightarrow> string \<Rightarrow> string \<Rightarrow> string" where
  "qemuPath p node rest = ''/api2/json/nodes/'' @ node @ ''/qemu/'' @ decimal (pmVMID p) @ rest"

section \<open>The guest agent\<close>

definition agentPing :: "'w pxagent \<Rightarrow> pxMachine \<Rightarrow> string \<Rightarrow> 'w \<Rightarrow> gerror option \<times> 'w" where
  "agentPing pg p node w =
     (case pxPost pg p (qemuPath p node ''/agent/ping'') None w of
        (Inl e, w1) \<Rightarrow> (Some e, w1) | (Inr _, w1) \<Rightarrow> (None, w1))"

definition agentFileWrite ::
  "'w pxagent \<Rightarrow> pxMachine \<Rightarrow> string \<Rightarrow> string \<Rightarrow> string \<Rightarrow> 'w \<Rightarrow> gerror option \<times> 'w" where
  "agentFileWrite pg p node path content w =
     (case marshalFile pg path content of
        Inl e \<Rightarrow> (Some e, w)
      | Inr payload \<Rightarrow>
          (case pxPost pg p (qemuPath p node ''/agent/file-write'') (Some payload) w of
             (Inl e, w1) \<Rightarrow> (Some e, w1) | (Inr _, w1) \<Rightarrow> (None, w1)))"

definition agentExec :: "'w pxagent \<Rightarrow> pxMachine \<Rightarrow> string \<Rightarrow> string list \<Rightarrow> 'w \<Rightarrow> (gerror + int) \<times> 'w" where
  "agentExec pg p node command w =
     (case marshalCommand pg command of
        Inl e \<Rightarrow> (Inl e, w)
      | Inr payload \<Rightarrow>
          (case pxPost pg p (qemuPath p node ''/agent/exec'') (Some payload) w of
             (Inl e, w1) \<Rightarrow> (Inl e, w1)
           | (Inr body, w1) \<Rightarrow>
               (case decodeAgentPID pg body of
                  Inl e \<Rightarrow> (Inl (Wrapped ''agent exec decode'' e), w1) | Inr pid \<Rightarrow> (Inr pid, w1))))"

definition decodeBase64OrRaw :: "string \<Rightarrow> string \<times> gerror option" where
  "decodeBase64OrRaw s =
     (if s = [] then ([], None)
      else case base64Decode s of (b, None) \<Rightarrow> (b, None) | (b, Some e) \<Rightarrow> (s, Some e))"

definition agentExecStatus :: "'w pxagent \<Rightarrow> pxMachine \<Rightarrow> string \<Rightarrow> int \<Rightarrow> 'w \<Rightarrow> (gerror + ExecStatus) \<times> 'w" where
  "agentExecStatus pg p node pid w =
     (case pxGet pg p (qemuPath p node (''/agent/exec-status?pid='' @ decimal pid)) w of
        (Inl e, w1) \<Rightarrow> (Inl e, w1)
      | (Inr body, w1) \<Rightarrow>
          (case decodeAgentStatus pg body of
             Inl e \<Rightarrow> (Inl (Wrapped ''exec-status decode'' e), w1)
           | Inr st \<Rightarrow>
               (Inr \<lparr>Exited = (asExited st \<noteq> 0), ExitCode = asExitCode st,
                     Stdout = fst (decodeBase64OrRaw (asOutData st)),
                     Stderr = fst (decodeBase64OrRaw (asErrData st))\<rparr>, w1)))"

section \<open>The provider\<close>

definition proxmox_IsVMRunning :: "'w pxagent \<Rightarrow> pxMachine \<Rightarrow> 'w \<Rightarrow> (gerror + bool) \<times> 'w" where
  "proxmox_IsVMRunning pg p w =
     (case resolveNode pg p w of
        (Inl e, w1) \<Rightarrow> if errors_Is e ErrVMNotFound then (Inr False, w1) else (Inl e, w1)
      | (Inr node, w1) \<Rightarrow>
          (case tryDo pg p ''GET'' (qemuPath p node ''/status/current'') None w1 of
             (Inl e, w2) \<Rightarrow> (Inl (Wrapped ''VM status'' e), w2)
           | (Inr (body, code), w2) \<Rightarrow>
               if code = 404 then (Inr False, w2)
               else if \<not> okStatus code then (Inl (ErrMsg (''VM status: '' @ statusError code body)), w2)
               else (case decodeVMStatus pg body of
                       Inl e \<Rightarrow> (Inl (Wrapped ''VM status decode'' e), w2)
                     | Inr st \<Rightarrow> (Inr (st = ''running''), w2))))"

fun substateLoop :: "'w pxagent \<Rightarrow> pxMachine \<Rightarrow> string \<Rightarrow> int \<Rightarrow> nat \<Rightarrow> 'w \<Rightarrow> gerror option \<times> 'w" where
  "substateLoop pg p node pid rounds w =
     (case agentExecStatus pg p node pid w of
        (Inl e, w1) \<Rightarrow> (Some (Wrapped ''service substate status'' e), w1)
      | (Inr st, w1) \<Rightarrow>
          if Exited st then
            (if ExitCode st \<noteq> 0
             then (Some (ErrMsg (''systemctl show failed (exitCode='' @ decimal (ExitCode st) @ '')'')), w1)
             else let substate = TrimSpace (Stdout st) in
                  if substate \<noteq> ''exited''
                  then (Some (ErrMsg (VyOSService @ '' not ready (substate='' @ substate @ '')'')), w1)
                  else (None, w1))
          else (case rounds of
                  0 \<Rightarrow> (Some (pgCtxErr pg), w1)
                | Suc n \<Rightarrow> substateLoop pg p node pid n (pgHalfSecond pg w1)))"

declare substateLoop.simps [simp del]

definition proxmox_CheckReady :: "'w pxagent \<Rightarrow> pxMachine \<Rightarrow> 'w \<Rightarrow> gerror option \<times> 'w" where
  "proxmox_CheckReady pg p w =
     (case resolveNode pg p w of
        (Inl e, w1) \<Rightarrow> (Some e, w1)
      | (Inr node, w1) \<Rightarrow>
          (case agentPing pg p node w1 of
             (Some e, w2) \<Rightarrow> (Some (Wrapped ''QGA not responding'' e), w2)
           | (None, w2) \<Rightarrow>
               (case agentExec pg p node
                       [''/usr/bin/systemctl'', ''show'', ''-p'', ''SubState'', ''--value'', VyOSService] w2 of
                  (Inl e, w3) \<Rightarrow> (Some (Wrapped ''service substate check'' e), w3)
                | (Inr pid, w3) \<Rightarrow> substateLoop pg p node pid (pgRounds pg) w3)))"

definition proxmox_ExecScript ::
  "'w pxagent \<Rightarrow> pxMachine \<Rightarrow> string \<Rightarrow> string \<Rightarrow> bool \<Rightarrow> 'w \<Rightarrow> (gerror + int) \<times> 'w" where
  "proxmox_ExecScript pg p config commands save w =
     (case RenderScript (pgRand pg w) config commands save of
        Inl e \<Rightarrow> (Inl (Wrapped ''render script'' e), w)
      | Inr content \<Rightarrow>
          (case resolveNode pg p w of
             (Inl e, w1) \<Rightarrow> (Inl e, w1)
           | (Inr node, w1) \<Rightarrow>
               (case agentFileWrite pg p node ScriptPath content w1 of
                  (Some e, w2) \<Rightarrow> (Inl e, w2)
                | (None, w2) \<Rightarrow> agentExec pg p node [''/bin/vbash'', ScriptPath] w2)))"

definition proxmox_GetExecStatus :: "'w pxagent \<Rightarrow> pxMachine \<Rightarrow> int \<Rightarrow> 'w \<Rightarrow> (gerror + ExecStatus) \<times> 'w" where
  "proxmox_GetExecStatus pg p pid w =
     (case resolveNode pg p w of
        (Inl e, w1) \<Rightarrow> (Inl e, w1)
      | (Inr node, w1) \<Rightarrow> agentExecStatus pg p node pid w1)"

definition proxmoxBackend :: "'w pxagent \<Rightarrow> pxMachine \<Rightarrow> 'w provider" where
  "proxmoxBackend pg p =
     \<lparr>IsVMRunning = proxmox_IsVMRunning pg p, CheckReady = proxmox_CheckReady pg p,
      ExecScript = proxmox_ExecScript pg p, GetExecStatus = proxmox_GetExecStatus pg p\<rparr>"

definition newPxMachine ::
  "'w kube \<Rightarrow> ProxmoxConfig \<Rightarrow> ProxmoxCluster \<Rightarrow> string \<Rightarrow> 'w \<Rightarrow> gerror + pxMachine" where
  "newPxMachine k cfg cluster cachedNode w =
     (let ref = secretRefName (pxcCredentialsRef (pxcSpec cluster)) in
      case getSecret k (metaNamespace (pxcMeta cluster), ref) w of
        Inl e \<Rightarrow> Inl (Wrapped (''read credentials secret '' @ quoted ref) (ApiError e))
      | Inr data \<Rightarrow>
          (let tokenID = secretText data ''api-token-id'';
               tokenSecret = secretText data ''api-token-secret''
           in if tokenID = [] \<or> tokenSecret = []
              then Inl (ErrMsg (''secret '' @ quoted ref @ '' must contain api-token-id and api-token-secret keys''))
              else Inr \<lparr>pmEndpoints = map (\<lambda>e. TrimRight e (CHR ''/'')) (pxcEndpoints (pxcSpec cluster)),
                        pmInsecure = pxcInsecureSkipTLSVerify (pxcSpec cluster),
                        pmTokenID = tokenID, pmTokenSecret = tokenSecret,
                        pmVMID = pxVMID cfg, pmCachedNode = cachedNode\<rparr>))"

definition proxmoxNew ::
  "'w kube \<Rightarrow> 'w pxagent \<Rightarrow> ProxmoxConfig \<Rightarrow> ProxmoxCluster \<Rightarrow> string \<Rightarrow> 'w \<Rightarrow> gerror + 'w provider" where
  "proxmoxNew k pg cfg cluster cachedNode w =
     (case newPxMachine k cfg cluster cachedNode w of
        Inl e \<Rightarrow> Inl e | Inr p \<Rightarrow> Inr (proxmoxBackend pg p))"

section \<open>What the REST API promises\<close>

text \<open>
  As in the theory \<open>KubevirtBackend\<close>: requests and the timer leave alone what \<open>obs\<close> observes,
  and the process IDs of the guest agent are positive.
\<close>

locale agent_channel =
  fixes pg :: "'w pxagent" and obs :: "'w \<Rightarrow> 'o"
  assumes request_frame: "pgDo pg req w = (r, w') \<Longrightarrow> obs w' = obs w"
    and timer_frame: "obs (pgHalfSecond pg w) = obs w"
    and agent_pid: "decodeAgentPID pg s = Inr pid \<Longrightarrow> 0 < pid"
begin

lemma tryDoFrom_frame: "tryDoFrom pg p m path pl eps e w = (r, w') \<Longrightarrow> obs w' = obs w"
  by (induction eps arbitrary: e w)
    (fastforce simp: Let_def dest: request_frame split: option.splits prod.splits sum.splits)+

lemma pxGet_frame: "pxGet pg p path w = (r, w') \<Longrightarrow> obs w' = obs w"
  by (auto simp: pxGet_def tryDo_def only2xx_def dest!: tryDoFrom_frame split: prod.splits sum.splits if_splits)

lemma pxPost_frame: "pxPost pg p path pl w = (r, w') \<Longrightarrow> obs w' = obs w"
  by (auto simp: pxPost_def tryDo_def only2xx_def dest!: tryDoFrom_frame split: prod.splits sum.splits if_splits)

lemma resolveNode_frame: "resolveNode pg p w = (r, w') \<Longrightarrow> obs w' = obs w"
  by (auto simp: resolveNode_def dest!: pxGet_frame split: prod.splits sum.splits if_splits option.splits)

lemma agentExec_frame: "agentExec pg p node cmd w = (r, w') \<Longrightarrow> obs w' = obs w"
  by (auto simp: agentExec_def dest!: pxPost_frame split: prod.splits sum.splits)

lemma agentExecStatus_frame: "agentExecStatus pg p node pid w = (r, w') \<Longrightarrow> obs w' = obs w"
  by (auto simp: agentExecStatus_def dest!: pxGet_frame split: prod.splits sum.splits)

lemma agentFileWrite_frame: "agentFileWrite pg p node path content w = (r, w') \<Longrightarrow> obs w' = obs w"
  by (auto simp: agentFileWrite_def dest!: pxPost_frame split: prod.splits sum.splits)

lemma agentPing_frame: "agentPing pg p node w = (r, w') \<Longrightarrow> obs w' = obs w"
  by (auto simp: agentPing_def dest!: pxPost_frame split: prod.splits sum.splits)

lemma substateLoop_frame: "substateLoop pg p node pid rounds w = (r, w') \<Longrightarrow> obs w' = obs w"
proof (induction rounds arbitrary: w)
  case 0
  then show ?case
    by (subst (asm) substateLoop.simps)
      (auto simp: Let_def dest!: agentExecStatus_frame split: prod.splits sum.splits if_splits)
next
  case (Suc n)
  then show ?case
    by (subst (asm) substateLoop.simps)
      (auto simp: Let_def timer_frame dest!: agentExecStatus_frame Suc.IH
        split: prod.splits sum.splits if_splits)
qed

lemma IsVMRunning_frame: "proxmox_IsVMRunning pg p w = (r, w') \<Longrightarrow> obs w' = obs w"
  by (auto simp: proxmox_IsVMRunning_def tryDo_def dest!: resolveNode_frame tryDoFrom_frame
      split: prod.splits sum.splits if_splits)

lemma CheckReady_frame: "proxmox_CheckReady pg p w = (r, w') \<Longrightarrow> obs w' = obs w"
  by (auto simp: proxmox_CheckReady_def
      dest!: resolveNode_frame agentPing_frame agentExec_frame substateLoop_frame
      split: prod.splits sum.splits option.splits)

lemma ExecScript_frame: "proxmox_ExecScript pg p c cmds sv w = (r, w') \<Longrightarrow> obs w' = obs w"
  by (auto simp: proxmox_ExecScript_def dest!: resolveNode_frame agentFileWrite_frame agentExec_frame
      split: prod.splits sum.splits option.splits)

lemma GetExecStatus_frame: "proxmox_GetExecStatus pg p pid w = (r, w') \<Longrightarrow> obs w' = obs w"
  by (auto simp: proxmox_GetExecStatus_def dest!: resolveNode_frame agentExecStatus_frame
      split: prod.splits sum.splits)

lemma proxmox_frames: "proxmoxNew k pg cfg cl node w = Inr p \<Longrightarrow> provider_frames obs p"
  using CheckReady_frame ExecScript_frame GetExecStatus_frame IsVMRunning_frame
  by (auto simp: proxmoxNew_def proxmoxBackend_def provider_frames_def split: sum.splits)
    (metis prod.collapse)+

lemma proxmox_handle: "proxmox_ExecScript pg p c cmds sv w = (Inr pid, w') \<Longrightarrow> 0 < pid"
  by (auto simp: proxmox_ExecScript_def agentExec_def dest: agent_pid
      split: prod.splits sum.splits option.splits)

end

end
