(* ===== verification/BackendWorld.thy ===== *)
theory BackendWorld
  imports DaemonWorld GuestWorld ProxmoxWorld ProxmoxBackend TargetController
begin

text \<open>
  Properties of the operator on its own backends: the three constructors as the factory uses
  them, and a Proxmox VM across the cluster controller, the stored target, the provider and
  the target controller.
\<close>

section \<open>The operator with its own backends\<close>

definition realBackends :: "'w kube \<Rightarrow> 'w pxagent \<Rightarrow> 'w control \<Rightarrow> 'w virt \<Rightarrow> 'w backends" where
  "realBackends k pg ctl v =
     \<lparr>newProxmox = proxmoxNew k pg, newDaemon = daemonNew ctl, newKubevirt = kubevirtNew v\<rparr>"

lemma realBackends_frame:
  assumes "agent_channel pg obs" "control_channel ctl obs" "guest_channel v obs"
  shows "backends_frame obs (realBackends k pg ctl v)"
  unfolding backends_frame_def realBackends_def
  using agent_channel.proxmox_frames [OF assms(1)] control_channel.daemon_frames [OF assms(2)]
    guest_channel.kubevirt_frames [OF assms(3)]
  by (simp; blast)

lemma realBackends_handles:
  assumes "agent_channel pg obs" "control_channel ctl obs" "guest_channel v obs"
  shows "positive_handles k (realBackends k pg ctl v)"
  using agent_channel.proxmox_handle [OF assms(1)] control_channel.daemon_handle [OF assms(2)]
    guest_channel.kubevirt_handle [OF assms(3)]
  by (auto simp: positive_handles_def NewProvider_def realBackends_def Let_def proxmoxNew_def
      proxmoxBackend_def daemonNew_def daemonBackend_def kubevirtNew_def kubevirtBackend_def
      split: ProviderType.splits option.splits sum.splits)

section \<open>A Proxmox VM across the components\<close>

definition resourcesPath :: string where
  "resourcesPath = ''/api2/json/cluster/resources?type=vm''"

text \<open>The provider of a target without a node, for a VM the cluster does not list.\<close>

lemma unlisted_vm_stopped:
  assumes "pmCachedNode p = []" "pxGet pg p resourcesPath w = (Inr body, w')"
    and "decodeNodes pg body = Inr vms" "pmVMID p \<notin> fst ` set vms"
  shows "IsVMRunning (proxmoxBackend pg p) w = (Inr False, w')"
proof -
  have "map_of vms (pmVMID p) = None" using assms(4) by (simp add: map_of_eq_None_iff)
  with assms(1-3) show ?thesis
    by (simp add: proxmoxBackend_def proxmox_IsVMRunning_def resolveNode_def resourcesPath_def)
qed

lemma proxmox_provider:
  assumes "belongsTo c t" "tgtSpec t1 = tgtSpec t" "tgtMeta t1 = tgtMeta t"
    and "provProxmox (tgtProvider (tgtSpec t)) = Some px"
    and "GetProxmoxCluster k px (metaNamespace (tgtMeta t)) w = Inr cl"
    and "newPxMachine k px cl (ProxmoxNode (tgtStatus t1)) w = Inr p"
  shows "NewProvider k (realBackends k pg ctl v) t1 w = Inr (proxmoxBackend pg p)"
    and "pmVMID p = vmidOf t" "pmCachedNode p = ProxmoxNode (tgtStatus t1)"
  using assms
  by (auto simp: belongsTo_def clusterRefOf_def vmidOf_def NewProvider_def realBackends_def proxmoxNew_def
      newPxMachine_def Let_def split: sum.splits if_splits)

text \<open>
  C36. A destroyed VM does not stay running: when a sync without an error finds that the
  cluster no longer lists the VM of one of its targets, the next poll of that target, the
  cluster and its credentials being readable, asks the cluster instead of the node the VM was
  on, and, the VM still not being listed, ends with a stored target that has no node and
  \<open>VMRunning=False\<close>; its metadata and spec are the same as before.
\<close>

theorem destroyed_vm_reported_stopped:
  assumes "target_api k tgts" "agent_channel pg tgts" "control_channel ctl tgts" "guest_channel v tgts"
    and "px_frames (\<lambda>w. (tgts w, up w)) px" "patches_work k tgts up" "up w"
    and "syncTargets k px c tid tsec vmMap w = (r, None, w1)"
    and "tgts w n = Some t" "fst n = metaNamespace (pxcMeta c)" "belongsTo c t" "vmMap (vmidOf t) = None"
    and "tgts w2 n = tgts w1 n" "getTarget k n w2 = Inr t2"
    and "provProxmox (tgtProvider (tgtSpec t)) = Some px2"
    and "GetProxmoxCluster k px2 (metaNamespace (tgtMeta t)) w2 = Inr cl"
    and "newPxMachine k px2 cl [] w2 = Inr p"
    and "pxGet pg p resourcesPath w2 = (Inr body, w3)" "decodeNodes pg body = Inr vms"
    and "vmidOf t \<notin> fst ` set vms"
    and "Target_Reconcile k (realBackends k pg ctl v) n w2 = (r2, None, w4)"
  shows "\<exists>t4. tgts w4 n = Some t4 \<and> tgtMeta t4 = tgtMeta t \<and> tgtSpec t4 = tgtSpec t \<and>
     ProxmoxNode (tgtStatus t4) = [] \<and> \<not> VMRunning (tgtStatus t4)"
proof -
  obtain t1 where t1: "tgts w1 n = Some t1" "tgtMeta t1 = tgtMeta t" "tgtSpec t1 = tgtSpec t"
    "ProxmoxNode (tgtStatus t1) = []"
    using sync_nodes [OF assms(1,5-8), THEN conjunct1, rule_format, OF conjI [OF assms(9) conjI [OF assms(10,11)]]]
      assms(12) by auto
  have "tgts w2 n = Some t2" by (rule target_api.gett_found [OF assms(1,14)])
  with t1(1) assms(13) have t2: "tgts w2 n = Some t1" "t2 = t1" by simp_all
  note prov = proxmox_provider [OF assms(11) t1(3,2) assms(15,16), of p, unfolded t1(4), OF assms(17)]
  have run: "IsVMRunning (proxmoxBackend pg p) w2 = (Inr False, w3)"
    using assms(20) prov(2) by (intro unlisted_vm_stopped [OF prov(3) assms(18,19)]) simp
  have "tgts w4 = (tgts w2)(n \<mapsto> t1\<lparr>tgtStatus := (tgtStatus t1)\<lparr>VMRunning := False\<rparr>\<rparr>)"
    using target_api.Target_Reconcile_stored [OF assms(1) realBackends_frame [OF assms(2-4)] t2(1)
        assms(14) [unfolded t2(2)] prov(1) assms(21)] run
    by simp
  with t1 show ?thesis by simp
qed

section \<open>Witnesses\<close>

text \<open>
  A Proxmox API that lists one VM and whose guests answer everything.
\<close>

definition memAgent :: "(int \<times> string) list \<Rightarrow> mem_world pxagent" where
  "memAgent vms =
     \<lparr>pgNewRequest = (\<lambda>req. None),
      pgDo = (\<lambda>req w. (Inr \<lparr>respStatus = 200, respBody = [], respReadErr = None\<rparr>,
        w\<lparr>mwSent := mwSent w @ [[reqMethod req, reqURL req, reqBody req]]\<rparr>)),
      decodeNodes = (\<lambda>body. Inr vms), decodeVMStatus = (\<lambda>body. Inr ''running''),
      decodeAgentPID = (\<lambda>body. Inr 7),
      decodeAgentStatus = (\<lambda>body. Inr \<lparr>asExited = 1, asExitCode = 0, asOutData = ''exited'', asErrData = []\<rparr>),
      marshalFile = (\<lambda>path content. Inr content), marshalCommand = (\<lambda>cmd. Inr (join '' '' cmd)),
      pgRand = (\<lambda>w. zeroBytes), pgRounds = 3, pgCtxErr = ErrMsg ''context deadline exceeded'',
      pgHalfSecond = (\<lambda>w. w\<lparr>mwNow := mwNow w + 500 * Millisecond\<rparr>)\<rparr>"

lemma mem_target_sent: "memTarget (w\<lparr>mwSent := x\<rparr>) = memTarget w" "memTarget (w\<lparr>mwNow := y\<rparr>) = memTarget w"
  "memTarget (w\<lparr>mwRegistry := z\<rparr>) = memTarget w"
  "memConfig (w\<lparr>mwSent := x\<rparr>) = memConfig w" "memConfig (w\<lparr>mwNow := y\<rparr>) = memConfig w"
  by (simp_all add: memTarget_def memConfig_def fun_eq_iff)

interpretation mem_agent: agent_channel "memAgent vms" memConfig
  by unfold_locales (auto simp: memAgent_def mem_target_sent)

interpretation mem_agent_targets: agent_channel "memAgent vms" memTarget
  by unfold_locales (auto simp: memAgent_def mem_target_sent)

interpretation mem_control_targets: control_channel memControl memTarget
  by unfold_locales (auto simp: memControl_def mem_target_sent)

interpretation mem_guest_targets: guest_channel memVirt memTarget
  by unfold_locales (auto simp: memVirt_def mem_target_sent)

abbreviation memReal :: "(int \<times> string) list \<Rightarrow> mem_world backends" where
  "memReal vms \<equiv> realBackends memKube (memAgent vms) memControl memVirt"

text \<open>The VM of \<open>r2\<close> is gone; the provider of \<open>r2\<close> reads the cluster and its secret.\<close>

definition withCredentials :: "mem_world \<Rightarrow> mem_world" where
  "withCredentials w =
     w\<lparr>mwDown := False, mwClusters := [(sampleKey ''pve'', sampleCluster)],
       mwSecrets := [(sampleKey ''creds'', [''api-token-id'' \<mapsto> ''id'', ''api-token-secret'' \<mapsto> ''secret''])]\<rparr>"

definition sampleVM :: pxMachine where
  "sampleVM =
     \<lparr>pmEndpoints = [''https://pve1:8006''], pmInsecure = False, pmTokenID = ''id'', pmTokenSecret = ''secret'',
      pmVMID = 102, pmCachedNode = []\<rparr>"

lemma Target_Reconcile_works:
  assumes "target_api k tgts" "patches_work k tgts up" "getTarget k n w = Inr t"
    and "NewProvider k bk t w = Inr prov" "IsVMRunning prov w = (Inr b, w1)"
    and "tgts w1 n = Some t" "up w1"
  shows "error_of (Target_Reconcile k bk n w) = None"
proof -
  have "tgts w1 (tgt_key t) = Some t" using target_api.storedt_key [OF assms(1,6)] assms(6) by simp
  with assms(2,7) obtain t' w2 where
    "patchTargetStatus k t (t\<lparr>tgtStatus := (tgtStatus t)\<lparr>VMRunning := b\<rparr>\<rparr>) w1 = (Inr t', w2)"
    unfolding patches_work_def by blast
  with assms(3-5) show ?thesis by (auto simp: Target_Reconcile_def)
qed

theorem destroyed_vm_reported_stopped_witness:
  "\<exists>w1 t4. memTarget (world_of (Target_Reconcile memKube (memReal [(101, ''pve2'')]) (sampleKey ''r2'')
        (withCredentials w1))) (sampleKey ''r2'') = Some t4 \<and>
     ProxmoxNode (tgtStatus t4) = [] \<and> \<not> VMRunning (tgtStatus t4)"
proof -
  let ?w = "sampleCloud (900 * Second)" and ?n = "sampleKey ''r2''" and ?t = "sampleGuest ''r2'' 102 (900 * Second)"
  let ?px = "\<lparr>pxVMID = 102, pxClusterRef = \<lparr>refNamespace = [], refName = ''pve''\<rparr>\<rparr>" and ?vms = "[(101, ''pve2'')]"
  obtain r w1 where sync: "syncTargets memKube (memPx sampleItems (97 / 2)) sampleCluster ''id'' ''secret''
      (resourceMap sampleItems) ?w = (r, None, w1)"
    using sampleCloud_sync by blast
  let ?w2 = "withCredentials w1"
  let ?out = "Target_Reconcile memKube (memReal ?vms) ?n ?w2"
  have same: "memTarget ?w2 = memTarget w1" by (simp add: withCredentials_def memTarget_def fun_eq_iff)
  have cl: "GetProxmoxCluster memKube ?px (metaNamespace (tgtMeta ?t)) ?w2 = Inr sampleCluster"
    by (simp add: GetProxmoxCluster_def withCredentials_def sampleGuest_def sampleMeta_def found_def Let_def)
  have vm: "newPxMachine memKube ?px sampleCluster [] ?w2 = Inr sampleVM"
    by (simp add: newPxMachine_def withCredentials_def sampleCluster_def sampleMeta_def found_def secretText_def
        TrimSpace_visible visible_def sampleVM_def TrimRight_def Let_def)
  obtain x where list: "pxGet (memAgent ?vms) sampleVM resourcesPath ?w2 = (Inr [], ?w2\<lparr>mwSent := x\<rparr>)"
    by (simp add: pxGet_def tryDo_def only2xx_def sampleVM_def memAgent_def okStatus_def pmRequest_def Let_def)
  have nodes: "decodeNodes (memAgent ?vms) [] = Inr ?vms" by (simp add: memAgent_def)
  have start: "\<not> mwDown ?w" "fst ?n = metaNamespace (pxcMeta sampleCluster)"
    "resourceMap sampleItems (vmidOf ?t) = None" "provProxmox (tgtProvider (tgtSpec ?t)) = Some ?px"
    "vmidOf ?t \<notin> fst ` set ?vms"
    by (simp_all add: sampleCloud_def mem_empty_def sampleCluster_def sampleMeta_def resourceMap_def
        sampleItems_def sampleGuest_simps) (simp add: sampleGuest_def)
  obtain t1 where t1: "memTarget w1 ?n = Some t1" "tgtMeta t1 = tgtMeta ?t" "tgtSpec t1 = tgtSpec ?t"
    "ProxmoxNode (tgtStatus t1) = []"
    using sync_nodes [OF mem_targets.target_api_axioms mem_px_frames(1) mem_patches_work start(1) sync, THEN conjunct1, rule_format,
        OF conjI [OF sampleCloud_targets(3) conjI [OF start(2) sampleGuest_simps(2)]]] start(3) by auto
  have get: "getTarget memKube ?n ?w2 = Inr t1" using t1(1) same by (simp add: found_def)
  note prov = proxmox_provider [OF sampleGuest_simps(2) t1(3,2) start(4) cl, of sampleVM, unfolded t1(4), OF vm]
  have run: "IsVMRunning (proxmoxBackend (memAgent ?vms) sampleVM) ?w2 = (Inr False, ?w2\<lparr>mwSent := x\<rparr>)"
    by (rule unlisted_vm_stopped [OF _ list nodes]) (simp_all add: sampleVM_def)
  have err: "error_of ?out = None"
    by (rule Target_Reconcile_works [OF mem_targets.target_api_axioms mem_patches_work get prov(1) run])
      (simp_all add: mem_target_sent same t1(1), simp add: withCredentials_def)
  show ?thesis
    using destroyed_vm_reported_stopped [OF mem_targets.target_api_axioms mem_agent_targets.agent_channel_axioms
      mem_control_targets.control_channel_axioms mem_guest_targets.guest_channel_axioms mem_px_frames(1)
      mem_patches_work start(1) sync sampleCloud_targets(3) start(2) sampleGuest_simps(2) start(3)
      fun_cong [OF same] get start(4) cl vm list nodes start(5) outcome_ok [OF err]]
    by blast
qed

end
