(* ===== verification/BindingWorld.thy ===== *)
theory BindingWorld
  imports BindingProps MemKube
begin

text \<open>
  Properties of the VRouterBinding reconciler: what a reconcile writes, in which order and
  at what distance targets are updated in the two rollout modes, when a rollout halts, what
  \<open>Ready=True\<close> means, and that a rollout makes progress. \<open>cfgs\<close> and \<open>bnds\<close> are the stored
  VRouterConfigs and VRouterBindings.
\<close>

section \<open>Serial rollout\<close>

text \<open>
  C19. One at a time: whatever a rollout step returns, it changes at most one VRouterConfig.
  If it changes one, then that is the first target of the list whose stored spec is not the
  rendered one, the write gate was open, the new object is the rendered configuration, and
  the frontier (target and time) was stamped into the binding's status, with
  \<open>Ready=False\<close>, before: a written configuration is never unrecorded.
\<close>

theorem rollout_writes_first_mismatch_only:
  assumes "binding_runtime k cfgs bnds" "bnds w (bnd_key b) = Some b"
    and "runRollout k b rollout ds w = (r, e, w')"
  shows "cfgs w' = cfgs w \<or>
    (\<exists>pre d post c' b' wait.
       ds = pre @ d # post \<and> (\<forall>p \<in> set pre. matched cfgs w b p) \<and> \<not> matched cfgs w b d \<and>
       gateRemaining k b (EffectiveMode (bndRollout (bndSpec b))) rollout (statusRollout (bndStatus b)) d
         (now k w) w = Inr wait \<and> wait \<le> 0 \<and>
       cfgs w' = (cfgs w)(dc_key b d \<mapsto> c') \<and> generated b d (cfgs w (dc_key b d)) c' \<and>
       bnds w' (bnd_key b) = Some b' \<and>
       statusRollout (bndStatus b') =
         Some \<lparr>LastUpdatedTarget = refName (dcTarget d), LastUpdateTime = trunc_sec (now k w)\<rparr> \<and>
       ready_is b' ConditionFalse ReasonRolloutInProgress (metaGeneration (bndMeta b)))"
proof (cases "cfgs w' = cfgs w")
  case False
  from binding_runtime.runRollout_cases [OF assms(1,3,2) this] show ?thesis by blast
qed simp

text \<open>What the gates say about a step that wrote.\<close>

lemma rollout_write:
  assumes "binding_runtime k cfgs bnds" "bnds w (bnd_key b) = Some b"
    and "runRollout k b rollout ds w = (r, e, w')" "cfgs w' \<noteq> cfgs w"
    and "bnds w' (bnd_key b) = Some b'" "statusRollout (bndStatus b') = Some f'"
  obtains d wait where "d \<in> set ds" "LastUpdatedTarget f' = refName (dcTarget d)"
    "LastUpdateTime f' = trunc_sec (now k w)" "wait \<le> 0"
    "gateRemaining k b (EffectiveMode (bndRollout (bndSpec b))) rollout (statusRollout (bndStatus b)) d
       (now k w) w = Inr wait"
proof -
  from binding_runtime.runRollout_cases [OF assms(1,3,2,4)] obtain pre d post wait b1 where
    "ds = pre @ d # post" "wait \<le> 0" "bnds w' (bnd_key b) = Some b1"
    "gateRemaining k b (EffectiveMode (bndRollout (bndSpec b))) rollout (statusRollout (bndStatus b)) d
       (now k w) w = Inr wait"
    "statusRollout (bndStatus b1) =
       Some \<lparr>LastUpdatedTarget = refName (dcTarget d), LastUpdateTime = trunc_sec (now k w)\<rparr>"
    by blast
  with assms(5,6) that [of d wait] show thesis by simp
qed

text \<open>
  The stagger of FixedInterval: if one rollout step wrote a configuration and a later one
  writes the configuration of another target, with the frontier still the one the first step
  recorded, then more than \<open>waitInterval\<close> less one second has passed between the two. The
  second is what storing \<open>lastUpdateTime\<close> cuts off.
\<close>

theorem fixed_interval_stagger:
  assumes "binding_runtime k cfgs bnds"
    and "bnds w (bnd_key b) = Some b" "runRollout k b rollout ds w = (r, e, w')" "cfgs w' \<noteq> cfgs w"
    and "bnds w' (bnd_key b) = Some b'" "statusRollout (bndStatus b') = Some f"
    and "bnds v (bnd_key c) = Some c" "statusRollout (bndStatus c) = Some f"
    and "EffectiveMode (bndRollout (bndSpec c)) = RolloutModeFixedInterval"
    and "runRollout k c rollout2 ds2 v = (r2, e2, v')" "cfgs v' \<noteq> cfgs v"
    and "bnds v' (bnd_key c) = Some c'" "statusRollout (bndStatus c') = Some f'"
    and "LastUpdatedTarget f \<noteq> []" "LastUpdatedTarget f' \<noteq> LastUpdatedTarget f"
  shows "WaitInterval rollout2 - Second < now k v - now k w"
proof -
  obtain d wait where first: "LastUpdateTime f = trunc_sec (now k w)"
    by (rule rollout_write [OF assms(1-6)])
  obtain d2 wait2 where second: "LastUpdatedTarget f' = refName (dcTarget d2)" "wait2 \<le> 0"
    "gateRemaining k c RolloutModeFixedInterval rollout2 (Some f) d2 (now k v) v = Inr wait2"
    by (rule rollout_write [OF assms(1,7,10-13)]) (simp add: assms(8,9))
  have "LastUpdateTime f + WaitInterval rollout2 \<le> now k v"
    using binding_runtime.gate_fixed [OF assms(1) second(3,2) refl assms(14)] assms(15) second(1) by simp
  with first trunc_sec_gt [of "now k w"] show ?thesis by simp
qed


text \<open>
  C21. The halt of WaitForApplied: while the VRouterConfig of some target is Failed with the
  spec that is rendered for it now, a rollout step writes no configuration and leaves the
  frontier as it is; without an API error it asks to be run again after \<open>pollInterval\<close>.
\<close>

theorem failed_target_halts_rollout:
  assumes "binding_runtime k cfgs bnds" "bnds w (bnd_key b) = Some b"
    and "EffectiveMode (bndRollout (bndSpec b)) = RolloutModeWaitForApplied"
    and "d \<in> set ds" "cfgs w (dc_key b d) = Some c" "cfgPhase (cfgStatus c) = PhaseFailed"
    and "cfgSpec c = dcSpec d" "runRollout k b rollout ds w = (r, e, w')"
  shows "cfgs w' = cfgs w \<and> (e = None \<longrightarrow> r = requeueIn (PollInterval rollout)) \<and>
    (\<exists>b'. bnds w' (bnd_key b) = Some b' \<and> statusRollout (bndStatus b') = statusRollout (bndStatus b))"
  by (rule binding_runtime.runRollout_halted [OF assms])

section \<open>Completion and progress\<close>

text \<open>
  C22. \<open>Ready=True\<close> is a fleet-level statement: when a rollout step ends without an error and
  without asking for another run, every target's stored configuration has the rendered
  spec, nothing was written in that step, the binding's condition is \<open>Ready=True\<close> for its
  generation, and with WaitForApplied every configuration is applied for its own
  generation. The intervals have to be positive.
\<close>

theorem rollout_done_means_applied:
  assumes "binding_runtime k cfgs bnds" "bnds w (bnd_key b) = Some b"
    and "runRollout k b rollout ds w = (noRequeue, None, w')"
    and "0 < PollInterval rollout" "0 < WaitInterval rollout"
  shows "cfgs w' = cfgs w \<and> (\<forall>d \<in> set ds. matched cfgs w b d) \<and>
    (EffectiveMode (bndRollout (bndSpec b)) = RolloutModeWaitForApplied \<longrightarrow>
       (\<forall>d \<in> set ds. \<exists>c cond. cfgs w (dc_key b d) = Some c \<and>
          List.find (\<lambda>c. condType c = ConditionApplied) (cfgConditions (cfgStatus c)) = Some cond \<and>
          condStatus cond = ConditionTrue \<and> condObservedGeneration cond = cfg_generation c)) \<and>
    (\<exists>b'. bnds w' (bnd_key b) = Some b' \<and>
       ready_is b' ConditionTrue ''ReconcileSucceeded'' (metaGeneration (bndMeta b)))"
  using binding_runtime.runRollout_complete [OF assms(1,3,2,4,5)]
  unfolding binding_runtime.applied_iff [OF assms(1)] by blast

lemma write_progress:
  assumes "binding_runtime k cfgs bnds" "bnds w (bnd_key b) = Some b"
    and "runRollout k b rollout ds w = (r, e, w')" "cfgs w' \<noteq> cfgs w"
    and "distinct (map dcName ds)" "\<forall>d \<in> set ds. cfgSave (dcSpec d) \<noteq> None"
  shows "pending cfgs w b ds = Suc (pending cfgs w' b ds)"
proof -
  from binding_runtime.runRollout_cases [OF assms(1,3,2,4)] obtain pre d post c' where d:
    "ds = pre @ d # post" "\<not> matched cfgs w b d" "cfgs w' = (cfgs w)(dc_key b d \<mapsto> c')"
    "generated b d (cfgs w (dc_key b d)) c'"
    by blast
  then have "cfgSpec c' = dcSpec d"
    using assms(6) by (simp add: generated_def defaultedConfigSpec_explicit)
  from pending_write [OF d(1) assms(5) d(2,3) this] show ?thesis .
qed

text \<open>
  Progress: a rollout step that changes a VRouterConfig brings the number of targets
  still to be written down by one, when the targets have different names and the binding
  sets \<open>save\<close> (the CRD's default does). So a rollout of unchanged renderings ends after as
  many writes as there were mismatches.
\<close>

theorem rollout_write_progress:
  assumes "binding_runtime k cfgs bnds" "bnds w (bnd_key b) = Some b"
    and "runRollout k b rollout ds w = (r, e, w')" "cfgs w' \<noteq> cfgs w"
    and "distinct (map dcName ds)" "\<forall>d \<in> set ds. cfgSave (dcSpec d) \<noteq> None"
  shows "pending cfgs w b ds = Suc (pending cfgs w' b ds)"
  by (rule write_progress [OF assms])

text \<open>
  FixedInterval does not get stuck: once the recorded wait is over, a step that meets no
  API error writes a configuration as long as some target is still to be written, and asks
  to be run again after \<open>waitInterval\<close>; whether configurations are Failed does not matter.
\<close>

theorem fixed_interval_never_stuck:
  assumes "binding_runtime k cfgs bnds" "bnds w (bnd_key b) = Some b"
    and "EffectiveMode (bndRollout (bndSpec b)) = RolloutModeFixedInterval"
    and "\<forall>f. statusRollout (bndStatus b) = Some f \<longrightarrow> LastUpdateTime f + WaitInterval rollout \<le> now k w"
    and "0 < pending cfgs w b ds" "distinct (map dcName ds)" "\<forall>d \<in> set ds. cfgSave (dcSpec d) \<noteq> None"
    and "runRollout k b rollout ds w = (r, None, w')"
  shows "r = requeueIn (WaitInterval rollout) \<and> pending cfgs w' b ds < pending cfgs w b ds"
proof -
  have step: "r = requeueIn (WaitInterval rollout)" "cfgs w' \<noteq> cfgs w"
    using binding_runtime.rollout_step [OF assms(1,8,2,3) fixed_passable [OF assms(4)]] assms(5,7)
    by (auto simp: pending_pos postWriteRequeueInterval_def)
  from write_progress [OF assms(1,2,8) step(2) assms(6,7)] step(1) show ?thesis by simp
qed

section \<open>Writing everything, and errors\<close>

text \<open>
  C23. Mode Disabled: a reconcile that ends without an error has written the rendered
  configuration of every target (with the binding's labels, keeping the status of an object
  that was there and counting its generation up exactly when the spec changed), has deleted
  every configuration labelled with the binding that is not wanted any more, and has set
  \<open>Ready=True\<close>.
\<close>

theorem disabled_mode_writes_everything:
  assumes "binding_runtime k cfgs bnds" "bnds w (bnd_key b) = Some b"
    and "EffectiveMode (bndRollout (bndSpec b)) = RolloutModeDisabled"
    and "distinct (map refName (bndTargetRefs (bndSpec b)))"
    and "Binding_onChange k lib b w = (r, None, w')"
  shows "\<exists>ds. renderAll k lib b w = Inr ds \<and>
     (\<forall>d \<in> set ds. \<exists>c. cfgs w' (dc_key b d) = Some c \<and> generated b d (cfgs w (dc_key b d)) c) \<and>
     (\<forall>nm c. cfgs w (metaNamespace (bndMeta b), nm) = Some c \<longrightarrow>
        metaLabels (cfgMeta c) LabelBinding = Some (metaName (bndMeta b)) \<longrightarrow> nm \<notin> dcName ` set ds \<longrightarrow>
        gone_or_deleting (cfgs w' (metaNamespace (bndMeta b), nm))) \<and>
     (\<exists>b'. bnds w' (bnd_key b) = Some b' \<and>
        ready_is b' ConditionTrue ''ReconcileSucceeded'' (metaGeneration (bndMeta b)))"
  by (rule binding_runtime.onChange_disabled [OF assms(1,5,2,3,4)])

text \<open>
  C24. Errors before the writes: when rendering fails, for whatever target and for whatever
  reason, no VRouterConfig is created, changed or deleted, and the reconcile reports the
  render error itself even if recording it in the status fails.
\<close>

theorem render_error_writes_nothing:
  assumes "binding_runtime k cfgs bnds" "renderAll k lib b w = Inl err"
    and "Binding_onChange k lib b w = (r, e, w')"
  shows "cfgs w' = cfgs w \<and> e = Some err"
  by (rule binding_runtime.onChange_render_error [OF assms])

text \<open>
  C25. Orphan cleanup is confined: whatever it returns, it leaves every VRouterConfig alone
  that is in another namespace, is wanted, or is not labelled with this binding; and if it
  returns no error, every configuration labelled with the binding that is not wanted is
  gone or being deleted.
\<close>

theorem orphan_cleanup_confined:
  assumes "binding_runtime k cfgs bnds" "cleanupOrphans k b ds w = (r, w')"
  shows "(\<forall>n. fst n \<noteq> metaNamespace (bndMeta b) \<or> snd n \<in> dcName ` set ds \<or>
            (\<forall>c. cfgs w n = Some c \<longrightarrow> metaLabels (cfgMeta c) LabelBinding \<noteq> Some (metaName (bndMeta b))) \<longrightarrow>
            cfgs w' n = cfgs w n) \<and>
     (r = None \<longrightarrow>
        (\<forall>nm c. cfgs w (metaNamespace (bndMeta b), nm) = Some c \<longrightarrow>
           metaLabels (cfgMeta c) LabelBinding = Some (metaName (bndMeta b)) \<longrightarrow> nm \<notin> dcName ` set ds \<longrightarrow>
           gone_or_deleting (cfgs w' (metaNamespace (bndMeta b), nm))))"
proof (intro conjI allI impI)
  fix n
  assume "fst n \<noteq> metaNamespace (bndMeta b) \<or> snd n \<in> dcName ` set ds \<or>
      (\<forall>c. cfgs w n = Some c \<longrightarrow> metaLabels (cfgMeta c) LabelBinding \<noteq> Some (metaName (bndMeta b)))"
  then show "cfgs w' n = cfgs w n" by (rule binding_runtime.cleanup_frame [OF assms])
next
  fix nm c
  assume "r = None"
  with assms(2) have "cleanupOrphans k b ds w = (None, w')" by simp
  from binding_runtime.cleanup_ok(2) [OF assms(1) this]
  show "cfgs w (metaNamespace (bndMeta b), nm) = Some c \<Longrightarrow>
      metaLabels (cfgMeta c) LabelBinding = Some (metaName (bndMeta b)) \<Longrightarrow> nm \<notin> dcName ` set ds \<Longrightarrow>
      gone_or_deleting (cfgs w' (metaNamespace (bndMeta b), nm))" .
qed

section \<open>Which events reach a binding\<close>

lemma mapE_cong: "(\<And>x. x \<in> set xs \<Longrightarrow> f x = g x) \<Longrightarrow> mapE f xs = mapE g xs"
  by (induction xs) (auto split: sum.splits)

lemma renderAll_cong:
  assumes "\<And>ref. ref \<in> set (effectiveTemplateRefs b) \<Longrightarrow>
      getTemplate k (ResolveNamespace ref (metaNamespace (bndMeta b)), refName ref) w' =
      getTemplate k (ResolveNamespace ref (metaNamespace (bndMeta b)), refName ref) w"
    and "\<And>ref. ref \<in> set (bndParamsRefs (bndSpec b)) \<Longrightarrow>
      getParams k (ResolveNamespace ref (metaNamespace (bndMeta b)), refName ref) w' =
      getParams k (ResolveNamespace ref (metaNamespace (bndMeta b)), refName ref) w"
    and "\<And>ref. ref \<in> set (bndTargetRefs (bndSpec b)) \<Longrightarrow>
      getTarget k (ResolveNamespace ref (metaNamespace (bndMeta b)), refName ref) w' =
      getTarget k (ResolveNamespace ref (metaNamespace (bndMeta b)), refName ref) w"
  shows "renderAll k lib b w' = renderAll k lib b w"
proof -
  have "fetchTemplates k b w' = fetchTemplates k b w" unfolding fetchTemplates_def Let_def
    by (rule mapE_cong) (simp add: assms(1))
  moreover have "fetchParams k b w' = fetchParams k b w" unfolding fetchParams_def Let_def
    by (rule mapE_cong) (simp add: assms(2))
  moreover have "mapE (renderTarget k lib b ts ps w') (bndTargetRefs (bndSpec b)) =
      mapE (renderTarget k lib b ts ps w) (bndTargetRefs (bndSpec b))" for ts ps
    by (rule mapE_cong) (simp add: renderTarget_def assms(3))
  ultimately show ?thesis by (simp add: renderAll_def cong: sum.case_cong)
qed

text \<open>
  C26. No missed event: if a template, a params object or a target changes (every other one
  reads as before) and the event is not mapped to a binding although bindings can be
  listed, then the rendering of that binding is what it was.
\<close>

theorem unmapped_event_is_irrelevant:
  assumes "binding_runtime k cfgs bnds" "bnds w' (bnd_key b) = Some b" "listBindings k None w' = Inr bs"
    and "\<forall>m. (kind = ''VRouterTemplate'' \<and> m = obj) \<or> getTemplate k m w' = getTemplate k m w"
    and "\<forall>m. (kind = ''VRouterParams'' \<and> m = obj) \<or> getParams k m w' = getParams k m w"
    and "\<forall>m. (kind = ''VRouterTarget'' \<and> m = obj) \<or> getTarget k m w' = getTarget k m w"
    and "kind = ''VRouterTemplate'' \<longrightarrow> bnd_key b \<notin> set (bindingsForTemplate k obj w')"
    and "kind = ''VRouterParams'' \<longrightarrow> bnd_key b \<notin> set (bindingsForParams k obj w')"
    and "kind = ''VRouterTarget'' \<longrightarrow> bnd_key b \<notin> set (bindingsForTarget k obj w')"
  shows "renderAll k lib b w' = renderAll k lib b w"
proof -
  note complete = binding_runtime.bindingsReferencing_complete [OF assms(1-3)]
  have no: "(ResolveNamespace ref (metaNamespace (bndMeta b)), refName ref) \<noteq> obj"
    if "bnd_key b \<notin> set (bindingsReferencing k refs obj w')" "ref \<in> set (refs b)" for refs ref
    using complete [of ref refs obj] that by auto
  show ?thesis
  proof (rule renderAll_cong)
    fix ref assume "ref \<in> set (effectiveTemplateRefs b)"
    with no [of effectiveTemplateRefs] assms(4,7)
    show "getTemplate k (ResolveNamespace ref (metaNamespace (bndMeta b)), refName ref) w' =
      getTemplate k (ResolveNamespace ref (metaNamespace (bndMeta b)), refName ref) w"
      unfolding bindingsForTemplate_def by blast
  next
    fix ref assume "ref \<in> set (bndParamsRefs (bndSpec b))"
    with no [of "\<lambda>b. bndParamsRefs (bndSpec b)"] assms(5,8)
    show "getParams k (ResolveNamespace ref (metaNamespace (bndMeta b)), refName ref) w' =
      getParams k (ResolveNamespace ref (metaNamespace (bndMeta b)), refName ref) w"
      unfolding bindingsForParams_def by blast
  next
    fix ref assume "ref \<in> set (bndTargetRefs (bndSpec b))"
    with no [of "\<lambda>b. bndTargetRefs (bndSpec b)"] assms(6,9)
    show "getTarget k (ResolveNamespace ref (metaNamespace (bndMeta b)), refName ref) w' =
      getTarget k (ResolveNamespace ref (metaNamespace (bndMeta b)), refName ref) w"
      unfolding bindingsForTarget_def by blast
  qed
qed

section \<open>Two corners of WaitForApplied\<close>

text \<open>
  With a poll interval of zero, which admission accepts, the gate does not hold a write back
  while the frontier is not applied.
\<close>

lemma zero_poll_interval_opens_gate:
  assumes "statusRollout (bndStatus b) = Some f" "LastUpdatedTarget f \<noteq> []"
    and "LastUpdatedTarget f \<noteq> refName (dcTarget d)" "inTargetRefs b (LastUpdatedTarget f)"
    and "getExistingConfig k b (configNameFor b (LastUpdatedTarget f)) w = Inr cfg"
    and "appliedConditionForGeneration k cfg = None" "PollInterval rollout = 0"
  shows "gateRemaining k b RolloutModeWaitForApplied rollout (Some f) d t w = Inr 0"
  using assms by (simp add: gateRemaining_def frontierRemaining_def)

text \<open>
  When the frontier's configuration has been deleted and an earlier target is the first
  mismatch, the gate asks for the poll interval at every time: the walk, which would
  recreate the frontier only after that earlier target, does not move.
\<close>

lemma missing_frontier_blocks_gate:
  assumes "statusRollout (bndStatus b) = Some f" "LastUpdatedTarget f \<noteq> []"
    and "LastUpdatedTarget f \<noteq> refName (dcTarget d)" "inTargetRefs b (LastUpdatedTarget f)"
    and "getExistingConfig k b (configNameFor b (LastUpdatedTarget f)) w = Inr None"
  shows "gateRemaining k b RolloutModeWaitForApplied rollout (Some f) d t w = Inr (PollInterval rollout)"
  using assms by (simp add: gateRemaining_def frontierRemaining_def appliedConditionForGeneration_def)

section \<open>Witnesses\<close>

interpretation mem_binding: binding_runtime memKube memConfig memBinding
  by unfold_locales

definition sampleRollout :: "RolloutMode \<Rightarrow> RolloutSpec" where
  "sampleRollout mode =
     \<lparr>rolloutMode = mode, PollInterval = 10 * Second, WaitAfterApplied = 5 * Second,
      WaitInterval = 60 * Second\<rparr>"

definition sampleBinding :: "RolloutMode \<Rightarrow> RolloutStatus option \<Rightarrow> VRouterBinding" where
  "sampleBinding mode frontier =
     \<lparr>bndMeta = sampleMeta ''b'',
      bndSpec = \<lparr>bndTemplateRef = None, bndTemplateRefs = [\<lparr>refNamespace = [], refName = ''t''\<rparr>],
        bndParamsRefs = [],
        bndTargetRefs = [\<lparr>refNamespace = [], refName = ''r1''\<rparr>, \<lparr>refNamespace = [], refName = ''r2''\<rparr>],
        bndSave = Some True, bndParams = ''{}'', bndRollout = Some (sampleRollout mode)\<rparr>,
      bndStatus = \<lparr>bndConditions = [], statusRollout = frontier\<rparr>\<rparr>"

definition sampleDesired :: "desiredConfig list" where
  "sampleDesired =
     map (\<lambda>tgt. \<lparr>dcName = ''b.'' @ tgt, dcTarget = \<lparr>refNamespace = [], refName = tgt\<rparr>,
                 dcSpec = sampleSpec tgt ''interfaces {}''\<rparr>) [''r1'', ''r2'']"

lemma sampleDesired_ok:
  "\<forall>d \<in> set sampleDesired. cfgSave (dcSpec d) \<noteq> None" "distinct (map dcName sampleDesired)"
  by (auto simp: sampleDesired_def sampleSpec_def)

definition sampleTemplate :: VRouterTemplate where
  "sampleTemplate = \<lparr>tmplMeta = sampleMeta ''t'', tmplConfig = ''interfaces {}'', tmplCommands = []\<rparr>"

definition sampleBound :: "RolloutMode \<Rightarrow> RolloutStatus option \<Rightarrow> mem_world" where
  "sampleBound mode frontier =
     sampleWorld\<lparr>mwBindings := [(sampleKey ''b'', sampleBinding mode frontier)],
       mwTemplates := [(sampleKey ''t'', sampleTemplate)]\<rparr>"

text \<open>A configuration with the rendered spec, in a given phase since the instant 1000 s.\<close>

definition sampleInPhase :: "string \<Rightarrow> Phase \<Rightarrow> ConditionStatus \<Rightarrow> nname \<times> VRouterConfig" where
  "sampleInPhase tgt ph st =
     (sampleKey (''b.'' @ tgt),
      (sampleConfig (''b.'' @ tgt) tgt ''interfaces {}'')\<lparr>cfgStatus := emptyConfigStatus\<lparr>cfgPhase := ph,
        ObservedGeneration := 1,
        cfgConditions := [\<lparr>condType = ConditionApplied, condStatus = st, condReason = [], condMessage = [],
          condObservedGeneration = 1, condLastTransitionTime = 1000 * Second\<rparr>]\<rparr>\<rparr>)"

abbreviation sampleFrontier :: "RolloutStatus option" where
  "sampleFrontier \<equiv> Some \<lparr>LastUpdatedTarget = ''r1'', LastUpdateTime = 1000 * Second\<rparr>"

definition sampleFirstApplied :: mem_world where
  "sampleFirstApplied = (sampleBound RolloutModeWaitForApplied sampleFrontier)
     \<lparr>mwNow := 1100 * Second, mwConfigs := [sampleInPhase ''r1'' PhaseApplied ConditionTrue]\<rparr>"

definition sampleFirstFailed :: mem_world where
  "sampleFirstFailed = (sampleBound RolloutModeWaitForApplied sampleFrontier)
     \<lparr>mwNow := 1100 * Second, mwConfigs := [sampleInPhase ''r1'' PhaseFailed ConditionFalse]\<rparr>"

definition sampleAllApplied :: mem_world where
  "sampleAllApplied = (sampleBound RolloutModeWaitForApplied sampleFrontier)
     \<lparr>mwNow := 1100 * Second,
      mwConfigs := [sampleInPhase ''r1'' PhaseApplied ConditionTrue, sampleInPhase ''r2'' PhaseApplied ConditionTrue]\<rparr>"

definition storedBinding :: "mem_world \<Rightarrow> VRouterBinding" where
  "storedBinding w = the (memBinding w (sampleKey ''b''))"

definition rolloutStep :: "mem_world \<Rightarrow> mem_world outcome" where
  "rolloutStep w =
     runRollout memKube (storedBinding w) (sampleRollout RolloutModeFixedInterval) sampleDesired w"

lemma rolloutStep_run:
  "runRollout memKube (storedBinding w) (sampleRollout RolloutModeFixedInterval) sampleDesired w =
     (result_of (rolloutStep w), error_of (rolloutStep w), world_of (rolloutStep w))"
  by (simp add: rolloutStep_def)

lemma storedBinding_stored:
  assumes "memBinding w (sampleKey ''b'') \<noteq> None"
  shows "memBinding w (bnd_key (storedBinding w)) = Some (storedBinding w)"
    and "memBinding w (sampleKey ''b'') = Some (storedBinding w)"
    and "bnd_key (storedBinding w) = sampleKey ''b''"
proof -
  show b: "memBinding w (sampleKey ''b'') = Some (storedBinding w)"
    using assms by (auto simp: storedBinding_def)
  from memBinding_key [OF this] show "bnd_key (storedBinding w) = sampleKey ''b''" .
  with b show "memBinding w (bnd_key (storedBinding w)) = Some (storedBinding w)" by simp
qed

text \<open>Two steps of FixedInterval, 60 seconds apart.\<close>

definition fixed0 :: mem_world where "fixed0 = sampleBound RolloutModeFixedInterval None"
definition fixed1 :: mem_world where "fixed1 = world_of (rolloutStep fixed0)"
definition fixed1_later :: mem_world where "fixed1_later = fixed1\<lparr>mwNow := 1060 * Second\<rparr>"
definition fixed2 :: mem_world where "fixed2 = world_of (rolloutStep fixed1_later)"

lemma fixed_stored:
  "memBinding fixed0 (sampleKey ''b'') \<noteq> None" "memBinding fixed1 (sampleKey ''b'') \<noteq> None"
  "memBinding fixed1_later (sampleKey ''b'') \<noteq> None" "memBinding fixed2 (sampleKey ''b'') \<noteq> None"
  by code_simp+

lemma fixed_frontiers:
  "statusRollout (bndStatus (storedBinding fixed1)) = sampleFrontier"
  "statusRollout (bndStatus (storedBinding fixed1_later)) = sampleFrontier"
  "statusRollout (bndStatus (storedBinding fixed2)) =
     Some \<lparr>LastUpdatedTarget = ''r2'', LastUpdateTime = 1060 * Second\<rparr>"
  by code_simp+

lemma fixed_changes:
  "memConfig fixed1 \<noteq> memConfig fixed0" "memConfig fixed2 \<noteq> memConfig fixed1_later"
proof -
  have "map_option (\<lambda>c. cfgConfig (cfgSpec c)) (memConfig fixed1 (sampleKey ''b.r1'')) \<noteq>
      map_option (\<lambda>c. cfgConfig (cfgSpec c)) (memConfig fixed0 (sampleKey ''b.r1''))"
    by code_simp
  then show "memConfig fixed1 \<noteq> memConfig fixed0" by metis
  have "map_option (\<lambda>c. cfgConfig (cfgSpec c)) (memConfig fixed2 (sampleKey ''b.r2'')) \<noteq>
      map_option (\<lambda>c. cfgConfig (cfgSpec c)) (memConfig fixed1_later (sampleKey ''b.r2''))"
    by code_simp
  then show "memConfig fixed2 \<noteq> memConfig fixed1_later" by metis
qed

theorem rollout_writes_first_mismatch_only_witness:
  "\<exists>d \<in> set sampleDesired. \<exists>c'. memConfig fixed1 = (memConfig fixed0)(dc_key (storedBinding fixed0) d \<mapsto> c')"
proof -
  from rollout_writes_first_mismatch_only [OF mem_binding.binding_runtime_axioms
      storedBinding_stored(1) [OF fixed_stored(1)] rolloutStep_run [of fixed0]] fixed_changes(1)
  obtain pre d post c' where "sampleDesired = pre @ d # post"
    "memConfig fixed1 = (memConfig fixed0)(dc_key (storedBinding fixed0) d \<mapsto> c')"
    unfolding fixed1_def [symmetric] by blast
  moreover from this(1) have "d \<in> set sampleDesired" by (metis in_set_conv_decomp)
  ultimately show ?thesis by blast
qed

theorem fixed_interval_stagger_witness:
  "60 * Second - Second < now memKube fixed1_later - now memKube fixed0"
proof -
  have bound: "EffectiveMode (bndRollout (bndSpec (storedBinding fixed1_later))) = RolloutModeFixedInterval"
    by code_simp
  have key: "bnd_key (storedBinding fixed0) = sampleKey ''b''"
    "bnd_key (storedBinding fixed1_later) = sampleKey ''b''"
    using storedBinding_stored(3) fixed_stored by auto
  have "WaitInterval (sampleRollout RolloutModeFixedInterval) - Second <
      now memKube fixed1_later - now memKube fixed0"
    by (rule fixed_interval_stagger [OF mem_binding.binding_runtime_axioms
          storedBinding_stored(1) [OF fixed_stored(1)] rolloutStep_run [of fixed0] _ _ fixed_frontiers(1)
          storedBinding_stored(1) [OF fixed_stored(3)] fixed_frontiers(2) bound
          rolloutStep_run [of fixed1_later] _ _ fixed_frontiers(3)])
      (use fixed_changes key storedBinding_stored(2) fixed_stored in
        \<open>simp_all add: fixed1_def [symmetric] fixed2_def [symmetric]\<close>)
  then show ?thesis by (simp add: sampleRollout_def)
qed


theorem failed_target_halts_rollout_witness:
  "memConfig (world_of (rolloutStep sampleFirstFailed)) = memConfig sampleFirstFailed"
proof -
  let ?w = sampleFirstFailed
  let ?d = "\<lparr>dcName = ''b.r1'', dcTarget = \<lparr>refNamespace = [], refName = ''r1''\<rparr>,
             dcSpec = sampleSpec ''r1'' ''interfaces {}''\<rparr>"
  have st: "memBinding ?w (sampleKey ''b'') \<noteq> None" by code_simp
  have mode: "EffectiveMode (bndRollout (bndSpec (storedBinding ?w))) = RolloutModeWaitForApplied" by code_simp
  have c: "memConfig ?w (sampleKey ''b.r1'') = Some (storedConfig ?w)"
    "cfgPhase (cfgStatus (storedConfig ?w)) = PhaseFailed"
    "cfgSpec (storedConfig ?w) = sampleSpec ''r1'' ''interfaces {}''"
  proof -
    have "memConfig ?w (sampleKey ''b.r1'') \<noteq> None" by code_simp
    then show "memConfig ?w (sampleKey ''b.r1'') = Some (storedConfig ?w)" by (auto simp: storedConfig_def)
  qed code_simp+
  have "?d \<in> set sampleDesired" by (simp add: sampleDesired_def)
  from failed_target_halts_rollout [OF mem_binding.binding_runtime_axioms storedBinding_stored(1) [OF st] mode
      this _ c(2) _ rolloutStep_run [of ?w]] c(1,3) storedBinding_stored(3) [OF st]
  show ?thesis by simp
qed

theorem rollout_done_means_applied_witness:
  "list_all (matched memConfig sampleAllApplied (storedBinding sampleAllApplied)) sampleDesired"
proof -
  let ?w = sampleAllApplied
  have st: "memBinding ?w (sampleKey ''b'') \<noteq> None" by code_simp
  have out: "error_of (rolloutStep ?w) = None" "result_of (rolloutStep ?w) = noRequeue" by code_simp+
  from rollout_done_means_applied [OF mem_binding.binding_runtime_axioms storedBinding_stored(1) [OF st]
      rolloutStep_run [of ?w, unfolded out]]
  show ?thesis by (simp add: sampleRollout_def Second_def list_all_iff)
qed

theorem rollout_write_progress_witness:
  "pending memConfig fixed0 (storedBinding fixed0) sampleDesired =
     Suc (pending memConfig fixed1 (storedBinding fixed0) sampleDesired)"
  unfolding fixed1_def
  by (rule rollout_write_progress [OF mem_binding.binding_runtime_axioms
        storedBinding_stored(1) [OF fixed_stored(1)] rolloutStep_run fixed_changes(1) [unfolded fixed1_def]
        sampleDesired_ok(2,1)])

theorem fixed_interval_never_stuck_witness:
  "pending memConfig fixed2 (storedBinding fixed1_later) sampleDesired <
     pending memConfig fixed1_later (storedBinding fixed1_later) sampleDesired"
proof -
  have facts: "EffectiveMode (bndRollout (bndSpec (storedBinding fixed1_later))) = RolloutModeFixedInterval"
    "error_of (rolloutStep fixed1_later) = None" "mwNow fixed1_later = 1060 * Second"
    "pending memConfig fixed1_later (storedBinding fixed1_later) sampleDesired = 1"
    by code_simp+
  from fixed_interval_never_stuck [OF mem_binding.binding_runtime_axioms
      storedBinding_stored(1) [OF fixed_stored(3)] facts(1) _ _ sampleDesired_ok(2,1)
      rolloutStep_run [of fixed1_later, unfolded facts(2)]] fixed_frontiers(2) facts(3,4)
  show ?thesis
    by (simp add: fixed2_def sampleRollout_def Second_def)
qed

definition sampleDisabled :: mem_world where
  "sampleDisabled = sampleBound RolloutModeDisabled None"

theorem disabled_mode_writes_everything_witness:
  "\<exists>ds. renderAll memKube pairsLib (storedBinding sampleDisabled) sampleDisabled = Inr ds \<and>
     (\<forall>d \<in> set ds. \<exists>c. memConfig (world_of (Binding_onChange memKube pairsLib (storedBinding sampleDisabled)
        sampleDisabled)) (dc_key (storedBinding sampleDisabled) d) = Some c)"
proof -
  let ?out = "Binding_onChange memKube pairsLib (storedBinding sampleDisabled) sampleDisabled"
  have st: "memBinding sampleDisabled (sampleKey ''b'') \<noteq> None" by code_simp
  have facts: "EffectiveMode (bndRollout (bndSpec (storedBinding sampleDisabled))) = RolloutModeDisabled"
    "map refName (bndTargetRefs (bndSpec (storedBinding sampleDisabled))) = [''r1'', ''r2'']"
    "error_of ?out = None"
    by code_simp+
  have "?out = (result_of ?out, None, world_of ?out)" using facts(3) by (metis prod.collapse)
  from disabled_mode_writes_everything [OF mem_binding.binding_runtime_axioms storedBinding_stored(1) [OF st]
      facts(1) _ this] facts(2)
  show ?thesis by fastforce
qed

definition sampleNoTemplate :: mem_world where
  "sampleNoTemplate = sampleDisabled\<lparr>mwTemplates := []\<rparr>"

theorem render_error_writes_nothing_witness:
  "memConfig (world_of (Binding_onChange memKube pairsLib (storedBinding sampleNoTemplate) sampleNoTemplate)) =
     memConfig sampleNoTemplate"
proof -
  let ?err = "Wrapped (''get template '' @ quoted ''t'' @ '' (namespace '' @ quoted ''default'' @ '')'') (ApiError notFound)"
  let ?out = "Binding_onChange memKube pairsLib (storedBinding sampleNoTemplate) sampleNoTemplate"
  have "renderAll memKube pairsLib (storedBinding sampleNoTemplate) sampleNoTemplate = Inl ?err"
    by (simp add: renderAll_def fetchTemplates_def effectiveTemplateRefs_def storedBinding_def
        sampleNoTemplate_def sampleDisabled_def sampleBound_def memBinding_def memBindingForm_def
        sampleBinding_def ResolveNamespace_def found_def sampleMeta_def)
  from render_error_writes_nothing [OF mem_binding.binding_runtime_axioms this, of "result_of ?out"
      "error_of ?out" "world_of ?out"]
  show ?thesis by simp
qed

definition sampleOrphan :: mem_world where
  "sampleOrphan =
     (let c = sampleConfig ''b.r9'' ''r9'' ''old'' in
      sampleDisabled\<lparr>mwConfigs := [(sampleKey ''b.r9'',
        c\<lparr>cfgMeta := (cfgMeta c)\<lparr>metaLabels := [LabelBinding \<mapsto> ''b'']\<rparr>\<rparr>)]\<rparr>)"

theorem orphan_cleanup_confined_witness:
  "gone_or_deleting (memConfig (snd (cleanupOrphans memKube (storedBinding sampleOrphan) sampleDesired sampleOrphan))
     (sampleKey ''b.r9''))"
proof -
  let ?out = "cleanupOrphans memKube (storedBinding sampleOrphan) sampleDesired sampleOrphan"
  have facts: "fst ?out = None" "metaNamespace (bndMeta (storedBinding sampleOrphan)) = ''default''"
    "metaName (bndMeta (storedBinding sampleOrphan)) = ''b''"
    by code_simp+
  have c: "memConfig sampleOrphan (sampleKey ''b.r9'') = Some c \<Longrightarrow> metaLabels (cfgMeta c) LabelBinding = Some ''b''"
    "memConfig sampleOrphan (sampleKey ''b.r9'') \<noteq> None" for c
    by (auto simp: sampleOrphan_def Let_def memConfig_def memForm_def sampleConfig_def sampleMeta_def)
  have out: "?out = (None, snd ?out)" using facts(1) by (metis prod.collapse)
  have "''b.r9'' \<notin> dcName ` set sampleDesired" by (simp add: sampleDesired_def)
  with orphan_cleanup_confined [OF mem_binding.binding_runtime_axioms out] c facts(2,3)
  show ?thesis by fastforce
qed

theorem unmapped_event_is_irrelevant_witness:
  "renderAll memKube pairsLib (storedBinding sampleDisabled)
     (sampleDisabled\<lparr>mwTargets := (sampleKey ''r9'', sampleTarget ''r9'') # mwTargets sampleDisabled\<rparr>) =
   renderAll memKube pairsLib (storedBinding sampleDisabled) sampleDisabled"
proof -
  let ?w' = "sampleDisabled\<lparr>mwTargets := (sampleKey ''r9'', sampleTarget ''r9'') # mwTargets sampleDisabled\<rparr>"
  have st: "memBinding sampleDisabled (sampleKey ''b'') \<noteq> None" by code_simp
  have b: "memBinding ?w' (bnd_key (storedBinding sampleDisabled)) = Some (storedBinding sampleDisabled)"
    using storedBinding_stored(1) [OF st] by (simp add: memBinding_def)
  have ev: "bindingsForTarget memKube (sampleKey ''r9'') ?w' = []" by code_simp
  have l: "listBindings memKube None ?w' = listBindings memKube None sampleDisabled"
    by (simp add: memListBindings_def memBinding_def)
  obtain bs where bs: "listBindings memKube None sampleDisabled = Inr bs"
    by (simp add: memListBindings_def)
  show ?thesis
    by (rule unmapped_event_is_irrelevant [OF mem_binding.binding_runtime_axioms b l [unfolded bs], where kind = "''VRouterTarget''"
          and obj = "sampleKey ''r9''"])
      (simp_all add: ev memTarget_def)
qed

end
