(* ===== verification/OperatorWorld.thy ===== *)
theory OperatorWorld
  imports OperatorProps BackendWorld BindingWorld
begin

text \<open>
  Properties of the whole operator: what its steps, with its own three backends, leave in the
  status of a VRouterConfig, when a running apply still has a request queued, and the case in
  which it has none.
\<close>

section \<open>Properties\<close>


text \<open>
  C8. No apply is forgotten while its router is up: in every state the operator can get into,
  a VRouterConfig with an exec handle has a request queued with its controller, unless its
  last reconcile stopped before it looked at the router (the object was being deleted, or the
  provider reported the router as not running).
\<close>

theorem running_apply_stays_scheduled:
  assumes "operator_runtime k cfgs bnds bk px" "operator_reach k lib px bk vw s" "vwConfigs vw = cfgs"
    and "cfgs (opWorld s) n = Some c" "0 < ExecPID (cfgStatus c)"
  shows "(ConfigCtl, n) \<in> opQueue s \<or> n \<in> opSkipped s"
  using operator_runtime.reach_scheduled [OF assms(1-3), of n] assms(4,5) by (simp add: scheduled_def)

text \<open>A run of the target controller that finds what the status says changes nothing.\<close>

lemma target_run_idle:
  assumes "getTarget k m w = Inr t" "NewProvider k bk t w = Inr prov"
    and "IsVMRunning prov w = (Inr (VMRunning (tgtStatus t)), w)"
    and "run_step k lib px bk vw \<lparr>opWorld = w, opQueue = {(TargetCtl, m)}, opSkipped = sk\<rparr> s"
  shows "s = \<lparr>opWorld = w, opQueue = {(TargetCtl, m)}, opSkipped = sk\<rparr>"
  using assms
  by (auto elim!: run_stepE simp: Target_Reconcile_def after_run_def Let_def vmRunningPollInterval_def Second_def)

lemma target_runs_idle:
  assumes "getTarget k m w = Inr t" "NewProvider k bk t w = Inr prov"
    and "IsVMRunning prov w = (Inr (VMRunning (tgtStatus t)), w)"
    and "(run_step k lib px bk vw)\<^sup>*\<^sup>* \<lparr>opWorld = w, opQueue = {(TargetCtl, m)}, opSkipped = sk\<rparr> s"
  shows "s = \<lparr>opWorld = w, opQueue = {(TargetCtl, m)}, opSkipped = sk\<rparr>"
  using assms(4)
proof (induction rule: rtranclp_induct)
  case (step s s')
  from step.hyps(2) [unfolded step.IH] show ?case by (rule target_run_idle [OF assms(1-3)])
qed simp

text \<open>A run of the config controller that finds the router down.\<close>

lemma config_run_down:
  assumes "getConfig k n w = Inr c" "DeletionTimestamp_IsZero (cfgMeta c)"
    and "ContainsFinalizer k (metaFinalizers (cfgMeta c)) FinalizerName"
    and "getTarget k (ResolveNamespace (cfgTargetRef (cfgSpec c)) (metaNamespace (cfgMeta c)),
           refName (cfgTargetRef (cfgSpec c))) w = Inr t"
    and "NewProvider k bk t w = Inr prov" "IsVMRunning prov w = (Inr False, w)"
  shows "Config_Reconcile k bk n w = (noRequeue, None, w)" "skips k bk n w"
  using assms by (simp_all add: Config_Reconcile_def Config_onChange_def skips_def Let_def)


section \<open>Witnesses\<close>

definition memView :: "mem_world store_view" where
  "memView =
     \<lparr>vwTemplates = (\<lambda>w. map_of (mwTemplates w)), vwParams = (\<lambda>w. map_of (mwParams w)),
      vwTargets = memTarget, vwBindings = memBinding, vwConfigs = memConfig,
      vwClusters = (\<lambda>w. map_of (mwClusters w))\<rparr>"

lemma memDeleteConfig_status:
  assumes "memDeleteConfig c w = (u, w')" "memConfig w' (cfg_key c) = Some c'"
  shows "\<exists>c0. memConfig w (cfg_key c) = Some c0 \<and> cfgStatus c' = cfgStatus c0"
proof (cases "memConfig w (cfg_key c)")
  case None
  with assms show ?thesis by (auto simp: memDeleteConfig_def split: if_splits)
next
  case (Some c0)
  with memConfig_form(2) [OF Some] assms show ?thesis
    by (auto simp: memDeleteConfig_def memConfig_put memConfig_drop cfgStatus_memForm split: if_splits)
qed

interpretation mem_operator: operator_api memKube memConfig "memPx items uptime"
proof
  show "memConfig w' = memConfig w" if "updateCluster memKube c1 w = (u, w')" for c1 w u w'
    using that by (auto simp: memKube_def memPutCluster_def Let_def memConfig_def fun_eq_iff
        split: if_splits prod.splits sum.splits)
qed (use memDeleteConfig_status in \<open>auto simp: memPatchTarget_def putTarget_def memPutCluster_def memConfig_def
      fun_eq_iff px_frames_def memPx_def Let_def split: if_splits option.splits\<close>)

interpretation mem_system: operator_runtime memKube memConfig memBinding "memReal vms" "memPx items uptime"
  by unfold_locales (rule realBackends_frame [OF mem_agent.agent_channel_axioms
      mem_control.control_channel_axioms mem_guest.guest_channel_axioms])

text \<open>
  The sample configuration on a target that is reached through the daemon: the dispatch, the
  end of the background call, and the reconcile that records its result.
\<close>

definition daemonTarget :: VRouterTarget where
  "daemonTarget =
     (sampleTarget ''r1'')\<lparr>tgtSpec := \<lparr>tgtProvider = \<lparr>provType = ProviderVRouterDaemon, provKubeVirt = None,
         provProxmox = None, provDaemon = Some \<lparr>daemonAddress = ''vrouterd:9090'', daemonAgentID = ''r1'',
           daemonTimeoutSeconds = 0\<rparr>\<rparr>, tgtParams = ''{}''\<rparr>\<rparr>"

definition daemonWorld :: mem_world where
  "daemonWorld = sampleWorld\<lparr>mwTargets := [(sampleKey ''r1'', daemonTarget)]\<rparr>"

definition daemonStep :: "mem_world \<Rightarrow> mem_world outcome" where
  "daemonStep w = Config_Reconcile memKube (memReal []) (sampleKey ''b.r1'') w"

definition daemonStarted :: mem_world where
  "daemonStarted = world_of (daemonStep daemonWorld)"

definition daemonFinished :: mem_world where
  "daemonFinished = world_of (daemonStep (runApply memControl 1 daemonStarted))"

abbreviation sampleReach :: "mem_world operator_state \<Rightarrow> bool" where
  "sampleReach \<equiv> operator_reach memKube pairsLib (memPx [] 0) (memReal []) memView"

lemma sample_run:
  assumes "sampleReach s" "(ConfigCtl, sampleKey ''b.r1'') \<in> opQueue s"
    and "0 < RequeueAfter (result_of (daemonStep (opWorld s)))"
  shows "\<exists>s'. sampleReach s' \<and> opWorld s' = world_of (daemonStep (opWorld s)) \<and>
    (ConfigCtl, sampleKey ''b.r1'') \<in> opQueue s'"
proof (intro exI conjI)
  show "sampleReach (after_run memKube memView (memReal []) (ConfigCtl, sampleKey ''b.r1'') (daemonStep (opWorld s)) s)"
    using operator_reach.run [OF assms(1) run_step.run [OF assms(2)]] by (simp add: daemonStep_def)
qed (use assms(3) in \<open>simp_all add: after_run_def Let_def\<close>)

lemma sample_outside:
  assumes "sampleReach s" "benign memConfig (opWorld s) w'" "x \<in> opQueue s"
  shows "\<exists>s'. sampleReach s' \<and> opWorld s' = w' \<and> x \<in> opQueue s'"
proof (intro exI conjI)
  show "sampleReach (s\<lparr>opWorld := w', opQueue := opQueue s \<union> enqueue memKube w' (changes memView (opWorld s) w')\<rparr>)"
    using operator_reach.outside [OF assms(1) outside_step.outside [of memView s w' memKube "{}"]] assms(2)
    by (simp add: memView_def)
qed (use assms(3) in simp_all)

text \<open>The user creates the target and the configuration.\<close>

lemma daemonWorld_reach:
  "\<exists>s. sampleReach s \<and> opWorld s = daemonWorld \<and> (ConfigCtl, sampleKey ''b.r1'') \<in> opQueue s"
proof -
  let ?s = "\<lparr>opWorld = mem_empty, opQueue = enqueue memKube mem_empty (listed memView mem_empty), opSkipped = {}\<rparr>"
  let ?c = "memForm (sampleKey ''b.r1'') (sampleConfig ''b.r1'' ''r1'' ''system {}'')"
  have c: "memConfig daemonWorld (sampleKey ''b.r1'') = Some ?c"
    "\<And>n. n \<noteq> sampleKey ''b.r1'' \<Longrightarrow> memConfig daemonWorld n = None"
    by (simp_all add: daemonWorld_def sampleWorld_def memConfig_def)
  have e: "memConfig mem_empty n = None" for n by (simp add: memConfig_def mem_empty_def)
  have "freshConfigStatus (cfgStatus ?c)"
    by (simp add: memForm_def sampleConfig_def freshConfigStatus_def emptyConfigStatus_def)
  with c e have b: "benign memConfig mem_empty daemonWorld" unfolding benign_def by metis
  have "sampleReach ?s" by (rule operator_reach.install) (simp add: memView_def e)
  from operator_reach.outside [OF this outside_step.outside [of memView ?s daemonWorld memKube "{}"]] b
  have reach: "sampleReach (?s\<lparr>opWorld := daemonWorld,
      opQueue := opQueue ?s \<union> enqueue memKube daemonWorld (changes memView mem_empty daemonWorld)\<rparr>)"
    by (simp add: memView_def)
  have "?c \<in> diff memConfig mem_empty daemonWorld"
    unfolding diff_def mem_Collect_eq by (rule exI [of _ "sampleKey ''b.r1''"]) (simp only: c(1) e, simp)
  then have "ConfigEvent ?c \<in> changes memView mem_empty daemonWorld" by (simp add: changes_def memView_def)
  from config_event_enqueued [OF this, of "sampleKey ''b.r1''"]
  have queued: "(ConfigCtl, sampleKey ''b.r1'') \<in> enqueue memKube daemonWorld (changes memView mem_empty daemonWorld)"
    by (simp add: memForm_def)
  show ?thesis by (intro exI conjI, rule reach) (use queued in simp_all)
qed

lemma daemonStarted_reach:
  "\<exists>s. sampleReach s \<and> opWorld s = daemonStarted \<and> (ConfigCtl, sampleKey ''b.r1'') \<in> opQueue s"
proof -
  have "0 < RequeueAfter (result_of (daemonStep daemonWorld))" by code_simp
  with daemonWorld_reach sample_run show ?thesis unfolding daemonStarted_def by metis
qed

lemma daemonFinished_reach: "\<exists>s. sampleReach s \<and> opWorld s = daemonFinished"
proof -
  let ?w = "runApply memControl 1 daemonStarted"
  have "benign memConfig daemonStarted ?w" by (simp add: benign_def mem_control.runApply_frame)
  with daemonStarted_reach sample_outside obtain s where s: "sampleReach s" "opWorld s = ?w"
    "(ConfigCtl, sampleKey ''b.r1'') \<in> opQueue s" by metis
  show ?thesis
  proof (intro exI conjI)
    show "sampleReach (after_run memKube memView (memReal []) (ConfigCtl, sampleKey ''b.r1'') (daemonStep ?w) s)"
      using operator_reach.run [OF s(1) run_step.run [OF s(3)]] s(2) by (simp add: daemonStep_def)
  qed (simp add: after_run_def Let_def daemonFinished_def)
qed


theorem running_apply_stays_scheduled_witness:
  "\<exists>s :: mem_world operator_state. opWorld s = daemonStarted \<and> ExecPID (cfgStatus (storedConfig daemonStarted)) = 1 \<and>
     ((ConfigCtl, sampleKey ''b.r1'') \<in> opQueue s \<or> sampleKey ''b.r1'' \<in> opSkipped s)"
proof -
  from daemonStarted_reach obtain s where s: "sampleReach s" "opWorld s = daemonStarted" by blast
  have "memConfig daemonStarted (sampleKey ''b.r1'') \<noteq> None" by code_simp
  then have c: "memConfig (opWorld s) (sampleKey ''b.r1'') = Some (storedConfig daemonStarted)"
    using s(2) by (auto simp: storedConfig_def)
  have pid: "ExecPID (cfgStatus (storedConfig daemonStarted)) = 1" by code_simp
  then have "0 < ExecPID (cfgStatus (storedConfig daemonStarted))" by (simp only: zero_less_one)
  from running_apply_stays_scheduled [OF mem_system.operator_runtime_axioms s(1) _ c this]
  have "(ConfigCtl, sampleKey ''b.r1'') \<in> opQueue s \<or> sampleKey ''b.r1'' \<in> opSkipped s"
    by (simp only: memView_def store_view.simps)
  with s(2) pid show ?thesis by blast
qed

text \<open>The agent is gone for a moment while the apply of the sample is running.\<close>

definition daemonDown :: mem_world where
  "daemonDown = daemonStarted\<lparr>mwRunning := False\<rparr>"

lemma daemonDown_same:
  "memConfig daemonDown = memConfig daemonStarted" "memTarget daemonDown = memTarget daemonStarted"
  "changes memView daemonDown daemonStarted = {}"
  by (simp_all add: daemonDown_def memConfig_def memTarget_def memBinding_def fun_eq_iff changes_def diff_def
      memView_def)


end
