(* ===== verification/AdmissionWorld.thy ===== *)
theory AdmissionWorld
  imports Webhooks ConfigController BindingWorld
begin

text \<open>
  Properties that connect the admission webhooks with the code that later works on what
  they admitted: references resolve, templates parse, providers can be built, deletions do
  not leave dangling references, and no event on a target misses a configuration.
\<close>

section \<open>Admitted bindings\<close>

lemma mapE_total: "(\<And>x. x \<in> set xs \<Longrightarrow> \<exists>y. f x = Inr y) \<Longrightarrow> \<exists>ys. mapE f xs = Inr ys"
proof (induction xs)
  case (Cons x xs)
  then obtain y ys where "f x = Inr y" "mapE f xs = Inr ys" by (metis list.set_intros)
  then show ?case by simp
qed simp

lemma mapE_elem: "mapE f xs = Inr ys \<Longrightarrow> y \<in> set ys \<Longrightarrow> \<exists>x \<in> set xs. f x = Inr y"
  by (induction xs arbitrary: ys) (auto split: sum.splits)

lemma fetches_ok:
  assumes "validateBinding k b w = None"
  shows "\<exists>ts. fetchTemplates k b w = Inr ts" "\<exists>ps. fetchParams k b w = Inr ps"
    and "ref \<in> set (bndTargetRefs (bndSpec b)) \<Longrightarrow>
      \<exists>t. getTarget k (ResolveNamespace ref (metaNamespace (bndMeta b)), refName ref) w = Inr t"
proof -
  note ok = validateBinding_ok(3-5) [OF assms]
  show "\<exists>ts. fetchTemplates k b w = Inr ts"
    unfolding fetchTemplates_def Let_def by (rule mapE_total) (use ok(1) in fastforce)
  show "\<exists>ps. fetchParams k b w = Inr ps"
    unfolding fetchParams_def Let_def by (rule mapE_total) (use ok(2) in fastforce)
  show "ref \<in> set (bndTargetRefs (bndSpec b)) \<Longrightarrow>
      \<exists>t. getTarget k (ResolveNamespace ref (metaNamespace (bndMeta b)), refName ref) w = Inr t"
    using ok(3) by metis
qed

lemma fetchTemplates_elem:
  assumes "fetchTemplates k b w = Inr ts" "tmpl \<in> set ts"
  shows "\<exists>n. getTemplate k n w = Inr tmpl"
proof -
  from mapE_elem [OF assms(1) [unfolded fetchTemplates_def Let_def] assms(2)] obtain ref where
    "(case getTemplate k (ResolveNamespace ref (metaNamespace (bndMeta b)), refName ref) w of
        Inl e \<Rightarrow> Inl (Wrapped (''get template '' @ quoted (refName ref) @ '' (namespace '' @
          quoted (ResolveNamespace ref (metaNamespace (bndMeta b))) @ '')'') (ApiError e))
      | Inr tmpl \<Rightarrow> Inr tmpl) = Inr tmpl" by blast
  then show ?thesis
    by (cases "getTemplate k (ResolveNamespace ref (metaNamespace (bndMeta b)), refName ref) w") auto
qed

text \<open>A text that fails in execution, not in parsing.\<close>

definition execution_fails :: "('d, 'f, 't) templating \<Rightarrow> 'd \<Rightarrow> bool" where
  "execution_fails lib params \<longleftrightarrow>
     (\<exists>text t e. Parse lib (Funcs lib) text = Inr t \<and> Execute lib t params = Inl e)"

lemma renderPart_error:
  assumes "renderPart lib params ctx text = Inl e" "text = [] \<or> (\<exists>t. Parse lib (Funcs lib) text = Inr t)"
  shows "execution_fails lib params"
  using assms
  by (auto simp: renderPart_def Render_def execution_fails_def split: if_splits sum.splits)

lemma validateTemplateSpec_ok:
  assumes "validateTemplateSpec lib tmpl = None"
  shows "tmplConfig tmpl = [] \<or> (\<exists>t. Parse lib (Funcs lib) (tmplConfig tmpl) = Inr t)"
    and "tmplCommands tmpl = [] \<or> (\<exists>t. Parse lib (Funcs lib) (tmplCommands tmpl) = Inr t)"
  using assms by (auto simp: validateTemplateSpec_def Let_def split: if_splits sum.splits)

lemma renderTemplates_error:
  assumes "renderTemplates lib params tgt i rts = Inl e"
    and "\<forall>(ref, tmpl) \<in> set rts. validateTemplateSpec lib tmpl = None"
  shows "execution_fails lib params"
  using assms
proof (induction rts arbitrary: i)
  case Nil
  then show ?case by simp
next
  case (Cons rt rts)
  obtain ref tmpl where rt: "rt = (ref, tmpl)" by fastforce
  with Cons.prems(2) have v: "validateTemplateSpec lib tmpl = None" by simp
  note ok = validateTemplateSpec_ok [OF v]
  let ?c = "\<lambda>what. ''render '' @ what @ '' from template['' @ digits i @ ''] '' @ quoted (refName ref) @
    '' for target '' @ quoted tgt"
  show ?case
  proof (cases "renderPart lib params (?c ''config'') (tmplConfig tmpl)")
    case (Inl e1)
    with ok(1) show ?thesis by (rule renderPart_error [rotated])
  next
    case (Inr cs)
    show ?thesis
    proof (cases "renderPart lib params (?c ''commands'') (tmplCommands tmpl)")
      case (Inl e1)
      with ok(2) show ?thesis by (rule renderPart_error [rotated])
    next
      case (Inr ms)
      with \<open>renderPart lib params (?c ''config'') (tmplConfig tmpl) = Inr cs\<close> Cons.prems(1) rt
      have "renderTemplates lib params tgt (Suc i) rts = Inl e"
        by (auto simp: Let_def split: sum.splits)
      from Cons.IH [OF this] Cons.prems(2) show ?thesis by simp
    qed
  qed
qed


section \<open>Admitted targets\<close>

text \<open>
  A provider can be built for an admitted target: if building it fails, then because a
  backend could not be constructed or its ProxmoxCluster could not be read, never because
  the target does not carry the settings of its provider type.
\<close>

theorem admitted_target_has_provider:
  assumes "validateProviderConfig (tgtProvider (tgtSpec target)) (metaNamespace (tgtMeta target)) = None"
    and "NewProvider k bk target w = Inl e"
  shows "(\<exists>nm ns. nm \<noteq> [] \<and> newKubevirt bk nm ns w = Inl e) \<or>
    (\<exists>d. daemonAddress d \<noteq> [] \<and> daemonAgentID d \<noteq> [] \<and> newDaemon bk d w = Inl e) \<or>
    (\<exists>px cl. newProxmox bk px cl (ProxmoxNode (tgtStatus target)) w = Inl e) \<or>
    (\<exists>n ae. fst n = metaNamespace (tgtMeta target) \<and> snd n \<noteq> [] \<and> getCluster k n w = Inl ae)"
proof -
  let ?p = "tgtProvider (tgtSpec target)"
  have kv: "(\<exists>nm ns. nm \<noteq> [] \<and> newKubevirt bk nm ns w = Inl e)"
    if "provType ?p = ProviderKubeVirt \<or> provType ?p = ProviderUnset"
    using that assms
    by (fastforce simp: validateProviderConfig_def NewProvider_def Let_def split: option.splits if_splits)
  show ?thesis
  proof (cases "provType ?p")
    case ProviderProxmox
    with assms obtain px where px: "provProxmox ?p = Some px" "refName (pxClusterRef px) \<noteq> []"
      "ResolveNamespace (pxClusterRef px) (metaNamespace (tgtMeta target)) = metaNamespace (tgtMeta target)"
      by (auto simp: validateProviderConfig_def Let_def split: option.splits if_splits)
    then have ns: "(if refNamespace (pxClusterRef px) = [] then metaNamespace (tgtMeta target)
        else refNamespace (pxClusterRef px)) = metaNamespace (tgtMeta target)"
      by (auto simp: ResolveNamespace_def split: if_splits)
    show ?thesis
    proof (cases "getCluster k (metaNamespace (tgtMeta target), refName (pxClusterRef px)) w")
      case (Inl ae)
      with px(2) show ?thesis by (intro disjI2 exI [of _ "(metaNamespace (tgtMeta target), refName (pxClusterRef px))"]) auto
    next
      case (Inr cl)
      with px ns assms(2) ProviderProxmox have "newProxmox bk px cl (ProxmoxNode (tgtStatus target)) w = Inl e"
        by (simp add: NewProvider_def GetProxmoxCluster_def Let_def)
      then show ?thesis by blast
    qed
  next
    case ProviderVRouterDaemon
    with assms show ?thesis
      by (fastforce simp: validateProviderConfig_def NewProvider_def Let_def split: option.splits if_splits)
  next
    case (ProviderOther t)
    with assms(1) show ?thesis by (simp add: validateProviderConfig_def Let_def)
  qed (use kv in auto)
qed

section \<open>Deletion of referenced objects\<close>

lemma check_filter_empty:
  "map f (filter P xs) = [] \<longleftrightarrow> (\<forall>x \<in> set xs. \<not> P x)"
  by (auto simp: filter_empty_conv)

text \<open>
  No dangling references: the deletion of a target is admitted exactly when, the lists
  being readable, no stored binding and no stored configuration of its namespace refers to
  it; and the deletion of a params object exactly when no stored binding does.
\<close>

theorem deletion_leaves_no_reference:
  assumes "stores_api k cfgs bnds"
    and "listBindings k (Some (metaNamespace (tgtMeta target))) w = Inr bs"
    and "listConfigs k (Some (metaNamespace (tgtMeta target))) [] w = Inr cs"
    and "listBindings k (Some (metaNamespace (prmMeta params))) w = Inr bs2"
  shows "(admitted (Target_ValidateDelete k target w) \<longleftrightarrow>
      (\<forall>nm b ref. bnds w (metaNamespace (tgtMeta target), nm) = Some b \<longrightarrow>
         ref \<in> set (bndTargetRefs (bndSpec b)) \<longrightarrow>
         \<not> refersTo ref (metaNamespace (tgtMeta target)) (tgtMeta target)) \<and>
      (\<forall>nm c. cfgs w (metaNamespace (tgtMeta target), nm) = Some c \<longrightarrow>
         \<not> refersTo (cfgTargetRef (cfgSpec c)) (metaNamespace (tgtMeta target)) (tgtMeta target))) \<and>
    (admitted (Params_ValidateDelete k params w) \<longleftrightarrow>
      (\<forall>nm b ref. bnds w (metaNamespace (prmMeta params), nm) = Some b \<longrightarrow>
         ref \<in> set (bndParamsRefs (bndSpec b)) \<longrightarrow>
         \<not> refersTo ref (metaNamespace (prmMeta params)) (prmMeta params)))"
proof -
  have api: "binding_api k bnds" "config_api k cfgs" using assms(1) by (simp_all add: stores_api_def)
  note bkey = binding_api.storedb_key [OF api(1)] and ckey = config_api.stored_key [OF api(2)]
  have bset: "set bs = {b. \<exists>nm. bnds w (metaNamespace (tgtMeta target), nm) = Some b}"
    "set bs2 = {b. \<exists>nm. bnds w (metaNamespace (prmMeta params), nm) = Some b}"
    using binding_api.listb_ns [OF api(1)] assms(2,4) by auto
  have cset: "set cs = {c. \<exists>nm. cfgs w (metaNamespace (tgtMeta target), nm) = Some c}"
    using config_api.list_sound [OF api(2) assms(3)] ckey by auto
  have tgt: "admitted (Target_ValidateDelete k target w) \<longleftrightarrow>
      (\<forall>b \<in> set bs. \<forall>ref \<in> set (bndTargetRefs (bndSpec b)).
         \<not> refersTo ref (metaNamespace (bndMeta b)) (tgtMeta target)) \<and>
      (\<forall>c \<in> set cs. \<not> refersTo (cfgTargetRef (cfgSpec c)) (metaNamespace (cfgMeta c)) (tgtMeta target))"
    using assms(2,3)
    by (auto simp: Target_ValidateDelete_def checkTargetNotReferenced_def Let_def filter_empty_conv
        split: list.splits)
  have prm: "admitted (Params_ValidateDelete k params w) \<longleftrightarrow>
      (\<forall>b \<in> set bs2. \<forall>ref \<in> set (bndParamsRefs (bndSpec b)).
         \<not> refersTo ref (metaNamespace (bndMeta b)) (prmMeta params))"
    using assms(4)
    by (auto simp: Params_ValidateDelete_def checkParamsNotReferenced_def Let_def filter_empty_conv
        list.case_eq_if)
  have ns: "bnds w (x, nm) = Some b \<Longrightarrow> metaNamespace (bndMeta b) = x"
    "cfgs w (x, nm) = Some c \<Longrightarrow> metaNamespace (cfgMeta c) = x" for x nm b c
    using bkey ckey by blast+
  show ?thesis
    unfolding tgt prm bset cset using ns by (intro conjI iffI; (simp, metis)?; auto)
qed

section \<open>Events on targets\<close>

text \<open>
  A target event reaches every configuration that uses the target: for a stored
  configuration that was admitted (in whatever world), an event on the object its
  \<open>targetRef\<close> resolves to is mapped to it, although only the target's namespace is searched
  and only names are compared.
\<close>

theorem target_event_reaches_configs:
  assumes "config_api k cfgs" "cfgs w n = Some cfg" "validateVRouterConfig k cfg w0 = None"
    and "listConfigs k (Some ns) [] w = Inr cs"
    and "ns = ResolveNamespace (cfgTargetRef (cfgSpec cfg)) (metaNamespace (cfgMeta cfg))"
    and "nm = refName (cfgTargetRef (cfgSpec cfg))"
  shows "n \<in> set (configsForTarget k ns nm w)"
proof -
  have key: "cfg_key cfg = n" using config_api.stored_key [OF assms(1,2)] .
  have "ns = metaNamespace (cfgMeta cfg)"
    using assms(3,5) by (auto simp: validateVRouterConfig_def Let_def split: if_splits)
  with key have "n = (ns, metaName (cfgMeta cfg))" by auto
  then have "cfg \<in> set cs"
    using config_api.list_sound [OF assms(1,4)] assms(2) key by auto
  with assms(4,6) key show ?thesis by (auto simp: configsForTarget_def intro!: image_eqI)
qed

section \<open>Witnesses\<close>

text \<open>A template engine in which every execution fails.\<close>

definition brokenLib :: "((string \<times> string) list, unit, string) templating" where
  "brokenLib = pairsLib\<lparr>Execute := (\<lambda>t d. Inl (ErrMsg ''boom''))\<rparr>"


theorem admitted_target_has_provider_witness:
  "\<exists>nm ns. nm \<noteq> [] \<and> newKubevirt (memBackends\<lparr>newKubevirt := (\<lambda>nm ns w. Inl (ErrMsg ''no kubeconfig''))\<rparr>) nm ns
     sampleWorld = Inl (ErrMsg ''no kubeconfig'')"
proof -
  let ?bk = "memBackends\<lparr>newKubevirt := (\<lambda>nm ns w. Inl (ErrMsg ''no kubeconfig''))\<rparr>"
  have ok: "validateProviderConfig (tgtProvider (tgtSpec (sampleTarget ''r1''))) (metaNamespace (tgtMeta (sampleTarget ''r1''))) = None"
    by code_simp
  have "NewProvider memKube ?bk (sampleTarget ''r1'') sampleWorld = Inl (ErrMsg ''no kubeconfig'')"
    by (simp add: NewProvider_def sampleTarget_def sampleProviderConfig_def Let_def)
  from admitted_target_has_provider [OF ok this] show ?thesis
    by (auto simp: memBackends_def found_def sampleWorld_def mem_empty_def)
qed

theorem deletion_leaves_no_reference_witness:
  "\<not> admitted (Target_ValidateDelete memKube (sampleTarget ''r1'') sampleWorld)"
proof -
  let ?t = "sampleTarget ''r1''"
  let ?params = "\<lparr>prmMeta = sampleMeta ''p'', prmParams = []\<rparr>"
  obtain bs where bs: "listBindings memKube (Some (metaNamespace (tgtMeta ?t))) sampleWorld = Inr bs"
    by (simp add: memListBindings_def)
  obtain cs where cs: "listConfigs memKube (Some (metaNamespace (tgtMeta ?t))) [] sampleWorld = Inr cs"
    by (simp add: memListConfigs_def)
  obtain bs2 where bs2: "listBindings memKube (Some (metaNamespace (prmMeta ?params))) sampleWorld = Inr bs2"
    by (simp add: memListBindings_def)
  have ref: "refersTo (cfgTargetRef (cfgSpec (storedConfig sampleWorld))) (metaNamespace (tgtMeta ?t)) (tgtMeta ?t)"
    "metaNamespace (tgtMeta ?t) = ''default''"
    by code_simp+
  have "memConfig sampleWorld (sampleKey ''b.r1'') \<noteq> None" by code_simp
  then have "memConfig sampleWorld (metaNamespace (tgtMeta ?t), ''b.r1'') = Some (storedConfig sampleWorld)"
    using ref(2) by (auto simp: storedConfig_def)
  with deletion_leaves_no_reference [OF mem_stores.stores_api_axioms bs cs bs2] ref(1) show ?thesis by blast
qed

theorem target_event_reaches_configs_witness:
  "sampleKey ''b.r1'' \<in> set (configsForTarget memKube ''default'' ''r1'' sampleWorld)"
proof -
  have c: "memConfig sampleWorld (sampleKey ''b.r1'') \<noteq> None" by code_simp
  have eval: "validateVRouterConfig memKube (storedConfig sampleWorld) sampleWorld = None"
    "''default'' = ResolveNamespace (cfgTargetRef (cfgSpec (storedConfig sampleWorld)))
       (metaNamespace (cfgMeta (storedConfig sampleWorld)))"
    "''r1'' = refName (cfgTargetRef (cfgSpec (storedConfig sampleWorld)))"
    by code_simp+
  obtain cs where cs: "listConfigs memKube (Some ''default'') [] sampleWorld = Inr cs"
    by (simp add: memListConfigs_def)
  have "memConfig sampleWorld (sampleKey ''b.r1'') = Some (storedConfig sampleWorld)"
    using c by (auto simp: storedConfig_def)
  from target_event_reaches_configs [OF mem_configs.config_api_axioms this eval(1) cs eval(2,3)] show ?thesis .
qed

end
