(* ===== verification/AdmissionServer.thy ===== *)
theory AdmissionServer
  imports AdmissionWorld
begin

text \<open>
  How requests reach the webhooks: the six \<open>Setup...WebhookWithManager\<close> functions
  (\<open>internal/webhook/v1\<close>) register a defaulter and a validator for a kind; the handlers take
  a \<open>runtime.Object\<close> and assert its type; the API server calls the mutating webhook of the
  object's kind on creates and updates, and the validating webhook on creates, updates and,
  where the marker above the validator names the verb, deletes. The steps of the cluster's
  store under these webhooks keep its references whole.
\<close>

section \<open>Handlers\<close>

text \<open>The dynamic type of an object is its constructor; \<open>OtherObj\<close> is any other Go type.\<close>

datatype runtime_object =
    BindingObj VRouterBinding
  | ConfigObj VRouterConfig
  | TargetObj VRouterTarget
  | ParamsObj VRouterParams
  | TemplateObj VRouterTemplate
  | ClusterObj ProxmoxCluster
  | OtherObj string

text \<open>\<open>fmt.Sprintf(''%T'', obj)\<close>\<close>

fun typeText :: "runtime_object \<Rightarrow> string" where
  "typeText (BindingObj _) = ''*v1.VRouterBinding''"
| "typeText (ConfigObj _) = ''*v1.VRouterConfig''"
| "typeText (TargetObj _) = ''*v1.VRouterTarget''"
| "typeText (ParamsObj _) = ''*v1.VRouterParams''"
| "typeText (TemplateObj _) = ''*v1.VRouterTemplate''"
| "typeText (ClusterObj _) = ''*v1.ProxmoxCluster''"
| "typeText (OtherObj t) = t"

definition wrongType :: "string \<Rightarrow> runtime_object \<Rightarrow> gerror option" where
  "wrongType what obj = errorf (''expected '' @ what @ '' but got '' @ typeText obj)"

text \<open>A defaulter, and the three methods of a validator.\<close>

record 'w validator =
  onCreate :: "runtime_object \<Rightarrow> 'w \<Rightarrow> admission"
  onUpdate :: "runtime_object \<Rightarrow> runtime_object \<Rightarrow> 'w \<Rightarrow> admission"
  onRemove :: "runtime_object \<Rightarrow> 'w \<Rightarrow> admission"

definition Binding_Default :: "runtime_object \<Rightarrow> gerror option" where
  "Binding_Default obj = (case obj of BindingObj _ \<Rightarrow> None | _ \<Rightarrow> wrongType ''an VRouterBinding object'' obj)"

definition Config_Default :: "runtime_object \<Rightarrow> gerror option" where
  "Config_Default obj = (case obj of ConfigObj _ \<Rightarrow> None | _ \<Rightarrow> wrongType ''an VRouterConfig object'' obj)"

definition Target_Default :: "runtime_object \<Rightarrow> gerror option" where
  "Target_Default obj = (case obj of TargetObj _ \<Rightarrow> None | _ \<Rightarrow> wrongType ''an VRouterTarget object'' obj)"

definition Params_Default :: "runtime_object \<Rightarrow> gerror option" where
  "Params_Default obj = (case obj of ParamsObj _ \<Rightarrow> None | _ \<Rightarrow> wrongType ''an VRouterParams object'' obj)"

definition Template_Default :: "runtime_object \<Rightarrow> gerror option" where
  "Template_Default obj = (case obj of TemplateObj _ \<Rightarrow> None | _ \<Rightarrow> wrongType ''an VRouterTemplate object'' obj)"

definition Cluster_Default :: "runtime_object \<Rightarrow> gerror option" where
  "Cluster_Default obj = (case obj of ClusterObj _ \<Rightarrow> None | _ \<Rightarrow> wrongType ''an ProxmoxCluster object'' obj)"

definition bindingValidator :: "'w kube \<Rightarrow> 'w validator" where
  "bindingValidator k =
     \<lparr>onCreate = (\<lambda>obj w. case obj of BindingObj b \<Rightarrow> Binding_ValidateCreate k b w
         | _ \<Rightarrow> ([], wrongType ''a VRouterBinding object'' obj)),
      onUpdate = (\<lambda>old obj w. case obj of BindingObj b \<Rightarrow> Binding_ValidateUpdate k b w
         | _ \<Rightarrow> ([], wrongType ''a VRouterBinding object for the newObj'' obj)),
      onRemove = (\<lambda>obj w. case obj of BindingObj b \<Rightarrow> Binding_ValidateDelete b
         | _ \<Rightarrow> ([], wrongType ''a VRouterBinding object'' obj))\<rparr>"

definition configValidator :: "'w kube \<Rightarrow> 'w validator" where
  "configValidator k =
     \<lparr>onCreate = (\<lambda>obj w. case obj of ConfigObj c \<Rightarrow> Config_ValidateCreate k c w
         | _ \<Rightarrow> ([], wrongType ''a VRouterConfig object'' obj)),
      onUpdate = (\<lambda>old obj w. case obj of ConfigObj c \<Rightarrow> Config_ValidateUpdate k c w
         | _ \<Rightarrow> ([], wrongType ''a VRouterConfig object for the newObj'' obj)),
      onRemove = (\<lambda>obj w. case obj of ConfigObj c \<Rightarrow> Config_ValidateDelete c
         | _ \<Rightarrow> ([], wrongType ''a VRouterConfig object'' obj))\<rparr>"

definition targetValidator :: "'w kube \<Rightarrow> 'w validator" where
  "targetValidator k =
     \<lparr>onCreate = (\<lambda>obj w. case obj of TargetObj t \<Rightarrow> Target_ValidateCreate t
         | _ \<Rightarrow> ([], wrongType ''a VRouterTarget object'' obj)),
      onUpdate = (\<lambda>old obj w. case obj of TargetObj t \<Rightarrow> Target_ValidateUpdate t
         | _ \<Rightarrow> ([], wrongType ''a VRouterTarget object for the newObj'' obj)),
      onRemove = (\<lambda>obj w. case obj of TargetObj t \<Rightarrow> Target_ValidateDelete k t w
         | _ \<Rightarrow> ([], wrongType ''a VRouterTarget object'' obj))\<rparr>"

definition paramsValidator :: "'w kube \<Rightarrow> 'w validator" where
  "paramsValidator k =
     \<lparr>onCreate = (\<lambda>obj w. case obj of ParamsObj p \<Rightarrow> Params_ValidateCreate p
         | _ \<Rightarrow> ([], wrongType ''a VRouterParams object'' obj)),
      onUpdate = (\<lambda>old obj w. case obj of ParamsObj p \<Rightarrow> Params_ValidateUpdate p
         | _ \<Rightarrow> ([], wrongType ''a VRouterParams object for the newObj'' obj)),
      onRemove = (\<lambda>obj w. case obj of ParamsObj p \<Rightarrow> Params_ValidateDelete k p w
         | _ \<Rightarrow> ([], wrongType ''a VRouterParams object'' obj))\<rparr>"

definition templateValidator :: "('d, 'f, 't) templating \<Rightarrow> 'w validator" where
  "templateValidator lib =
     \<lparr>onCreate = (\<lambda>obj w. case obj of TemplateObj t \<Rightarrow> Template_ValidateCreate lib t
         | _ \<Rightarrow> ([], wrongType ''a VRouterTemplate object'' obj)),
      onUpdate = (\<lambda>old obj w. case obj of TemplateObj t \<Rightarrow> Template_ValidateUpdate lib t
         | _ \<Rightarrow> ([], wrongType ''a VRouterTemplate object for the newObj'' obj)),
      onRemove = (\<lambda>obj w. ([], None))\<rparr>"

definition clusterValidator :: "'w validator" where
  "clusterValidator =
     \<lparr>onCreate = (\<lambda>obj w. case obj of ClusterObj c \<Rightarrow> Cluster_ValidateCreate c
         | _ \<Rightarrow> ([], wrongType ''a ProxmoxCluster object'' obj)),
      onUpdate = (\<lambda>old obj w. case obj of ClusterObj c \<Rightarrow> Cluster_ValidateUpdate c
         | _ \<Rightarrow> ([], wrongType ''a ProxmoxCluster object for the newObj'' obj)),
      onRemove = (\<lambda>obj w. case obj of ClusterObj c \<Rightarrow> ([], None)
         | _ \<Rightarrow> ([], wrongType ''a ProxmoxCluster object'' obj))\<rparr>"

section \<open>Registration\<close>

datatype webhook_kind = TemplateHook | TargetHook | ParamsHook | BindingHook | ConfigHook | ClusterHook

text \<open>The type given to \<open>For\<close>.\<close>

fun isFor :: "webhook_kind \<Rightarrow> runtime_object \<Rightarrow> bool" where
  "isFor TemplateHook obj = (case obj of TemplateObj _ \<Rightarrow> True | _ \<Rightarrow> False)"
| "isFor TargetHook obj = (case obj of TargetObj _ \<Rightarrow> True | _ \<Rightarrow> False)"
| "isFor ParamsHook obj = (case obj of ParamsObj _ \<Rightarrow> True | _ \<Rightarrow> False)"
| "isFor BindingHook obj = (case obj of BindingObj _ \<Rightarrow> True | _ \<Rightarrow> False)"
| "isFor ConfigHook obj = (case obj of ConfigObj _ \<Rightarrow> True | _ \<Rightarrow> False)"
| "isFor ClusterHook obj = (case obj of ClusterObj _ \<Rightarrow> True | _ \<Rightarrow> False)"

record 'w webhook =
  hookDefaulter :: "runtime_object \<Rightarrow> gerror option"
  hookValidator :: "'w validator"
  hookDeletes :: bool

text \<open>The last field: whether the kubebuilder marker of the validator has the verb \<open>delete\<close>.\<close>

definition SetupVRouterTemplateWebhook :: "('d, 'f, 't) templating \<Rightarrow> 'w webhook" where
  "SetupVRouterTemplateWebhook lib =
     \<lparr>hookDefaulter = Template_Default, hookValidator = templateValidator lib, hookDeletes = False\<rparr>"

definition SetupVRouterTargetWebhook :: "'w kube \<Rightarrow> 'w webhook" where
  "SetupVRouterTargetWebhook k =
     \<lparr>hookDefaulter = Target_Default, hookValidator = targetValidator k, hookDeletes = True\<rparr>"

definition SetupVRouterParamsWebhook :: "'w kube \<Rightarrow> 'w webhook" where
  "SetupVRouterParamsWebhook k =
     \<lparr>hookDefaulter = Params_Default, hookValidator = paramsValidator k, hookDeletes = True\<rparr>"

definition SetupVRouterBindingWebhook :: "'w kube \<Rightarrow> 'w webhook" where
  "SetupVRouterBindingWebhook k =
     \<lparr>hookDefaulter = Binding_Default, hookValidator = bindingValidator k, hookDeletes = False\<rparr>"

definition SetupVRouterConfigWebhook :: "'w kube \<Rightarrow> 'w webhook" where
  "SetupVRouterConfigWebhook k =
     \<lparr>hookDefaulter = Config_Default, hookValidator = configValidator k, hookDeletes = False\<rparr>"

definition SetupProxmoxClusterWebhook :: "'w webhook" where
  "SetupProxmoxClusterWebhook =
     \<lparr>hookDefaulter = Cluster_Default, hookValidator = clusterValidator, hookDeletes = False\<rparr>"

fun webhookOf :: "'w kube \<Rightarrow> ('d, 'f, 't) templating \<Rightarrow> webhook_kind \<Rightarrow> 'w webhook" where
  "webhookOf k lib TemplateHook = SetupVRouterTemplateWebhook lib"
| "webhookOf k lib TargetHook = SetupVRouterTargetWebhook k"
| "webhookOf k lib ParamsHook = SetupVRouterParamsWebhook k"
| "webhookOf k lib BindingHook = SetupVRouterBindingWebhook k"
| "webhookOf k lib ConfigHook = SetupVRouterConfigWebhook k"
| "webhookOf k lib ClusterHook = SetupProxmoxClusterWebhook"

section \<open>Admission review\<close>

datatype operation = Create runtime_object | Update runtime_object runtime_object | Remove runtime_object

definition allHooks :: "webhook_kind list" where
  "allHooks = [TemplateHook, TargetHook, ParamsHook, BindingHook, ConfigHook, ClusterHook]"

definition mutateFirst :: "'w webhook \<Rightarrow> runtime_object \<Rightarrow> admission \<Rightarrow> admission" where
  "mutateFirst wh obj a = (case hookDefaulter wh obj of Some e \<Rightarrow> ([], Some e) | None \<Rightarrow> a)"

fun reviewBy :: "'w webhook \<Rightarrow> operation \<Rightarrow> 'w \<Rightarrow> admission" where
  "reviewBy wh (Create obj) w = mutateFirst wh obj (onCreate (hookValidator wh) obj w)"
| "reviewBy wh (Update old obj) w = mutateFirst wh obj (onUpdate (hookValidator wh) old obj w)"
| "reviewBy wh (Remove obj) w =
     (if hookDeletes wh then onRemove (hookValidator wh) obj w else ([], None))"

fun operand :: "operation \<Rightarrow> runtime_object" where
  "operand (Create obj) = obj"
| "operand (Update old obj) = obj"
| "operand (Remove obj) = obj"

text \<open>Webhooks are found by the kind of the request's object; without one it passes.\<close>

definition review :: "'w kube \<Rightarrow> ('d, 'f, 't) templating \<Rightarrow> operation \<Rightarrow> 'w \<Rightarrow> admission" where
  "review k lib op w =
     (case List.find (\<lambda>wk. isFor wk (operand op)) allHooks of
        None \<Rightarrow> ([], None)
      | Some wk \<Rightarrow> reviewBy (webhookOf k lib wk) op w)"

text \<open>The validations of the six kinds, by operation, without type assertions.\<close>

fun typedReview :: "'w kube \<Rightarrow> ('d, 'f, 't) templating \<Rightarrow> operation \<Rightarrow> 'w \<Rightarrow> admission" where
  "typedReview k lib (Create (BindingObj b)) w = (deprecationWarnings b, validateBinding k b w)"
| "typedReview k lib (Create (ConfigObj c)) w = ([], validateVRouterConfig k c w)"
| "typedReview k lib (Create (TargetObj t)) w =
     ([], validateProviderConfig (tgtProvider (tgtSpec t)) (metaNamespace (tgtMeta t)))"
| "typedReview k lib (Create (TemplateObj t)) w = ([], validateTemplateSpec lib t)"
| "typedReview k lib (Create (ClusterObj c)) w = ([], validateProxmoxCluster c)"
| "typedReview k lib (Update old (BindingObj b)) w =
     (deprecationWarnings b,
      if DeletionTimestamp_IsZero (bndMeta b) then validateBinding k b w else None)"
| "typedReview k lib (Update old (ConfigObj c)) w =
     ([], if DeletionTimestamp_IsZero (cfgMeta c) then validateVRouterConfig k c w else None)"
| "typedReview k lib (Update old (TargetObj t)) w =
     ([], if DeletionTimestamp_IsZero (tgtMeta t)
          then validateProviderConfig (tgtProvider (tgtSpec t)) (metaNamespace (tgtMeta t)) else None)"
| "typedReview k lib (Update old (TemplateObj t)) w = ([], validateTemplateSpec lib t)"
| "typedReview k lib (Update old (ClusterObj c)) w =
     ([], if DeletionTimestamp_IsZero (pxcMeta c) then validateProxmoxCluster c else None)"
| "typedReview k lib (Remove (TargetObj t)) w = ([], checkTargetNotReferenced k t w)"
| "typedReview k lib (Remove (ParamsObj p)) w = ([], checkParamsNotReferenced k p w)"
| "typedReview k lib op w = ([], None)"

lemmas setup_defs =
  SetupVRouterTemplateWebhook_def SetupVRouterTargetWebhook_def SetupVRouterParamsWebhook_def
  SetupVRouterBindingWebhook_def SetupVRouterConfigWebhook_def SetupProxmoxClusterWebhook_def
  bindingValidator_def configValidator_def targetValidator_def paramsValidator_def
  templateValidator_def clusterValidator_def Binding_Default_def Config_Default_def
  Target_Default_def Params_Default_def Template_Default_def Cluster_Default_def
  Binding_ValidateCreate_def Binding_ValidateUpdate_def Binding_ValidateDelete_def
  Config_ValidateCreate_def Config_ValidateUpdate_def Config_ValidateDelete_def
  Target_ValidateCreate_def Target_ValidateUpdate_def Target_ValidateDelete_def
  Params_ValidateCreate_def Params_ValidateUpdate_def Params_ValidateDelete_def
  Template_ValidateCreate_def Template_ValidateUpdate_def Cluster_ValidateCreate_def
  Cluster_ValidateUpdate_def mutateFirst_def

lemma find_hook:
  "List.find (\<lambda>wk. isFor wk obj) allHooks =
     (case obj of BindingObj _ \<Rightarrow> Some BindingHook | ConfigObj _ \<Rightarrow> Some ConfigHook | TargetObj _ \<Rightarrow> Some TargetHook
      | ParamsObj _ \<Rightarrow> Some ParamsHook | TemplateObj _ \<Rightarrow> Some TemplateHook | ClusterObj _ \<Rightarrow> Some ClusterHook
      | OtherObj _ \<Rightarrow> None)"
  by (cases obj) (simp_all add: allHooks_def)

lemma review_typed: "review k lib op w = typedReview k lib op w"
proof (cases op)
  case (Create obj)
  then show ?thesis by (cases obj) (simp_all add: review_def find_hook setup_defs)
next
  case (Update old obj)
  then show ?thesis by (cases obj) (simp_all add: review_def find_hook setup_defs)
next
  case (Remove obj)
  then show ?thesis by (cases obj) (simp_all add: review_def find_hook setup_defs)
qed


section \<open>The store under admission\<close>

text \<open>
  Changes of bindings, configurations, targets and params as the API server makes them, one
  at a time, each reviewed in the world it changes. Requests to the status subresource are
  not reviewed and keep metadata and spec. A deletion timestamp is never taken back. Objects
  with a finalizer get the timestamp first and are removed later; targets and params have no
  finalizer and are removed at once.
\<close>

record 'w object_stores =
  stTargets :: "'w \<Rightarrow> nname \<Rightarrow> VRouterTarget option"
  stParams :: "'w \<Rightarrow> nname \<Rightarrow> VRouterParams option"
  stBindings :: "'w \<Rightarrow> nname \<Rightarrow> VRouterBinding option"
  stConfigs :: "'w \<Rightarrow> nname \<Rightarrow> VRouterConfig option"

definition reviewWrite ::
  "'w kube \<Rightarrow> ('d, 'f, 't) templating \<Rightarrow> ('a \<Rightarrow> runtime_object) \<Rightarrow> 'a option \<Rightarrow> 'a \<Rightarrow> 'w \<Rightarrow> admission" where
  "reviewWrite k lib obj old new w =
     review k lib (case old of None \<Rightarrow> Create (obj new) | Some x \<Rightarrow> Update (obj x) (obj new)) w"

abbreviation prm_key :: "VRouterParams \<Rightarrow> nname" where
  "prm_key p \<equiv> (metaNamespace (prmMeta p), metaName (prmMeta p))"

text \<open>Objects that are live stay so, or get the timestamp; those with it keep it.\<close>

definition still_deleting :: "('a \<Rightarrow> ObjectMeta) \<Rightarrow> 'a option \<Rightarrow> 'a \<Rightarrow> bool" where
  "still_deleting meta old new \<longleftrightarrow>
     (case old of None \<Rightarrow> True
      | Some x \<Rightarrow> DeletionTimestamp_IsZero (meta new) \<longrightarrow> DeletionTimestamp_IsZero (meta x))"

inductive store_step ::
  "'w kube \<Rightarrow> ('d, 'f, 't) templating \<Rightarrow> 'w object_stores \<Rightarrow> 'w \<Rightarrow> 'w \<Rightarrow> bool" for k lib st where
  write_binding: "admitted (reviewWrite k lib BindingObj (stBindings st w n) b w) \<Longrightarrow> bnd_key b = n \<Longrightarrow>
    still_deleting bndMeta (stBindings st w n) b \<Longrightarrow> stBindings st w' = (stBindings st w)(n \<mapsto> b) \<Longrightarrow>
    stConfigs st w' = stConfigs st w \<Longrightarrow> stTargets st w' = stTargets st w \<Longrightarrow> stParams st w' = stParams st w \<Longrightarrow>
    store_step k lib st w w'"
| binding_status: "stBindings st w n = Some b \<Longrightarrow> bndMeta b' = bndMeta b \<Longrightarrow> bndSpec b' = bndSpec b \<Longrightarrow>
    stBindings st w' = (stBindings st w)(n \<mapsto> b') \<Longrightarrow> stConfigs st w' = stConfigs st w \<Longrightarrow>
    stTargets st w' = stTargets st w \<Longrightarrow> stParams st w' = stParams st w \<Longrightarrow> store_step k lib st w w'"
| delete_binding: "stBindings st w n = Some b \<Longrightarrow> admitted (review k lib (Remove (BindingObj b)) w) \<Longrightarrow>
    stBindings st w' = (stBindings st w)(n := d) \<Longrightarrow>
    (case d of None \<Rightarrow> True | Some b' \<Rightarrow> bndSpec b' = bndSpec b \<and> bnd_key b' = bnd_key b \<and> \<not> DeletionTimestamp_IsZero (bndMeta b')) \<Longrightarrow>
    stConfigs st w' = stConfigs st w \<Longrightarrow> stTargets st w' = stTargets st w \<Longrightarrow> stParams st w' = stParams st w \<Longrightarrow>
    store_step k lib st w w'"
| write_config: "admitted (reviewWrite k lib ConfigObj (stConfigs st w n) c w) \<Longrightarrow> cfg_key c = n \<Longrightarrow>
    still_deleting cfgMeta (stConfigs st w n) c \<Longrightarrow> stConfigs st w' = (stConfigs st w)(n \<mapsto> c) \<Longrightarrow>
    stBindings st w' = stBindings st w \<Longrightarrow> stTargets st w' = stTargets st w \<Longrightarrow> stParams st w' = stParams st w \<Longrightarrow>
    store_step k lib st w w'"
| config_status: "stConfigs st w n = Some c \<Longrightarrow> cfgMeta c' = cfgMeta c \<Longrightarrow> cfgSpec c' = cfgSpec c \<Longrightarrow>
    stConfigs st w' = (stConfigs st w)(n \<mapsto> c') \<Longrightarrow> stBindings st w' = stBindings st w \<Longrightarrow>
    stTargets st w' = stTargets st w \<Longrightarrow> stParams st w' = stParams st w \<Longrightarrow> store_step k lib st w w'"
| delete_config: "stConfigs st w n = Some c \<Longrightarrow> admitted (review k lib (Remove (ConfigObj c)) w) \<Longrightarrow>
    stConfigs st w' = (stConfigs st w)(n := d) \<Longrightarrow>
    (case d of None \<Rightarrow> True | Some c' \<Rightarrow> cfgSpec c' = cfgSpec c \<and> cfg_key c' = cfg_key c \<and> \<not> DeletionTimestamp_IsZero (cfgMeta c')) \<Longrightarrow>
    stBindings st w' = stBindings st w \<Longrightarrow> stTargets st w' = stTargets st w \<Longrightarrow> stParams st w' = stParams st w \<Longrightarrow>
    store_step k lib st w w'"
| write_target: "tgt_key t = n \<Longrightarrow> stTargets st w' = (stTargets st w)(n \<mapsto> t) \<Longrightarrow>
    stBindings st w' = stBindings st w \<Longrightarrow> stConfigs st w' = stConfigs st w \<Longrightarrow> stParams st w' = stParams st w \<Longrightarrow>
    store_step k lib st w w'"
| delete_target: "stTargets st w n = Some t \<Longrightarrow> admitted (review k lib (Remove (TargetObj t)) w) \<Longrightarrow>
    stTargets st w' = (stTargets st w)(n := None) \<Longrightarrow>
    stBindings st w' = stBindings st w \<Longrightarrow> stConfigs st w' = stConfigs st w \<Longrightarrow> stParams st w' = stParams st w \<Longrightarrow>
    store_step k lib st w w'"
| write_params: "prm_key p = n \<Longrightarrow> stParams st w' = (stParams st w)(n \<mapsto> p) \<Longrightarrow>
    stBindings st w' = stBindings st w \<Longrightarrow> stConfigs st w' = stConfigs st w \<Longrightarrow> stTargets st w' = stTargets st w \<Longrightarrow>
    store_step k lib st w w'"
| delete_params: "stParams st w n = Some p \<Longrightarrow> prm_key p = n \<Longrightarrow> admitted (review k lib (Remove (ParamsObj p)) w) \<Longrightarrow>
    stParams st w' = (stParams st w)(n := None) \<Longrightarrow>
    stBindings st w' = stBindings st w \<Longrightarrow> stConfigs st w' = stConfigs st w \<Longrightarrow> stTargets st w' = stTargets st w \<Longrightarrow>
    store_step k lib st w w'"
| other: "stBindings st w' = stBindings st w \<Longrightarrow> stConfigs st w' = stConfigs st w \<Longrightarrow>
    stTargets st w' = stTargets st w \<Longrightarrow> stParams st w' = stParams st w \<Longrightarrow> store_step k lib st w w'"

inductive_cases store_stepE: "store_step k lib st w w'"

text \<open>References of live objects resolve, in the namespace of the object.\<close>

definition live_refs :: "('w \<Rightarrow> nname \<Rightarrow> 'a option) \<Rightarrow> 'w \<Rightarrow> string \<Rightarrow> NameRef list \<Rightarrow> bool" where
  "live_refs objs w ns refs \<longleftrightarrow>
     (\<forall>ref \<in> set refs. ResolveNamespace ref ns = ns \<and> objs w (ns, refName ref) \<noteq> None)"

definition binding_whole :: "'w object_stores \<Rightarrow> 'w \<Rightarrow> VRouterBinding \<Rightarrow> bool" where
  "binding_whole st w b \<longleftrightarrow>
     DeletionTimestamp_IsZero (bndMeta b) \<longrightarrow>
     live_refs (stTargets st) w (metaNamespace (bndMeta b)) (bndTargetRefs (bndSpec b)) \<and>
     live_refs (stParams st) w (metaNamespace (bndMeta b)) (bndParamsRefs (bndSpec b))"

definition config_whole :: "'w object_stores \<Rightarrow> 'w \<Rightarrow> VRouterConfig \<Rightarrow> bool" where
  "config_whole st w c \<longleftrightarrow>
     DeletionTimestamp_IsZero (cfgMeta c) \<longrightarrow>
     live_refs (stTargets st) w (metaNamespace (cfgMeta c)) [cfgTargetRef (cfgSpec c)]"

definition references_whole :: "'w object_stores \<Rightarrow> 'w \<Rightarrow> bool" where
  "references_whole st w \<longleftrightarrow>
     (\<forall>n b. stBindings st w n = Some b \<longrightarrow> binding_whole st w b) \<and>
     (\<forall>n c. stConfigs st w n = Some c \<longrightarrow> config_whole st w c)"

lemma live_refs_mono:
  "live_refs objs w ns refs \<Longrightarrow> (\<And>m. objs w m \<noteq> None \<Longrightarrow> objs w' m \<noteq> None) \<Longrightarrow> live_refs objs w' ns refs"
  unfolding live_refs_def by blast

lemma live_refs_removed:
  "live_refs objs w ns refs \<Longrightarrow> objs w' = (objs w)(n := None) \<Longrightarrow>
     (\<And>ref. ref \<in> set refs \<Longrightarrow> ResolveNamespace ref ns = ns \<Longrightarrow> n \<noteq> (ns, refName ref)) \<Longrightarrow>
     live_refs objs w' ns refs"
  unfolding live_refs_def by fastforce

lemma live_refs_same: "objs w' = objs w \<Longrightarrow> live_refs objs w' = live_refs objs w"
  by (simp add: live_refs_def fun_eq_iff)

locale reference_store = stores_api k "stConfigs st" "stBindings st"
  for k :: "'w kube" and st :: "'w object_stores" +
  assumes target_read: "getTarget k n w = Inr t \<Longrightarrow> stTargets st w n = Some t"
    and params_read: "getParams k n w = Inr p \<Longrightarrow> stParams st w n = Some p"
    and target_keyed: "stTargets st w n = Some t \<Longrightarrow> tgt_key t = n"
begin

lemma binding_admitted_whole:
  assumes "admitted (reviewWrite k lib BindingObj old b w)"
  shows "binding_whole st w b"
  unfolding binding_whole_def
proof
  assume "DeletionTimestamp_IsZero (bndMeta b)"
  with assms have v: "validateBinding k b w = None"
    by (auto simp: reviewWrite_def review_typed split: option.splits)
  show "live_refs (stTargets st) w (metaNamespace (bndMeta b)) (bndTargetRefs (bndSpec b)) \<and>
      live_refs (stParams st) w (metaNamespace (bndMeta b)) (bndParamsRefs (bndSpec b))"
    using validateBinding_ok(4,5) [OF v] target_read params_read unfolding live_refs_def by fastforce
qed

lemma config_admitted_whole:
  assumes "admitted (reviewWrite k lib ConfigObj old c w)"
  shows "config_whole st w c"
  unfolding config_whole_def
proof
  assume "DeletionTimestamp_IsZero (cfgMeta c)"
  with assms have v: "validateVRouterConfig k c w = None"
    by (auto simp: reviewWrite_def review_typed split: option.splits)
  then show "live_refs (stTargets st) w (metaNamespace (cfgMeta c)) [cfgTargetRef (cfgSpec c)]"
    using target_read by (auto simp: live_refs_def validateVRouterConfig_def Let_def split: if_splits sum.splits)
qed

lemma target_removed_unused:
  assumes "admitted (review k lib (Remove (TargetObj t)) w)" "stTargets st w n = Some t"
  shows "stBindings st w m = Some b \<Longrightarrow> ref \<in> set (bndTargetRefs (bndSpec b)) \<Longrightarrow>
      ResolveNamespace ref (metaNamespace (bndMeta b)) = metaNamespace (bndMeta b) \<Longrightarrow>
      n \<noteq> (metaNamespace (bndMeta b), refName ref)"
    and "stConfigs st w m = Some c \<Longrightarrow>
      ResolveNamespace (cfgTargetRef (cfgSpec c)) (metaNamespace (cfgMeta c)) = metaNamespace (cfgMeta c) \<Longrightarrow>
      n \<noteq> (metaNamespace (cfgMeta c), refName (cfgTargetRef (cfgSpec c)))"
proof -
  have key: "tgt_key t = n" using assms(2) by (rule target_keyed)
  from assms(1) have "checkTargetNotReferenced k t w = None" by (simp add: review_typed)
  then obtain bs cs where l: "listBindings k (Some (fst n)) w = Inr bs" "listConfigs k (Some (fst n)) [] w = Inr cs"
    and free: "\<forall>b \<in> set bs. \<forall>ref \<in> set (bndTargetRefs (bndSpec b)). \<not> refersTo ref (metaNamespace (bndMeta b)) (tgtMeta t)"
      "\<forall>c \<in> set cs. \<not> refersTo (cfgTargetRef (cfgSpec c)) (metaNamespace (cfgMeta c)) (tgtMeta t)"
    using key by (auto simp: checkTargetNotReferenced_def Let_def filter_empty_conv split: sum.splits list.splits if_splits)
  show "n \<noteq> (metaNamespace (bndMeta b), refName ref)"
    if b: "stBindings st w m = Some b" "ref \<in> set (bndTargetRefs (bndSpec b))"
      "ResolveNamespace ref (metaNamespace (bndMeta b)) = metaNamespace (bndMeta b)"
  proof
    assume n: "n = (metaNamespace (bndMeta b), refName ref)"
    with storedb_key [OF b(1)] b(1) listb_ns [OF l(1)] have "b \<in> set bs" by (cases m) auto
    with free(1) b(2,3) n key show False by (auto simp: refersTo_def)
  qed
  show "n \<noteq> (metaNamespace (cfgMeta c), refName (cfgTargetRef (cfgSpec c)))"
    if c: "stConfigs st w m = Some c"
      "ResolveNamespace (cfgTargetRef (cfgSpec c)) (metaNamespace (cfgMeta c)) = metaNamespace (cfgMeta c)"
  proof
    assume n: "n = (metaNamespace (cfgMeta c), refName (cfgTargetRef (cfgSpec c)))"
    with stored_key [OF c(1)] c(1) list_sound [OF l(2)] have "c \<in> set cs" by (cases m) auto
    with free(2) c(2) n key show False by (auto simp: refersTo_def)
  qed
qed

lemma params_removed_unused:
  assumes "admitted (review k lib (Remove (ParamsObj p)) w)" "prm_key p = n"
    and "stBindings st w m = Some b" "ref \<in> set (bndParamsRefs (bndSpec b))"
    and "ResolveNamespace ref (metaNamespace (bndMeta b)) = metaNamespace (bndMeta b)"
  shows "n \<noteq> (metaNamespace (bndMeta b), refName ref)"
proof
  assume n: "n = (metaNamespace (bndMeta b), refName ref)"
  from assms(1) have "checkParamsNotReferenced k p w = None" by (simp add: review_typed)
  then obtain bs where l: "listBindings k (Some (fst n)) w = Inr bs"
    and free: "\<forall>b \<in> set bs. \<forall>ref \<in> set (bndParamsRefs (bndSpec b)). \<not> refersTo ref (metaNamespace (bndMeta b)) (prmMeta p)"
    using assms(2) by (auto simp: checkParamsNotReferenced_def Let_def filter_empty_conv split: sum.splits list.splits if_splits)
  from n storedb_key [OF assms(3)] assms(3) listb_ns [OF l] have "b \<in> set bs" by (cases m) auto
  with free assms(4,5) n assms(2) show False by (auto simp: refersTo_def)
qed

text \<open>The parts of the invariant that a step does not write.\<close>

lemma whole_cong:
  assumes "stTargets st w' = stTargets st w" "stParams st w' = stParams st w"
  shows "binding_whole st w' = binding_whole st w" "config_whole st w' = config_whole st w"
  using assms by (simp_all add: binding_whole_def config_whole_def live_refs_def fun_eq_iff)

lemma grown_whole:
  assumes "\<And>m. stTargets st w m \<noteq> None \<Longrightarrow> stTargets st w' m \<noteq> None"
    and "\<And>m. stParams st w m \<noteq> None \<Longrightarrow> stParams st w' m \<noteq> None"
  shows "binding_whole st w b \<Longrightarrow> binding_whole st w' b" "config_whole st w c \<Longrightarrow> config_whole st w' c"
  unfolding binding_whole_def config_whole_def
  using live_refs_mono [of "stTargets st" w _ _ w', OF _ assms(1)] live_refs_mono [of "stParams st" w _ _ w', OF _ assms(2)]
  by simp_all

lemma step_whole:
  assumes "store_step k lib st w w'" "references_whole st w"
  shows "references_whole st w'"
  using assms(1)
proof cases
  case (write_binding n b)
  with assms(2) binding_admitted_whole [OF write_binding(1)] show ?thesis
    by (auto simp: references_whole_def whole_cong [of w' w])
next
  case (binding_status n b b')
  then have "binding_whole st w b' = binding_whole st w b" by (simp add: binding_whole_def)
  with binding_status assms(2) show ?thesis by (auto simp: references_whole_def whole_cong [of w' w])
next
  case (delete_binding n b d)
  then have "d = Some b' \<Longrightarrow> binding_whole st w b'" for b' by (auto simp: binding_whole_def)
  with delete_binding assms(2) show ?thesis by (auto simp: references_whole_def whole_cong [of w' w] split: if_splits)
next
  case (write_config n c)
  with assms(2) config_admitted_whole [OF write_config(1)] show ?thesis
    by (auto simp: references_whole_def whole_cong [of w' w])
next
  case (config_status n c c')
  then have "config_whole st w c' = config_whole st w c" by (simp add: config_whole_def)
  with config_status assms(2) show ?thesis by (auto simp: references_whole_def whole_cong [of w' w])
next
  case (delete_config n c d)
  then have "d = Some c' \<Longrightarrow> config_whole st w c'" for c' by (auto simp: config_whole_def)
  with delete_config assms(2) show ?thesis by (auto simp: references_whole_def whole_cong [of w' w] split: if_splits)
next
  case (write_target t n)
  then have "stTargets st w m \<noteq> None \<Longrightarrow> stTargets st w' m \<noteq> None"
    "stParams st w m \<noteq> None \<Longrightarrow> stParams st w' m \<noteq> None" for m by auto
  with write_target assms(2) grown_whole [of w w'] show ?thesis by (auto simp: references_whole_def)
next
  case (delete_target n t)
  note unused = target_removed_unused [OF delete_target(2,1)]
  have "binding_whole st w' b" if b: "stBindings st w m = Some b" "binding_whole st w b" for m b
    using b(2) unused(1) [OF b(1)] live_refs_same [OF delete_target(6)] unfolding binding_whole_def
    by (auto intro: live_refs_removed [OF _ delete_target(3)])
  moreover have "config_whole st w' c" if c: "stConfigs st w m = Some c" "config_whole st w c" for m c
    using c(2) unused(2) [OF c(1)] unfolding config_whole_def
    by (auto intro: live_refs_removed [OF _ delete_target(3)])
  ultimately show ?thesis using delete_target(4,5) assms(2) by (auto simp: references_whole_def)
next
  case (write_params p n)
  then have "stTargets st w m \<noteq> None \<Longrightarrow> stTargets st w' m \<noteq> None"
    "stParams st w m \<noteq> None \<Longrightarrow> stParams st w' m \<noteq> None" for m by auto
  with write_params assms(2) grown_whole [of w w'] show ?thesis by (auto simp: references_whole_def)
next
  case (delete_params n p)
  note unused = params_removed_unused [OF delete_params(3,2)]
  have "binding_whole st w' b" if b: "stBindings st w m = Some b" "binding_whole st w b" for m b
    using b(2) unused [OF b(1)] live_refs_same [OF delete_params(7)] unfolding binding_whole_def
    by (auto intro: live_refs_removed [OF _ delete_params(4)])
  moreover have "config_whole st w' = config_whole st w"
    using live_refs_same [OF delete_params(7)] by (simp add: config_whole_def fun_eq_iff)
  ultimately show ?thesis using delete_params(5,6) assms(2) by (auto simp: references_whole_def)
next
  case other
  with assms(2) show ?thesis by (simp add: references_whole_def whole_cong [of w' w])
qed

lemma steps_whole:
  assumes "(store_step k lib st)\<^sup>*\<^sup>* w w'" "references_whole st w"
  shows "references_whole st w'"
  using assms by (induction rule: rtranclp_induct) (auto intro: step_whole)

end

text \<open>
  C15. References never dangle: in every state that reviewed requests lead to from a cluster
  without bindings and configurations, each binding that is not being deleted has all its
  targets and all its params objects in the store, and each configuration that is not being
  deleted has its target, in its own namespace. Templates are not protected in this way.
\<close>

theorem references_never_dangle:
  assumes "reference_store k st" "\<And>n. stBindings st w0 n = None" "\<And>n. stConfigs st w0 n = None"
    and "(store_step k lib st)\<^sup>*\<^sup>* w0 w"
  shows "(\<forall>n b. stBindings st w n = Some b \<and> DeletionTimestamp_IsZero (bndMeta b) \<longrightarrow>
      (\<forall>ref \<in> set (bndTargetRefs (bndSpec b)).
         \<exists>t. stTargets st w (ResolveNamespace ref (metaNamespace (bndMeta b)), refName ref) = Some t) \<and>
      (\<forall>ref \<in> set (bndParamsRefs (bndSpec b)).
         \<exists>p. stParams st w (ResolveNamespace ref (metaNamespace (bndMeta b)), refName ref) = Some p)) \<and>
    (\<forall>n c. stConfigs st w n = Some c \<and> DeletionTimestamp_IsZero (cfgMeta c) \<longrightarrow>
      (\<exists>t. stTargets st w (ResolveNamespace (cfgTargetRef (cfgSpec c)) (metaNamespace (cfgMeta c)),
             refName (cfgTargetRef (cfgSpec c))) = Some t))"
proof -
  have "references_whole st w0" using assms(2,3) by (simp add: references_whole_def)
  from reference_store.steps_whole [OF assms(1,4) this]
  show ?thesis by (auto simp: references_whole_def binding_whole_def config_whole_def live_refs_def)
qed

section \<open>Witnesses\<close>

definition memStores :: "mem_world object_stores" where
  "memStores =
     \<lparr>stTargets = memTarget, stParams = (\<lambda>w. map_of (mwParams w)), stBindings = memBinding,
      stConfigs = memConfig\<rparr>"

interpretation mem_references: reference_store memKube memStores
proof -
  have "stores_api memKube (stConfigs memStores) (stBindings memStores)"
    by (simp add: memStores_def mem_stores.stores_api_axioms)
  then show "reference_store memKube memStores"
    unfolding reference_store_def reference_store_axioms_def
    using memTarget_form by (auto simp: memStores_def found_def split: option.splits)
qed

definition beforeBinding :: mem_world where
  "beforeBinding = sampleDisabled\<lparr>mwBindings := [], mwConfigs := []\<rparr>"

definition afterBinding :: mem_world where
  "afterBinding = sampleDisabled\<lparr>mwConfigs := []\<rparr>"

theorem references_never_dangle_witness:
  "(\<exists>t. memTarget afterBinding (sampleKey ''r1'') = Some t) \<and> (\<exists>t. memTarget afterBinding (sampleKey ''r2'') = Some t)"
proof -
  let ?b = "storedBinding afterBinding"
  have st: "memBinding afterBinding (sampleKey ''b'') \<noteq> None" by code_simp
  note b = storedBinding_stored [OF st]
  have adm: "admitted (reviewWrite memKube pairsLib BindingObj None ?b beforeBinding)" by code_simp
  have live: "DeletionTimestamp_IsZero (bndMeta ?b)" "metaNamespace (bndMeta ?b) = ''default''"
    "map (\<lambda>r. (refNamespace r, refName r)) (bndTargetRefs (bndSpec ?b)) = [([], ''r1''), ([], ''r2'')]"
    by code_simp+
  have none: "memBinding beforeBinding n = None" "memConfig beforeBinding n = None" for n
    by (simp_all add: beforeBinding_def memBinding_def memConfig_def)
  have "memBinding afterBinding = (memBinding beforeBinding)(sampleKey ''b'' \<mapsto> ?b)"
  proof
    fix n
    show "memBinding afterBinding n = ((memBinding beforeBinding)(sampleKey ''b'' \<mapsto> ?b)) n"
      using b(2) none by (auto simp: afterBinding_def sampleDisabled_def sampleBound_def memBinding_def)
  qed
  then have "store_step memKube pairsLib memStores beforeBinding afterBinding"
    using adm b(3) none
    by (intro store_step.write_binding [of _ _ _ _ "sampleKey ''b''" ?b])
      (auto simp: memStores_def still_deleting_def afterBinding_def beforeBinding_def memConfig_def
        memTarget_def fun_eq_iff)
  then have run: "(store_step memKube pairsLib memStores)\<^sup>*\<^sup>* beforeBinding afterBinding" by (rule r_into_rtranclp)
  have whole: "\<forall>ref \<in> set (bndTargetRefs (bndSpec ?b)).
      \<exists>t. memTarget afterBinding (ResolveNamespace ref (metaNamespace (bndMeta ?b)), refName ref) = Some t"
    using references_never_dangle [OF mem_references.reference_store_axioms _ _ run] none live(1) b(2)
    by (simp add: memStores_def)
  have "NameRef.make [] ''r1'' \<in> set (bndTargetRefs (bndSpec ?b))" "NameRef.make [] ''r2'' \<in> set (bndTargetRefs (bndSpec ?b))"
    by code_simp+
  with whole [rule_format, OF this(1)] whole [rule_format, OF this(2)] live(2) show ?thesis
    by (simp add: ResolveNamespace_def NameRef.defs)
qed

end
