(* ===== verification/GoHeap.thy ===== *)
theory GoHeap
  imports Prelude
begin

text \<open>
  Go's memory as far as pointers, slices and maps go: a heap of cells that only grows, pointers
  as addresses (\<open>nil\<close> is \<open>None\<close>), slices as windows into an array cell. Copying functions work
  on a heap; the locale \<open>deep_copy\<close> says what makes one a deep copy, and the rules after it
  build deep copies of structs, pointers and slices from those of their parts.
\<close>

section \<open>Cells, pointers and slices\<close>

type_synonym addr = nat
type_synonym 'c heap = "'c list"

text \<open>How values of a Go type are put into a cell and got out of it.\<close>

type_synonym ('t, 'c) kind = "('t \<Rightarrow> 'c) \<times> ('c \<Rightarrow> 't option)"

definition good_kind :: "('t, 'c) kind \<Rightarrow> bool" where
  "good_kind k \<longleftrightarrow> (\<forall>x. snd k (fst k x) = Some x)"

definition load :: "('t, 'c) kind \<Rightarrow> 'c heap \<Rightarrow> addr \<Rightarrow> 't option" where
  "load k h a = (if a < length h then snd k (h ! a) else None)"

text \<open>\<open>new(T)\<close> and \<open>make\<close>, with the value that is stored next.\<close>

definition alloc :: "('t, 'c) kind \<Rightarrow> 't \<Rightarrow> 'c heap \<Rightarrow> addr \<times> 'c heap" where
  "alloc k x h = (length h, h @ [fst k x])"

record slice =
  sliceArray :: addr
  sliceOffset :: nat
  sliceLen :: nat
  sliceCap :: nat

definition window :: "slice \<Rightarrow> 't list \<Rightarrow> 't list option" where
  "window s xs =
     (if sliceLen s \<le> sliceCap s \<and> sliceOffset s + sliceCap s \<le> length xs
      then Some (take (sliceLen s) (drop (sliceOffset s) xs)) else None)"

definition wholeSlice :: "addr \<Rightarrow> nat \<Rightarrow> slice" where
  "wholeSlice a n = \<lparr>sliceArray = a, sliceOffset = 0, sliceLen = n, sliceCap = n\<rparr>"

lemma window_whole [simp]: "window (wholeSlice a (length xs)) xs = Some xs"
  by (simp add: window_def wholeSlice_def)

lemma sliceArray_whole: "sliceArray (wholeSlice a n) = a"
  by (simp add: wholeSlice_def)

lemma window_length: "window s xs = Some ys \<Longrightarrow> length ys = sliceLen s"
  by (auto simp: window_def split: if_splits)

section \<open>Copying and reading\<close>

text \<open>
  A copying function is given the value of the original and the heap; \<open>None\<close> is a read of a
  cell that is not there or has another type, which Go's types exclude. A reader gives the
  value a structure stands for.
\<close>

type_synonym ('a, 'c) copier = "'a \<Rightarrow> 'c heap \<Rightarrow> ('a \<times> 'c heap) option"
type_synonym ('a, 'v, 'c) reader = "'c heap \<Rightarrow> 'a \<Rightarrow> 'v option"
type_synonym ('a, 'c) footprint = "'c heap \<Rightarrow> 'a \<Rightarrow> addr set"

text \<open>An assignment of a value without pointers.\<close>

definition assign :: "('a, 'c) copier" where "assign x h = Some (x, h)"
definition readFlat :: "('a, 'a, 'c) reader" where "readFlat h x = Some x"
definition noAddrs :: "('a, 'c) footprint" where "noAddrs h x = {}"

text \<open>\<open>if in.F != nil { out.F = new(T); (*in.F).DeepCopyInto(out.F) }\<close>\<close>

definition copyPtr :: "('t, 'c) kind \<Rightarrow> ('t, 'c) copier \<Rightarrow> (addr option, 'c) copier" where
  "copyPtr k into p h =
     (case p of
        None \<Rightarrow> Some (None, h)
      | Some a \<Rightarrow>
          (case load k h a of
             None \<Rightarrow> None
           | Some x \<Rightarrow>
               (case into x h of
                  None \<Rightarrow> None
                | Some (y, h1) \<Rightarrow> (case alloc k y h1 of (b, h2) \<Rightarrow> Some (Some b, h2)))))"

definition readPtr :: "('t, 'c) kind \<Rightarrow> ('t, 'v, 'c) reader \<Rightarrow> (addr option, 'v option, 'c) reader" where
  "readPtr k rd h p =
     (case p of
        None \<Rightarrow> Some None
      | Some a \<Rightarrow> (case load k h a of None \<Rightarrow> None | Some x \<Rightarrow> map_option Some (rd h x)))"

definition addrsPtr :: "('t, 'c) kind \<Rightarrow> ('t, 'c) footprint \<Rightarrow> (addr option, 'c) footprint" where
  "addrsPtr k ad h p =
     (case p of
        None \<Rightarrow> {}
      | Some a \<Rightarrow> insert a (case load k h a of None \<Rightarrow> {} | Some x \<Rightarrow> ad h x))"

text \<open>\<open>for i := range *in { (*in)[i].DeepCopyInto(&(*out)[i]) }\<close>\<close>

fun copyEach :: "('t, 'c) copier \<Rightarrow> ('t list, 'c) copier" where
  "copyEach into [] h = Some ([], h)"
| "copyEach into (x # xs) h =
     (case into x h of
        None \<Rightarrow> None
      | Some (y, h1) \<Rightarrow>
          (case copyEach into xs h1 of None \<Rightarrow> None | Some (ys, h2) \<Rightarrow> Some (y # ys, h2)))"

fun readEach :: "('t, 'v, 'c) reader \<Rightarrow> ('t list, 'v list, 'c) reader" where
  "readEach rd h [] = Some []"
| "readEach rd h (x # xs) =
     (case (rd h x, readEach rd h xs) of (Some v, Some vs) \<Rightarrow> Some (v # vs) | _ \<Rightarrow> None)"

definition addrsEach :: "('t, 'c) footprint \<Rightarrow> ('t list, 'c) footprint" where
  "addrsEach ad h xs = (\<Union>x \<in> set xs. ad h x)"

text \<open>\<open>if in.F != nil { out.F = make([]T, len(in.F)); ... }\<close>\<close>

definition loadSlice :: "('t list, 'c) kind \<Rightarrow> 'c heap \<Rightarrow> slice \<Rightarrow> 't list option" where
  "loadSlice k h s = (case load k h (sliceArray s) of None \<Rightarrow> None | Some xs \<Rightarrow> window s xs)"

definition copySlice :: "('t list, 'c) kind \<Rightarrow> ('t, 'c) copier \<Rightarrow> (slice option, 'c) copier" where
  "copySlice k into s h =
     (case s of
        None \<Rightarrow> Some (None, h)
      | Some sl \<Rightarrow>
          (case loadSlice k h sl of
             None \<Rightarrow> None
           | Some xs \<Rightarrow>
               (case copyEach into xs h of
                  None \<Rightarrow> None
                | Some (ys, h1) \<Rightarrow>
                    (case alloc k ys h1 of (b, h2) \<Rightarrow> Some (Some (wholeSlice b (length ys)), h2)))))"

text \<open>A \<open>nil\<close> slice and an empty one stand for the same list.\<close>

definition readSlice :: "('t list, 'c) kind \<Rightarrow> ('t, 'v, 'c) reader \<Rightarrow> (slice option, 'v list, 'c) reader" where
  "readSlice k rd h s =
     (case s of
        None \<Rightarrow> Some []
      | Some sl \<Rightarrow> (case loadSlice k h sl of None \<Rightarrow> None | Some xs \<Rightarrow> readEach rd h xs))"

definition addrsSlice :: "('t list, 'c) kind \<Rightarrow> ('t, 'c) footprint \<Rightarrow> (slice option, 'c) footprint" where
  "addrsSlice k ad h s =
     (case s of
        None \<Rightarrow> {}
      | Some sl \<Rightarrow> insert (sliceArray sl) (case loadSlice k h sl of None \<Rightarrow> {} | Some xs \<Rightarrow> addrsEach ad h xs))"

text \<open>Struct fields: \<open>*out = *in\<close> first, then each field that needs more, in order.\<close>

definition copyField ::
  "('r \<Rightarrow> 'f) \<Rightarrow> (('f \<Rightarrow> 'f) \<Rightarrow> 'r \<Rightarrow> 'r) \<Rightarrow> ('f, 'c) copier \<Rightarrow> ('r, 'c) copier" where
  "copyField get upd into x h =
     (case into (get x) h of None \<Rightarrow> None | Some (f, h1) \<Rightarrow> Some (upd (\<lambda>_. f) x, h1))"

definition andThen :: "('r, 'c) copier \<Rightarrow> ('r, 'c) copier \<Rightarrow> ('r, 'c) copier" where
  "andThen c1 c2 x h = (case c1 x h of None \<Rightarrow> None | Some (y, h1) \<Rightarrow> c2 y h1)"

definition readField :: "('f, 'v, 'c) reader \<Rightarrow> ('r \<Rightarrow> 'f) \<Rightarrow> ('r, 'v, 'c) reader" where
  "readField rd get h x = rd h (get x)"

definition addrsField :: "('f, 'c) footprint \<Rightarrow> ('r \<Rightarrow> 'f) \<Rightarrow> ('r, 'c) footprint" where
  "addrsField ad get h x = ad h (get x)"

definition readBoth :: "('r, 'v, 'c) reader \<Rightarrow> ('r, 'u, 'c) reader \<Rightarrow> ('r, 'v \<times> 'u, 'c) reader" where
  "readBoth r1 r2 h x = (case (r1 h x, r2 h x) of (Some v, Some u) \<Rightarrow> Some (v, u) | _ \<Rightarrow> None)"

definition addrsBoth :: "('r, 'c) footprint \<Rightarrow> ('r, 'c) footprint \<Rightarrow> ('r, 'c) footprint" where
  "addrsBoth a1 a2 h x = a1 h x \<union> a2 h x"

text \<open>The value of the struct from its flat fields and the values of the others.\<close>

definition readStruct :: "('r \<Rightarrow> 'v \<Rightarrow> 'u) \<Rightarrow> ('r, 'v, 'c) reader \<Rightarrow> ('r, 'u, 'c) reader" where
  "readStruct build rd h x = map_option (build x) (rd h x)"

section \<open>Deep copies\<close>

definition agree :: "addr set \<Rightarrow> 'c heap \<Rightarrow> 'c heap \<Rightarrow> bool" where
  "agree as h h' \<longleftrightarrow> (\<forall>a \<in> as. a < length h' \<and> h' ! a = h ! a)"

lemma agree_append [intro]: "as \<subseteq> {..<length h} \<Longrightarrow> agree as h (h @ e)"
  by (auto simp: agree_def nth_append)

lemma agree_mono: "agree as h h' \<Longrightarrow> bs \<subseteq> as \<Longrightarrow> agree bs h h'"
  by (auto simp: agree_def)

lemma load_agree:
  assumes "a \<in> as" "agree as h h'" "load k h a = Some x"
  shows "load k h' a = Some x"
  using assms by (auto simp: load_def agree_def split: if_splits)

lemma load_append: "load k h a = Some x \<Longrightarrow> load k (h @ e) a = Some x"
  by (auto simp: load_def nth_append split: if_splits)

lemma load_alloc [simp]: "good_kind k \<Longrightarrow> load k (h @ [fst k x]) (length h) = Some x"
  by (simp add: load_def good_kind_def)

text \<open>
  Every readable structure can be copied; the copy only allocates, stands for the same value,
  and lives in new cells alone. A structure is not affected by changes outside its cells.
\<close>

locale deep_copy =
  fixes into :: "('a, 'c) copier" and rd :: "('a, 'v, 'c) reader" and ad :: "('a, 'c) footprint"
  assumes copied: "rd h x = Some v \<Longrightarrow>
      \<exists>y e. into x h = Some (y, h @ e) \<and> rd (h @ e) y = Some v \<and>
        ad (h @ e) y \<subseteq> {length h..<length h + length e}"
    and framed: "rd h x = Some v \<Longrightarrow> agree (ad h x) h h' \<Longrightarrow> rd h' x = Some v \<and> ad h' x = ad h x"
    and inside: "rd h x = Some v \<Longrightarrow> ad h x \<subseteq> {..<length h}"
begin

lemma grown:
  assumes "rd h x = Some v"
  shows "rd (h @ e) x = Some v" "ad (h @ e) x = ad h x"
  using framed [OF assms] inside [OF assms] by blast+

lemma copiedE:
  assumes "rd h x = Some v" "into x h = Some (y, h')"
  obtains e where "h' = h @ e" "rd h' y = Some v" "ad h' y \<subseteq> {length h..<length h'}"
  using copied [OF assms(1)] assms(2) by auto

text \<open>What the caller relies on: whatever happens to cells outside the copy, it keeps its value.\<close>

lemma detached:
  assumes "rd h x = Some v" "into x h = Some (y, h')" "agree {length h..<length h'} h' h2"
  shows "rd h2 y = Some v"
  using copiedE [OF assms(1,2)] framed agree_mono [OF assms(3)] by metis

end

text \<open>A part of the result that a copying function does not touch.\<close>

definition keeps :: "('r, 'c) copier \<Rightarrow> ('r \<Rightarrow> 'p) \<Rightarrow> bool" where
  "keeps c part \<longleftrightarrow> (\<forall>x h y h'. c x h = Some (y, h') \<longrightarrow> part y = part x)"

lemma inside_elem: "deep_copy into rd ad \<Longrightarrow> rd h x = Some v \<Longrightarrow> a \<in> ad h x \<Longrightarrow> a < length h"
  using deep_copy.inside by fastforce

lemma keepsD: "keeps c part \<Longrightarrow> c x h = Some (y, h') \<Longrightarrow> part y = part x"
  unfolding keeps_def by blast

named_theorems deep_intros

lemma deep_assign [deep_intros]: "deep_copy assign readFlat noAddrs"
  by unfold_locales (auto simp: assign_def readFlat_def noAddrs_def)

lemma deep_ptr [deep_intros]:
  assumes "good_kind k" "deep_copy into rd ad"
  shows "deep_copy (copyPtr k into) (readPtr k rd) (addrsPtr k ad)"
proof
  fix h p v
  assume r: "readPtr k rd h p = Some v"
  show "\<exists>y e. copyPtr k into p h = Some (y, h @ e) \<and> readPtr k rd (h @ e) y = Some v \<and>
      addrsPtr k ad (h @ e) y \<subseteq> {length h..<length h + length e}"
  proof (cases p)
    case None
    with r show ?thesis by (simp add: copyPtr_def readPtr_def addrsPtr_def)
  next
    case (Some a)
    with r obtain x u where x: "load k h a = Some x" "rd h x = Some u" "v = Some u"
      by (auto simp: readPtr_def split: option.splits)
    from deep_copy.copied [OF assms(2) x(2)] obtain y e where y: "into x h = Some (y, h @ e)"
      "rd (h @ e) y = Some u" "ad (h @ e) y \<subseteq> {length h..<length h + length e}" by blast
    note y' = deep_copy.grown [OF assms(2) y(2), of "[fst k y]"]
    have "load k (h @ e @ [fst k y]) (length h + length e) = Some y"
      using load_alloc [OF assms(1), of "h @ e" y] by simp
    with Some x y y' show ?thesis
      by (intro exI [of _ "Some (length h + length e)"] exI [of _ "e @ [fst k y]"])
        (auto simp: copyPtr_def readPtr_def addrsPtr_def alloc_def)
  qed
next
  fix h p v h'
  assume r: "readPtr k rd h p = Some v" and a: "agree (addrsPtr k ad h p) h h'"
  show "readPtr k rd h' p = Some v \<and> addrsPtr k ad h' p = addrsPtr k ad h p"
  proof (cases p)
    case (Some b)
    with r obtain x u where x: "load k h b = Some x" "rd h x = Some u" "v = Some u"
      by (auto simp: readPtr_def split: option.splits)
    from a Some x(1) have "load k h' b = Some x" "agree (ad h x) h h'"
      by (auto simp: addrsPtr_def intro: load_agree agree_mono)
    with Some x deep_copy.framed [OF assms(2) x(2)] show ?thesis by (simp add: readPtr_def addrsPtr_def)
  qed (use r in \<open>simp add: readPtr_def addrsPtr_def\<close>)
next
  fix h p v
  assume "readPtr k rd h p = Some v"
  then show "addrsPtr k ad h p \<subseteq> {..<length h}"
    using inside_elem [OF assms(2)]
    by (auto simp: readPtr_def addrsPtr_def load_def split: option.splits if_splits) metis
qed

lemma each_copied:
  assumes "deep_copy into rd ad" "readEach rd h xs = Some vs"
  shows "\<exists>ys e. copyEach into xs h = Some (ys, h @ e) \<and> readEach rd (h @ e) ys = Some vs \<and>
    addrsEach ad (h @ e) ys \<subseteq> {length h..<length h + length e} \<and> length ys = length xs"
  using assms(2)
proof (induction xs arbitrary: h vs)
  case Nil
  then show ?case by (simp add: addrsEach_def)
next
  case (Cons x xs)
  then obtain u us where u: "rd h x = Some u" "readEach rd h xs = Some us" "vs = u # us"
    by (auto split: option.splits)
  from deep_copy.copied [OF assms(1) u(1)] obtain y e where y: "into x h = Some (y, h @ e)"
    "rd (h @ e) y = Some u" "ad (h @ e) y \<subseteq> {length h..<length h + length e}" by blast
  have "readEach rd (h @ e) xs = Some us"
    using u(2) deep_copy.grown(1) [OF assms(1)]
    by (induction xs arbitrary: us) (auto split: option.splits)
  from Cons.IH [OF this] obtain ys e2 where ys: "copyEach into xs (h @ e) = Some (ys, h @ e @ e2)"
    "readEach rd (h @ e @ e2) ys = Some us" "length ys = length xs"
    "addrsEach ad (h @ e @ e2) ys \<subseteq> {length h + length e..<length h + length e + length e2}" by auto
  note y2 = deep_copy.grown [OF assms(1) y(2), of e2]
  from ys(4) y(3) y2 have "addrsEach ad (h @ e @ e2) (y # ys) \<subseteq> {length h..<length h + length (e @ e2)}"
    by (fastforce simp: addrsEach_def)
  with y ys y2 u show ?case
    by (intro exI [of _ "y # ys"] exI [of _ "e @ e2"]) simp
qed

lemma deep_each:
  assumes "deep_copy into rd ad"
  shows "deep_copy (copyEach into) (readEach rd) (addrsEach ad)"
proof
  show "\<exists>y e. copyEach into xs h = Some (y, h @ e) \<and> readEach rd (h @ e) y = Some vs \<and>
      addrsEach ad (h @ e) y \<subseteq> {length h..<length h + length e}" if "readEach rd h xs = Some vs" for h xs vs
    using each_copied [OF assms that] by blast
next
  fix h xs vs h'
  assume "readEach rd h xs = Some vs" "agree (addrsEach ad h xs) h h'"
  then show "readEach rd h' xs = Some vs \<and> addrsEach ad h' xs = addrsEach ad h xs"
  proof (induction xs arbitrary: vs)
    case (Cons x xs)
    then obtain u us where u: "rd h x = Some u" "readEach rd h xs = Some us" "vs = u # us"
      by (auto split: option.splits)
    have "agree (ad h x) h h'" "agree (addrsEach ad h xs) h h'"
      using Cons.prems(2) by (auto simp: addrsEach_def intro: agree_mono)
    with Cons.IH [OF u(2)] deep_copy.framed [OF assms u(1)] u(3) show ?case by (simp add: addrsEach_def)
  qed (simp add: addrsEach_def)
next
  fix h xs vs
  assume "readEach rd h xs = Some vs"
  then show "addrsEach ad h xs \<subseteq> {..<length h}"
  proof (induction xs arbitrary: vs)
    case (Cons x xs)
    then obtain u us where "rd h x = Some u" "readEach rd h xs = Some us" by (auto split: option.splits)
    with Cons.IH deep_copy.inside [OF assms] show ?case by (auto simp: addrsEach_def)
  qed (simp add: addrsEach_def)
qed

lemma loadSlice_agree:
  assumes "sliceArray s \<in> as" "agree as h h'" "loadSlice k h s = Some xs"
  shows "loadSlice k h' s = Some xs"
  using assms(3) load_agree [OF assms(1,2), of k] by (auto simp: loadSlice_def split: option.splits)

lemma deep_slice [deep_intros]:
  assumes "good_kind k" "deep_copy into rd ad"
  shows "deep_copy (copySlice k into) (readSlice k rd) (addrsSlice k ad)"
proof
  fix h p v
  assume r: "readSlice k rd h p = Some v"
  show "\<exists>y e. copySlice k into p h = Some (y, h @ e) \<and> readSlice k rd (h @ e) y = Some v \<and>
      addrsSlice k ad (h @ e) y \<subseteq> {length h..<length h + length e}"
  proof (cases p)
    case None
    with r show ?thesis by (simp add: copySlice_def readSlice_def addrsSlice_def)
  next
    case (Some s)
    with r obtain xs where x: "loadSlice k h s = Some xs" "readEach rd h xs = Some v"
      by (auto simp: readSlice_def split: option.splits)
    from each_copied [OF assms(2) x(2)] obtain ys e where y: "copyEach into xs h = Some (ys, h @ e)"
      "readEach rd (h @ e) ys = Some v" "addrsEach ad (h @ e) ys \<subseteq> {length h..<length h + length e}" by blast
    note y' = deep_copy.grown [OF deep_each [OF assms(2)] y(2), of "[fst k ys]"]
    have "loadSlice k (h @ e @ [fst k ys]) (wholeSlice (length h + length e) (length ys)) = Some ys"
      using load_alloc [OF assms(1), of "h @ e" ys] by (simp add: loadSlice_def sliceArray_whole)
    with Some x y y' show ?thesis
      by (intro exI [of _ "Some (wholeSlice (length h + length e) (length ys))"] exI [of _ "e @ [fst k ys]"])
        (auto simp: copySlice_def readSlice_def addrsSlice_def alloc_def sliceArray_whole)
  qed
next
  fix h p v h'
  assume r: "readSlice k rd h p = Some v" and a: "agree (addrsSlice k ad h p) h h'"
  show "readSlice k rd h' p = Some v \<and> addrsSlice k ad h' p = addrsSlice k ad h p"
  proof (cases p)
    case (Some s)
    with r obtain xs where x: "loadSlice k h s = Some xs" "readEach rd h xs = Some v"
      by (auto simp: readSlice_def split: option.splits)
    from a Some x(1) have "loadSlice k h' s = Some xs" "agree (addrsEach ad h xs) h h'"
      by (auto simp: addrsSlice_def intro: loadSlice_agree agree_mono)
    with Some x deep_copy.framed [OF deep_each [OF assms(2)] x(2)] show ?thesis
      by (simp add: readSlice_def addrsSlice_def)
  qed (use r in \<open>simp add: readSlice_def addrsSlice_def\<close>)
next
  fix h p v
  assume "readSlice k rd h p = Some v"
  then show "addrsSlice k ad h p \<subseteq> {..<length h}"
    using inside_elem [OF deep_each [OF assms(2)]]
    by (auto simp: readSlice_def addrsSlice_def loadSlice_def load_def split: option.splits if_splits)
qed

lemma deep_field [deep_intros]:
  assumes "\<And>f x. get (upd f x) = f (get x)" "deep_copy into rd ad"
  shows "deep_copy (copyField get upd into) (readField rd get) (addrsField ad get)"
proof
  fix h x v
  assume "readField rd get h x = Some v"
  then have "rd h (get x) = Some v" by (simp add: readField_def)
  from deep_copy.copied [OF assms(2) this] obtain f e where "into (get x) h = Some (f, h @ e)"
    "rd (h @ e) f = Some v" "ad (h @ e) f \<subseteq> {length h..<length h + length e}" by blast
  then show "\<exists>y e. copyField get upd into x h = Some (y, h @ e) \<and> readField rd get (h @ e) y = Some v \<and>
      addrsField ad get (h @ e) y \<subseteq> {length h..<length h + length e}"
    by (intro exI [of _ "upd (\<lambda>_. f) x"] exI [of _ e])
      (simp add: copyField_def readField_def addrsField_def assms(1))
next
  fix h x v h'
  assume "readField rd get h x = Some v" "agree (addrsField ad get h x) h h'"
  then show "readField rd get h' x = Some v \<and> addrsField ad get h' x = addrsField ad get h x"
    unfolding readField_def addrsField_def by (rule deep_copy.framed [OF assms(2)])
next
  fix h x v
  assume "readField rd get h x = Some v"
  then show "addrsField ad get h x \<subseteq> {..<length h}"
    unfolding readField_def addrsField_def by (rule deep_copy.inside [OF assms(2)])
qed

text \<open>A struct without pointers, one field of which is copied by a function.\<close>

lemma deep_flat_field:
  fixes into :: "('f, 'c) copier" and get :: "'r \<Rightarrow> 'f"
  assumes "\<And>x. upd (\<lambda>_. get x) x = x" "deep_copy into readFlat noAddrs"
  shows "deep_copy (copyField get upd into) readFlat noAddrs"
proof
  fix h :: "'c heap" and x v :: 'r
  assume "readFlat h x = Some v"
  from deep_copy.copied [OF assms(2), of h "get x" "get x"]
  show "\<exists>y e. copyField get upd into x h = Some (y, h @ e) \<and> readFlat (h @ e) y = Some v \<and>
      noAddrs (h @ e) y \<subseteq> {length h..<length h + length e}"
    using \<open>readFlat h x = Some v\<close> by (auto simp: copyField_def readFlat_def noAddrs_def assms(1))
qed (simp_all add: readFlat_def noAddrs_def)

text \<open>Two fields, of which each copy leaves the other alone.\<close>

lemma deep_then [deep_intros]:
  assumes "keeps c2 get" "\<And>h f x. r2 h (upd f x) = r2 h x" "\<And>h f x. a2 h (upd f x) = a2 h x"
    and "deep_copy (copyField get upd into) (readField rd get) (addrsField ad get)" "deep_copy c2 r2 a2"
  shows "deep_copy (andThen (copyField get upd into) c2) (readBoth (readField rd get) r2)
           (addrsBoth (addrsField ad get) a2)"
proof
  fix h x v
  assume "readBoth (readField rd get) r2 h x = Some v"
  then obtain v1 v2 where v: "v = (v1, v2)" "readField rd get h x = Some v1" "r2 h x = Some v2"
    by (auto simp: readBoth_def split: option.splits)
  from deep_copy.copied [OF assms(4) v(2)] obtain y e where y: "copyField get upd into x h = Some (y, h @ e)"
    "readField rd get (h @ e) y = Some v1" "addrsField ad get (h @ e) y \<subseteq> {length h..<length h + length e}" by blast
  from y(1) assms(2,3) have "r2 g y = r2 g x" "a2 g y = a2 g x" for g
    by (auto simp: copyField_def split: option.splits)
  with deep_copy.grown [OF assms(5) v(3), of e] have y2: "r2 (h @ e) y = Some v2" by simp
  from deep_copy.copied [OF assms(5) y2] obtain z e2 where z: "c2 y (h @ e) = Some (z, h @ e @ e2)"
    "r2 (h @ e @ e2) z = Some v2"
    "a2 (h @ e @ e2) z \<subseteq> {length h + length e..<length h + length e + length e2}" by auto
  from assms(1) z(1) have get: "get z = get y" by (rule keepsD)
  note y3 = deep_copy.grown [OF assms(4) y(2), of e2]
  from y z y3 get v(1) show "\<exists>y e. andThen (copyField get upd into) c2 x h = Some (y, h @ e) \<and>
      readBoth (readField rd get) r2 (h @ e) y = Some v \<and>
      addrsBoth (addrsField ad get) a2 (h @ e) y \<subseteq> {length h..<length h + length e}"
    by (intro exI [of _ z] exI [of _ "e @ e2"])
      (fastforce simp: andThen_def readBoth_def addrsBoth_def readField_def addrsField_def)
next
  fix h x v h'
  assume "readBoth (readField rd get) r2 h x = Some v" "agree (addrsBoth (addrsField ad get) a2 h x) h h'"
  moreover from this(2) have "agree (addrsField ad get h x) h h'" "agree (a2 h x) h h'"
    by (auto simp: addrsBoth_def intro: agree_mono)
  ultimately show "readBoth (readField rd get) r2 h' x = Some v \<and>
      addrsBoth (addrsField ad get) a2 h' x = addrsBoth (addrsField ad get) a2 h x"
    using deep_copy.framed [OF assms(4), of h x _ h'] deep_copy.framed [OF assms(5), of h x _ h']
    by (auto simp: readBoth_def addrsBoth_def split: option.splits)
next
  fix h x v
  assume "readBoth (readField rd get) r2 h x = Some v"
  then show "addrsBoth (addrsField ad get) a2 h x \<subseteq> {..<length h}"
    using deep_copy.inside [OF assms(4), of h x] deep_copy.inside [OF assms(5), of h x]
    by (auto simp: readBoth_def addrsBoth_def split: option.splits)
qed

lemma deep_struct [deep_intros]:
  assumes "keeps c build" "deep_copy c rd ad"
  shows "deep_copy c (readStruct build rd) ad"
proof
  fix h x v
  assume "readStruct build rd h x = Some v"
  then obtain u where u: "rd h x = Some u" "v = build x u" by (auto simp: readStruct_def)
  from deep_copy.copied [OF assms(2) u(1)] obtain y e where "c x h = Some (y, h @ e)"
    "rd (h @ e) y = Some u" "ad (h @ e) y \<subseteq> {length h..<length h + length e}" by blast
  moreover from assms(1) this(1) have "build y = build x" by (rule keepsD)
  ultimately show "\<exists>y e. c x h = Some (y, h @ e) \<and> readStruct build rd (h @ e) y = Some v \<and>
      ad (h @ e) y \<subseteq> {length h..<length h + length e}" using u(2) by (auto simp: readStruct_def)
next
  fix h x v h'
  assume "readStruct build rd h x = Some v" "agree (ad h x) h h'"
  then obtain u where "rd h x = Some u" "v = build x u" "agree (ad h x) h h'" by (auto simp: readStruct_def)
  with deep_copy.framed [OF assms(2) this(1,3)] show "readStruct build rd h' x = Some v \<and> ad h' x = ad h x"
    by (simp add: readStruct_def)
next
  fix h x v
  assume "readStruct build rd h x = Some v"
  then show "ad h x \<subseteq> {..<length h}"
    using deep_copy.inside [OF assms(2), of h x] by (auto simp: readStruct_def)
qed

lemma keeps_field [deep_intros]:
  "(\<And>f x. part (upd f x) = part x) \<Longrightarrow> keeps (copyField get upd into) part"
  by (auto simp: keeps_def copyField_def split: option.splits)

lemma keeps_then [deep_intros]: "keeps c1 part \<Longrightarrow> keeps c2 part \<Longrightarrow> keeps (andThen c1 c2) part"
  by (fastforce simp: keeps_def andThen_def split: option.splits)

end
