(* ===== verification/Startup.thy ===== *)
theory Startup
  imports AdmissionServer Operator GoHeap
begin

text \<open>
  The start of the operator (\<open>cmd/main.go\<close>): from the values of the flags to the running
  manager. What controller-runtime, certwatcher and the API client do is a parameter: an
  answer, success or error, to each thing the program asks of them. The TLS options are Go
  slices on a heap, because the program appends to copies of one slice.
\<close>

section \<open>Flags\<close>

record flags =
  metricsAddr :: string
  probeAddr :: string
  enableLeaderElection :: bool
  secureMetrics :: bool
  webhookCertPath :: string
  webhookCertName :: string
  webhookCertKey :: string
  metricsCertPath :: string
  metricsCertName :: string
  metricsCertKey :: string
  enableHTTP2 :: bool

definition defaultFlags :: flags where
  "defaultFlags =
     \<lparr>metricsAddr = ''0'', probeAddr = '':8081'', enableLeaderElection = False, secureMetrics = True,
      webhookCertPath = [], webhookCertName = ''tls.crt'', webhookCertKey = ''tls.key'',
      metricsCertPath = [], metricsCertName = ''tls.crt'', metricsCertKey = ''tls.key'',
      enableHTTP2 = False\<rparr>"

text \<open>\<open>filepath.Join\<close> of two elements, and the \<open>filepath.Clean\<close> it ends with.\<close>

fun cleanParts :: "bool \<Rightarrow> string list \<Rightarrow> string list \<Rightarrow> string list" where
  "cleanParts rooted acc [] = rev acc"
| "cleanParts rooted acc (p # ps) =
     (if p = [] \<or> p = ''.'' then cleanParts rooted acc ps
      else if p = ''..'' then
        (case acc of
           a # as \<Rightarrow> if a = ''..'' then cleanParts rooted (p # acc) ps else cleanParts rooted as ps
         | [] \<Rightarrow> if rooted then cleanParts rooted acc ps else cleanParts rooted [p] ps)
      else cleanParts rooted (p # acc) ps)"

definition cleanPath :: "string \<Rightarrow> string" where
  "cleanPath path =
     (let rooted = (case path of c # _ \<Rightarrow> c = CHR ''/'' | [] \<Rightarrow> False);
          out = (if rooted then ''/'' else []) @ join ''/'' (cleanParts rooted [] (split_at (CHR ''/'') path))
      in if out = [] then ''.'' else out)"

fun joinPath :: "string list \<Rightarrow> string" where
  "joinPath [] = []"
| "joinPath (e # es) = (if e = [] then joinPath es else cleanPath (join ''/'' (e # es)))"

section \<open>TLS options\<close>

text \<open>A certificate watcher is given by its two files; an option is a function on a TLS config.\<close>

type_synonym watcher = "string \<times> string"

datatype tlsOpt = DisableHTTP2 | GetCertificateOf watcher

type_synonym optsHeap = "tlsOpt option list heap"

definition kOpts :: "(tlsOpt option list, tlsOpt option list) kind" where
  "kOpts = (id, Some)"

text \<open>
  \<open>append\<close> of one element: within the capacity it writes to the array it was given, otherwise
  it copies to a new array, whose capacity is \<open>grow\<close> of the old length.
\<close>

definition append1 :: "(nat \<Rightarrow> nat) \<Rightarrow> slice option \<Rightarrow> tlsOpt \<Rightarrow> optsHeap \<Rightarrow> slice option \<times> optsHeap" where
  "append1 grow s x h =
     (let xs = (case s of None \<Rightarrow> []
                | Some sl \<Rightarrow> take (sliceLen sl) (drop (sliceOffset sl) (h ! sliceArray sl)));
          n = length xs; c = grow n
      in case s of
           Some sl \<Rightarrow>
             if sliceLen sl < sliceCap sl
             then (Some (sl\<lparr>sliceLen := Suc (sliceLen sl)\<rparr>),
                   h[sliceArray sl := (h ! sliceArray sl)[sliceOffset sl + sliceLen sl := Some x]])
             else (Some \<lparr>sliceArray = length h, sliceOffset = 0, sliceLen = Suc n, sliceCap = c\<rparr>,
                   h @ [xs @ Some x # replicate (c - Suc n) None])
         | None \<Rightarrow>
             (Some \<lparr>sliceArray = length h, sliceOffset = 0, sliceLen = Suc n, sliceCap = c\<rparr>,
              h @ [xs @ Some x # replicate (c - Suc n) None]))"

text \<open>The options a server applies when it starts.\<close>

definition appliedOpts :: "optsHeap \<Rightarrow> slice option \<Rightarrow> tlsOpt list" where
  "appliedOpts h s =
     (case s of None \<Rightarrow> []
      | Some sl \<Rightarrow> List.map_filter id (take (sliceLen sl) (drop (sliceOffset sl) (h ! sliceArray sl))))"

record server_options =
  optsMemory :: optsHeap
  webhookTLS :: "slice option"
  metricsTLS :: "slice option"
  webhookWatcher :: "watcher option"
  metricsWatcher :: "watcher option"
  metricsAuth :: bool
  metricsBind :: string
  metricsSecure :: bool
  probeBind :: string
  leaderElection :: bool
  leaderElectionID :: string

text \<open>
  The part of \<open>main\<close> before the manager, with the options the manager is then made with. \<open>newWatcher\<close> is \<open>certwatcher.New\<close>; an error ends the
  program with exit code 1.
\<close>

definition serverOptions ::
  "(nat \<Rightarrow> nat) \<Rightarrow> (watcher \<Rightarrow> gerror option) \<Rightarrow> flags \<Rightarrow> gerror + server_options" where
  "serverOptions grow newWatcher fl =
     (let (tlsOpts, h0) = (if \<not> enableHTTP2 fl then append1 grow None DisableHTTP2 [] else (None, []));
          webhookTLSOpts = tlsOpts;
          hookFiles = (joinPath [webhookCertPath fl, webhookCertName fl],
                       joinPath [webhookCertPath fl, webhookCertKey fl]);
          metricsFiles = (joinPath [metricsCertPath fl, metricsCertName fl],
                          joinPath [metricsCertPath fl, metricsCertKey fl]);
          useHook = (webhookCertPath fl \<noteq> []); useMetrics = (metricsCertPath fl \<noteq> [])
      in case (if useHook then newWatcher hookFiles else None) of
           Some e \<Rightarrow> Inl e
         | None \<Rightarrow>
             (let (webhookTLSOpts, h1) =
                (if useHook then append1 grow webhookTLSOpts (GetCertificateOf hookFiles) h0
                 else (webhookTLSOpts, h0))
              in case (if useMetrics then newWatcher metricsFiles else None) of
                   Some e \<Rightarrow> Inl e
                 | None \<Rightarrow>
                     (let (metricsTLSOpts, h2) =
                        (if useMetrics then append1 grow tlsOpts (GetCertificateOf metricsFiles) h1
                         else (tlsOpts, h1))
                      in Inr \<lparr>optsMemory = h2, webhookTLS = webhookTLSOpts, metricsTLS = metricsTLSOpts,
                              webhookWatcher = (if useHook then Some hookFiles else None),
                              metricsWatcher = (if useMetrics then Some metricsFiles else None),
                              metricsAuth = secureMetrics fl, metricsBind = metricsAddr fl,
                              metricsSecure = secureMetrics fl, probeBind = probeAddr fl,
                              leaderElection = enableLeaderElection fl,
                              leaderElectionID = ''d9121dda.kojuro.date''\<rparr>)))"

section \<open>The manager\<close>

datatype startup_step =
    GetConfig
  | NewManager
  | SetupController controller
  | SetupWebhook webhook_kind
  | AddWatcher watcher
  | AddHealthzCheck
  | AddReadyzCheck
  | StartManager

text \<open>\<open>os.Getenv(''ENABLE_WEBHOOKS'') != ''false''\<close>; an unset variable reads as empty.\<close>

definition webhooksEnabled :: "string option \<Rightarrow> bool" where
  "webhooksEnabled env \<longleftrightarrow> (case env of None \<Rightarrow> [] | Some v \<Rightarrow> v) \<noteq> ''false''"

definition hook :: "string option \<Rightarrow> webhook_kind \<Rightarrow> startup_step list" where
  "hook env wk = (if webhooksEnabled env then [SetupWebhook wk] else [])"

definition watcherStep :: "watcher option \<Rightarrow> startup_step list" where
  "watcherStep cw = (case cw of None \<Rightarrow> [] | Some f \<Rightarrow> [AddWatcher f])"

definition startupSteps :: "string option \<Rightarrow> server_options \<Rightarrow> startup_step list" where
  "startupSteps env so =
     [GetConfig, NewManager, SetupController TemplateCtl, SetupController ParamsCtl,
      SetupController TargetCtl, SetupController BindingCtl, SetupController ConfigCtl] @
     hook env TemplateHook @ hook env TargetHook @ hook env ParamsHook @ hook env BindingHook @
     hook env ConfigHook @ [SetupController ClusterCtl] @ hook env ClusterHook @
     watcherStep (metricsWatcher so) @ watcherStep (webhookWatcher so) @
     [AddHealthzCheck, AddReadyzCheck, StartManager]"

text \<open>Each step is tried in turn; the first error ends the program with exit code 1.\<close>

fun runSteps :: "(startup_step \<Rightarrow> gerror option) \<Rightarrow> startup_step list \<Rightarrow> startup_step list \<times> nat" where
  "runSteps attempt [] = ([], 0)"
| "runSteps attempt (s # ss) =
     (case attempt s of
        Some e \<Rightarrow> ([s], 1)
      | None \<Rightarrow> (case runSteps attempt ss of (done1, code) \<Rightarrow> (s # done1, code)))"

text \<open>The steps tried and the exit code.\<close>

definition main ::
  "(nat \<Rightarrow> nat) \<Rightarrow> (watcher \<Rightarrow> gerror option) \<Rightarrow> (server_options \<Rightarrow> startup_step \<Rightarrow> gerror option) \<Rightarrow>
     string option \<Rightarrow> flags \<Rightarrow> startup_step list \<times> nat" where
  "main grow newWatcher attempt env fl =
     (case serverOptions grow newWatcher fl of
        Inl e \<Rightarrow> ([], 1)
      | Inr so \<Rightarrow> runSteps (attempt so) (startupSteps env so))"

section \<open>Properties\<close>

lemma runSteps_last:
  assumes "runSteps attempt (ss @ [x]) = (tried, code)" "x \<in> set tried" "x \<notin> set ss"
  shows "tried = ss @ [x]" "\<forall>s \<in> set ss. attempt s = None" "code = 0 \<longleftrightarrow> attempt x = None"
  using assms by (induction ss arbitrary: tried) (auto split: option.splits prod.splits)

lemma startupSteps_eq:
  "startupSteps env so = butlast (startupSteps env so) @ [StartManager]"
  "StartManager \<notin> set (butlast (startupSteps env so))"
  by (auto simp: startupSteps_def hook_def watcherStep_def butlast_append split: option.splits)

lemma startupSteps_set:
  "SetupController c \<in> set (startupSteps env so)"
  "SetupWebhook wk \<in> set (startupSteps env so) \<longleftrightarrow> webhooksEnabled env"
  by (cases c; simp add: startupSteps_def) (cases wk; auto simp: startupSteps_def hook_def watcherStep_def split: option.splits)

text \<open>
  C39. All or nothing: if the manager is started at all, then before that every one of the six
  controllers was set up without an error and the two health checks were added, and so was
  every one of the six admission webhooks unless ENABLE_WEBHOOKS is \<open>false\<close>, in which case none was;
  the start is the last step. The program ends with exit code 0 only through the manager.
\<close>

theorem manager_starts_complete:
  assumes "main grow newWatcher attempt env fl = (tried, code)" "StartManager \<in> set tried"
  shows "\<exists>so. serverOptions grow newWatcher fl = Inr so \<and> last tried = StartManager \<and>
    (code = 0 \<longleftrightarrow> attempt so StartManager = None) \<and>
    (\<forall>c. SetupController c \<in> set tried \<and> attempt so (SetupController c) = None) \<and>
    (\<forall>wk. SetupWebhook wk \<in> set tried \<longleftrightarrow> webhooksEnabled env) \<and>
    (\<forall>wk. webhooksEnabled env \<longrightarrow> attempt so (SetupWebhook wk) = None) \<and>
    attempt so AddHealthzCheck = None \<and> attempt so AddReadyzCheck = None"
proof (cases "serverOptions grow newWatcher fl")
  case (Inl e)
  with assms show ?thesis by (simp add: main_def)
next
  case (Inr so)
  let ?ss = "butlast (startupSteps env so)"
  have run: "runSteps (attempt so) (?ss @ [StartManager]) = (tried, code)"
    using assms(1) Inr startupSteps_eq(1) [of env so] by (simp add: main_def)
  note r = runSteps_last [OF run assms(2) startupSteps_eq(2)]
  have tried: "tried = startupSteps env so" using r(1) startupSteps_eq(1) by simp
  have before: "s \<in> set (startupSteps env so) \<Longrightarrow> s \<noteq> StartManager \<Longrightarrow> attempt so s = None" for s
    using r(2) startupSteps_eq(1) [of env so] by (metis Un_iff empty_iff empty_set list.simps(15) insertE set_append)
  have "AddHealthzCheck \<in> set (startupSteps env so)" "AddReadyzCheck \<in> set (startupSteps env so)"
    by (simp_all add: startupSteps_def)
  with before Inr tried r(3) startupSteps_set [of _ env so] show ?thesis
    by (intro exI [of _ so]) (simp add: startupSteps_def)
qed

text \<open>Slices of one and two options.\<close>

abbreviation oneOpt :: "addr \<Rightarrow> nat \<Rightarrow> slice" where
  "oneOpt a c \<equiv> \<lparr>sliceArray = a, sliceOffset = 0, sliceLen = Suc 0, sliceCap = c\<rparr>"

lemma append1_nil:
  "append1 grow None x h = (Some (oneOpt (length h) (grow 0)), h @ [Some x # replicate (grow 0 - Suc 0) None])"
  by (simp add: append1_def Let_def)

lemma append1_full:
  "h ! a = [y] \<Longrightarrow> append1 grow (Some (oneOpt a (Suc 0))) x h =
     (Some \<lparr>sliceArray = length h, sliceOffset = 0, sliceLen = Suc (Suc 0), sliceCap = grow (Suc 0)\<rparr>,
      h @ [y # Some x # replicate (grow (Suc 0) - Suc (Suc 0)) None])"
  by (simp add: append1_def Let_def)

lemma append1_room:
  "h ! a = y # z # zs \<Longrightarrow> Suc 0 < c \<Longrightarrow> append1 grow (Some (oneOpt a c)) x h =
     (Some ((oneOpt a c)\<lparr>sliceLen := Suc (Suc 0)\<rparr>), h[a := y # Some x # zs])"
  by (simp add: append1_def Let_def)

lemmas append1_cases = append1_nil append1_full append1_room

text \<open>
  C40. Each server keeps its own certificate: with whatever flags, the metrics server applies
  the option that disables HTTP/2 unless it is enabled, and then its own certificate if it has
  one, and nothing else. The webhook server does the same exactly when the two \<open>append\<close>s to
  the shared slice \<open>tlsOpts\<close> cannot meet in one array: HTTP/2 is enabled, one of the servers has
  no certificate, both have the same, or a slice of one element that \<open>append\<close> has just made has
  no room left. The last is what the Go runtime does; the language only promises enough room.
\<close>

theorem servers_keep_their_certificates:
  assumes "\<forall>n. n < grow n" "serverOptions grow newWatcher fl = Inr so"
  shows "appliedOpts (optsMemory so) (metricsTLS so) =
      (if enableHTTP2 fl then [] else [DisableHTTP2]) @
      (case metricsWatcher so of None \<Rightarrow> [] | Some f \<Rightarrow> [GetCertificateOf f]) \<and>
    (appliedOpts (optsMemory so) (webhookTLS so) =
      (if enableHTTP2 fl then [] else [DisableHTTP2]) @
      (case webhookWatcher so of None \<Rightarrow> [] | Some f \<Rightarrow> [GetCertificateOf f]) \<longleftrightarrow>
     enableHTTP2 fl \<or> metricsWatcher so = None \<or> webhookWatcher so = None \<or>
     webhookWatcher so = metricsWatcher so \<or> grow 0 = 1)"
proof -
  define hookFiles where "hookFiles = (joinPath [webhookCertPath fl, webhookCertName fl], joinPath [webhookCertPath fl, webhookCertKey fl])"
  define metricsFiles where "metricsFiles = (joinPath [metricsCertPath fl, metricsCertName fl], joinPath [metricsCertPath fl, metricsCertKey fl])"
  note so = assms(2) [unfolded serverOptions_def, folded hookFiles_def metricsFiles_def]
  consider "grow 0 = Suc 0" | c where "grow 0 = Suc (Suc c)"
    using assms(1) by (metis gr0_implies_Suc not0_implies_Suc spec)
  then show ?thesis
  proof cases
    case 1
    with so show ?thesis
      by (cases "enableHTTP2 fl"; cases "webhookCertPath fl = []"; cases "metricsCertPath fl = []")
        (auto simp: Let_def append1_cases appliedOpts_def map_filter_simps nth_append split: option.splits)
  next
    case (2 c)
    with so show ?thesis
      by (cases "enableHTTP2 fl"; cases "webhookCertPath fl = []"; cases "metricsCertPath fl = []")
        (auto simp: Let_def append1_cases appliedOpts_def map_filter_simps nth_append split: option.splits)
  qed
qed

section \<open>Witnesses\<close>

text \<open>The capacities of the Go runtime for a slice of pointers that is appended to one by one.\<close>

definition goGrow :: "nat \<Rightarrow> nat" where
  "goGrow n = (if n = 0 then 1 else 2 * n)"

definition sampleFlags :: flags where
  "sampleFlags = defaultFlags\<lparr>webhookCertPath := ''/certs/webhook/'', metricsCertPath := ''/certs/metrics''\<rparr>"

theorem manager_starts_complete_witness:
  "\<exists>so. serverOptions goGrow (\<lambda>f. None) sampleFlags = Inr so \<and>
     webhookWatcher so = Some (''/certs/webhook/tls.crt'', ''/certs/webhook/tls.key'') \<and>
     length (fst (main goGrow (\<lambda>f. None) (\<lambda>so s. None) None sampleFlags)) = 19 \<and>
     last (fst (main goGrow (\<lambda>f. None) (\<lambda>so s. None) None sampleFlags)) = StartManager"
proof -
  let ?m = "main goGrow (\<lambda>f. None) (\<lambda>so s. None) None sampleFlags"
  have m: "?m = (fst ?m, snd ?m)" "StartManager \<in> set (fst ?m)" "length (fst ?m) = 19"
    by (simp, code_simp, code_simp)
  from manager_starts_complete [OF m(1,2)] obtain so where so:
    "serverOptions goGrow (\<lambda>f. None) sampleFlags = Inr so" "last (fst ?m) = StartManager" by blast
  have "(case serverOptions goGrow (\<lambda>f. None) sampleFlags of Inl e \<Rightarrow> None | Inr so \<Rightarrow> webhookWatcher so) =
      Some (''/certs/webhook/tls.crt'', ''/certs/webhook/tls.key'')" by code_simp
  with so m(3) show ?thesis by simp
qed

theorem servers_keep_their_certificates_witness:
  "\<exists>so. serverOptions goGrow (\<lambda>f. None) sampleFlags = Inr so \<and>
     appliedOpts (optsMemory so) (webhookTLS so) =
       [DisableHTTP2, GetCertificateOf (''/certs/webhook/tls.crt'', ''/certs/webhook/tls.key'')] \<and>
     appliedOpts (optsMemory so) (metricsTLS so) =
       [DisableHTTP2, GetCertificateOf (''/certs/metrics/tls.crt'', ''/certs/metrics/tls.key'')]"
proof -
  have w: "(case serverOptions goGrow (\<lambda>f. None) sampleFlags of Inl e \<Rightarrow> None
        | Inr so \<Rightarrow> Some (webhookWatcher so, metricsWatcher so)) =
      Some (Some (''/certs/webhook/tls.crt'', ''/certs/webhook/tls.key''),
        Some (''/certs/metrics/tls.crt'', ''/certs/metrics/tls.key''))" by code_simp
  then obtain so where so: "serverOptions goGrow (\<lambda>f. None) sampleFlags = Inr so"
    by (auto split: sum.splits)
  have "\<forall>n. n < goGrow n" "goGrow 0 = 1" "\<not> enableHTTP2 sampleFlags"
    by (simp_all add: goGrow_def sampleFlags_def defaultFlags_def)
  with servers_keep_their_certificates [OF _ so] w so show ?thesis by simp
qed

text \<open>With room for a second element the webhook server would apply the metrics certificate.\<close>

lemma shared_array_mixes_certificates:
  "(case serverOptions (\<lambda>n. 2 * n + 2) (\<lambda>f. None) sampleFlags of
      Inl e \<Rightarrow> [] | Inr so \<Rightarrow> appliedOpts (optsMemory so) (webhookTLS so)) =
   [DisableHTTP2, GetCertificateOf (''/certs/metrics/tls.crt'', ''/certs/metrics/tls.key'')]"
  by code_simp

end
