(* ===== verification/GoCells.thy ===== *)
theory GoCells
  imports GoHeap ApiTypes
begin

text \<open>
  The API types (\<open>api/v1\<close>) as they lie in memory: a pointer field is an address, a slice
  field a window into an array. Of \<open>metav1.ObjectMeta\<close> the fields of the record \<open>ObjectMeta\<close>
  are kept; \<open>apiextensionsv1.JSON\<close> is its raw byte slice. The last part lists the types that
  cells can hold.
\<close>

section \<open>Structs\<close>

text \<open>\<open>TypeMeta\<close> is the API version and the kind.\<close>

type_synonym TypeMeta = "string \<times> string"

record goObjectMeta =
  gmNamespace :: string
  gmName :: string
  gmGeneration :: int
  gmLabels :: "addr option"
  gmFinalizers :: "slice option"
  gmOwners :: "slice option"
  gmDeletionTimestamp :: "addr option"

record goListMeta =
  glResourceVersion :: string
  glContinue :: string
  glRemainingItemCount :: "addr option"

type_synonym goJSON = "slice option"

record goKubeVirtConfig =
  gkvName :: string
  gkvNamespace :: string
  gkvKubeconfig :: "addr option"

record goProviderConfig =
  gprovType :: ProviderType
  gprovKubeVirt :: "addr option"
  gprovProxmox :: "addr option"
  gprovDaemon :: "addr option"

record goProxmoxClusterSpec =
  gpxcEndpoints :: "slice option"
  gpxcCredentialsRef :: SecretReference
  gpxcInsecureSkipTLSVerify :: bool
  gpxcSyncInterval :: duration
  gpxcCheckGuestUptime :: "addr option"

record goProxmoxClusterStatus =
  gpxcLastSyncTime :: "addr option"
  gpxcConditions :: "slice option"

record goProxmoxCluster =
  gpxcTypeMeta :: TypeMeta
  gpxcMeta :: goObjectMeta
  gpxcSpec :: goProxmoxClusterSpec
  gpxcStatus :: goProxmoxClusterStatus

record goVRouterBindingSpec =
  gbndTemplateRef :: "addr option"
  gbndTemplateRefs :: "slice option"
  gbndParamsRefs :: "slice option"
  gbndTargetRefs :: "slice option"
  gbndSave :: "addr option"
  gbndParams :: goJSON
  gbndRollout :: "addr option"

record goVRouterBindingStatus =
  gbndConditions :: "slice option"
  gbndRolloutStatus :: "addr option"

record goVRouterBinding =
  gbndTypeMeta :: TypeMeta
  gbndMeta :: goObjectMeta
  gbndSpec :: goVRouterBindingSpec
  gbndStatus :: goVRouterBindingStatus

record goVRouterConfigSpec =
  gcfgTargetRef :: NameRef
  gcfgSave :: "addr option"
  gcfgConfig :: string
  gcfgCommands :: string

record goVRouterConfigStatus =
  gcfgPhase :: Phase
  gcfgExecPID :: int
  gcfgExecStartedTime :: "addr option"
  gcfgLastAppliedTime :: "addr option"
  gcfgLastRebootHandledTime :: "addr option"
  gcfgMessage :: string
  gcfgObservedGeneration :: int
  gcfgConditions :: "slice option"

record goVRouterConfig =
  gcfgTypeMeta :: TypeMeta
  gcfgMeta :: goObjectMeta
  gcfgSpec :: goVRouterConfigSpec
  gcfgStatus :: goVRouterConfigStatus

record goVRouterParamsSpec =
  gprmParams :: goJSON

record goVRouterParams =
  gprmTypeMeta :: TypeMeta
  gprmMeta :: goObjectMeta
  gprmSpec :: goVRouterParamsSpec

record goVRouterTargetSpec =
  gtgtProvider :: goProviderConfig
  gtgtParams :: goJSON

record goVRouterTargetStatus =
  gtgtProxmoxNode :: string
  gtgtLastRebootTime :: "addr option"
  gtgtVMRunning :: bool

record goVRouterTarget =
  gtgtTypeMeta :: TypeMeta
  gtgtMeta :: goObjectMeta
  gtgtSpec :: goVRouterTargetSpec
  gtgtStatus :: goVRouterTargetStatus

record goTemplateSpec =
  gtmplConfig :: string
  gtmplCommands :: string

record goVRouterTemplate =
  gtmplTypeMeta :: TypeMeta
  gtmplMeta :: goObjectMeta
  gtmplSpec :: goTemplateSpec

text \<open>The six list types differ in their items only.\<close>

record 'a goList =
  gTypeMeta :: TypeMeta
  gListMeta :: goListMeta
  gItems :: "slice option"

section \<open>Cells\<close>

datatype (plugins only: code) cell =
    CBool bool
  | CInt int
  | CTime time
  | CLabels "string \<Rightarrow> string option"
  | CBytes string
  | CStrings "string list"
  | COwners "nname list"
  | CConditions "Condition list"
  | CNameRefs "NameRef list"
  | CNameRef NameRef
  | CSecretKeyRef SecretKeyRef
  | CSecretReference SecretReference
  | CKubeconfigRef KubeconfigRef
  | CKubeVirtConfig goKubeVirtConfig
  | CProxmoxConfig ProxmoxConfig
  | CDaemonConfig DaemonConfig
  | CProviderConfig goProviderConfig
  | CRolloutSpec RolloutSpec
  | CRolloutStatus RolloutStatus
  | CProxmoxClusterSpec goProxmoxClusterSpec
  | CProxmoxClusterStatus goProxmoxClusterStatus
  | CProxmoxCluster goProxmoxCluster
  | CProxmoxClusters "goProxmoxCluster list"
  | CProxmoxClusterList "goProxmoxCluster goList"
  | CVRouterBindingSpec goVRouterBindingSpec
  | CVRouterBindingStatus goVRouterBindingStatus
  | CVRouterBinding goVRouterBinding
  | CVRouterBindings "goVRouterBinding list"
  | CVRouterBindingList "goVRouterBinding goList"
  | CVRouterConfigSpec goVRouterConfigSpec
  | CVRouterConfigStatus goVRouterConfigStatus
  | CVRouterConfig goVRouterConfig
  | CVRouterConfigs "goVRouterConfig list"
  | CVRouterConfigList "goVRouterConfig goList"
  | CVRouterParamsSpec goVRouterParamsSpec
  | CVRouterParams goVRouterParams
  | CVRouterParamss "goVRouterParams list"
  | CVRouterParamsList "goVRouterParams goList"
  | CVRouterTargetSpec goVRouterTargetSpec
  | CVRouterTargetStatus goVRouterTargetStatus
  | CVRouterTarget goVRouterTarget
  | CVRouterTargets "goVRouterTarget list"
  | CVRouterTargetList "goVRouterTarget goList"
  | CVRouterTemplateSpec goTemplateSpec
  | CVRouterTemplate goVRouterTemplate
  | CVRouterTemplates "goVRouterTemplate list"
  | CVRouterTemplateList "goVRouterTemplate goList"

definition kBool :: "(bool, cell) kind" where
  "kBool = (CBool, \<lambda>c. case c of CBool x \<Rightarrow> Some x | _ \<Rightarrow> None)"
definition kInt :: "(int, cell) kind" where
  "kInt = (CInt, \<lambda>c. case c of CInt x \<Rightarrow> Some x | _ \<Rightarrow> None)"
definition kTime :: "(time, cell) kind" where
  "kTime = (CTime, \<lambda>c. case c of CTime x \<Rightarrow> Some x | _ \<Rightarrow> None)"
definition kLabels :: "(string \<Rightarrow> string option, cell) kind" where
  "kLabels = (CLabels, \<lambda>c. case c of CLabels x \<Rightarrow> Some x | _ \<Rightarrow> None)"
definition kBytes :: "(string, cell) kind" where
  "kBytes = (CBytes, \<lambda>c. case c of CBytes x \<Rightarrow> Some x | _ \<Rightarrow> None)"
definition kStrings :: "(string list, cell) kind" where
  "kStrings = (CStrings, \<lambda>c. case c of CStrings x \<Rightarrow> Some x | _ \<Rightarrow> None)"
definition kOwners :: "(nname list, cell) kind" where
  "kOwners = (COwners, \<lambda>c. case c of COwners x \<Rightarrow> Some x | _ \<Rightarrow> None)"
definition kConditions :: "(Condition list, cell) kind" where
  "kConditions = (CConditions, \<lambda>c. case c of CConditions x \<Rightarrow> Some x | _ \<Rightarrow> None)"
definition kNameRefs :: "(NameRef list, cell) kind" where
  "kNameRefs = (CNameRefs, \<lambda>c. case c of CNameRefs x \<Rightarrow> Some x | _ \<Rightarrow> None)"
definition kNameRef :: "(NameRef, cell) kind" where
  "kNameRef = (CNameRef, \<lambda>c. case c of CNameRef x \<Rightarrow> Some x | _ \<Rightarrow> None)"
definition kSecretKeyRef :: "(SecretKeyRef, cell) kind" where
  "kSecretKeyRef = (CSecretKeyRef, \<lambda>c. case c of CSecretKeyRef x \<Rightarrow> Some x | _ \<Rightarrow> None)"
definition kSecretReference :: "(SecretReference, cell) kind" where
  "kSecretReference = (CSecretReference, \<lambda>c. case c of CSecretReference x \<Rightarrow> Some x | _ \<Rightarrow> None)"
definition kKubeconfigRef :: "(KubeconfigRef, cell) kind" where
  "kKubeconfigRef = (CKubeconfigRef, \<lambda>c. case c of CKubeconfigRef x \<Rightarrow> Some x | _ \<Rightarrow> None)"
definition kKubeVirtConfig :: "(goKubeVirtConfig, cell) kind" where
  "kKubeVirtConfig = (CKubeVirtConfig, \<lambda>c. case c of CKubeVirtConfig x \<Rightarrow> Some x | _ \<Rightarrow> None)"
definition kProxmoxConfig :: "(ProxmoxConfig, cell) kind" where
  "kProxmoxConfig = (CProxmoxConfig, \<lambda>c. case c of CProxmoxConfig x \<Rightarrow> Some x | _ \<Rightarrow> None)"
definition kDaemonConfig :: "(DaemonConfig, cell) kind" where
  "kDaemonConfig = (CDaemonConfig, \<lambda>c. case c of CDaemonConfig x \<Rightarrow> Some x | _ \<Rightarrow> None)"
definition kProviderConfig :: "(goProviderConfig, cell) kind" where
  "kProviderConfig = (CProviderConfig, \<lambda>c. case c of CProviderConfig x \<Rightarrow> Some x | _ \<Rightarrow> None)"
definition kRolloutSpec :: "(RolloutSpec, cell) kind" where
  "kRolloutSpec = (CRolloutSpec, \<lambda>c. case c of CRolloutSpec x \<Rightarrow> Some x | _ \<Rightarrow> None)"
definition kRolloutStatus :: "(RolloutStatus, cell) kind" where
  "kRolloutStatus = (CRolloutStatus, \<lambda>c. case c of CRolloutStatus x \<Rightarrow> Some x | _ \<Rightarrow> None)"
definition kProxmoxClusterSpec :: "(goProxmoxClusterSpec, cell) kind" where
  "kProxmoxClusterSpec = (CProxmoxClusterSpec, \<lambda>c. case c of CProxmoxClusterSpec x \<Rightarrow> Some x | _ \<Rightarrow> None)"
definition kProxmoxClusterStatus :: "(goProxmoxClusterStatus, cell) kind" where
  "kProxmoxClusterStatus = (CProxmoxClusterStatus, \<lambda>c. case c of CProxmoxClusterStatus x \<Rightarrow> Some x | _ \<Rightarrow> None)"
definition kProxmoxCluster :: "(goProxmoxCluster, cell) kind" where
  "kProxmoxCluster = (CProxmoxCluster, \<lambda>c. case c of CProxmoxCluster x \<Rightarrow> Some x | _ \<Rightarrow> None)"
definition kProxmoxClusters :: "(goProxmoxCluster list, cell) kind" where
  "kProxmoxClusters = (CProxmoxClusters, \<lambda>c. case c of CProxmoxClusters x \<Rightarrow> Some x | _ \<Rightarrow> None)"
definition kProxmoxClusterList :: "(goProxmoxCluster goList, cell) kind" where
  "kProxmoxClusterList = (CProxmoxClusterList, \<lambda>c. case c of CProxmoxClusterList x \<Rightarrow> Some x | _ \<Rightarrow> None)"
definition kVRouterBindingSpec :: "(goVRouterBindingSpec, cell) kind" where
  "kVRouterBindingSpec = (CVRouterBindingSpec, \<lambda>c. case c of CVRouterBindingSpec x \<Rightarrow> Some x | _ \<Rightarrow> None)"
definition kVRouterBindingStatus :: "(goVRouterBindingStatus, cell) kind" where
  "kVRouterBindingStatus = (CVRouterBindingStatus, \<lambda>c. case c of CVRouterBindingStatus x \<Rightarrow> Some x | _ \<Rightarrow> None)"
definition kVRouterBinding :: "(goVRouterBinding, cell) kind" where
  "kVRouterBinding = (CVRouterBinding, \<lambda>c. case c of CVRouterBinding x \<Rightarrow> Some x | _ \<Rightarrow> None)"
definition kVRouterBindings :: "(goVRouterBinding list, cell) kind" where
  "kVRouterBindings = (CVRouterBindings, \<lambda>c. case c of CVRouterBindings x \<Rightarrow> Some x | _ \<Rightarrow> None)"
definition kVRouterBindingList :: "(goVRouterBinding goList, cell) kind" where
  "kVRouterBindingList = (CVRouterBindingList, \<lambda>c. case c of CVRouterBindingList x \<Rightarrow> Some x | _ \<Rightarrow> None)"
definition kVRouterConfigSpec :: "(goVRouterConfigSpec, cell) kind" where
  "kVRouterConfigSpec = (CVRouterConfigSpec, \<lambda>c. case c of CVRouterConfigSpec x \<Rightarrow> Some x | _ \<Rightarrow> None)"
definition kVRouterConfigStatus :: "(goVRouterConfigStatus, cell) kind" where
  "kVRouterConfigStatus = (CVRouterConfigStatus, \<lambda>c. case c of CVRouterConfigStatus x \<Rightarrow> Some x | _ \<Rightarrow> None)"
definition kVRouterConfig :: "(goVRouterConfig, cell) kind" where
  "kVRouterConfig = (CVRouterConfig, \<lambda>c. case c of CVRouterConfig x \<Rightarrow> Some x | _ \<Rightarrow> None)"
definition kVRouterConfigs :: "(goVRouterConfig list, cell) kind" where
  "kVRouterConfigs = (CVRouterConfigs, \<lambda>c. case c of CVRouterConfigs x \<Rightarrow> Some x | _ \<Rightarrow> None)"
definition kVRouterConfigList :: "(goVRouterConfig goList, cell) kind" where
  "kVRouterConfigList = (CVRouterConfigList, \<lambda>c. case c of CVRouterConfigList x \<Rightarrow> Some x | _ \<Rightarrow> None)"
definition kVRouterParamsSpec :: "(goVRouterParamsSpec, cell) kind" where
  "kVRouterParamsSpec = (CVRouterParamsSpec, \<lambda>c. case c of CVRouterParamsSpec x \<Rightarrow> Some x | _ \<Rightarrow> None)"
definition kVRouterParams :: "(goVRouterParams, cell) kind" where
  "kVRouterParams = (CVRouterParams, \<lambda>c. case c of CVRouterParams x \<Rightarrow> Some x | _ \<Rightarrow> None)"
definition kVRouterParamss :: "(goVRouterParams list, cell) kind" where
  "kVRouterParamss = (CVRouterParamss, \<lambda>c. case c of CVRouterParamss x \<Rightarrow> Some x | _ \<Rightarrow> None)"
definition kVRouterParamsList :: "(goVRouterParams goList, cell) kind" where
  "kVRouterParamsList = (CVRouterParamsList, \<lambda>c. case c of CVRouterParamsList x \<Rightarrow> Some x | _ \<Rightarrow> None)"
definition kVRouterTargetSpec :: "(goVRouterTargetSpec, cell) kind" where
  "kVRouterTargetSpec = (CVRouterTargetSpec, \<lambda>c. case c of CVRouterTargetSpec x \<Rightarrow> Some x | _ \<Rightarrow> None)"
definition kVRouterTargetStatus :: "(goVRouterTargetStatus, cell) kind" where
  "kVRouterTargetStatus = (CVRouterTargetStatus, \<lambda>c. case c of CVRouterTargetStatus x \<Rightarrow> Some x | _ \<Rightarrow> None)"
definition kVRouterTarget :: "(goVRouterTarget, cell) kind" where
  "kVRouterTarget = (CVRouterTarget, \<lambda>c. case c of CVRouterTarget x \<Rightarrow> Some x | _ \<Rightarrow> None)"
definition kVRouterTargets :: "(goVRouterTarget list, cell) kind" where
  "kVRouterTargets = (CVRouterTargets, \<lambda>c. case c of CVRouterTargets x \<Rightarrow> Some x | _ \<Rightarrow> None)"
definition kVRouterTargetList :: "(goVRouterTarget goList, cell) kind" where
  "kVRouterTargetList = (CVRouterTargetList, \<lambda>c. case c of CVRouterTargetList x \<Rightarrow> Some x | _ \<Rightarrow> None)"
definition kVRouterTemplateSpec :: "(goTemplateSpec, cell) kind" where
  "kVRouterTemplateSpec = (CVRouterTemplateSpec, \<lambda>c. case c of CVRouterTemplateSpec x \<Rightarrow> Some x | _ \<Rightarrow> None)"
definition kVRouterTemplate :: "(goVRouterTemplate, cell) kind" where
  "kVRouterTemplate = (CVRouterTemplate, \<lambda>c. case c of CVRouterTemplate x \<Rightarrow> Some x | _ \<Rightarrow> None)"
definition kVRouterTemplates :: "(goVRouterTemplate list, cell) kind" where
  "kVRouterTemplates = (CVRouterTemplates, \<lambda>c. case c of CVRouterTemplates x \<Rightarrow> Some x | _ \<Rightarrow> None)"
definition kVRouterTemplateList :: "(goVRouterTemplate goList, cell) kind" where
  "kVRouterTemplateList = (CVRouterTemplateList, \<lambda>c. case c of CVRouterTemplateList x \<Rightarrow> Some x | _ \<Rightarrow> None)"

lemma kinds_good [deep_intros]:
  "good_kind kBool"
  "good_kind kInt"
  "good_kind kTime"
  "good_kind kLabels"
  "good_kind kBytes"
  "good_kind kStrings"
  "good_kind kOwners"
  "good_kind kConditions"
  "good_kind kNameRefs"
  "good_kind kNameRef"
  "good_kind kSecretKeyRef"
  "good_kind kSecretReference"
  "good_kind kKubeconfigRef"
  "good_kind kKubeVirtConfig"
  "good_kind kProxmoxConfig"
  "good_kind kDaemonConfig"
  "good_kind kProviderConfig"
  "good_kind kRolloutSpec"
  "good_kind kRolloutStatus"
  "good_kind kProxmoxClusterSpec"
  "good_kind kProxmoxClusterStatus"
  "good_kind kProxmoxCluster"
  "good_kind kProxmoxClusters"
  "good_kind kProxmoxClusterList"
  "good_kind kVRouterBindingSpec"
  "good_kind kVRouterBindingStatus"
  "good_kind kVRouterBinding"
  "good_kind kVRouterBindings"
  "good_kind kVRouterBindingList"
  "good_kind kVRouterConfigSpec"
  "good_kind kVRouterConfigStatus"
  "good_kind kVRouterConfig"
  "good_kind kVRouterConfigs"
  "good_kind kVRouterConfigList"
  "good_kind kVRouterParamsSpec"
  "good_kind kVRouterParams"
  "good_kind kVRouterParamss"
  "good_kind kVRouterParamsList"
  "good_kind kVRouterTargetSpec"
  "good_kind kVRouterTargetStatus"
  "good_kind kVRouterTarget"
  "good_kind kVRouterTargets"
  "good_kind kVRouterTargetList"
  "good_kind kVRouterTemplateSpec"
  "good_kind kVRouterTemplate"
  "good_kind kVRouterTemplates"
  "good_kind kVRouterTemplateList"
  by (simp_all add: good_kind_def kBool_def kInt_def kTime_def kLabels_def kBytes_def kStrings_def kOwners_def kConditions_def kNameRefs_def kNameRef_def kSecretKeyRef_def kSecretReference_def kKubeconfigRef_def kKubeVirtConfig_def kProxmoxConfig_def kDaemonConfig_def kProviderConfig_def kRolloutSpec_def kRolloutStatus_def kProxmoxClusterSpec_def kProxmoxClusterStatus_def kProxmoxCluster_def kProxmoxClusters_def kProxmoxClusterList_def kVRouterBindingSpec_def kVRouterBindingStatus_def kVRouterBinding_def kVRouterBindings_def kVRouterBindingList_def kVRouterConfigSpec_def kVRouterConfigStatus_def kVRouterConfig_def kVRouterConfigs_def kVRouterConfigList_def kVRouterParamsSpec_def kVRouterParams_def kVRouterParamss_def kVRouterParamsList_def kVRouterTargetSpec_def kVRouterTargetStatus_def kVRouterTarget_def kVRouterTargets_def kVRouterTargetList_def kVRouterTemplateSpec_def kVRouterTemplate_def kVRouterTemplates_def kVRouterTemplateList_def)

end
