(* ===== verification/DeepCopy.thy ===== *)
theory DeepCopy
  imports GoCells
begin

text \<open>
  The copying functions of the API types (\<open>api/v1/zz_generated.deepcopy.go\<close>), each as the
  source has it: the assignment of the struct, then its fields in order. The ones of the
  library types they call are the record \<open>objlib\<close>, of which only what their documentation
  says is assumed: they are deep copies. Next to each function stand the reader that gives the
  value of \<open>ApiTypes\<close> the struct in memory stands for, and its footprint.
\<close>

named_theorems read_simps

declare readBoth_def [read_simps] readField_def [read_simps] addrsBoth_def [read_simps]
  addrsField_def [read_simps] fun_eq_iff [read_simps]

section \<open>Library types\<close>

definition readJSON :: "(goJSON, string, cell) reader" where
  "readJSON = readSlice kBytes readFlat"

definition addrsJSON :: "(goJSON, cell) footprint" where
  "addrsJSON = addrsSlice kBytes noAddrs"

definition readObjectMeta :: "(goObjectMeta, ObjectMeta, cell) reader" where
  "readObjectMeta =
     readStruct (\<lambda>x (ls, fs, os, d). \<lparr>metaNamespace = gmNamespace x, metaName = gmName x,
        metaLabels = (case ls of None \<Rightarrow> Map.empty | Some m \<Rightarrow> m), metaGeneration = gmGeneration x,
        metaFinalizers = fs, metaOwners = os, metaDeletionTimestamp = d\<rparr>)
     (readBoth (readField (readPtr kLabels readFlat) gmLabels)
     (readBoth (readField (readSlice kStrings readFlat) gmFinalizers)
     (readBoth (readField (readSlice kOwners readFlat) gmOwners)
     (readField (readPtr kTime readFlat) gmDeletionTimestamp))))"

definition addrsObjectMeta :: "(goObjectMeta, cell) footprint" where
  "addrsObjectMeta =
     addrsBoth (addrsField (addrsPtr kLabels noAddrs) gmLabels)
     (addrsBoth (addrsField (addrsSlice kStrings noAddrs) gmFinalizers)
     (addrsBoth (addrsField (addrsSlice kOwners noAddrs) gmOwners)
     (addrsField (addrsPtr kTime noAddrs) gmDeletionTimestamp)))"

definition readListMeta :: "(goListMeta, string \<times> string \<times> int option, cell) reader" where
  "readListMeta =
     readStruct (\<lambda>x n. (glResourceVersion x, glContinue x, n))
     (readField (readPtr kInt readFlat) glRemainingItemCount)"

definition addrsListMeta :: "(goListMeta, cell) footprint" where
  "addrsListMeta = addrsField (addrsPtr kInt noAddrs) glRemainingItemCount"

record objlib =
  timeInto :: "(time, cell) copier"
  conditionInto :: "(Condition, cell) copier"
  jsonInto :: "(goJSON, cell) copier"
  metaInto :: "(goObjectMeta, cell) copier"
  listMetaInto :: "(goListMeta, cell) copier"

locale object_library =
  fixes lib :: objlib
  assumes time: "deep_copy (timeInto lib) readFlat noAddrs"
    and condition: "deep_copy (conditionInto lib) readFlat noAddrs"
    and json: "deep_copy (jsonInto lib) readJSON addrsJSON"
    and meta: "deep_copy (metaInto lib) readObjectMeta addrsObjectMeta"
    and list_meta: "deep_copy (listMetaInto lib) readListMeta addrsListMeta"

declare object_library.time [deep_intros] object_library.condition [deep_intros]
  object_library.json [deep_intros] object_library.meta [deep_intros]
  object_library.list_meta [deep_intros]

section \<open>Structs without pointers\<close>

definition DaemonConfig_DeepCopyInto :: "(DaemonConfig, cell) copier" where
  "DaemonConfig_DeepCopyInto = assign"

definition NameRef_DeepCopyInto :: "(NameRef, cell) copier" where
  "NameRef_DeepCopyInto = assign"

definition SecretKeyRef_DeepCopyInto :: "(SecretKeyRef, cell) copier" where
  "SecretKeyRef_DeepCopyInto = assign"

definition SecretReference_DeepCopyInto :: "(SecretReference, cell) copier" where
  "SecretReference_DeepCopyInto = assign"

text \<open>Structs of structs without pointers.\<close>

definition KubeconfigRef_DeepCopyInto :: "(KubeconfigRef, cell) copier" where
  "KubeconfigRef_DeepCopyInto =
     copyField kubeconfigSecretRef kubeconfigSecretRef_update assign"

definition ProxmoxConfig_DeepCopyInto :: "(ProxmoxConfig, cell) copier" where
  "ProxmoxConfig_DeepCopyInto =
     copyField pxClusterRef pxClusterRef_update assign"

definition RolloutSpec_DeepCopyInto :: "(RolloutSpec, cell) copier" where
  "RolloutSpec_DeepCopyInto =
     andThen (copyField PollInterval PollInterval_update assign)
     (andThen (copyField WaitAfterApplied WaitAfterApplied_update assign)
     (copyField WaitInterval WaitInterval_update assign))"

definition RolloutStatus_DeepCopyInto :: "objlib \<Rightarrow> (RolloutStatus, cell) copier" where
  "RolloutStatus_DeepCopyInto lib = copyField LastUpdateTime LastUpdateTime_update (timeInto lib)"

definition VRouterTemplateSpec_DeepCopyInto :: "(goTemplateSpec, cell) copier" where
  "VRouterTemplateSpec_DeepCopyInto = assign"

lemma flat_structs:
  "KubeconfigRef_DeepCopyInto = assign" "ProxmoxConfig_DeepCopyInto = assign" "RolloutSpec_DeepCopyInto = assign"
  by (simp_all add: KubeconfigRef_DeepCopyInto_def ProxmoxConfig_DeepCopyInto_def
      RolloutSpec_DeepCopyInto_def fun_eq_iff copyField_def andThen_def assign_def)

lemma deep_RolloutStatus [deep_intros]:
  "object_library lib \<Longrightarrow> deep_copy (RolloutStatus_DeepCopyInto lib) readFlat noAddrs"
  unfolding RolloutStatus_DeepCopyInto_def by (rule deep_flat_field) (auto intro: deep_intros)

section \<open>Structs with pointers\<close>

text \<open>The six list types have the same body.\<close>

definition copyList :: "objlib \<Rightarrow> ('a list, cell) kind \<Rightarrow> ('a, cell) copier \<Rightarrow> ('a goList, cell) copier" where
  "copyList lib k into =
     andThen (copyField gTypeMeta gTypeMeta_update assign)
     (andThen (copyField gListMeta gListMeta_update (listMetaInto lib))
     (copyField gItems gItems_update (copySlice k into)))"

definition readList ::
  "('a list, cell) kind \<Rightarrow> ('a, 'v, cell) reader \<Rightarrow>
     ('a goList, TypeMeta \<times> (string \<times> string \<times> int option) \<times> 'v list, cell) reader" where
  "readList k rd =
     readBoth (readField readFlat gTypeMeta)
     (readBoth (readField readListMeta gListMeta)
     (readField (readSlice k rd) gItems))"

definition addrsList :: "('a list, cell) kind \<Rightarrow> ('a, cell) footprint \<Rightarrow> ('a goList, cell) footprint" where
  "addrsList k ad =
     addrsBoth (addrsField noAddrs gTypeMeta)
     (addrsBoth (addrsField addrsListMeta gListMeta)
     (addrsField (addrsSlice k ad) gItems))"

lemma deep_list [deep_intros]:
  "object_library lib \<Longrightarrow> good_kind k \<Longrightarrow> deep_copy into rd ad \<Longrightarrow>
     deep_copy (copyList lib k into) (readList k rd) (addrsList k ad)"
  unfolding copyList_def readList_def addrsList_def
  by (intro deep_intros; (assumption | simp add: read_simps)?)

definition KubeVirtConfig_DeepCopyInto :: "(goKubeVirtConfig, cell) copier" where
  "KubeVirtConfig_DeepCopyInto =
     copyField gkvKubeconfig gkvKubeconfig_update (copyPtr kKubeconfigRef assign)"

definition readKubeVirtConfig :: "(goKubeVirtConfig, KubeVirtConfig, cell) reader" where
  "readKubeVirtConfig =
     readStruct (\<lambda>x r. \<lparr>kvName = gkvName x, kvNamespace = gkvNamespace x, kvKubeconfig = r\<rparr>)
     (readField (readPtr kKubeconfigRef readFlat) gkvKubeconfig)"

definition addrsKubeVirtConfig :: "(goKubeVirtConfig, cell) footprint" where
  "addrsKubeVirtConfig =
     addrsField (addrsPtr kKubeconfigRef noAddrs) gkvKubeconfig"

interpretation copy_KubeVirtConfig: deep_copy KubeVirtConfig_DeepCopyInto readKubeVirtConfig addrsKubeVirtConfig
  unfolding KubeVirtConfig_DeepCopyInto_def readKubeVirtConfig_def addrsKubeVirtConfig_def
  by (intro deep_intros; (assumption | simp add: read_simps)?)

declare copy_KubeVirtConfig.deep_copy_axioms [deep_intros]

definition ProviderConfig_DeepCopyInto :: "(goProviderConfig, cell) copier" where
  "ProviderConfig_DeepCopyInto =
     andThen (copyField gprovKubeVirt gprovKubeVirt_update (copyPtr kKubeVirtConfig KubeVirtConfig_DeepCopyInto))
     (andThen (copyField gprovProxmox gprovProxmox_update (copyPtr kProxmoxConfig assign))
     (copyField gprovDaemon gprovDaemon_update (copyPtr kDaemonConfig assign)))"

definition readProviderConfig :: "(goProviderConfig, ProviderConfig, cell) reader" where
  "readProviderConfig =
     readStruct (\<lambda>x (kv, px, d). \<lparr>provType = gprovType x, provKubeVirt = kv, provProxmox = px, provDaemon = d\<rparr>)
     (readBoth (readField (readPtr kKubeVirtConfig readKubeVirtConfig) gprovKubeVirt)
     (readBoth (readField (readPtr kProxmoxConfig readFlat) gprovProxmox)
     (readField (readPtr kDaemonConfig readFlat) gprovDaemon)))"

definition addrsProviderConfig :: "(goProviderConfig, cell) footprint" where
  "addrsProviderConfig =
     addrsBoth (addrsField (addrsPtr kKubeVirtConfig addrsKubeVirtConfig) gprovKubeVirt)
     (addrsBoth (addrsField (addrsPtr kProxmoxConfig noAddrs) gprovProxmox)
     (addrsField (addrsPtr kDaemonConfig noAddrs) gprovDaemon))"

interpretation copy_ProviderConfig: deep_copy ProviderConfig_DeepCopyInto readProviderConfig addrsProviderConfig
  unfolding ProviderConfig_DeepCopyInto_def readProviderConfig_def addrsProviderConfig_def
  by (intro deep_intros; (assumption | simp add: read_simps)?)

declare copy_ProviderConfig.deep_copy_axioms [deep_intros]

definition ProxmoxClusterSpec_DeepCopyInto :: "(goProxmoxClusterSpec, cell) copier" where
  "ProxmoxClusterSpec_DeepCopyInto =
     andThen (copyField gpxcEndpoints gpxcEndpoints_update (copySlice kStrings assign))
     (andThen (copyField gpxcCredentialsRef gpxcCredentialsRef_update assign)
     (andThen (copyField gpxcSyncInterval gpxcSyncInterval_update assign)
     (copyField gpxcCheckGuestUptime gpxcCheckGuestUptime_update (copyPtr kBool assign))))"

definition readProxmoxClusterSpec :: "(goProxmoxClusterSpec, ProxmoxClusterSpec, cell) reader" where
  "readProxmoxClusterSpec =
     readStruct (\<lambda>x (es, c, i, g). \<lparr>pxcEndpoints = es, pxcCredentialsRef = c,
        pxcInsecureSkipTLSVerify = gpxcInsecureSkipTLSVerify x, pxcSyncInterval = i, pxcCheckGuestUptime = g\<rparr>)
     (readBoth (readField (readSlice kStrings readFlat) gpxcEndpoints)
     (readBoth (readField readFlat gpxcCredentialsRef)
     (readBoth (readField readFlat gpxcSyncInterval)
     (readField (readPtr kBool readFlat) gpxcCheckGuestUptime))))"

definition addrsProxmoxClusterSpec :: "(goProxmoxClusterSpec, cell) footprint" where
  "addrsProxmoxClusterSpec =
     addrsBoth (addrsField (addrsSlice kStrings noAddrs) gpxcEndpoints)
     (addrsBoth (addrsField noAddrs gpxcCredentialsRef)
     (addrsBoth (addrsField noAddrs gpxcSyncInterval)
     (addrsField (addrsPtr kBool noAddrs) gpxcCheckGuestUptime)))"

interpretation copy_ProxmoxClusterSpec: deep_copy ProxmoxClusterSpec_DeepCopyInto readProxmoxClusterSpec addrsProxmoxClusterSpec
  unfolding ProxmoxClusterSpec_DeepCopyInto_def readProxmoxClusterSpec_def addrsProxmoxClusterSpec_def
  by (intro deep_intros; (assumption | simp add: read_simps)?)

declare copy_ProxmoxClusterSpec.deep_copy_axioms [deep_intros]

definition ProxmoxClusterStatus_DeepCopyInto :: "objlib \<Rightarrow> (goProxmoxClusterStatus, cell) copier" where
  "ProxmoxClusterStatus_DeepCopyInto lib =
     andThen (copyField gpxcLastSyncTime gpxcLastSyncTime_update (copyPtr kTime (timeInto lib)))
     (copyField gpxcConditions gpxcConditions_update (copySlice kConditions (conditionInto lib)))"

definition readProxmoxClusterStatus :: "(goProxmoxClusterStatus, ProxmoxClusterStatus, cell) reader" where
  "readProxmoxClusterStatus =
     readStruct (\<lambda>x (t, cs). \<lparr>LastSyncTime = t, pxcConditions = cs\<rparr>)
     (readBoth (readField (readPtr kTime readFlat) gpxcLastSyncTime)
     (readField (readSlice kConditions readFlat) gpxcConditions))"

definition addrsProxmoxClusterStatus :: "(goProxmoxClusterStatus, cell) footprint" where
  "addrsProxmoxClusterStatus =
     addrsBoth (addrsField (addrsPtr kTime noAddrs) gpxcLastSyncTime)
     (addrsField (addrsSlice kConditions noAddrs) gpxcConditions)"

lemma deep_ProxmoxClusterStatus [deep_intros]:
  "object_library lib \<Longrightarrow> deep_copy (ProxmoxClusterStatus_DeepCopyInto lib) readProxmoxClusterStatus addrsProxmoxClusterStatus"
  unfolding ProxmoxClusterStatus_DeepCopyInto_def readProxmoxClusterStatus_def addrsProxmoxClusterStatus_def
  by (intro deep_intros; (assumption | simp add: read_simps)?)

definition ProxmoxCluster_DeepCopyInto :: "objlib \<Rightarrow> (goProxmoxCluster, cell) copier" where
  "ProxmoxCluster_DeepCopyInto lib =
     andThen (copyField gpxcTypeMeta gpxcTypeMeta_update assign)
     (andThen (copyField gpxcMeta gpxcMeta_update (metaInto lib))
     (andThen (copyField gpxcSpec gpxcSpec_update ProxmoxClusterSpec_DeepCopyInto)
     (copyField gpxcStatus gpxcStatus_update (ProxmoxClusterStatus_DeepCopyInto lib))))"

definition readProxmoxCluster :: "(goProxmoxCluster, TypeMeta \<times> ProxmoxCluster, cell) reader" where
  "readProxmoxCluster =
     readStruct (\<lambda>x (tm, m, s, st). (tm, \<lparr>pxcMeta = m, pxcSpec = s, pxcStatus = st\<rparr>))
     (readBoth (readField readFlat gpxcTypeMeta)
     (readBoth (readField readObjectMeta gpxcMeta)
     (readBoth (readField readProxmoxClusterSpec gpxcSpec)
     (readField readProxmoxClusterStatus gpxcStatus))))"

definition addrsProxmoxCluster :: "(goProxmoxCluster, cell) footprint" where
  "addrsProxmoxCluster =
     addrsBoth (addrsField noAddrs gpxcTypeMeta)
     (addrsBoth (addrsField addrsObjectMeta gpxcMeta)
     (addrsBoth (addrsField addrsProxmoxClusterSpec gpxcSpec)
     (addrsField addrsProxmoxClusterStatus gpxcStatus)))"

lemma deep_ProxmoxCluster [deep_intros]:
  "object_library lib \<Longrightarrow> deep_copy (ProxmoxCluster_DeepCopyInto lib) readProxmoxCluster addrsProxmoxCluster"
  unfolding ProxmoxCluster_DeepCopyInto_def readProxmoxCluster_def addrsProxmoxCluster_def
  by (intro deep_intros; (assumption | simp add: read_simps)?)

definition ProxmoxClusterList_DeepCopyInto :: "objlib \<Rightarrow> (goProxmoxCluster goList, cell) copier" where
  "ProxmoxClusterList_DeepCopyInto lib = copyList lib kProxmoxClusters (ProxmoxCluster_DeepCopyInto lib)"

definition VRouterBindingSpec_DeepCopyInto :: "objlib \<Rightarrow> (goVRouterBindingSpec, cell) copier" where
  "VRouterBindingSpec_DeepCopyInto lib =
     andThen (copyField gbndTemplateRef gbndTemplateRef_update (copyPtr kNameRef assign))
     (andThen (copyField gbndTemplateRefs gbndTemplateRefs_update (copySlice kNameRefs assign))
     (andThen (copyField gbndParamsRefs gbndParamsRefs_update (copySlice kNameRefs assign))
     (andThen (copyField gbndTargetRefs gbndTargetRefs_update (copySlice kNameRefs assign))
     (andThen (copyField gbndSave gbndSave_update (copyPtr kBool assign))
     (andThen (copyField gbndParams gbndParams_update (jsonInto lib))
     (copyField gbndRollout gbndRollout_update (copyPtr kRolloutSpec assign)))))))"

definition readVRouterBindingSpec :: "(goVRouterBindingSpec, VRouterBindingSpec, cell) reader" where
  "readVRouterBindingSpec =
     readStruct (\<lambda>x (t, ts, ps, gs, s, j, r). \<lparr>bndTemplateRef = t, bndTemplateRefs = ts, bndParamsRefs = ps,
        bndTargetRefs = gs, bndSave = s, bndParams = j, bndRollout = r\<rparr>)
     (readBoth (readField (readPtr kNameRef readFlat) gbndTemplateRef)
     (readBoth (readField (readSlice kNameRefs readFlat) gbndTemplateRefs)
     (readBoth (readField (readSlice kNameRefs readFlat) gbndParamsRefs)
     (readBoth (readField (readSlice kNameRefs readFlat) gbndTargetRefs)
     (readBoth (readField (readPtr kBool readFlat) gbndSave)
     (readBoth (readField readJSON gbndParams)
     (readField (readPtr kRolloutSpec readFlat) gbndRollout)))))))"

definition addrsVRouterBindingSpec :: "(goVRouterBindingSpec, cell) footprint" where
  "addrsVRouterBindingSpec =
     addrsBoth (addrsField (addrsPtr kNameRef noAddrs) gbndTemplateRef)
     (addrsBoth (addrsField (addrsSlice kNameRefs noAddrs) gbndTemplateRefs)
     (addrsBoth (addrsField (addrsSlice kNameRefs noAddrs) gbndParamsRefs)
     (addrsBoth (addrsField (addrsSlice kNameRefs noAddrs) gbndTargetRefs)
     (addrsBoth (addrsField (addrsPtr kBool noAddrs) gbndSave)
     (addrsBoth (addrsField addrsJSON gbndParams)
     (addrsField (addrsPtr kRolloutSpec noAddrs) gbndRollout))))))"

lemma deep_VRouterBindingSpec [deep_intros]:
  "object_library lib \<Longrightarrow> deep_copy (VRouterBindingSpec_DeepCopyInto lib) readVRouterBindingSpec addrsVRouterBindingSpec"
  unfolding VRouterBindingSpec_DeepCopyInto_def readVRouterBindingSpec_def addrsVRouterBindingSpec_def
  by (intro deep_intros; (assumption | simp add: read_simps)?)

definition VRouterBindingStatus_DeepCopyInto :: "objlib \<Rightarrow> (goVRouterBindingStatus, cell) copier" where
  "VRouterBindingStatus_DeepCopyInto lib =
     andThen (copyField gbndConditions gbndConditions_update (copySlice kConditions (conditionInto lib)))
     (copyField gbndRolloutStatus gbndRolloutStatus_update (copyPtr kRolloutStatus (RolloutStatus_DeepCopyInto lib)))"

definition readVRouterBindingStatus :: "(goVRouterBindingStatus, VRouterBindingStatus, cell) reader" where
  "readVRouterBindingStatus =
     readStruct (\<lambda>x (cs, r). \<lparr>bndConditions = cs, statusRollout = r\<rparr>)
     (readBoth (readField (readSlice kConditions readFlat) gbndConditions)
     (readField (readPtr kRolloutStatus readFlat) gbndRolloutStatus))"

definition addrsVRouterBindingStatus :: "(goVRouterBindingStatus, cell) footprint" where
  "addrsVRouterBindingStatus =
     addrsBoth (addrsField (addrsSlice kConditions noAddrs) gbndConditions)
     (addrsField (addrsPtr kRolloutStatus noAddrs) gbndRolloutStatus)"

lemma deep_VRouterBindingStatus [deep_intros]:
  "object_library lib \<Longrightarrow> deep_copy (VRouterBindingStatus_DeepCopyInto lib) readVRouterBindingStatus addrsVRouterBindingStatus"
  unfolding VRouterBindingStatus_DeepCopyInto_def readVRouterBindingStatus_def addrsVRouterBindingStatus_def
  by (intro deep_intros; (assumption | simp add: read_simps)?)

definition VRouterBinding_DeepCopyInto :: "objlib \<Rightarrow> (goVRouterBinding, cell) copier" where
  "VRouterBinding_DeepCopyInto lib =
     andThen (copyField gbndTypeMeta gbndTypeMeta_update assign)
     (andThen (copyField gbndMeta gbndMeta_update (metaInto lib))
     (andThen (copyField gbndSpec gbndSpec_update (VRouterBindingSpec_DeepCopyInto lib))
     (copyField gbndStatus gbndStatus_update (VRouterBindingStatus_DeepCopyInto lib))))"

definition readVRouterBinding :: "(goVRouterBinding, TypeMeta \<times> VRouterBinding, cell) reader" where
  "readVRouterBinding =
     readStruct (\<lambda>x (tm, m, s, st). (tm, \<lparr>bndMeta = m, bndSpec = s, bndStatus = st\<rparr>))
     (readBoth (readField readFlat gbndTypeMeta)
     (readBoth (readField readObjectMeta gbndMeta)
     (readBoth (readField readVRouterBindingSpec gbndSpec)
     (readField readVRouterBindingStatus gbndStatus))))"

definition addrsVRouterBinding :: "(goVRouterBinding, cell) footprint" where
  "addrsVRouterBinding =
     addrsBoth (addrsField noAddrs gbndTypeMeta)
     (addrsBoth (addrsField addrsObjectMeta gbndMeta)
     (addrsBoth (addrsField addrsVRouterBindingSpec gbndSpec)
     (addrsField addrsVRouterBindingStatus gbndStatus)))"

lemma deep_VRouterBinding [deep_intros]:
  "object_library lib \<Longrightarrow> deep_copy (VRouterBinding_DeepCopyInto lib) readVRouterBinding addrsVRouterBinding"
  unfolding VRouterBinding_DeepCopyInto_def readVRouterBinding_def addrsVRouterBinding_def
  by (intro deep_intros; (assumption | simp add: read_simps)?)

definition VRouterBindingList_DeepCopyInto :: "objlib \<Rightarrow> (goVRouterBinding goList, cell) copier" where
  "VRouterBindingList_DeepCopyInto lib = copyList lib kVRouterBindings (VRouterBinding_DeepCopyInto lib)"

definition VRouterConfigSpec_DeepCopyInto :: "(goVRouterConfigSpec, cell) copier" where
  "VRouterConfigSpec_DeepCopyInto =
     andThen (copyField gcfgTargetRef gcfgTargetRef_update assign)
     (copyField gcfgSave gcfgSave_update (copyPtr kBool assign))"

definition readVRouterConfigSpec :: "(goVRouterConfigSpec, VRouterConfigSpec, cell) reader" where
  "readVRouterConfigSpec =
     readStruct (\<lambda>x (t, s). \<lparr>cfgTargetRef = t, cfgSave = s, cfgConfig = gcfgConfig x, cfgCommands = gcfgCommands x\<rparr>)
     (readBoth (readField readFlat gcfgTargetRef)
     (readField (readPtr kBool readFlat) gcfgSave))"

definition addrsVRouterConfigSpec :: "(goVRouterConfigSpec, cell) footprint" where
  "addrsVRouterConfigSpec =
     addrsBoth (addrsField noAddrs gcfgTargetRef)
     (addrsField (addrsPtr kBool noAddrs) gcfgSave)"

interpretation copy_VRouterConfigSpec: deep_copy VRouterConfigSpec_DeepCopyInto readVRouterConfigSpec addrsVRouterConfigSpec
  unfolding VRouterConfigSpec_DeepCopyInto_def readVRouterConfigSpec_def addrsVRouterConfigSpec_def
  by (intro deep_intros; (assumption | simp add: read_simps)?)

declare copy_VRouterConfigSpec.deep_copy_axioms [deep_intros]

definition VRouterConfigStatus_DeepCopyInto :: "objlib \<Rightarrow> (goVRouterConfigStatus, cell) copier" where
  "VRouterConfigStatus_DeepCopyInto lib =
     andThen (copyField gcfgExecStartedTime gcfgExecStartedTime_update (copyPtr kTime (timeInto lib)))
     (andThen (copyField gcfgLastAppliedTime gcfgLastAppliedTime_update (copyPtr kTime (timeInto lib)))
     (andThen (copyField gcfgLastRebootHandledTime gcfgLastRebootHandledTime_update (copyPtr kTime (timeInto lib)))
     (copyField gcfgConditions gcfgConditions_update (copySlice kConditions (conditionInto lib)))))"

definition readVRouterConfigStatus :: "(goVRouterConfigStatus, VRouterConfigStatus, cell) reader" where
  "readVRouterConfigStatus =
     readStruct (\<lambda>x (st, la, lr, cs). \<lparr>cfgPhase = gcfgPhase x, ExecPID = gcfgExecPID x,
        ExecStartedTime = st, LastAppliedTime = la, LastRebootHandledTime = lr, cfgMessage = gcfgMessage x,
        ObservedGeneration = gcfgObservedGeneration x, cfgConditions = cs\<rparr>)
     (readBoth (readField (readPtr kTime readFlat) gcfgExecStartedTime)
     (readBoth (readField (readPtr kTime readFlat) gcfgLastAppliedTime)
     (readBoth (readField (readPtr kTime readFlat) gcfgLastRebootHandledTime)
     (readField (readSlice kConditions readFlat) gcfgConditions))))"

definition addrsVRouterConfigStatus :: "(goVRouterConfigStatus, cell) footprint" where
  "addrsVRouterConfigStatus =
     addrsBoth (addrsField (addrsPtr kTime noAddrs) gcfgExecStartedTime)
     (addrsBoth (addrsField (addrsPtr kTime noAddrs) gcfgLastAppliedTime)
     (addrsBoth (addrsField (addrsPtr kTime noAddrs) gcfgLastRebootHandledTime)
     (addrsField (addrsSlice kConditions noAddrs) gcfgConditions)))"

lemma deep_VRouterConfigStatus [deep_intros]:
  "object_library lib \<Longrightarrow> deep_copy (VRouterConfigStatus_DeepCopyInto lib) readVRouterConfigStatus addrsVRouterConfigStatus"
  unfolding VRouterConfigStatus_DeepCopyInto_def readVRouterConfigStatus_def addrsVRouterConfigStatus_def
  by (intro deep_intros; (assumption | simp add: read_simps)?)

definition VRouterConfig_DeepCopyInto :: "objlib \<Rightarrow> (goVRouterConfig, cell) copier" where
  "VRouterConfig_DeepCopyInto lib =
     andThen (copyField gcfgTypeMeta gcfgTypeMeta_update assign)
     (andThen (copyField gcfgMeta gcfgMeta_update (metaInto lib))
     (andThen (copyField gcfgSpec gcfgSpec_update VRouterConfigSpec_DeepCopyInto)
     (copyField gcfgStatus gcfgStatus_update (VRouterConfigStatus_DeepCopyInto lib))))"

definition readVRouterConfig :: "(goVRouterConfig, TypeMeta \<times> VRouterConfig, cell) reader" where
  "readVRouterConfig =
     readStruct (\<lambda>x (tm, m, s, st). (tm, \<lparr>cfgMeta = m, cfgSpec = s, cfgStatus = st\<rparr>))
     (readBoth (readField readFlat gcfgTypeMeta)
     (readBoth (readField readObjectMeta gcfgMeta)
     (readBoth (readField readVRouterConfigSpec gcfgSpec)
     (readField readVRouterConfigStatus gcfgStatus))))"

definition addrsVRouterConfig :: "(goVRouterConfig, cell) footprint" where
  "addrsVRouterConfig =
     addrsBoth (addrsField noAddrs gcfgTypeMeta)
     (addrsBoth (addrsField addrsObjectMeta gcfgMeta)
     (addrsBoth (addrsField addrsVRouterConfigSpec gcfgSpec)
     (addrsField addrsVRouterConfigStatus gcfgStatus)))"

lemma deep_VRouterConfig [deep_intros]:
  "object_library lib \<Longrightarrow> deep_copy (VRouterConfig_DeepCopyInto lib) readVRouterConfig addrsVRouterConfig"
  unfolding VRouterConfig_DeepCopyInto_def readVRouterConfig_def addrsVRouterConfig_def
  by (intro deep_intros; (assumption | simp add: read_simps)?)

definition VRouterConfigList_DeepCopyInto :: "objlib \<Rightarrow> (goVRouterConfig goList, cell) copier" where
  "VRouterConfigList_DeepCopyInto lib = copyList lib kVRouterConfigs (VRouterConfig_DeepCopyInto lib)"

definition VRouterParamsSpec_DeepCopyInto :: "objlib \<Rightarrow> (goVRouterParamsSpec, cell) copier" where
  "VRouterParamsSpec_DeepCopyInto lib =
     copyField gprmParams gprmParams_update (jsonInto lib)"

definition readVRouterParamsSpec :: "(goVRouterParamsSpec, string, cell) reader" where
  "readVRouterParamsSpec =
     readStruct (\<lambda>x j. j)
     (readField readJSON gprmParams)"

definition addrsVRouterParamsSpec :: "(goVRouterParamsSpec, cell) footprint" where
  "addrsVRouterParamsSpec =
     addrsField addrsJSON gprmParams"

lemma deep_VRouterParamsSpec [deep_intros]:
  "object_library lib \<Longrightarrow> deep_copy (VRouterParamsSpec_DeepCopyInto lib) readVRouterParamsSpec addrsVRouterParamsSpec"
  unfolding VRouterParamsSpec_DeepCopyInto_def readVRouterParamsSpec_def addrsVRouterParamsSpec_def
  by (intro deep_intros; (assumption | simp add: read_simps)?)

definition VRouterParams_DeepCopyInto :: "objlib \<Rightarrow> (goVRouterParams, cell) copier" where
  "VRouterParams_DeepCopyInto lib =
     andThen (copyField gprmTypeMeta gprmTypeMeta_update assign)
     (andThen (copyField gprmMeta gprmMeta_update (metaInto lib))
     (copyField gprmSpec gprmSpec_update (VRouterParamsSpec_DeepCopyInto lib)))"

definition readVRouterParams :: "(goVRouterParams, TypeMeta \<times> VRouterParams, cell) reader" where
  "readVRouterParams =
     readStruct (\<lambda>x (tm, m, s). (tm, \<lparr>prmMeta = m, prmParams = s\<rparr>))
     (readBoth (readField readFlat gprmTypeMeta)
     (readBoth (readField readObjectMeta gprmMeta)
     (readField readVRouterParamsSpec gprmSpec)))"

definition addrsVRouterParams :: "(goVRouterParams, cell) footprint" where
  "addrsVRouterParams =
     addrsBoth (addrsField noAddrs gprmTypeMeta)
     (addrsBoth (addrsField addrsObjectMeta gprmMeta)
     (addrsField addrsVRouterParamsSpec gprmSpec))"

lemma deep_VRouterParams [deep_intros]:
  "object_library lib \<Longrightarrow> deep_copy (VRouterParams_DeepCopyInto lib) readVRouterParams addrsVRouterParams"
  unfolding VRouterParams_DeepCopyInto_def readVRouterParams_def addrsVRouterParams_def
  by (intro deep_intros; (assumption | simp add: read_simps)?)

definition VRouterParamsList_DeepCopyInto :: "objlib \<Rightarrow> (goVRouterParams goList, cell) copier" where
  "VRouterParamsList_DeepCopyInto lib = copyList lib kVRouterParamss (VRouterParams_DeepCopyInto lib)"

definition VRouterTargetSpec_DeepCopyInto :: "objlib \<Rightarrow> (goVRouterTargetSpec, cell) copier" where
  "VRouterTargetSpec_DeepCopyInto lib =
     andThen (copyField gtgtProvider gtgtProvider_update ProviderConfig_DeepCopyInto)
     (copyField gtgtParams gtgtParams_update (jsonInto lib))"

definition readVRouterTargetSpec :: "(goVRouterTargetSpec, VRouterTargetSpec, cell) reader" where
  "readVRouterTargetSpec =
     readStruct (\<lambda>x (p, j). \<lparr>tgtProvider = p, tgtParams = j\<rparr>)
     (readBoth (readField readProviderConfig gtgtProvider)
     (readField readJSON gtgtParams))"

definition addrsVRouterTargetSpec :: "(goVRouterTargetSpec, cell) footprint" where
  "addrsVRouterTargetSpec =
     addrsBoth (addrsField addrsProviderConfig gtgtProvider)
     (addrsField addrsJSON gtgtParams)"

lemma deep_VRouterTargetSpec [deep_intros]:
  "object_library lib \<Longrightarrow> deep_copy (VRouterTargetSpec_DeepCopyInto lib) readVRouterTargetSpec addrsVRouterTargetSpec"
  unfolding VRouterTargetSpec_DeepCopyInto_def readVRouterTargetSpec_def addrsVRouterTargetSpec_def
  by (intro deep_intros; (assumption | simp add: read_simps)?)

definition VRouterTargetStatus_DeepCopyInto :: "objlib \<Rightarrow> (goVRouterTargetStatus, cell) copier" where
  "VRouterTargetStatus_DeepCopyInto lib =
     copyField gtgtLastRebootTime gtgtLastRebootTime_update (copyPtr kTime (timeInto lib))"

definition readVRouterTargetStatus :: "(goVRouterTargetStatus, VRouterTargetStatus, cell) reader" where
  "readVRouterTargetStatus =
     readStruct (\<lambda>x t. \<lparr>ProxmoxNode = gtgtProxmoxNode x, LastRebootTime = t, VMRunning = gtgtVMRunning x\<rparr>)
     (readField (readPtr kTime readFlat) gtgtLastRebootTime)"

definition addrsVRouterTargetStatus :: "(goVRouterTargetStatus, cell) footprint" where
  "addrsVRouterTargetStatus =
     addrsField (addrsPtr kTime noAddrs) gtgtLastRebootTime"

lemma deep_VRouterTargetStatus [deep_intros]:
  "object_library lib \<Longrightarrow> deep_copy (VRouterTargetStatus_DeepCopyInto lib) readVRouterTargetStatus addrsVRouterTargetStatus"
  unfolding VRouterTargetStatus_DeepCopyInto_def readVRouterTargetStatus_def addrsVRouterTargetStatus_def
  by (intro deep_intros; (assumption | simp add: read_simps)?)

definition VRouterTarget_DeepCopyInto :: "objlib \<Rightarrow> (goVRouterTarget, cell) copier" where
  "VRouterTarget_DeepCopyInto lib =
     andThen (copyField gtgtTypeMeta gtgtTypeMeta_update assign)
     (andThen (copyField gtgtMeta gtgtMeta_update (metaInto lib))
     (andThen (copyField gtgtSpec gtgtSpec_update (VRouterTargetSpec_DeepCopyInto lib))
     (copyField gtgtStatus gtgtStatus_update (VRouterTargetStatus_DeepCopyInto lib))))"

definition readVRouterTarget :: "(goVRouterTarget, TypeMeta \<times> VRouterTarget, cell) reader" where
  "readVRouterTarget =
     readStruct (\<lambda>x (tm, m, s, st). (tm, \<lparr>tgtMeta = m, tgtSpec = s, tgtStatus = st\<rparr>))
     (readBoth (readField readFlat gtgtTypeMeta)
     (readBoth (readField readObjectMeta gtgtMeta)
     (readBoth (readField readVRouterTargetSpec gtgtSpec)
     (readField readVRouterTargetStatus gtgtStatus))))"

definition addrsVRouterTarget :: "(goVRouterTarget, cell) footprint" where
  "addrsVRouterTarget =
     addrsBoth (addrsField noAddrs gtgtTypeMeta)
     (addrsBoth (addrsField addrsObjectMeta gtgtMeta)
     (addrsBoth (addrsField addrsVRouterTargetSpec gtgtSpec)
     (addrsField addrsVRouterTargetStatus gtgtStatus)))"

lemma deep_VRouterTarget [deep_intros]:
  "object_library lib \<Longrightarrow> deep_copy (VRouterTarget_DeepCopyInto lib) readVRouterTarget addrsVRouterTarget"
  unfolding VRouterTarget_DeepCopyInto_def readVRouterTarget_def addrsVRouterTarget_def
  by (intro deep_intros; (assumption | simp add: read_simps)?)

definition VRouterTargetList_DeepCopyInto :: "objlib \<Rightarrow> (goVRouterTarget goList, cell) copier" where
  "VRouterTargetList_DeepCopyInto lib = copyList lib kVRouterTargets (VRouterTarget_DeepCopyInto lib)"

definition VRouterTemplate_DeepCopyInto :: "objlib \<Rightarrow> (goVRouterTemplate, cell) copier" where
  "VRouterTemplate_DeepCopyInto lib =
     andThen (copyField gtmplTypeMeta gtmplTypeMeta_update assign)
     (andThen (copyField gtmplMeta gtmplMeta_update (metaInto lib))
     (copyField gtmplSpec gtmplSpec_update assign))"

definition readVRouterTemplate :: "(goVRouterTemplate, TypeMeta \<times> VRouterTemplate, cell) reader" where
  "readVRouterTemplate =
     readStruct (\<lambda>x (tm, m, s). (tm, \<lparr>tmplMeta = m, tmplConfig = gtmplConfig s, tmplCommands = gtmplCommands s\<rparr>))
     (readBoth (readField readFlat gtmplTypeMeta)
     (readBoth (readField readObjectMeta gtmplMeta)
     (readField readFlat gtmplSpec)))"

definition addrsVRouterTemplate :: "(goVRouterTemplate, cell) footprint" where
  "addrsVRouterTemplate =
     addrsBoth (addrsField noAddrs gtmplTypeMeta)
     (addrsBoth (addrsField addrsObjectMeta gtmplMeta)
     (addrsField noAddrs gtmplSpec))"

lemma deep_VRouterTemplate [deep_intros]:
  "object_library lib \<Longrightarrow> deep_copy (VRouterTemplate_DeepCopyInto lib) readVRouterTemplate addrsVRouterTemplate"
  unfolding VRouterTemplate_DeepCopyInto_def readVRouterTemplate_def addrsVRouterTemplate_def
  by (intro deep_intros; (assumption | simp add: read_simps)?)

definition VRouterTemplateList_DeepCopyInto :: "objlib \<Rightarrow> (goVRouterTemplate goList, cell) copier" where
  "VRouterTemplateList_DeepCopyInto lib = copyList lib kVRouterTemplates (VRouterTemplate_DeepCopyInto lib)"

section \<open>DeepCopy and DeepCopyObject\<close>

text \<open>
  The receiver is a pointer, \<open>nil\<close> gives \<open>nil\<close>; otherwise \<open>out := new(T)\<close> is filled by
  \<open>DeepCopyInto\<close>.
\<close>

definition DaemonConfig_DeepCopy :: "(addr option, cell) copier" where
  "DaemonConfig_DeepCopy = copyPtr kDaemonConfig DaemonConfig_DeepCopyInto"

definition KubeVirtConfig_DeepCopy :: "(addr option, cell) copier" where
  "KubeVirtConfig_DeepCopy = copyPtr kKubeVirtConfig KubeVirtConfig_DeepCopyInto"

definition KubeconfigRef_DeepCopy :: "(addr option, cell) copier" where
  "KubeconfigRef_DeepCopy = copyPtr kKubeconfigRef KubeconfigRef_DeepCopyInto"

definition NameRef_DeepCopy :: "(addr option, cell) copier" where
  "NameRef_DeepCopy = copyPtr kNameRef NameRef_DeepCopyInto"

definition ProviderConfig_DeepCopy :: "(addr option, cell) copier" where
  "ProviderConfig_DeepCopy = copyPtr kProviderConfig ProviderConfig_DeepCopyInto"

definition ProxmoxCluster_DeepCopy :: "objlib \<Rightarrow> (addr option, cell) copier" where
  "ProxmoxCluster_DeepCopy lib = copyPtr kProxmoxCluster (ProxmoxCluster_DeepCopyInto lib)"

definition ProxmoxClusterList_DeepCopy :: "objlib \<Rightarrow> (addr option, cell) copier" where
  "ProxmoxClusterList_DeepCopy lib = copyPtr kProxmoxClusterList (ProxmoxClusterList_DeepCopyInto lib)"

definition ProxmoxClusterSpec_DeepCopy :: "(addr option, cell) copier" where
  "ProxmoxClusterSpec_DeepCopy = copyPtr kProxmoxClusterSpec ProxmoxClusterSpec_DeepCopyInto"

definition ProxmoxClusterStatus_DeepCopy :: "objlib \<Rightarrow> (addr option, cell) copier" where
  "ProxmoxClusterStatus_DeepCopy lib = copyPtr kProxmoxClusterStatus (ProxmoxClusterStatus_DeepCopyInto lib)"

definition ProxmoxConfig_DeepCopy :: "(addr option, cell) copier" where
  "ProxmoxConfig_DeepCopy = copyPtr kProxmoxConfig ProxmoxConfig_DeepCopyInto"

definition RolloutSpec_DeepCopy :: "(addr option, cell) copier" where
  "RolloutSpec_DeepCopy = copyPtr kRolloutSpec RolloutSpec_DeepCopyInto"

definition RolloutStatus_DeepCopy :: "objlib \<Rightarrow> (addr option, cell) copier" where
  "RolloutStatus_DeepCopy lib = copyPtr kRolloutStatus (RolloutStatus_DeepCopyInto lib)"

definition SecretKeyRef_DeepCopy :: "(addr option, cell) copier" where
  "SecretKeyRef_DeepCopy = copyPtr kSecretKeyRef SecretKeyRef_DeepCopyInto"

definition SecretReference_DeepCopy :: "(addr option, cell) copier" where
  "SecretReference_DeepCopy = copyPtr kSecretReference SecretReference_DeepCopyInto"

definition VRouterBinding_DeepCopy :: "objlib \<Rightarrow> (addr option, cell) copier" where
  "VRouterBinding_DeepCopy lib = copyPtr kVRouterBinding (VRouterBinding_DeepCopyInto lib)"

definition VRouterBindingList_DeepCopy :: "objlib \<Rightarrow> (addr option, cell) copier" where
  "VRouterBindingList_DeepCopy lib = copyPtr kVRouterBindingList (VRouterBindingList_DeepCopyInto lib)"

definition VRouterBindingSpec_DeepCopy :: "objlib \<Rightarrow> (addr option, cell) copier" where
  "VRouterBindingSpec_DeepCopy lib = copyPtr kVRouterBindingSpec (VRouterBindingSpec_DeepCopyInto lib)"

definition VRouterBindingStatus_DeepCopy :: "objlib \<Rightarrow> (addr option, cell) copier" where
  "VRouterBindingStatus_DeepCopy lib = copyPtr kVRouterBindingStatus (VRouterBindingStatus_DeepCopyInto lib)"

definition VRouterConfig_DeepCopy :: "objlib \<Rightarrow> (addr option, cell) copier" where
  "VRouterConfig_DeepCopy lib = copyPtr kVRouterConfig (VRouterConfig_DeepCopyInto lib)"

definition VRouterConfigList_DeepCopy :: "objlib \<Rightarrow> (addr option, cell) copier" where
  "VRouterConfigList_DeepCopy lib = copyPtr kVRouterConfigList (VRouterConfigList_DeepCopyInto lib)"

definition VRouterConfigSpec_DeepCopy :: "(addr option, cell) copier" where
  "VRouterConfigSpec_DeepCopy = copyPtr kVRouterConfigSpec VRouterConfigSpec_DeepCopyInto"

definition VRouterConfigStatus_DeepCopy :: "objlib \<Rightarrow> (addr option, cell) copier" where
  "VRouterConfigStatus_DeepCopy lib = copyPtr kVRouterConfigStatus (VRouterConfigStatus_DeepCopyInto lib)"

definition VRouterParams_DeepCopy :: "objlib \<Rightarrow> (addr option, cell) copier" where
  "VRouterParams_DeepCopy lib = copyPtr kVRouterParams (VRouterParams_DeepCopyInto lib)"

definition VRouterParamsList_DeepCopy :: "objlib \<Rightarrow> (addr option, cell) copier" where
  "VRouterParamsList_DeepCopy lib = copyPtr kVRouterParamsList (VRouterParamsList_DeepCopyInto lib)"

definition VRouterParamsSpec_DeepCopy :: "objlib \<Rightarrow> (addr option, cell) copier" where
  "VRouterParamsSpec_DeepCopy lib = copyPtr kVRouterParamsSpec (VRouterParamsSpec_DeepCopyInto lib)"

definition VRouterTarget_DeepCopy :: "objlib \<Rightarrow> (addr option, cell) copier" where
  "VRouterTarget_DeepCopy lib = copyPtr kVRouterTarget (VRouterTarget_DeepCopyInto lib)"

definition VRouterTargetList_DeepCopy :: "objlib \<Rightarrow> (addr option, cell) copier" where
  "VRouterTargetList_DeepCopy lib = copyPtr kVRouterTargetList (VRouterTargetList_DeepCopyInto lib)"

definition VRouterTargetSpec_DeepCopy :: "objlib \<Rightarrow> (addr option, cell) copier" where
  "VRouterTargetSpec_DeepCopy lib = copyPtr kVRouterTargetSpec (VRouterTargetSpec_DeepCopyInto lib)"

definition VRouterTargetStatus_DeepCopy :: "objlib \<Rightarrow> (addr option, cell) copier" where
  "VRouterTargetStatus_DeepCopy lib = copyPtr kVRouterTargetStatus (VRouterTargetStatus_DeepCopyInto lib)"

definition VRouterTemplate_DeepCopy :: "objlib \<Rightarrow> (addr option, cell) copier" where
  "VRouterTemplate_DeepCopy lib = copyPtr kVRouterTemplate (VRouterTemplate_DeepCopyInto lib)"

definition VRouterTemplateList_DeepCopy :: "objlib \<Rightarrow> (addr option, cell) copier" where
  "VRouterTemplateList_DeepCopy lib = copyPtr kVRouterTemplateList (VRouterTemplateList_DeepCopyInto lib)"

definition VRouterTemplateSpec_DeepCopy :: "(addr option, cell) copier" where
  "VRouterTemplateSpec_DeepCopy = copyPtr kVRouterTemplateSpec VRouterTemplateSpec_DeepCopyInto"

text \<open>
  A \<open>runtime.Object\<close> is \<open>nil\<close> or a pointer with its type. The functions return the untyped
  \<open>nil\<close> for a \<open>nil\<close> pointer.
\<close>

datatype object =
    ObjProxmoxCluster addr
  | ObjProxmoxClusterList addr
  | ObjVRouterBinding addr
  | ObjVRouterBindingList addr
  | ObjVRouterConfig addr
  | ObjVRouterConfigList addr
  | ObjVRouterParams addr
  | ObjVRouterParamsList addr
  | ObjVRouterTarget addr
  | ObjVRouterTargetList addr
  | ObjVRouterTemplate addr
  | ObjVRouterTemplateList addr

definition asObject :: "(addr \<Rightarrow> object) \<Rightarrow> (addr option, cell) copier \<Rightarrow>
    addr option \<Rightarrow> cell heap \<Rightarrow> (object option \<times> cell heap) option" where
  "asObject obj copy p h =
     (case copy p h of
        None \<Rightarrow> None
      | Some (c, h1) \<Rightarrow> (case c of None \<Rightarrow> Some (None, h1) | Some a \<Rightarrow> Some (Some (obj a), h1)))"

definition ProxmoxCluster_DeepCopyObject ::
  "objlib \<Rightarrow> addr option \<Rightarrow> cell heap \<Rightarrow> (object option \<times> cell heap) option" where
  "ProxmoxCluster_DeepCopyObject lib = asObject ObjProxmoxCluster (ProxmoxCluster_DeepCopy lib)"

definition ProxmoxClusterList_DeepCopyObject ::
  "objlib \<Rightarrow> addr option \<Rightarrow> cell heap \<Rightarrow> (object option \<times> cell heap) option" where
  "ProxmoxClusterList_DeepCopyObject lib = asObject ObjProxmoxClusterList (ProxmoxClusterList_DeepCopy lib)"

definition VRouterBinding_DeepCopyObject ::
  "objlib \<Rightarrow> addr option \<Rightarrow> cell heap \<Rightarrow> (object option \<times> cell heap) option" where
  "VRouterBinding_DeepCopyObject lib = asObject ObjVRouterBinding (VRouterBinding_DeepCopy lib)"

definition VRouterBindingList_DeepCopyObject ::
  "objlib \<Rightarrow> addr option \<Rightarrow> cell heap \<Rightarrow> (object option \<times> cell heap) option" where
  "VRouterBindingList_DeepCopyObject lib = asObject ObjVRouterBindingList (VRouterBindingList_DeepCopy lib)"

definition VRouterConfig_DeepCopyObject ::
  "objlib \<Rightarrow> addr option \<Rightarrow> cell heap \<Rightarrow> (object option \<times> cell heap) option" where
  "VRouterConfig_DeepCopyObject lib = asObject ObjVRouterConfig (VRouterConfig_DeepCopy lib)"

definition VRouterConfigList_DeepCopyObject ::
  "objlib \<Rightarrow> addr option \<Rightarrow> cell heap \<Rightarrow> (object option \<times> cell heap) option" where
  "VRouterConfigList_DeepCopyObject lib = asObject ObjVRouterConfigList (VRouterConfigList_DeepCopy lib)"

definition VRouterParams_DeepCopyObject ::
  "objlib \<Rightarrow> addr option \<Rightarrow> cell heap \<Rightarrow> (object option \<times> cell heap) option" where
  "VRouterParams_DeepCopyObject lib = asObject ObjVRouterParams (VRouterParams_DeepCopy lib)"

definition VRouterParamsList_DeepCopyObject ::
  "objlib \<Rightarrow> addr option \<Rightarrow> cell heap \<Rightarrow> (object option \<times> cell heap) option" where
  "VRouterParamsList_DeepCopyObject lib = asObject ObjVRouterParamsList (VRouterParamsList_DeepCopy lib)"

definition VRouterTarget_DeepCopyObject ::
  "objlib \<Rightarrow> addr option \<Rightarrow> cell heap \<Rightarrow> (object option \<times> cell heap) option" where
  "VRouterTarget_DeepCopyObject lib = asObject ObjVRouterTarget (VRouterTarget_DeepCopy lib)"

definition VRouterTargetList_DeepCopyObject ::
  "objlib \<Rightarrow> addr option \<Rightarrow> cell heap \<Rightarrow> (object option \<times> cell heap) option" where
  "VRouterTargetList_DeepCopyObject lib = asObject ObjVRouterTargetList (VRouterTargetList_DeepCopy lib)"

definition VRouterTemplate_DeepCopyObject ::
  "objlib \<Rightarrow> addr option \<Rightarrow> cell heap \<Rightarrow> (object option \<times> cell heap) option" where
  "VRouterTemplate_DeepCopyObject lib = asObject ObjVRouterTemplate (VRouterTemplate_DeepCopy lib)"

definition VRouterTemplateList_DeepCopyObject ::
  "objlib \<Rightarrow> addr option \<Rightarrow> cell heap \<Rightarrow> (object option \<times> cell heap) option" where
  "VRouterTemplateList_DeepCopyObject lib = asObject ObjVRouterTemplateList (VRouterTemplateList_DeepCopy lib)"

end
