(* ===== verification/DeepCopyWorld.thy ===== *)
theory DeepCopyWorld
  imports DeepCopy
begin

text \<open>
  What the deep copies are for. A controller that patches a status takes a deep copy of the
  object as the base of the patch (\<open>client.MergeFrom(obj.DeepCopy())\<close>) and then edits the
  object; the other theories pass the base and the edited object as two values. The property
  below is what makes that a faithful picture of the pointers in memory.
\<close>

section \<open>Detached copies\<close>

text \<open>
  Copying what can be read allocates only, and the copy stands for the same value, then and
  in every later heap that agrees on the new cells: whatever is written to the cells that
  were there before, and whatever is allocated.
\<close>

definition detached_copy :: "(addr option, cell) copier \<Rightarrow> (addr option, 'v option, cell) reader \<Rightarrow> bool" where
  "detached_copy copy rd \<longleftrightarrow>
     (\<forall>h p v. rd h p = Some v \<longrightarrow>
        (\<exists>q e. copy p h = Some (q, h @ e) \<and> (q = None \<longleftrightarrow> p = None) \<and>
           (\<forall>h2. agree {length h..<length h + length e} (h @ e) h2 \<longrightarrow> rd h2 q = Some v)))"

lemma detached_ptr:
  assumes "deep_copy into rd ad" "good_kind k"
  shows "detached_copy (copyPtr k into) (readPtr k rd)"
  unfolding detached_copy_def
proof (intro allI impI)
  fix h p v
  assume r: "readPtr k rd h p = Some v"
  note deep = deep_ptr [OF assms(2,1)]
  from deep_copy.copied [OF deep r] obtain q e where q: "copyPtr k into p h = Some (q, h @ e)" by blast
  moreover have "q = None \<longleftrightarrow> p = None"
    using q by (auto simp: copyPtr_def alloc_def split: option.splits)
  moreover have "readPtr k rd h2 q = Some v" if "agree {length h..<length h + length e} (h @ e) h2" for h2
    using deep_copy.detached [OF deep r q] that by simp
  ultimately show "\<exists>q e. copyPtr k into p h = Some (q, h @ e) \<and> (q = None \<longleftrightarrow> p = None) \<and>
      (\<forall>h2. agree {length h..<length h + length e} (h @ e) h2 \<longrightarrow> readPtr k rd h2 q = Some v)" by blast
qed

lemmas deep_objects =
  deep_VRouterConfig deep_VRouterBinding deep_VRouterTarget deep_ProxmoxCluster deep_VRouterParams deep_VRouterTemplate

text \<open>
  C18. The base of a patch does not change under the patch's edits: for each of the six kinds
  of objects, provided the library's own copying functions are deep copies, \<open>DeepCopy\<close> of any
  object that can be read (an object whose pointers lead to cells of their types) succeeds,
  only allocates, gives \<open>nil\<close> for \<open>nil\<close> alone, and yields a pointer that stands for the same
  type, metadata, spec and status afterwards, whatever is written to the cells of the original
  or of any other object. In particular no pointer or slice of the copy is shared.
\<close>

theorem patch_base_detached:
  assumes "object_library lib"
  shows "detached_copy (VRouterConfig_DeepCopy lib) (readPtr kVRouterConfig readVRouterConfig) \<and>
    detached_copy (VRouterBinding_DeepCopy lib) (readPtr kVRouterBinding readVRouterBinding) \<and>
    detached_copy (VRouterTarget_DeepCopy lib) (readPtr kVRouterTarget readVRouterTarget) \<and>
    detached_copy (ProxmoxCluster_DeepCopy lib) (readPtr kProxmoxCluster readProxmoxCluster) \<and>
    detached_copy (VRouterParams_DeepCopy lib) (readPtr kVRouterParams readVRouterParams) \<and>
    detached_copy (VRouterTemplate_DeepCopy lib) (readPtr kVRouterTemplate readVRouterTemplate)"
  unfolding VRouterConfig_DeepCopy_def VRouterBinding_DeepCopy_def VRouterTarget_DeepCopy_def
    ProxmoxCluster_DeepCopy_def VRouterParams_DeepCopy_def VRouterTemplate_DeepCopy_def
  by (intro conjI deep_objects [OF assms, THEN detached_ptr] kinds_good)

text \<open>
  Lists are copied with every item: what the cached client hands out as a copy of a list
  can be edited without a trace in the cache. A \<open>nil\<close> list gives an interface that is \<open>nil\<close>
  itself, not one that holds a \<open>nil\<close> pointer.
\<close>

theorem list_copies_detached:
  assumes "object_library lib"
  shows "detached_copy (VRouterConfigList_DeepCopy lib)
      (readPtr kVRouterConfigList (readList kVRouterConfigs readVRouterConfig)) \<and>
    detached_copy (VRouterBindingList_DeepCopy lib)
      (readPtr kVRouterBindingList (readList kVRouterBindings readVRouterBinding)) \<and>
    detached_copy (VRouterTargetList_DeepCopy lib)
      (readPtr kVRouterTargetList (readList kVRouterTargets readVRouterTarget)) \<and>
    detached_copy (ProxmoxClusterList_DeepCopy lib)
      (readPtr kProxmoxClusterList (readList kProxmoxClusters readProxmoxCluster)) \<and>
    VRouterConfigList_DeepCopyObject lib None h = Some (None, h)"
proof -
  note lists = deep_objects [OF assms, THEN deep_list [OF assms, rotated], THEN detached_ptr]
  show ?thesis
    unfolding VRouterConfigList_DeepCopy_def VRouterConfigList_DeepCopyInto_def
      VRouterBindingList_DeepCopy_def VRouterBindingList_DeepCopyInto_def
      VRouterTargetList_DeepCopy_def VRouterTargetList_DeepCopyInto_def
      ProxmoxClusterList_DeepCopy_def ProxmoxClusterList_DeepCopyInto_def
    by (intro conjI lists kinds_good)
      (simp add: VRouterConfigList_DeepCopyObject_def asObject_def VRouterConfigList_DeepCopy_def copyPtr_def)
qed

section \<open>Witnesses\<close>

text \<open>A library whose copies go through the fields in the same way.\<close>

definition sampleLib :: objlib where
  "sampleLib =
     \<lparr>timeInto = assign, conditionInto = assign, jsonInto = copySlice kBytes assign,
      metaInto =
        andThen (copyField gmLabels gmLabels_update (copyPtr kLabels assign))
        (andThen (copyField gmFinalizers gmFinalizers_update (copySlice kStrings assign))
        (andThen (copyField gmOwners gmOwners_update (copySlice kOwners assign))
        (copyField gmDeletionTimestamp gmDeletionTimestamp_update (copyPtr kTime assign)))),
      listMetaInto = copyField glRemainingItemCount glRemainingItemCount_update (copyPtr kInt assign)\<rparr>"

interpretation sample_library: object_library sampleLib
  unfolding object_library_def sampleLib_def objlib.simps readJSON_def addrsJSON_def
    readObjectMeta_def addrsObjectMeta_def readListMeta_def addrsListMeta_def
  by (intro conjI deep_intros; (assumption | simp add: read_simps)?)

text \<open>An object with a condition in its status, and one edit of that condition in place.\<close>

definition sampleCondition :: Condition where
  "sampleCondition =
     \<lparr>condType = ConditionApplied, condStatus = ConditionTrue, condReason = ''Applied'', condMessage = [],
      condObservedGeneration = 1, condLastTransitionTime = 0\<rparr>"

definition sampleObject :: goVRouterConfig where
  "sampleObject =
     \<lparr>gcfgTypeMeta = (''vrouter.kojuro.date/v1'', ''VRouterConfig''),
      gcfgMeta = \<lparr>gmNamespace = ''default'', gmName = ''b.r1'', gmGeneration = 1, gmLabels = None,
        gmFinalizers = Some (wholeSlice 2 1), gmOwners = None, gmDeletionTimestamp = None\<rparr>,
      gcfgSpec = \<lparr>gcfgTargetRef = \<lparr>refNamespace = [], refName = ''r1''\<rparr>, gcfgSave = Some 0,
        gcfgConfig = ''system {}'', gcfgCommands = []\<rparr>,
      gcfgStatus = \<lparr>gcfgPhase = PhaseApplied, gcfgExecPID = 0, gcfgExecStartedTime = None,
        gcfgLastAppliedTime = None, gcfgLastRebootHandledTime = None, gcfgMessage = [],
        gcfgObservedGeneration = 1, gcfgConditions = Some (wholeSlice 1 1)\<rparr>\<rparr>"

definition sampleHeap :: "cell heap" where
  "sampleHeap =
     [CBool True, CConditions [sampleCondition], CStrings [FinalizerName], CVRouterConfig sampleObject,
      CVRouterConfigs [sampleObject],
      CVRouterConfigList \<lparr>gTypeMeta = (''vrouter.kojuro.date/v1'', ''VRouterConfigList''),
        gListMeta = \<lparr>glResourceVersion = ''7'', glContinue = [], glRemainingItemCount = None\<rparr>,
        gItems = Some (wholeSlice 4 1)\<rparr>]"

definition conditionsAt :: "cell heap \<Rightarrow> addr option \<Rightarrow> Condition list option" where
  "conditionsAt h p =
     (case readPtr kVRouterConfig readVRouterConfig h p of
        Some (Some (tm, c)) \<Rightarrow> Some (cfgConditions (cfgStatus c)) | _ \<Rightarrow> None)"

abbreviation editConditions :: "cell heap \<Rightarrow> cell heap" where
  "editConditions h \<equiv> h[1 := CConditions [sampleCondition\<lparr>condStatus := ConditionFalse\<rparr>]]"

lemma edit_agrees: "agree {length sampleHeap..<length sampleHeap + length e} (sampleHeap @ e) (editConditions (sampleHeap @ e))"
  by (auto simp: agree_def sampleHeap_def nth_list_update)

theorem patch_base_detached_witness:
  "\<exists>q e. VRouterConfig_DeepCopy sampleLib (Some 3) sampleHeap = Some (q, sampleHeap @ e) \<and>
     conditionsAt (editConditions (sampleHeap @ e)) q = Some [sampleCondition] \<and>
     conditionsAt (editConditions sampleHeap) (Some 3) = Some [sampleCondition\<lparr>condStatus := ConditionFalse\<rparr>]"
proof -
  have c: "conditionsAt sampleHeap (Some 3) = Some [sampleCondition]"
    "conditionsAt (editConditions sampleHeap) (Some 3) = Some [sampleCondition\<lparr>condStatus := ConditionFalse\<rparr>]"
    by code_simp+
  then obtain v where v: "readPtr kVRouterConfig readVRouterConfig sampleHeap (Some 3) = Some v"
    by (auto simp: conditionsAt_def split: option.splits)
  from patch_base_detached [OF sample_library.object_library_axioms, THEN conjunct1, unfolded detached_copy_def,
      rule_format, OF v] edit_agrees c v
  show ?thesis by (fastforce simp: conditionsAt_def)
qed

theorem list_copies_detached_witness:
  "\<exists>q e. VRouterConfigList_DeepCopy sampleLib (Some 5) sampleHeap = Some (q, sampleHeap @ e) \<and>
     readPtr kVRouterConfigList (readList kVRouterConfigs readVRouterConfig) (editConditions (sampleHeap @ e)) q =
       readPtr kVRouterConfigList (readList kVRouterConfigs readVRouterConfig) sampleHeap (Some 5)"
proof -
  let ?rd = "readPtr kVRouterConfigList (readList kVRouterConfigs readVRouterConfig)"
  have "(case ?rd sampleHeap (Some 5) of Some (Some (tm, lm, cs)) \<Rightarrow> length cs = 1 | _ \<Rightarrow> False)" by code_simp
  then obtain v where v: "?rd sampleHeap (Some 5) = Some v" by (auto split: option.splits)
  from list_copies_detached [OF sample_library.object_library_axioms, THEN conjunct1, unfolded detached_copy_def,
      rule_format, OF v] edit_agrees v
  show ?thesis by fastforce
qed

end
