(* ===== verification/RolloutWorld.thy ===== *)
theory RolloutWorld
  imports BindingWorld
begin

text \<open>
  A whole rollout in one of the serial modes, from the first write to \<open>Ready=True\<close>: the number of
  outdated configurations is a measure that every due reconcile of the binding lowers, and
  with none left the reconcile ends the rollout.
\<close>

section \<open>Rounds\<close>

text \<open>The number of targets whose stored configuration in the namespace \<open>ns\<close> is not the rendered one.\<close>

definition outdated ::
  "('w \<Rightarrow> nname \<Rightarrow> VRouterConfig option) \<Rightarrow> 'w \<Rightarrow> string \<Rightarrow> desiredConfig list \<Rightarrow> nat" where
  "outdated cfgs w ns ds = length (filter (\<lambda>d. \<not> matches (cfgs w (ns, dcName d)) d) ds)"

lemma outdated_pending: "outdated cfgs w (metaNamespace (bndMeta b)) ds = pending cfgs w b ds"
  by (simp add: outdated_def pending_def matched_def)

lemma outdated_0: "outdated cfgs w ns ds = 0 \<longleftrightarrow> (\<forall>d \<in> set ds. matches (cfgs w (ns, dcName d)) d)"
  by (simp add: outdated_def filter_empty_conv)

lemma outdated_cong:
  "(\<And>d. d \<in> set ds \<Longrightarrow> cfgs w' (ns, dcName d) = cfgs w (ns, dcName d)) \<Longrightarrow> outdated cfgs w' ns ds = outdated cfgs w ns ds"
  unfolding outdated_def by (rule arg_cong [of _ _ length], rule filter_cong) simp_all

text \<open>
  The gate of the frontier \<open>f\<close> is open: with WaitForApplied the frontier, while it is among the
  targets, has applied its own generation and soaked; in all other cases the wait since its
  write is over. A configuration is settled if, where it is the rendered one, it has applied
  its generation and has not failed.
\<close>

definition gate_open ::
  "'w kube \<Rightarrow> ('w \<Rightarrow> nname \<Rightarrow> VRouterConfig option) \<Rightarrow> VRouterBinding \<Rightarrow> RolloutMode \<Rightarrow> RolloutSpec \<Rightarrow>
     'w \<Rightarrow> RolloutStatus \<Rightarrow> bool" where
  "gate_open k cfgs b mode rollout w f \<longleftrightarrow>
     (if mode = RolloutModeWaitForApplied \<and> inTargetRefs b (LastUpdatedTarget f)
      then case appliedConditionForGeneration k
                  (cfgs w (metaNamespace (bndMeta b), configNameFor b (LastUpdatedTarget f))) of
             None \<Rightarrow> False
           | Some cond \<Rightarrow> condLastTransitionTime cond + WaitAfterApplied rollout \<le> now k w
      else LastUpdateTime f + rolloutWaitDuration mode rollout \<le> now k w)"

definition settled :: "'w kube \<Rightarrow> VRouterConfig option \<Rightarrow> desiredConfig \<Rightarrow> bool" where
  "settled k x d \<longleftrightarrow>
     (case x of None \<Rightarrow> True
      | Some c \<Rightarrow> cfgSpec c = dcSpec d \<longrightarrow>
          cfgPhase (cfgStatus c) \<noteq> PhaseFailed \<and> appliedConditionForGeneration k x \<noteq> None)"

text \<open>
  The next write of the binding \<open>n\<close> is due: it is live, has its finalizer, has a serial mode
  with the settings \<open>rollout\<close>, renders to \<open>ds\<close>, the gate is open, and with WaitForApplied what
  has been written is settled.
\<close>

definition rollout_due ::
  "'w kube \<Rightarrow> ('d, 'f, 't) templating \<Rightarrow> ('w \<Rightarrow> nname \<Rightarrow> VRouterConfig option) \<Rightarrow> nname \<Rightarrow> RolloutSpec \<Rightarrow>
     desiredConfig list \<Rightarrow> 'w \<Rightarrow> bool" where
  "rollout_due k lib cfgs n rollout ds w \<longleftrightarrow>
     (case getBinding k n w of
        Inl e \<Rightarrow> False
      | Inr b \<Rightarrow>
          (let mode = EffectiveMode (Some rollout) in
           DeletionTimestamp_IsZero (bndMeta b) \<and>
           ContainsFinalizer k (metaFinalizers (bndMeta b)) FinalizerName \<and>
           bndRollout (bndSpec b) = Some rollout \<and>
           (mode = RolloutModeFixedInterval \<or>
            mode = RolloutModeWaitForApplied \<and> list_all (\<lambda>d. settled k (cfgs w (fst n, dcName d)) d) ds) \<and>
           renderAll k lib b w = Inr ds \<and>
           (case statusRollout (bndStatus b) of None \<Rightarrow> True | Some f \<Rightarrow> gate_open k cfgs b mode rollout w f)))"

text \<open>
  \<open>m\<close> rounds: due reconciles without an error that ask for another run, and between them
  changes by others that put no configuration back.
\<close>

inductive rollout_rounds ::
  "'w kube \<Rightarrow> ('d, 'f, 't) templating \<Rightarrow> ('w \<Rightarrow> nname \<Rightarrow> VRouterConfig option) \<Rightarrow> nname \<Rightarrow> RolloutSpec \<Rightarrow>
     desiredConfig list \<Rightarrow> nat \<Rightarrow> 'w \<Rightarrow> 'w \<Rightarrow> bool"
  for k lib cfgs n rollout ds where
    start: "rollout_rounds k lib cfgs n rollout ds 0 w w"
  | round: "rollout_rounds k lib cfgs n rollout ds m w v \<Longrightarrow> rollout_due k lib cfgs n rollout ds v \<Longrightarrow>
      Binding_Reconcile k lib n v = (r, None, u) \<Longrightarrow> r \<noteq> noRequeue \<Longrightarrow>
      outdated cfgs v' (fst n) ds \<le> outdated cfgs u (fst n) ds \<Longrightarrow>
      rollout_rounds k lib cfgs n rollout ds (Suc m) w v'"

section \<open>One round\<close>

text \<open>Deletions take no time back.\<close>

definition clock_runs :: "'w kube \<Rightarrow> bool" where
  "clock_runs k \<longleftrightarrow> (\<forall>c w u w'. deleteConfig k c w = (u, w') \<longrightarrow> now k w \<le> now k w')"

lemma deleteOrphans_clock:
  assumes "clock_runs k" "deleteOrphans k names cs w = (r, w')"
  shows "now k w \<le> now k w'"
  using assms(2)
proof (induction cs arbitrary: w)
  case (Cons c cs)
  obtain u w1 where u: "deleteConfig k c w = (u, w1)" by fastforce
  with assms(1) have "now k w \<le> now k w1" by (auto simp: clock_runs_def)
  with Cons u show ?case by (fastforce split: option.splits if_splits)
qed simp

lemma cleanup_clock: "clock_runs k \<Longrightarrow> cleanupOrphans k b ds w = (r, w') \<Longrightarrow> now k w \<le> now k w'"
  by (auto simp: cleanupOrphans_def intro: deleteOrphans_clock split: sum.splits)

context binding_runtime
begin

lemma gate_open_passable:
  assumes "renderAll k lib b w0 = Inr ds" "mode = RolloutModeFixedInterval \<or> mode = RolloutModeWaitForApplied"
    and "\<forall>f. statusRollout (bndStatus b) = Some f \<longrightarrow> gate_open k cfgs b mode rollout w f"
    and "mode = RolloutModeWaitForApplied \<longrightarrow> list_all (\<lambda>d. settled k (cfgs w (dc_key b d)) d) ds"
  shows "passable k cfgs b mode rollout ds w"
proof -
  have names: "dcName d = configNameFor b (refName (dcTarget d))" "inTargetRefs b (refName (dcTarget d))"
    if "d \<in> set ds" for d
    using renderAll_shape [OF assms(1)] that
    by (auto simp: list_all2_conv_all_nth in_set_conv_nth inTargetRefs_def) (metis nth_mem)
  show ?thesis unfolding passable_def
  proof (intro ballI conjI allI impI)
    fix d wait
    assume "gateRemaining k b mode rollout (statusRollout (bndStatus b)) d (now k w) w = Inr wait"
    with assms(2,3) show "wait \<le> 0"
      by (auto simp: gateRemaining_def frontierRemaining_def gate_open_def rolloutWaitDuration_def
          dest!: getExisting_eq split: option.splits if_splits sum.splits)
  next
    fix d f
    assume "d \<in> set ds" "statusRollout (bndStatus b) = Some f" "refName (dcTarget d) = LastUpdatedTarget f"
    with assms(2,3) names [of d]
    show "frontierRemaining k mode rollout (cfgs w (dc_key b d)) (statusRollout (bndStatus b)) (now k w) \<le> 0"
      by (auto simp: frontierRemaining_def gate_open_def rolloutWaitDuration_def split: option.splits)
  next
    fix d c
    assume "d \<in> set ds" "mode = RolloutModeWaitForApplied" "cfgs w (dc_key b d) = Some c" "cfgSpec c = dcSpec d"
    with assms(4) show "cfgPhase (cfgStatus c) \<noteq> PhaseFailed"
      by (fastforce simp: list_all_iff settled_def)
  qed
qed

lemma notApplied_some:
  "firstNotAppliedConfig k b ds w = Inr (Some d) \<Longrightarrow>
     d \<in> set ds \<and> appliedConditionForGeneration k (cfgs w (dc_key b d)) = None"
  using getExisting_eq by (induction ds) (fastforce split: sum.splits if_splits)+

lemma rollout_ends:
  assumes "runRollout k b rollout ds w = (r, None, u)" "bnds w (bnd_key b) = Some b"
    and "EffectiveMode (bndRollout (bndSpec b)) = mode" "passable k cfgs b mode rollout ds w"
    and "mode = RolloutModeWaitForApplied \<longrightarrow> list_all (\<lambda>d. settled k (cfgs w (dc_key b d)) d) ds"
    and "\<forall>d \<in> set ds. matched cfgs w b d"
  shows "r = noRequeue \<and> cfgs u = cfgs w \<and>
    (\<exists>b'. bnds u (bnd_key b) = Some b' \<and> ready_is b' ConditionTrue ''ReconcileSucceeded'' (metaGeneration (bndMeta b)))"
proof -
  let ?walk = "rolloutWalk k b mode rollout (statusRollout (bndStatus b)) (now k w) (length ds) 0 ds w"
  have run: "walkOrComplete k b mode rollout ds w = (r, None, u)"
    using passable_walk [OF assms(1)] assms(3,4) unfolding passable_def by blast
  have "?walk \<noteq> Some (r, None, u)"
    using walk_passes [OF _ _ assms(6)] assms(4) unfolding passable_def by fastforce
  with run have "?walk = None" by (auto simp: walkOrComplete_def split: option.splits)
  with run have complete: "completeRollout k b mode rollout ds w = (r, None, u)" by (simp add: walkOrComplete_def)
  have "mode = RolloutModeWaitForApplied \<Longrightarrow> firstNotAppliedConfig k b ds w \<noteq> Inr (Some d)" for d
    using notApplied_some [of b ds w d] assms(5,6)
    by (fastforce simp: list_all_iff settled_def matched_def matches_def split: option.splits)
  with complete obtain msg where "finishReady k b msg w = (r, None, u)"
    by (auto simp: completeRollout_def split: if_splits sum.splits option.splits)
  with finishReady_ok [OF assms(2) this] finishReady_cfgs [OF this] show ?thesis
    by (auto simp: finishReady_def split: prod.splits sum.splits)
qed

text \<open>A due reconcile is a rollout step in the world that cleaning up leaves.\<close>

lemma due_run:
  assumes "clock_runs k" "rollout_due k lib cfgs n rollout ds w" "Binding_Reconcile k lib n w = (r, None, u)"
  obtains b w1 mode where "bnds w n = Some b" "bnd_key b = n" "bnds w1 (bnd_key b) = Some b"
    "EffectiveMode (bndRollout (bndSpec b)) = mode" "passable k cfgs b mode rollout ds w1"
    "mode = RolloutModeWaitForApplied \<longrightarrow> list_all (\<lambda>d. settled k (cfgs w1 (dc_key b d)) d) ds"
    "runRollout k b rollout ds w1 = (r, None, u)" "pending cfgs w1 b ds = outdated cfgs w (fst n) ds"
proof -
  define mode where "mode = EffectiveMode (Some rollout)"
  obtain b where b: "getBinding k n w = Inr b" "DeletionTimestamp_IsZero (bndMeta b)"
    "ContainsFinalizer k (metaFinalizers (bndMeta b)) FinalizerName" "bndRollout (bndSpec b) = Some rollout"
    "mode = RolloutModeFixedInterval \<or>
      mode = RolloutModeWaitForApplied \<and> list_all (\<lambda>d. settled k (cfgs w (fst n, dcName d)) d) ds"
    "renderAll k lib b w = Inr ds"
    "\<forall>f. statusRollout (bndStatus b) = Some f \<longrightarrow> gate_open k cfgs b mode rollout w f"
    using assms(2) by (auto simp: rollout_due_def Let_def mode_def split: sum.splits option.splits)
  note st = getb_found [OF b(1)]
  have ns: "metaNamespace (bndMeta b) = fst n" using st by auto
  have on: "Binding_onChange k lib b w = (r, None, u)"
    using assms(3) b(1-3) by (simp add: Binding_Reconcile_def)
  obtain e w1 where w1: "cleanupOrphans k b ds w = (e, w1)" by fastforce
  with on b(6) have "e = None" by (cases e) (auto simp: Binding_onChange_def reconcileError_def)
  with w1 have w1: "cleanupOrphans k b ds w = (None, w1)" by simp
  with on b(4-6) have run: "runRollout k b rollout ds w1 = (r, None, u)"
    by (auto simp: Binding_onChange_def mode_def)
  have same: "cfgs w1 (fst n, dcName d) = cfgs w (fst n, dcName d)" if "d \<in> set ds" for d
    by (rule cleanup_frame [OF w1]) (use that in simp)
  then have "outdated cfgs w1 (fst n) ds = outdated cfgs w (fst n) ds" by (rule outdated_cong)
  then have pend: "pending cfgs w1 b ds = outdated cfgs w (fst n) ds" using outdated_pending [of cfgs w1 b ds] ns by simp
  have sett: "mode = RolloutModeWaitForApplied \<longrightarrow> list_all (\<lambda>d. settled k (cfgs w1 (dc_key b d)) d) ds"
    using b(5) same ns by (auto simp: list_all_iff)
  have frontier: "cfgs w1 (fst n, configNameFor b tgt) = cfgs w (fst n, configNameFor b tgt)" if "inTargetRefs b tgt" for tgt
  proof -
    have "dcName ` set ds = (\<lambda>ref. configNameFor b (refName ref)) ` set (bndTargetRefs (bndSpec b))"
      using arg_cong [OF renderAll_names(1) [OF b(6)], of set] by simp
    with that have "configNameFor b tgt \<in> dcName ` set ds" by (auto simp: inTargetRefs_def)
    with same show ?thesis by auto
  qed
  have "now k w \<le> now k w1" by (rule cleanup_clock [OF assms(1) w1])
  with b(7) frontier ns
  have "\<forall>f. statusRollout (bndStatus b) = Some f \<longrightarrow> gate_open k cfgs b mode rollout w1 f"
    by (fastforce simp: gate_open_def split: if_splits option.splits)
  from gate_open_passable [OF b(6) _ this sett] b(5) have "passable k cfgs b mode rollout ds w1" by blast
  moreover have "bnds w1 (bnd_key b) = Some b" using cleanup_ok(1) [OF w1] st by simp
  ultimately show thesis using that [of b w1 mode] st run b(4) sett pend by (simp add: mode_def)
qed

lemma round_lowers:
  assumes "clock_runs k" "rollout_due k lib cfgs n rollout ds w" "Binding_Reconcile k lib n w = (r, None, u)"
    and "distinct (map dcName ds)" "\<forall>d \<in> set ds. cfgSave (dcSpec d) \<noteq> None" "0 < outdated cfgs w (fst n) ds"
  shows "r = requeueIn (postWriteRequeueInterval (EffectiveMode (Some rollout)) rollout) \<and>
    outdated cfgs w (fst n) ds = Suc (outdated cfgs u (fst n) ds)"
proof -
  obtain b w1 mode where b: "bnds w n = Some b" "bnd_key b = n" "bnds w1 (bnd_key b) = Some b"
    "EffectiveMode (bndRollout (bndSpec b)) = mode" "passable k cfgs b mode rollout ds w1"
    "runRollout k b rollout ds w1 = (r, None, u)" "pending cfgs w1 b ds = outdated cfgs w (fst n) ds"
    by (rule due_run [OF assms(1-3)])
  have mode: "mode = EffectiveMode (Some rollout)"
    using assms(2) b(1,4) getb_found [of n w] by (auto simp: rollout_due_def Let_def split: sum.splits)
  have "\<exists>d \<in> set ds. \<not> matched cfgs w1 b d" using b(7) assms(6) by (simp flip: pending_pos)
  from rollout_step [OF b(6,3,4,5) this] assms(5)
  have "r = requeueIn (postWriteRequeueInterval mode rollout)" "cfgs u \<noteq> cfgs w1" by blast+
  with write_progress [OF binding_runtime_axioms b(3,6) _ assms(4,5)] b(2,7) outdated_pending [of cfgs u b ds] mode
  show ?thesis by auto
qed

lemma last_round:
  assumes "clock_runs k" "rollout_due k lib cfgs n rollout ds w" "Binding_Reconcile k lib n w = (r, None, u)"
    and "outdated cfgs w (fst n) ds = 0"
  shows "r = noRequeue \<and> outdated cfgs u (fst n) ds = 0 \<and>
    (\<exists>b b'. bnds w n = Some b \<and> bnds u n = Some b' \<and>
       ready_is b' ConditionTrue ''ReconcileSucceeded'' (metaGeneration (bndMeta b)))"
proof -
  obtain b w1 mode where b: "bnds w n = Some b" "bnd_key b = n" "bnds w1 (bnd_key b) = Some b"
    "EffectiveMode (bndRollout (bndSpec b)) = mode" "passable k cfgs b mode rollout ds w1"
    "mode = RolloutModeWaitForApplied \<longrightarrow> list_all (\<lambda>d. settled k (cfgs w1 (dc_key b d)) d) ds"
    "runRollout k b rollout ds w1 = (r, None, u)" "pending cfgs w1 b ds = outdated cfgs w (fst n) ds"
    by (rule due_run [OF assms(1-3)])
  have "\<forall>d \<in> set ds. matched cfgs w1 b d" using b(8) assms(4) pending_pos [of cfgs w1 b ds] by auto
  note fin = rollout_ends [OF b(7,3,4,5,6) this]
  then have "outdated cfgs u (fst n) ds = pending cfgs w1 b ds"
    using b(2) outdated_pending [of cfgs u b ds] by (auto simp: pending_def matched_def)
  with fin b(1,2,8) assms(4) show ?thesis by auto
qed

lemma rounds_bounded:
  assumes "rollout_rounds k lib cfgs n rollout ds m w v" "clock_runs k"
    and "distinct (map dcName ds)" "\<forall>d \<in> set ds. cfgSave (dcSpec d) \<noteq> None"
  shows "m + outdated cfgs v (fst n) ds \<le> outdated cfgs w (fst n) ds"
  using assms(1)
proof (induction rule: rollout_rounds.induct)
  case (round m w v r u v')
  have "0 < outdated cfgs v (fst n) ds"
    using last_round [OF assms(2) round.hyps(2,3)] round.hyps(4) by auto
  from round_lowers [OF assms(2) round.hyps(2,3) assms(3,4) this] round.IH round.hyps(5) show ?case by simp
qed simp

end

section \<open>Property\<close>

text \<open>
  C13. A serial rollout comes to its end: take reconciles of the binding that meet no API
  error, each when the next write is due, while the rendering stays as it is and nobody puts a
  configuration back. Each either ends the rollout, with every target's configuration as
  rendered and \<open>Ready=True\<close> for the binding's generation, or asks to be run again after the
  interval of the mode; and of the latter there are never more than configurations were
  outdated at the start, so the one after them ends it. Due means, with FixedInterval, that
  the wait after the last write is over, whether or not configurations failed; with
  WaitForApplied, that what was written has been applied and the last one has soaked.
\<close>

theorem serial_rollout_completes:
  assumes "binding_runtime k cfgs bnds" "clock_runs k" "0 < WaitInterval rollout" "0 < PollInterval rollout"
    and "distinct (map dcName ds)" "\<forall>d \<in> set ds. cfgSave (dcSpec d) \<noteq> None"
    and "rollout_rounds k lib cfgs n rollout ds m w v"
    and "rollout_due k lib cfgs n rollout ds v" "Binding_Reconcile k lib n v = (r, None, u)"
  shows "if m < outdated cfgs w (fst n) ds \<and> r \<noteq> noRequeue
    then r = requeueIn (postWriteRequeueInterval (EffectiveMode (Some rollout)) rollout)
    else r = noRequeue \<and> m \<le> outdated cfgs w (fst n) ds \<and> outdated cfgs u (fst n) ds = 0 \<and>
      (\<exists>b b'. bnds v n = Some b \<and> bnds u n = Some b' \<and>
         ready_is b' ConditionTrue ''ReconcileSucceeded'' (metaGeneration (bndMeta b)))"
proof (cases "outdated cfgs v (fst n) ds")
  case 0
  with binding_runtime.last_round [OF assms(1,2,8,9)] binding_runtime.rounds_bounded [OF assms(1,7,2,5,6)]
  show ?thesis by auto
next
  case (Suc j)
  with assms(3,4) binding_runtime.round_lowers [OF assms(1,2,8,9,5,6)]
    binding_runtime.rounds_bounded [OF assms(1,7,2,5,6)]
  show ?thesis by (auto simp: requeueIn_def noRequeue_def postWriteRequeueInterval_def)
qed

section \<open>Witness\<close>

text \<open>Three reconciles of a binding with two targets, sixty seconds apart.\<close>

definition rolled :: "mem_world \<Rightarrow> mem_world outcome" where
  "rolled w = Binding_Reconcile memKube pairsLib (sampleKey ''b'') w"

definition minuteLater :: "mem_world \<Rightarrow> mem_world" where
  "minuteLater w = w\<lparr>mwNow := mwNow w + 60 * Second\<rparr>"

definition rolling1 :: mem_world where "rolling1 = minuteLater (world_of (rolled fixed0))"
definition rolling2 :: mem_world where "rolling2 = minuteLater (world_of (rolled rolling1))"

abbreviation sampleDue :: "mem_world \<Rightarrow> bool" where
  "sampleDue \<equiv> rollout_due memKube pairsLib memConfig (sampleKey ''b'') (sampleRollout RolloutModeFixedInterval) sampleDesired"

lemma rolling_due: "sampleDue fixed0" "sampleDue rolling1" "sampleDue rolling2"
  by code_simp+

lemma rolling_results:
  "error_of (rolled fixed0) = None" "error_of (rolled rolling1) = None" "error_of (rolled rolling2) = None"
  "result_of (rolled fixed0) \<noteq> noRequeue" "result_of (rolled rolling1) \<noteq> noRequeue"
  "outdated memConfig fixed0 ''default'' sampleDesired = 2"
  by code_simp+

text \<open>With WaitForApplied the second write is due once the first target has applied and soaked.\<close>

lemma applied_due:
  "rollout_due memKube pairsLib memConfig (sampleKey ''b'') (sampleRollout RolloutModeWaitForApplied)
     sampleDesired sampleFirstApplied"
  by code_simp

lemma failed_not_due:
  "\<not> rollout_due memKube pairsLib memConfig (sampleKey ''b'') (sampleRollout RolloutModeWaitForApplied)
     sampleDesired sampleFirstFailed"
  by code_simp

lemma rolled_run: "Binding_Reconcile memKube pairsLib (sampleKey ''b'') w =
    (result_of (rolled w), error_of (rolled w), world_of (rolled w))"
  by (simp add: rolled_def)

lemma later_outdated: "outdated memConfig (minuteLater w) ns ds = outdated memConfig w ns ds"
  by (simp add: outdated_def minuteLater_def memConfig_def)

theorem serial_rollout_completes_witness:
  "outdated memConfig (world_of (rolled rolling2)) ''default'' sampleDesired = 0 \<and>
   (\<exists>b'. memBinding (world_of (rolled rolling2)) (sampleKey ''b'') = Some b' \<and>
      (\<exists>gen. ready_is b' ConditionTrue ''ReconcileSucceeded'' gen))"
proof -
  let ?rounds = "rollout_rounds memKube pairsLib memConfig (sampleKey ''b'')
    (sampleRollout RolloutModeFixedInterval) sampleDesired"
  have clock: "clock_runs memKube" by (auto simp: clock_runs_def memDeleteConfig_def dropConfig_def putConfig_def split: if_splits option.splits)
  note run = rolled_run [of fixed0, unfolded rolling_results] rolled_run [of rolling1, unfolded rolling_results]
  have "?rounds 0 fixed0 fixed0" by (rule rollout_rounds.start)
  then have "?rounds (Suc 0) fixed0 rolling1"
    by (rule rollout_rounds.round [OF _ rolling_due(1) run(1) rolling_results(4)])
      (simp add: rolling1_def later_outdated)
  then have "?rounds (Suc (Suc 0)) fixed0 rolling2"
    by (rule rollout_rounds.round [OF _ rolling_due(2) run(2) rolling_results(5)])
      (simp add: rolling2_def later_outdated)
  from serial_rollout_completes [OF mem_binding.binding_runtime_axioms clock _ _ sampleDesired_ok(2,1) this
      rolling_due(3) rolled_run [of rolling2, unfolded rolling_results]] rolling_results(6)
  show ?thesis by (auto simp: sampleRollout_def Second_def)
qed

end
