(* ===== verification/RolloutHistory.thy ===== *)
theory RolloutHistory
  imports BindingWorld
begin

text \<open>
  The stagger of FixedInterval over whole histories of a binding: any number of rollout steps,
  with failed status patches and failed writes among them, and any steps of others in between.
  The frontier in the status is all a step knows of the past; the invariant says how much of
  the past it carries.
\<close>

section \<open>Histories\<close>

definition frontier_of :: "('w \<Rightarrow> nname \<Rightarrow> VRouterBinding option) \<Rightarrow> 'w \<Rightarrow> nname \<Rightarrow> RolloutStatus option" where
  "frontier_of bnds w n = (case bnds w n of None \<Rightarrow> None | Some b \<Rightarrow> statusRollout (bndStatus b))"

text \<open>Configurations named after their targets, as \<open>renderAll\<close> returns them.\<close>

definition named_for :: "VRouterBinding \<Rightarrow> desiredConfig list \<Rightarrow> bool" where
  "named_for b ds \<longleftrightarrow>
     (\<forall>d \<in> set ds. dcName d = configNameFor b (refName (dcTarget d)) \<and> refName (dcTarget d) \<noteq> [])"

text \<open>
  The log has the target and the time of every step that changed a configuration, the last one
  first. Others may do what they like to configurations and to the binding, but the frontier
  is the operator's, and time does not go back.
\<close>

inductive rollout_history ::
  "'w kube \<Rightarrow> ('w \<Rightarrow> nname \<Rightarrow> VRouterConfig option) \<Rightarrow> ('w \<Rightarrow> nname \<Rightarrow> VRouterBinding option) \<Rightarrow> nname \<Rightarrow>
     duration \<Rightarrow> 'w \<Rightarrow> (string \<times> time) list \<Rightarrow> bool"
  for k cfgs bnds n W where
    start: "rollout_history k cfgs bnds n W w []"
  | quiet: "rollout_history k cfgs bnds n W w log \<Longrightarrow> bnds w n = Some b \<Longrightarrow>
      EffectiveMode (bndRollout (bndSpec b)) = RolloutModeFixedInterval \<Longrightarrow> W \<le> WaitInterval rollout \<Longrightarrow>
      named_for b ds \<Longrightarrow>
      runRollout k b rollout ds w = (r, e, w') \<Longrightarrow> now k w \<le> now k w' \<Longrightarrow> cfgs w' = cfgs w \<Longrightarrow>
      rollout_history k cfgs bnds n W w' log"
  | wrote: "rollout_history k cfgs bnds n W w log \<Longrightarrow> bnds w n = Some b \<Longrightarrow>
      EffectiveMode (bndRollout (bndSpec b)) = RolloutModeFixedInterval \<Longrightarrow> W \<le> WaitInterval rollout \<Longrightarrow>
      named_for b ds \<Longrightarrow>
      runRollout k b rollout ds w = (r, e, w') \<Longrightarrow> now k w \<le> now k w' \<Longrightarrow>
      cfgs w' (dc_key b d) \<noteq> cfgs w (dc_key b d) \<Longrightarrow> d \<in> set ds \<Longrightarrow>
      rollout_history k cfgs bnds n W w' ((refName (dcTarget d), now k w) # log)"
  | others: "rollout_history k cfgs bnds n W w log \<Longrightarrow> now k w \<le> now k w' \<Longrightarrow>
      frontier_of bnds w' n = frontier_of bnds w n \<Longrightarrow> rollout_history k cfgs bnds n W w' log"

section \<open>What a step does to the frontier\<close>

context binding_runtime
begin

lemma stamp_cases:
  assumes "bnds w (bnd_key b) = Some b" "stampRolloutFrontier k b tgt t msg w = (x, w1)"
  shows "(\<exists>b'. bnds w1 (bnd_key b) = Some b' \<and>
    (statusRollout (bndStatus b') = Some \<lparr>LastUpdatedTarget = tgt, LastUpdateTime = trunc_sec t\<rparr> \<or>
     statusRollout (bndStatus b') = statusRollout (bndStatus b) \<and> (\<exists>err. x = Inl err)))"
proof (cases x)
  case (Inl err)
  from patchb_cases [OF assms(1) assms(2) [unfolded stampRolloutFrontier_def]] assms(1) Inl
  show ?thesis by (elim disjE) auto
next
  case (Inr b1)
  from stamp_ok [OF assms(1) assms(2) [unfolded Inr]] show ?thesis by blast
qed

text \<open>Either the frontier and the configurations stay, or a target passed its gate and is stamped.\<close>

definition stamped :: "VRouterBinding \<Rightarrow> RolloutSpec \<Rightarrow> 'w \<Rightarrow> 'w \<Rightarrow> desiredConfig \<Rightarrow> bool" where
  "stamped b rollout w w' d \<longleftrightarrow>
     (\<exists>wait. gateRemaining k b (EffectiveMode (bndRollout (bndSpec b))) rollout (statusRollout (bndStatus b)) d
        (now k w) w = Inr wait \<and> wait \<le> 0) \<and>
     frontier_of bnds w' (bnd_key b) =
       Some \<lparr>LastUpdatedTarget = refName (dcTarget d), LastUpdateTime = trunc_sec (now k w)\<rparr> \<and>
     (\<forall>m. m \<noteq> dc_key b d \<longrightarrow> cfgs w' m = cfgs w m)"

definition kept :: "VRouterBinding \<Rightarrow> 'w \<Rightarrow> 'w \<Rightarrow> bool" where
  "kept b w w' \<longleftrightarrow> cfgs w' = cfgs w \<and> frontier_of bnds w' (bnd_key b) = statusRollout (bndStatus b)"

lemma writeMismatch_frontier:
  assumes "writeMismatch k b (EffectiveMode (bndRollout (bndSpec b))) rollout (statusRollout (bndStatus b))
      (now k w) cnt i d w = (r, e, w')" "bnds w (bnd_key b) = Some b"
  shows "kept b w w' \<or> stamped b rollout w w' d"
proof -
  let ?gate = "gateRemaining k b (EffectiveMode (bndRollout (bndSpec b))) rollout (statusRollout (bndStatus b)) d (now k w) w"
  obtain x w1 where x: "stampRolloutFrontier k b (refName (dcTarget d)) (now k w)
      (digits (i + 1) @ ''/'' @ digits cnt @ '' targets updated'') w = (x, w1)" by fastforce
  note c1 = stamp_cfgs [OF x]
  show ?thesis
  proof (cases "\<exists>wait. ?gate = Inr wait \<and> wait \<le> 0")
    case False
    with assms have "w' = w" by (auto simp: writeMismatch_def split: sum.splits if_splits)
    with assms(2) show ?thesis by (simp add: kept_def frontier_of_def)
  next
    case True
    then obtain wait where g: "?gate = Inr wait" "wait \<le> 0" by blast
    show ?thesis
    proof (cases x)
      case (Inl err)
      with assms(1) g x have "w' = w1" by (simp add: writeMismatch_def)
      with stamp_cases [OF assms(2) x] c1 g show ?thesis by (auto simp: kept_def stamped_def frontier_of_def)
    next
      case (Inr b1)
      note st = stamp_ok [OF assms(2) x [unfolded Inr]]
      obtain ge where ge: "createOrUpdateOne k b1 d w1 = (ge, w')"
        using assms(1) g x Inr by (auto simp: writeMismatch_def split: prod.splits option.splits)
      have "cfgs w' m = cfgs w m" if "m \<noteq> dc_key b d" for m
        using createOne_cases(2) [OF ge] c1 st(2) that by auto
      moreover have "bnds w' = bnds w1" by (rule createOne_cases(1) [OF ge])
      ultimately show ?thesis using st(1,4) g by (auto simp: stamped_def frontier_of_def)
    qed
  qed
qed

lemma setReady_kept:
  assumes "bnds w (bnd_key b) = Some b"
  shows "kept b w (snd (setReadyCondition k b st rs msg w))"
proof -
  obtain x w1 where x: "setReadyCondition k b st rs msg w = (x, w1)" by fastforce
  from setReady_frontier [OF assms x] setReady_cfgs [OF x] x show ?thesis by (auto simp: kept_def frontier_of_def)
qed

lemma runRollout_frontier:
  assumes "runRollout k b rollout ds w = (r, e, w')" "bnds w (bnd_key b) = Some b"
  shows "kept b w w' \<or> (\<exists>d \<in> set ds. stamped b rollout w w' d)"
proof -
  define mode where "mode = EffectiveMode (bndRollout (bndSpec b))"
  let ?walk = "rolloutWalk k b mode rollout (statusRollout (bndStatus b)) (now k w) (length ds) 0 ds w"
  have same: "kept b w w" using assms(2) by (simp add: kept_def frontier_of_def)
  note ready = setReady_kept [OF assms(2)]
  have finish: "kept b w v" if "finishReady k b msg w = (r1, e1, v)" for msg r1 e1 v
    using that ready [of ConditionTrue "''ReconcileSucceeded''" msg]
    by (auto simp: finishReady_def split: prod.splits sum.splits)
  consider "kept b w w'" | "walkOrComplete k b mode rollout ds w = (r, e, w')"
    using assms(1) same ready by (auto simp: runRollout_def Let_def mode_def split: if_splits sum.splits option.splits)
  then show ?thesis
  proof cases
    case 2
    show ?thesis
    proof (cases ?walk)
      case None
      with 2 have "completeRollout k b mode rollout ds w = (r, e, w')" by (simp add: walkOrComplete_def)
      then show ?thesis
        using same ready finish by (auto simp: completeRollout_def split: if_splits sum.splits option.splits)
    next
      case (Some out)
      with 2 have out: "out = (r, e, w')" by (simp add: walkOrComplete_def)
      from walk_cases [OF Some] show ?thesis
      proof (elim disjE exE conjE)
        fix d pre post
        assume "ds = pre @ d # post"
          "out = writeMismatch k b mode rollout (statusRollout (bndStatus b)) (now k w) (length ds) (0 + length pre) d w"
        with writeMismatch_frontier [of b rollout w "length ds" "0 + length pre" d r e w'] assms(2) out
        show ?thesis by (auto simp: mode_def)
      qed (use out same in auto)
    qed
  qed simp
qed

section \<open>The invariant\<close>

text \<open>
  For every write in the log: either its target is the frontier, stamped no earlier, or the
  interval after it, less a second, has passed.
\<close>

definition spaced :: "nname \<Rightarrow> duration \<Rightarrow> 'w \<Rightarrow> (string \<times> time) list \<Rightarrow> bool" where
  "spaced n W w log \<longleftrightarrow>
     (\<forall>(tgt, t) \<in> set log. t \<le> now k w \<and>
        (\<exists>f. frontier_of bnds w n = Some f \<and> LastUpdatedTarget f \<noteq> [] \<and>
           (LastUpdatedTarget f = tgt \<and> trunc_sec t \<le> LastUpdateTime f \<or>
            LastUpdatedTarget f \<noteq> tgt \<and> t + W - Second < now k w)))"

lemma trunc_sec_mono: "s \<le> t \<Longrightarrow> trunc_sec s \<le> trunc_sec t"
  by (simp add: trunc_sec_def minus_mod_eq_mult_div zdiv_mono1 Second_def)

lemma stamped_apart:
  assumes "spaced n W w log" "(tgt, t) \<in> set log" "stamped b rollout w w' d" "refName (dcTarget d) \<noteq> tgt"
    and "bnds w n = Some b" "EffectiveMode (bndRollout (bndSpec b)) = RolloutModeFixedInterval" "W \<le> WaitInterval rollout"
  shows "t + W - Second < now k w"
proof -
  obtain f where f: "statusRollout (bndStatus b) = Some f" "LastUpdatedTarget f \<noteq> []"
    "LastUpdatedTarget f = tgt \<and> trunc_sec t \<le> LastUpdateTime f \<or> t + W - Second < now k w"
    using assms(1,2,5) by (auto simp: spaced_def frontier_of_def)
  show ?thesis
  proof (cases "t + W - Second < now k w")
    case False
    with f assms(4) have tgt: "LastUpdatedTarget f \<noteq> refName (dcTarget d)" "trunc_sec t \<le> LastUpdateTime f" by auto
    obtain wait where wait: "gateRemaining k b RolloutModeFixedInterval rollout (statusRollout (bndStatus b)) d
        (now k w) w = Inr wait" "wait \<le> 0"
      using assms(3,6) by (auto simp: stamped_def)
    from gate_fixed [OF wait f(1,2) tgt(1)] tgt(2) assms(7) trunc_sec_gt [of t] show ?thesis by simp
  qed
qed

lemma spaced_step:
  assumes "spaced n W w log" "bnds w n = Some b" "EffectiveMode (bndRollout (bndSpec b)) = RolloutModeFixedInterval"
    and "W \<le> WaitInterval rollout" "runRollout k b rollout ds w = (r, e, w')" "now k w \<le> now k w'"
    and "named_for b ds"
  shows "spaced n W w' log"
proof -
  have key: "bnd_key b = n" by (rule storedb_key [OF assms(2)])
  with assms(2) have "bnds w (bnd_key b) = Some b" by simp
  from runRollout_frontier [OF assms(5) this] consider "kept b w w'"
    | d where "d \<in> set ds" "stamped b rollout w w' d" by blast
  then show ?thesis
  proof cases
    case 1
    with key assms(2) have "frontier_of bnds w' n = frontier_of bnds w n" by (simp add: kept_def frontier_of_def)
    with assms(1,6) show ?thesis by (fastforce simp: spaced_def)
  next
    case (2 d)
    note apart = stamped_apart [OF assms(1) _ 2(2) _ assms(2-4)]
    from 2(2) key have "frontier_of bnds w' n =
        Some \<lparr>LastUpdatedTarget = refName (dcTarget d), LastUpdateTime = trunc_sec (now k w)\<rparr>"
      by (simp add: stamped_def)
    with assms(1,6,7) 2(1) apart show ?thesis unfolding spaced_def named_for_def
      by (fastforce intro: trunc_sec_mono)
  qed
qed

lemma history_spaced:
  assumes "rollout_history k cfgs bnds n W w log"
  shows "spaced n W w log \<and>
    sorted_wrt (\<lambda>later earlier. fst later \<noteq> fst earlier \<longrightarrow> W - Second < snd later - snd earlier) log"
  using assms
proof (induction rule: rollout_history.induct)
  case (start w)
  then show ?case by (simp add: spaced_def)
next
  case (quiet w log b rollout ds r e w')
  with spaced_step [of n W w log b rollout ds r e w'] show ?case by blast
next
  case (wrote w log b rollout ds r e w' d)
  have key: "bnd_key b = n" by (rule storedb_key [OF wrote.hyps(2)])
  with wrote.hyps(2) have "bnds w (bnd_key b) = Some b" by simp
  from runRollout_frontier [OF wrote.hyps(6) this] wrote.hyps(8)
  obtain d1 where d1: "d1 \<in> set ds" "stamped b rollout w w' d1" by (auto simp: kept_def)
  have "dcName d1 = dcName d"
  proof (rule ccontr)
    assume "dcName d1 \<noteq> dcName d"
    then have "dc_key b d \<noteq> dc_key b d1" by simp
    with d1(2) wrote.hyps(8) show False unfolding stamped_def by blast
  qed
  with wrote.hyps(5,9) d1(1) have tgt: "refName (dcTarget d1) = refName (dcTarget d)"
    by (auto simp: named_for_def configNameFor_def)
  have step: "spaced n W w' log" using spaced_step wrote.IH wrote.hyps by blast
  from d1(2) key tgt have "frontier_of bnds w' n =
      Some \<lparr>LastUpdatedTarget = refName (dcTarget d), LastUpdateTime = trunc_sec (now k w)\<rparr>"
    by (simp add: stamped_def)
  with step wrote.hyps(5,7,9) have "spaced n W w' ((refName (dcTarget d), now k w) # log)"
    by (auto simp: spaced_def named_for_def)
  moreover have "W - Second < now k w - t" if "(x, t) \<in> set log" "refName (dcTarget d) \<noteq> x" for x t
    using stamped_apart [OF _ that(1) d1(2) _ wrote.hyps(2-4)] wrote.IH that(2) tgt by auto
  ultimately show ?case using wrote.IH by auto
next
  case (others w log w')
  then show ?case by (fastforce simp: spaced_def)
qed

end

section \<open>Property\<close>

text \<open>
  C14. The stagger of FixedInterval, over a whole history: in whatever order the operator's
  rollout steps and the steps of others come, and whatever fails in between (a status patch
  that is or is not stored, a write after a stored stamp), any two changes of the
  configurations of different targets lie more than the interval less one second apart. The
  second is what storing the time cuts off.
\<close>

theorem rollout_history_staggered:
  assumes "binding_runtime k cfgs bnds" "rollout_history k cfgs bnds n W w log"
  shows "sorted_wrt (\<lambda>later earlier. fst later = fst earlier \<or> W - Second < snd later - snd earlier) log"
  using binding_runtime.history_spaced [OF assms]
  by (auto elim: sorted_wrt_mono_rel [rotated])

section \<open>Witness\<close>

text \<open>The two writes of the sample rollout.\<close>

lemma sample_named: "named_for (storedBinding fixed0) sampleDesired" "named_for (storedBinding fixed1_later) sampleDesired"
  by (simp_all add: named_for_def sampleDesired_def configNameFor_def) code_simp+

definition sampleD :: "string \<Rightarrow> desiredConfig" where
  "sampleD tgt = \<lparr>dcName = ''b.'' @ tgt, dcTarget = \<lparr>refNamespace = [], refName = tgt\<rparr>,
     dcSpec = sampleSpec tgt ''interfaces {}''\<rparr>"

lemma sampleD_in: "sampleD ''r1'' \<in> set sampleDesired" "sampleD ''r2'' \<in> set sampleDesired"
  by (simp_all add: sampleD_def sampleDesired_def)

lemma sample_changed:
  "memConfig fixed1 (sampleKey ''b.r1'') \<noteq> memConfig fixed0 (sampleKey ''b.r1'')"
  "memConfig fixed2 (sampleKey ''b.r2'') \<noteq> memConfig fixed1_later (sampleKey ''b.r2'')"
proof -
  have "map_option (\<lambda>c. cfgConfig (cfgSpec c)) (memConfig fixed1 (sampleKey ''b.r1'')) \<noteq>
      map_option (\<lambda>c. cfgConfig (cfgSpec c)) (memConfig fixed0 (sampleKey ''b.r1''))" by code_simp
  then show "memConfig fixed1 (sampleKey ''b.r1'') \<noteq> memConfig fixed0 (sampleKey ''b.r1'')" by metis
  have "map_option (\<lambda>c. cfgConfig (cfgSpec c)) (memConfig fixed2 (sampleKey ''b.r2'')) \<noteq>
      map_option (\<lambda>c. cfgConfig (cfgSpec c)) (memConfig fixed1_later (sampleKey ''b.r2''))" by code_simp
  then show "memConfig fixed2 (sampleKey ''b.r2'') \<noteq> memConfig fixed1_later (sampleKey ''b.r2'')" by metis
qed

lemma sample_times:
  "mwNow fixed0 \<le> mwNow fixed1" "mwNow fixed1 \<le> mwNow fixed1_later" "mwNow fixed1_later \<le> mwNow fixed2"
  "EffectiveMode (bndRollout (bndSpec (storedBinding fixed0))) = RolloutModeFixedInterval"
  "EffectiveMode (bndRollout (bndSpec (storedBinding fixed1_later))) = RolloutModeFixedInterval"
  "metaNamespace (bndMeta (storedBinding fixed0)) = ''default''"
  "metaNamespace (bndMeta (storedBinding fixed1_later)) = ''default''"
  by code_simp+

theorem rollout_history_staggered_witness:
  "60 * Second - Second < mwNow fixed1_later - mwNow fixed0"
proof -
  let ?h = "rollout_history memKube memConfig memBinding (sampleKey ''b'') (60 * Second)"
  have W: "60 * Second \<le> WaitInterval (sampleRollout RolloutModeFixedInterval)" by (simp add: sampleRollout_def)
  have "?h fixed0 []" by (rule rollout_history.start)
  from rollout_history.wrote [OF this storedBinding_stored(2) [OF fixed_stored(1)] sample_times(4) W
      sample_named(1) rolloutStep_run _ _ sampleD_in(1)] sample_times(1,6) sample_changed(1)
  have "?h fixed1 [(''r1'', mwNow fixed0)]"
    by (simp add: sampleD_def fixed1_def [symmetric])
  then have "?h fixed1_later [(''r1'', mwNow fixed0)]"
    by (rule rollout_history.others) (simp_all add: sample_times(2), simp add: frontier_of_def fixed1_later_def memBinding_def)
  from rollout_history.wrote [OF this storedBinding_stored(2) [OF fixed_stored(3)] sample_times(5) W
      sample_named(2) rolloutStep_run _ _ sampleD_in(2)] sample_times(3,7) sample_changed(2)
  have "?h fixed2 [(''r2'', mwNow fixed1_later), (''r1'', mwNow fixed0)]"
    by (simp add: sampleD_def fixed2_def [symmetric])
  from rollout_history_staggered [OF mem_binding.binding_runtime_axioms this] show ?thesis by simp
qed

end
