(* ===== verification/ProxmoxApply.thy ===== *)
theory ProxmoxApply
  imports BackendWorld
begin

text \<open>
  The requests an apply through the Proxmox API makes: the node is looked up, the whole script
  is written, and only then it is executed. A request that gets no answer goes to the next
  endpoint, which for the execution means that a lost answer starts the script again.
\<close>

section \<open>Requests sent\<close>

text \<open>\<open>sent\<close> is a log of the requests that left the operator.\<close>

definition logs_requests :: "'w pxagent \<Rightarrow> ('w \<Rightarrow> http_request list) \<Rightarrow> bool" where
  "logs_requests pg sent \<longleftrightarrow> (\<forall>req w r w'. pgDo pg req w = (r, w') \<longrightarrow> sent w' = sent w @ [req])"

text \<open>No answer is lost: every request is answered, and the answer can be read.\<close>

definition always_answers :: "'w pxagent \<Rightarrow> bool" where
  "always_answers pg \<longleftrightarrow> (\<forall>req w. \<exists>resp w'. pgDo pg req w = (Inr resp, w') \<and> respReadErr resp = None)"

text \<open>A request as it is tried at all the endpoints in turn; a call sends a part of them.\<close>

definition requests :: "pxMachine \<Rightarrow> string \<Rightarrow> string \<Rightarrow> string option \<Rightarrow> http_request list" where
  "requests p method path payload = map (pmRequest p method path payload) (pmEndpoints p)"

definition sends ::
  "'w pxagent \<Rightarrow> ('w \<Rightarrow> http_request list) \<Rightarrow> http_request list \<Rightarrow> http_request list \<Rightarrow> 'w \<Rightarrow> 'w \<Rightarrow> bool" where
  "sends pg sent reqs rs w w' \<longleftrightarrow>
     sent w' = sent w @ rs \<and> prefix rs reqs \<and> (always_answers pg \<longrightarrow> length rs \<le> 1)"

lemma sends_nothing: "sends pg sent reqs [] w w"
  by (simp add: sends_def)

lemma tryDoFrom_sends:
  assumes "logs_requests pg sent" "tryDoFrom pg p m path pl eps e w = (r, w')"
  shows "\<exists>rs. sends pg sent (map (pmRequest p m path pl) eps) rs w w' \<and> ((\<exists>x. r = Inr x) \<longrightarrow> rs \<noteq> [])"
  using assms(2)
proof (induction eps arbitrary: e w)
  case Nil
  then show ?case by (auto intro: sends_nothing)
next
  case (Cons ep eps)
  let ?req = "pmRequest p m path pl ep"
  show ?case
  proof (cases "pgNewRequest pg ?req")
    case (Some x)
    with Cons.prems show ?thesis by (auto intro: sends_nothing)
  next
    case None
    obtain x w1 where x: "pgDo pg ?req w = (x, w1)" by fastforce
    with assms(1) have sent: "sent w1 = sent w @ [?req]" by (auto simp: logs_requests_def)
    show ?thesis
    proof (cases "\<exists>resp. x = Inr resp \<and> respReadErr resp = None")
      case True
      with Cons.prems None x sent show ?thesis by (intro exI [of _ "[?req]"]) (auto simp: sends_def)
    next
      case False
      have lost: "\<not> always_answers pg"
      proof
        assume "always_answers pg"
        then obtain resp w2 where "pgDo pg ?req w = (Inr resp, w2)" "respReadErr resp = None"
          unfolding always_answers_def by blast
        moreover from this(1) x have "x = Inr resp" by simp
        ultimately show False using False by simp
      qed
      from False Cons.prems None x obtain e1 where "tryDoFrom pg p m path pl eps e1 w1 = (r, w')"
        by (cases x) (auto simp: Let_def split: option.splits)
      from Cons.IH [OF this] obtain rs where
        "sends pg sent (map (pmRequest p m path pl) eps) rs w1 w'" by blast
      with sent lost show ?thesis by (intro exI [of _ "?req # rs"]) (simp add: sends_def)
    qed
  qed
qed

lemma pxPost_sends:
  assumes "logs_requests pg sent" "pxPost pg p path pl w = (r, w')"
  obtains rs where "sends pg sent (requests p ''POST'' path pl) rs w w'" "(\<exists>x. r = Inr x) \<longrightarrow> rs \<noteq> []"
proof -
  obtain x where x: "tryDoFrom pg p ''POST'' path pl (pmEndpoints p) None w = (x, w')"
    "(\<exists>y. r = Inr y) \<longrightarrow> (\<exists>y. x = Inr y)"
    using assms(2) by (auto simp: pxPost_def tryDo_def only2xx_def split: prod.splits sum.splits if_splits)
  from tryDoFrom_sends [OF assms(1) x(1)] x(2) that show thesis by (auto simp: requests_def)
qed

lemma resolveNode_sends:
  assumes "logs_requests pg sent" "resolveNode pg p w = (r, w')"
  obtains rs where "sends pg sent (requests p ''GET'' resourcesPath None) rs w w'"
proof (cases "pmCachedNode p = []")
  case True
  with assms(2) obtain x where "tryDoFrom pg p ''GET'' resourcesPath None (pmEndpoints p) None w = (x, w')"
    by (auto simp: resolveNode_def pxGet_def tryDo_def only2xx_def resourcesPath_def
        split: prod.splits sum.splits if_splits option.splits)
  from tryDoFrom_sends [OF assms(1) this] that show thesis by (auto simp: requests_def)
next
  case False
  with assms(2) have "w' = w" by (simp add: resolveNode_def)
  with that [of "[]"] show thesis by (simp add: sends_nothing)
qed

lemma agentFileWrite_sends:
  assumes "logs_requests pg sent" "agentFileWrite pg p node path content w = (r, w')"
  obtains rs where "sent w' = sent w @ rs" "always_answers pg \<longrightarrow> length rs \<le> 1" "r = None \<longrightarrow> rs \<noteq> []"
    "rs \<noteq> [] \<longrightarrow> (\<exists>payload. marshalFile pg path content = Inr payload \<and>
       prefix rs (requests p ''POST'' (qemuPath p node ''/agent/file-write'') (Some payload)))"
proof (cases "marshalFile pg path content")
  case (Inl e)
  with assms(2) that [of "[]"] show thesis by (auto simp: agentFileWrite_def)
next
  case (Inr body)
  obtain x w1 where x: "pxPost pg p (qemuPath p node ''/agent/file-write'') (Some body) w = (x, w1)" by fastforce
  obtain rs where "sends pg sent (requests p ''POST'' (qemuPath p node ''/agent/file-write'') (Some body)) rs w w1"
    "(\<exists>y. x = Inr y) \<longrightarrow> rs \<noteq> []" by (rule pxPost_sends [OF assms(1) x])
  with assms(2) Inr x that [of rs] show thesis by (auto simp: agentFileWrite_def sends_def split: sum.splits)
qed

lemma agentExec_sends:
  assumes "logs_requests pg sent" "agentExec pg p node command w = (r, w')"
  obtains rs where "sent w' = sent w @ rs" "always_answers pg \<longrightarrow> length rs \<le> 1"
    "(\<exists>pid. r = Inr pid) \<longrightarrow> rs \<noteq> []"
    "rs \<noteq> [] \<longrightarrow> (\<exists>cmd. marshalCommand pg command = Inr cmd \<and>
       prefix rs (requests p ''POST'' (qemuPath p node ''/agent/exec'') (Some cmd)))"
proof (cases "marshalCommand pg command")
  case (Inl e)
  with assms(2) that [of "[]"] show thesis by (auto simp: agentExec_def)
next
  case (Inr cmd)
  obtain x w1 where x: "pxPost pg p (qemuPath p node ''/agent/exec'') (Some cmd) w = (x, w1)" by fastforce
  obtain rs where "sends pg sent (requests p ''POST'' (qemuPath p node ''/agent/exec'') (Some cmd)) rs w w1"
    "(\<exists>y. x = Inr y) \<longrightarrow> rs \<noteq> []" by (rule pxPost_sends [OF assms(1) x])
  with assms(2) Inr x that [of rs] show thesis by (auto simp: agentExec_def sends_def split: sum.splits)
qed

section \<open>The script in the guest\<close>

abbreviation scriptCommand :: "string list" where
  "scriptCommand \<equiv> [''/bin/vbash'', ScriptPath]"

text \<open>
  C17. A Proxmox guest never runs an incomplete script: whatever fails on the way, the requests
  an apply sends are lookups of the node, then writes of the whole rendered script to the VM,
  then executions of it on the same VM; none is sent without a script, and an execution only
  after a write that was answered with success. A returned process ID means that an execution was sent. As long
  as no answer is lost, there is at most one request of each sort.
\<close>

theorem proxmox_runs_complete_script:
  assumes "logs_requests pg sent" "proxmox_ExecScript pg p config commands save w = (r, w')"
  shows "\<exists>node lookups writes execs. sent w' = sent w @ lookups @ writes @ execs \<and>
    (case RenderScript (pgRand pg w) config commands save of
       Inl e \<Rightarrow> lookups = [] \<and> writes = [] \<and> execs = []
     | Inr script \<Rightarrow>
         prefix lookups (requests p ''GET'' resourcesPath None) \<and>
         (writes = [] \<or> (\<exists>payload. marshalFile pg ScriptPath script = Inr payload \<and>
            prefix writes (requests p ''POST'' (qemuPath p node ''/agent/file-write'') (Some payload)))) \<and>
         (execs = [] \<or> writes \<noteq> [] \<and>
          (\<exists>w1 w2. sent w1 = sent w @ lookups \<and> agentFileWrite pg p node ScriptPath script w1 = (None, w2)) \<and>
          (\<exists>cmd. marshalCommand pg scriptCommand = Inr cmd \<and>
            prefix execs (requests p ''POST'' (qemuPath p node ''/agent/exec'') (Some cmd))))) \<and>
    (\<forall>pid. r = Inr pid \<longrightarrow> execs \<noteq> []) \<and>
    (always_answers pg \<longrightarrow> length lookups \<le> 1 \<and> length writes \<le> 1 \<and> length execs \<le> 1)"
proof (cases "RenderScript (pgRand pg w) config commands save")
  case (Inl e)
  with assms(2) show ?thesis by (auto simp: proxmox_ExecScript_def)
next
  case (Inr script)
  obtain x w1 where x: "resolveNode pg p w = (x, w1)" by fastforce
  obtain ls where ls: "sends pg sent (requests p ''GET'' resourcesPath None) ls w w1"
    by (rule resolveNode_sends [OF assms(1) x])
  show ?thesis
  proof (cases x)
    case (Inl e)
    with assms(2) Inr x ls show ?thesis
      by (intro exI [of _ "[]"] exI [of _ ls] exI) (auto simp: proxmox_ExecScript_def sends_def)
  next
    case node: (Inr node)
    obtain y w2 where y: "agentFileWrite pg p node ScriptPath script w1 = (y, w2)" by fastforce
    obtain ws where ws: "sent w2 = sent w1 @ ws" "always_answers pg \<longrightarrow> length ws \<le> 1" "y = None \<longrightarrow> ws \<noteq> []"
      "ws \<noteq> [] \<longrightarrow> (\<exists>payload. marshalFile pg ScriptPath script = Inr payload \<and>
         prefix ws (requests p ''POST'' (qemuPath p node ''/agent/file-write'') (Some payload)))"
      by (rule agentFileWrite_sends [OF assms(1) y])
    show ?thesis
    proof (cases y)
      case (Some e)
      with assms(2) Inr x node y ls ws show ?thesis
        by (intro exI [of _ node] exI [of _ ls] exI [of _ ws] exI [of _ "[]"])
          (auto simp: proxmox_ExecScript_def sends_def)
    next
      case None
      with assms(2) Inr x node y have "agentExec pg p node scriptCommand w2 = (r, w')"
        by (simp add: proxmox_ExecScript_def)
      then obtain es where es: "sent w' = sent w2 @ es" "always_answers pg \<longrightarrow> length es \<le> 1"
        "(\<exists>pid. r = Inr pid) \<longrightarrow> es \<noteq> []"
        "es \<noteq> [] \<longrightarrow> (\<exists>cmd. marshalCommand pg scriptCommand = Inr cmd \<and>
           prefix es (requests p ''POST'' (qemuPath p node ''/agent/exec'') (Some cmd)))"
        by (rule agentExec_sends [OF assms(1)])
      have "sent w' = sent w @ ls @ ws @ es" "prefix ls (requests p ''GET'' resourcesPath None)"
        "always_answers pg \<longrightarrow> length ls \<le> 1"
        using ls ws(1) es(1) by (simp_all add: sends_def)
      moreover have "sent w1 = sent w @ ls" using ls by (simp add: sends_def)
      ultimately show ?thesis using None Inr y ws(2-4) es(2-4)
        by - (rule exI [of _ node], rule exI [of _ ls], rule exI [of _ ws], rule exI [of _ es], auto)
    qed
  qed
qed

text \<open>
  When the answer to the execution is lost at the first endpoint (the connection breaks, or the
  30 seconds of the client are over), the script may be running by then; the execution is sent
  again to the second one, and only the second process is polled.
\<close>

lemma lost_answer_runs_script_twice:
  assumes "logs_requests pg sent" "\<forall>req. pgNewRequest pg req = None"
    and "pmEndpoints p = ep1 # ep2 # eps" "pmCachedNode p \<noteq> []"
    and "RenderScript (pgRand pg w) config commands save = Inr script"
    and "marshalFile pg ScriptPath script = Inr body" "marshalCommand pg scriptCommand = Inr cmd"
    and "pgDo pg (pmRequest p ''POST'' (qemuPath p (pmCachedNode p) ''/agent/file-write'') (Some body) ep1) w = (Inr a, w1)"
    and "respReadErr a = None" "okStatus (respStatus a)"
    and "pgDo pg (pmRequest p ''POST'' (qemuPath p (pmCachedNode p) ''/agent/exec'') (Some cmd) ep1) w1 = (Inl lost, w2)"
    and "pgDo pg (pmRequest p ''POST'' (qemuPath p (pmCachedNode p) ''/agent/exec'') (Some cmd) ep2) w2 = (Inr b, w3)"
    and "respReadErr b = None" "okStatus (respStatus b)" "decodeAgentPID pg (respBody b) = Inr pid"
  shows "proxmox_ExecScript pg p config commands save w = (Inr pid, w3) \<and>
    sent w3 = sent w1 @ take 2 (requests p ''POST'' (qemuPath p (pmCachedNode p) ''/agent/exec'') (Some cmd))"
proof -
  have "sent w2 = sent w1 @ [pmRequest p ''POST'' (qemuPath p (pmCachedNode p) ''/agent/exec'') (Some cmd) ep1]"
    "sent w3 = sent w2 @ [pmRequest p ''POST'' (qemuPath p (pmCachedNode p) ''/agent/exec'') (Some cmd) ep2]"
    using assms(1,11,12) by (auto simp: logs_requests_def)
  with assms(2-) show ?thesis
    by (simp add: proxmox_ExecScript_def resolveNode_def agentFileWrite_def agentExec_def pxPost_def
        tryDo_def only2xx_def requests_def Let_def)
qed

section \<open>Witness\<close>

text \<open>An API that answers every request, over a world that is the log itself.\<close>

definition recorder :: "http_request list pxagent" where
  "recorder =
     \<lparr>pgNewRequest = (\<lambda>req. None),
      pgDo = (\<lambda>req w. (Inr \<lparr>respStatus = 200, respBody = [], respReadErr = None\<rparr>, w @ [req])),
      decodeNodes = (\<lambda>body. Inr [(102, ''pve1'')]), decodeVMStatus = (\<lambda>body. Inr ''running''),
      decodeAgentPID = (\<lambda>body. Inr 7),
      decodeAgentStatus = (\<lambda>body. Inr \<lparr>asExited = 1, asExitCode = 0, asOutData = ''exited'', asErrData = []\<rparr>),
      marshalFile = (\<lambda>path content. Inr content), marshalCommand = (\<lambda>cmd. Inr (join '' '' cmd)),
      pgRand = (\<lambda>w. zeroBytes), pgRounds = 3, pgCtxErr = ErrMsg ''context deadline exceeded'',
      pgHalfSecond = (\<lambda>w. w)\<rparr>"

lemma recorder_logs: "logs_requests recorder id" "always_answers recorder"
  by (simp_all add: logs_requests_def always_answers_def recorder_def)

theorem proxmox_runs_complete_script_witness:
  "\<exists>script node exec. RenderScript zeroBytes ''system {}'' [] True = Inr script \<and>
     snd (proxmox_ExecScript recorder sampleVM ''system {}'' [] True []) =
       requests sampleVM ''GET'' resourcesPath None @
       requests sampleVM ''POST'' (qemuPath sampleVM node ''/agent/file-write'') (Some script) @ [exec]"
proof -
  let ?out = "proxmox_ExecScript recorder sampleVM ''system {}'' [] True []"
  have "heredocDelimiter zeroBytes ''system {}'' =
      Inr (heredocDelimiterPrefix @ hexEncode (replicate 16 (CHR 0x00)))"
    by (rule delimiter_first_attempt) (simp_all add: zeroBytes_def)
  then obtain script where script: "RenderScript zeroBytes ''system {}'' [] True = Inr script"
    by (simp add: RenderScript_def)
  have run: "fst ?out = Inr 7" "length (snd ?out) = 3"
    by (simp_all add: script proxmox_ExecScript_def resolveNode_def agentFileWrite_def agentExec_def pxGet_def pxPost_def
        tryDo_def only2xx_def recorder_def sampleVM_def okStatus_def Let_def)
  have fields: "pgRand recorder w = zeroBytes" "marshalFile recorder path content = Inr content" for w path content
    by (simp_all add: recorder_def)
  have one: "length (requests sampleVM m path pl) = 1" for m path pl by (simp add: requests_def sampleVM_def)
  from proxmox_runs_complete_script [OF recorder_logs(1) prod.collapse [symmetric, of ?out]]
  obtain node ls ws es where o: "id (snd ?out) = id [] @ ls @ ws @ es"
    "case RenderScript (pgRand recorder []) ''system {}'' [] True of
       Inl e \<Rightarrow> ls = [] \<and> ws = [] \<and> es = []
     | Inr script \<Rightarrow>
         prefix ls (requests sampleVM ''GET'' resourcesPath None) \<and>
         (ws = [] \<or> (\<exists>payload. marshalFile recorder ScriptPath script = Inr payload \<and>
            prefix ws (requests sampleVM ''POST'' (qemuPath sampleVM node ''/agent/file-write'') (Some payload)))) \<and>
         (es = [] \<or> ws \<noteq> [] \<and>
          (\<exists>w1 w2. id w1 = id [] @ ls \<and> agentFileWrite recorder sampleVM node ScriptPath script w1 = (None, w2)) \<and>
          (\<exists>cmd. marshalCommand recorder scriptCommand = Inr cmd \<and>
            prefix es (requests sampleVM ''POST'' (qemuPath sampleVM node ''/agent/exec'') (Some cmd))))"
    "always_answers recorder \<longrightarrow> length ls \<le> 1 \<and> length ws \<le> 1 \<and> length es \<le> 1"
    by blast
  have parts: "prefix ls (requests sampleVM ''GET'' resourcesPath None)"
    "ws = [] \<or> prefix ws (requests sampleVM ''POST'' (qemuPath sampleVM node ''/agent/file-write'') (Some script))"
    using o(2) by (simp_all only: fields script sum.case) blast+
  from o(1,3) recorder_logs(2) run(2) have len: "length ls = 1" "length ws = 1" "length es = 1" by simp_all
  have whole: "xs = requests sampleVM m path pl" if "prefix xs (requests sampleVM m path pl)" "length xs = 1" for xs m path pl
    using that one [of m path pl] by (auto simp: prefix_def)
  obtain exec where "es = [exec]" using len(3) by (auto simp: length_Suc_conv)
  moreover have "ls = requests sampleVM ''GET'' resourcesPath None" by (rule whole [OF parts(1) len(1)])
  moreover have "ws = requests sampleVM ''POST'' (qemuPath sampleVM node ''/agent/file-write'') (Some script)"
    using parts(2) len(2) by (intro whole) auto
  ultimately show ?thesis using o(1) script by auto
qed

end
